(* ===== verification/Prelude.thy ===== *)
theory Prelude
  imports Complex_Main "HOL-Library.Sublist"
begin

text \<open>
  What the component theories share: JavaScript string helpers on ASCII strings, the truth
  value of nullable strings, database tables as lists of rows with the Prisma operations the
  services use (updateMany, findFirst, createMany with skipDuplicates, orderBy, take), and the
  collections of facts the component proofs simplify with.  A table lists its rows in creation
  order; times are milliseconds since the epoch as integers; money is exact rationals.
\<close>

named_theorems table_simps "rewrite rules for the table operations"
named_theorems status_defs "definitions of guards on status columns"

section \<open>Strings\<close>

type_synonym ident = string
type_synonym time = int

text \<open>White space as String.prototype.trim sees it, among the ASCII characters.\<close>

definition is_ws :: "char \<Rightarrow> bool" where
  "is_ws c \<longleftrightarrow> (let n = (of_char c :: nat) in n = 32 \<or> (9 \<le> n \<and> n \<le> 13))"

definition js_trim :: "string \<Rightarrow> string" where
  "js_trim s = rev (dropWhile is_ws (rev (dropWhile is_ws s)))"

definition upper_char :: "char \<Rightarrow> char" where
  "upper_char c = (let n = (of_char c :: nat) in if 97 \<le> n \<and> n \<le> 122 then char_of (n - 32) else c)"

definition lower_char :: "char \<Rightarrow> char" where
  "lower_char c = (let n = (of_char c :: nat) in if 65 \<le> n \<and> n \<le> 90 then char_of (n + 32) else c)"

definition js_upper :: "string \<Rightarrow> string" where
  "js_upper = map upper_char"

definition js_lower :: "string \<Rightarrow> string" where
  "js_lower = map lower_char"

definition ends_with :: "string \<Rightarrow> string \<Rightarrow> bool" where
  "ends_with s t \<longleftrightarrow> length t \<le> length s \<and> drop (length s - length t) s = t"

text \<open>The substring test of String.prototype.includes.\<close>

fun js_includes :: "string \<Rightarrow> string \<Rightarrow> bool" where
  "js_includes [] t \<longleftrightarrow> t = []"
| "js_includes (c # s) t \<longleftrightarrow> take (length t) (c # s) = t \<or> js_includes s t"

text \<open>The last n characters, as slice(-n).\<close>

definition slice_last :: "nat \<Rightarrow> string \<Rightarrow> string" where
  "slice_last n s = drop (length s - n) s"

text \<open>A nullable string is falsy when it is null, undefined or empty.\<close>

definition truthy :: "string option \<Rightarrow> bool" where
  "truthy x \<longleftrightarrow> (case x of None \<Rightarrow> False | Some s \<Rightarrow> s \<noteq> [])"

text \<open>The operator a ?? b on nullable values.\<close>

definition coalesce :: "'a option \<Rightarrow> 'a option \<Rightarrow> 'a option" where
  "coalesce x y = (case x of None \<Rightarrow> y | Some v \<Rightarrow> Some v)"

text \<open>The operator a || b on nullable strings.\<close>

definition str_or :: "string option \<Rightarrow> string \<Rightarrow> string" where
  "str_or x d = (if truthy x then the x else d)"

lemma truthy_simps [simp]:
  "\<not> truthy None" "\<not> truthy (Some [])" "truthy (Some (c # s))"
  by (simp_all add: truthy_def)

lemma truthyE: "truthy x \<Longrightarrow> (\<And>s. x = Some s \<Longrightarrow> s \<noteq> [] \<Longrightarrow> P) \<Longrightarrow> P"
  by (cases x) (auto simp: truthy_def)

lemma coalesce_simps [simp]: "coalesce None y = y" "coalesce (Some v) y = Some v"
  by (simp_all add: coalesce_def)

lemma slice_last_idem: "slice_last n (slice_last n s) = slice_last n s"
  by (simp add: slice_last_def)

lemma ends_with_slice_last [simp]: "ends_with s (slice_last n s)"
  by (simp add: ends_with_def slice_last_def)

lemma js_trim_twice: "js_trim (js_trim s) = js_trim s"
proof -
  define t where "t = dropWhile is_ws s"
  define u where "u = rev (dropWhile is_ws (rev t))"
  have "dropWhile is_ws u = u"
  proof (cases "u = []")
    case False
    obtain v where v: "t = u @ v"
      using takeWhile_dropWhile_id [of is_ws "rev t"] by (metis u_def rev_append rev_rev_ident)
    then have "hd u = hd t" using False by simp
    moreover have "t \<noteq> []" using v False by simp
    then have "\<not> is_ws (hd t)" unfolding t_def by (rule hd_dropWhile)
    ultimately show ?thesis by (simp add: dropWhile_eq_self_iff)
  qed simp
  then show ?thesis by (simp add: js_trim_def flip: t_def u_def) (simp add: u_def)
qed

text \<open>Decimal rendering of a non-negative count, as template literals print it.\<close>

fun nat_digits :: "nat \<Rightarrow> string" where
  "nat_digits n = (if n < 10 then [char_of (48 + n)]
                   else nat_digits (n div 10) @ [char_of (48 + n mod 10)])"

declare nat_digits.simps [simp del]

section \<open>Durations\<close>

abbreviation seconds_ms :: "int \<Rightarrow> time" where "seconds_ms n \<equiv> n * 1000"
abbreviation minutes_ms :: "int \<Rightarrow> time" where "minutes_ms n \<equiv> n * 60 * 1000"
abbreviation hours_ms :: "int \<Rightarrow> time" where "hours_ms n \<equiv> n * 60 * 60 * 1000"
abbreviation days_ms :: "int \<Rightarrow> time" where "days_ms n \<equiv> n * 24 * 60 * 60 * 1000"

section \<open>Tables\<close>

text \<open>updateMany: the number of rows the filter selects, and the table with them rewritten.\<close>

definition update_many :: "('r \<Rightarrow> bool) \<Rightarrow> ('r \<Rightarrow> 'r) \<Rightarrow> 'r list \<Rightarrow> nat \<times> 'r list" where
  "update_many P f t = (length (filter P t), map (\<lambda>r. if P r then f r else r) t)"

text \<open>findUnique and findFirst without an order.\<close>

definition find_row :: "('r \<Rightarrow> bool) \<Rightarrow> 'r list \<Rightarrow> 'r option" where
  "find_row P t = List.find P t"

text \<open>findMany with orderBy (ascending, ties in creation order) and take.\<close>

definition find_many :: "('r \<Rightarrow> bool) \<Rightarrow> ('r \<Rightarrow> 'k::linorder) \<Rightarrow> nat \<Rightarrow> 'r list \<Rightarrow> 'r list" where
  "find_many P k n t = take n (sort_key k (filter P t))"

text \<open>create on a table with a unique column: None is the unique-violation error P2002.\<close>

definition create_unique :: "('r \<Rightarrow> 'k) \<Rightarrow> 'r \<Rightarrow> 'r list \<Rightarrow> 'r list option" where
  "create_unique key r t = (if key r \<in> key ` set t then None else Some (t @ [r]))"

text \<open>createMany with skipDuplicates: the rows whose unique key is new are appended in order.\<close>

fun create_skip :: "('r \<Rightarrow> 'k) \<Rightarrow> 'r list \<Rightarrow> 'r list \<Rightarrow> nat \<times> 'r list" where
  "create_skip key [] t = (0, t)"
| "create_skip key (r # rs) t =
     (if key r \<in> key ` set t then create_skip key rs t
      else let (n, t') = create_skip key rs (t @ [r]) in (Suc n, t'))"

abbreviation unique_by :: "('r \<Rightarrow> 'k) \<Rightarrow> 'r list \<Rightarrow> bool" where
  "unique_by key t \<equiv> distinct (map key t)"

lemma fst_update_many [table_simps]: "fst (update_many P f t) = length (filter P t)"
  by (simp add: update_many_def)

lemma snd_update_many [table_simps]:
  "snd (update_many P f t) = map (\<lambda>r. if P r then f r else r) t"
  by (simp add: update_many_def)

lemma update_many_zero: "fst (update_many P f t) = 0 \<Longrightarrow> snd (update_many P f t) = t"
  by (induction t) (auto simp: update_many_def split: if_splits)

lemma update_many_none: "(\<And>r. r \<in> set t \<Longrightarrow> \<not> P r) \<Longrightarrow> update_many P f t = (0, t)"
  by (induction t) (auto simp: update_many_def)

lemma update_many_pos: "0 < fst (update_many P f t) \<longleftrightarrow> (\<exists>r\<in>set t. P r)"
  by (induction t) (auto simp: update_many_def)

lemma set_update_many:
  "set (snd (update_many P f t)) = f ` {r \<in> set t. P r} \<union> {r \<in> set t. \<not> P r}"
  by (auto simp: update_many_def)

lemma update_many_rowE:
  assumes "r' \<in> set (snd (update_many P f t))"
  obtains r where "r \<in> set t" "r' = (if P r then f r else r)"
  using assms by (auto simp: update_many_def)

lemma key_update_many:
  "(\<And>r. key (f r) = key r) \<Longrightarrow> map key (snd (update_many P f t)) = map key t"
  by (simp add: update_many_def)

lemma unique_update_many:
  "(\<And>r. key (f r) = key r) \<Longrightarrow> unique_by key t \<Longrightarrow> unique_by key (snd (update_many P f t))"
  using key_update_many [of key f P t] by simp

lemma update_many_id_count:
  assumes "unique_by key t" shows "fst (update_many (\<lambda>r. key r = i \<and> P r) f t) \<le> 1"
proof -
  have "length (filter (\<lambda>r. key r = i \<and> P r) t) \<le> length (filter (\<lambda>r. key r = i) t)"
    by (metis filter_filter length_filter_le filter_cong)
  also have "\<dots> \<le> 1"
    using assms
  proof (induction t)
    case (Cons a t)
    have "filter (\<lambda>r. key r = i) t = []" if "key a = i"
      using that Cons.prems unfolding filter_empty_conv by (simp, metis image_eqI)
    with Cons show ?case by auto
  qed simp
  finally show ?thesis by (simp add: update_many_def)
qed

lemma unique_by_same:
  "unique_by key t \<Longrightarrow> q \<in> set t \<Longrightarrow> e \<in> set t \<Longrightarrow> key q = key e \<Longrightarrow> q = e"
  by (auto simp: distinct_map inj_on_def)

text \<open>On the row with a given id a conditional update either does nothing or rewrites exactly that row.\<close>

lemma update_many_at:
  assumes "unique_by key t" "e \<in> set t" "P e"
  shows "update_many (\<lambda>r. key r = key e \<and> P r) f t = (1, map (\<lambda>r. if key r = key e then f e else r) t)"
proof -
  have same: "(if key q = key e \<and> P q then f q else q) = (if key q = key e then f e else q)" if "q \<in> set t" for q
  proof (cases "key q = key e")
    case True
    with assms that have "q = e" by (blast intro: unique_by_same)
    with assms(3) show ?thesis by simp
  qed simp
  have "0 < fst (update_many (\<lambda>r. key r = key e \<and> P r) f t)"
    using assms by (auto simp: update_many_pos)
  moreover have "fst (update_many (\<lambda>r. key r = key e \<and> P r) f t) \<le> 1"
    using assms(1) by (rule update_many_id_count)
  ultimately have "fst (update_many (\<lambda>r. key r = key e \<and> P r) f t) = 1" by linarith
  moreover have "snd (update_many (\<lambda>r. key r = key e \<and> P r) f t) = map (\<lambda>r. if key r = key e then f e else r) t"
    unfolding snd_update_many by (rule map_cong [OF refl]) (rule same)
  ultimately show ?thesis by (metis prod.collapse)
qed

lemma update_many_at_none:
  assumes "unique_by key t" "e \<in> set t" "\<not> P e"
  shows "update_many (\<lambda>r. key r = key e \<and> P r) f t = (0, t)"
  using assms by (intro update_many_none) (blast dest: unique_by_same)

lemma find_row_Some: "find_row P t = Some r \<Longrightarrow> r \<in> set t \<and> P r"
  by (auto simp: find_row_def find_Some_iff)

lemma find_row_None: "find_row P t = None \<longleftrightarrow> (\<forall>r\<in>set t. \<not> P r)"
  by (auto simp: find_row_def find_None_iff)

lemma find_row_update_keep:
  assumes "\<And>x. k (f x) = k x"
  shows "find_row (\<lambda>s. k s = u) (snd (update_many P f t)) = map_option (\<lambda>s. if P s then f s else s) (find_row (\<lambda>s. k s = u) t)"
  by (induction t) (auto simp: find_row_def update_many_def assms)

lemma find_row_unique:
  assumes "unique_by key t" "r \<in> set t" shows "find_row (\<lambda>x. key x = key r) t = Some r"
proof -
  from assms(2) have "find_row (\<lambda>x. key x = key r) t \<noteq> None"
    by (auto simp: find_row_None)
  then obtain x where x: "find_row (\<lambda>x. key x = key r) t = Some x" by blast
  then have "x \<in> set t" "key x = key r" by (auto dest: find_row_Some)
  with assms have "x = r" by (blast intro: unique_by_same)
  with x show ?thesis by simp
qed

lemma find_many_subset: "set (find_many P k n t) \<subseteq> {r \<in> set t. P r}"
  by (auto simp: find_many_def dest: in_set_takeD)

lemma unique_find_many: "unique_by key t \<Longrightarrow> unique_by key (find_many P k n t)"
proof -
  assume "unique_by key t"
  then have "distinct (find_many P k n t)" "inj_on key (set t)"
    by (simp_all add: find_many_def distinct_map)
  moreover have "set (find_many P k n t) \<subseteq> set t" using find_many_subset by fastforce
  ultimately show ?thesis by (auto simp: distinct_map intro: inj_on_subset)
qed

lemma length_find_many: "length (find_many P k n t) \<le> n"
  by (simp add: find_many_def)

lemma sorted_find_many: "sorted (map k (find_many P k n t))"
  by (simp add: find_many_def sorted_wrt_take flip: take_map)

lemma create_skip_unique:
  "unique_by key t \<Longrightarrow> unique_by key (snd (create_skip key rs t))"
  by (induction key rs t rule: create_skip.induct) (auto split: prod.splits)

lemma create_skip_keys:
  "key ` set (snd (create_skip key rs t)) = key ` set t \<union> key ` set rs"
proof (induction key rs t rule: create_skip.induct)
  case (2 key r rs t)
  then show ?case
    by (cases "key r \<in> key ` set t") (simp_all add: case_prod_beta insert_absorb)
qed simp

lemma create_skip_prefix: "\<exists>new. snd (create_skip key rs t) = t @ new \<and> set new \<subseteq> set rs"
proof (induction key rs t rule: create_skip.induct)
  case (2 key r rs t)
  then show ?case by (fastforce split: prod.splits)
qed simp

lemma create_skip_known:
  "(\<And>r. r \<in> set rs \<Longrightarrow> key r \<in> key ` set t) \<Longrightarrow> create_skip key rs t = (0, t)"
  by (induction rs) auto

lemma create_skip_idem:
  "create_skip key rs (snd (create_skip key rs t)) = (0, snd (create_skip key rs t))"
  by (rule create_skip_known) (simp add: create_skip_keys)

lemma create_skip_count:
  "length (snd (create_skip key rs t)) = length t + fst (create_skip key rs t)"
  by (induction key rs t rule: create_skip.induct) (auto split: prod.splits)

lemma create_unique_Some:
  "create_unique key r t = Some t' \<Longrightarrow> t' = t @ [r] \<and> key r \<notin> key ` set t"
  by (auto simp: create_unique_def split: if_splits)

lemma create_unique_unique:
  "create_unique key r t = Some t' \<Longrightarrow> unique_by key t \<Longrightarrow> unique_by key t'"
  by (auto simp: create_unique_def split: if_splits)

end
