(* ===== verification/Schema.thy ===== *)
theory Schema
  imports Prelude
begin

text \<open>
  The data model of prisma/schema.prisma, as far as the modelled services read or write it: one
  datatype per enum, one record per model with the columns the services use, and the record
  world with one field per table together with what leaves the process (the jobs handed
  to BullMQ and the transfer requests sent to Flutterwave).  Rows carry their Prisma column
  names behind a prefix naming the model.
\<close>

section \<open>Enums\<close>

datatype booking_status = B_PENDING | B_CONFIRMED | B_ACTIVE | B_COMPLETED | B_CANCELLED | B_REJECTED

datatype payment_status = UNPAID | PAID | REFUNDED | PARTIALLY_REFUNDED | REFUND_PROCESSING | REFUND_FAILED

datatype attempt_status =
    PA_PENDING | PA_SUCCESSFUL | PA_FAILED | PA_REFUNDED | PA_REFUND_PROCESSING
  | PA_REFUND_FAILED | PA_PARTIALLY_REFUNDED | PA_REFUND_ERROR

datatype payout_status =
    PO_PENDING_APPROVAL | PO_PENDING_DISBURSEMENT | PO_PROCESSING | PO_PAID_OUT | PO_FAILED | PO_REVERSED

datatype car_status = AVAILABLE | BOOKED | HOLD | IN_SERVICE

datatype booking_type = DAY | NIGHT | FULL_DAY | AIRPORT_PICKUP

datatype completion_source = SCHEDULED | CHAUFFEUR_LINK | FLEET_OWNER | OPERATIONS

datatype referral_status = REF_NONE | REF_RESERVED | REF_APPLIED | REF_REWARDED | REF_REVERSED

datatype reward_status = RW_PENDING | RW_RELEASED | RW_REVERSED

datatype release_condition = RC_PAID | RC_COMPLETED

datatype domain_event_type = REFERRAL_COMPLETION | PAYOUT_PROCESSING

datatype domain_status =
    DO_PENDING | DO_PROCESSING | DO_DISPATCHED | DO_COMPLETED | DO_FAILED | DO_DEAD_LETTER

datatype notif_event_type = NE_BOOKING_ASSIGNMENT | NE_BOOKING_LIFECYCLE | NE_BOOKING_REMINDER | NE_CHAUFFEUR_ASSIGNED

datatype notif_status = NO_PENDING | NO_PROCESSING | NO_DISPATCHED | NO_FAILED | NO_DEAD_LETTER

datatype notification_channel = EMAIL | WHATSAPP | PUSH

datatype notification_audience = AUD_CUSTOMER | AUD_FLEET_OWNER | AUD_CHAUFFEUR | AUD_OPERATIONS

datatype recipient_type = R_CLIENT | R_CHAUFFEUR | R_FLEET_OWNER | R_OPERATIONS

datatype approval_status = AP_PENDING | AP_APPROVED | AP_REJECTED

datatype platform_fee_type = PLATFORM_SERVICE_FEE | FLEET_OWNER_COMMISSION

datatype addon_type = SECURITY_DETAIL

datatype idempotency_state = IS_PROCESSING | IS_COMPLETED

datatype guest_channel = EMAIL_AND_WHATSAPP | EMAIL_ONLY | WHATSAPP_ONLY

section \<open>Rows\<close>

text \<open>Values of the webhook payload object; null and other JSON values read as the empty object.\<close>

datatype json_value = JStr string | JNum rat

record user =
  u_id :: ident
  u_email :: string
  u_username :: "string option"
  u_name :: "string option"
  u_phoneNumber :: "string option"
  u_referralDiscountUsed :: bool
  u_referralSignupAt :: "time option"
  u_referredByUserId :: "ident option"
  u_fleetOwnerId :: "ident option"
  u_chauffeurApprovalStatus :: "approval_status option"

record guest_user =
  g_name :: "string option"
  g_email :: "string option"
  g_phoneNumber :: "string option"
  g_preferredChannel :: "guest_channel option"

record bank_details =
  bd_userId :: ident
  bd_bankName :: string
  bd_bankCode :: string
  bd_accountNumber :: string
  bd_isVerified :: bool

record car =
  c_id :: ident
  c_ownerId :: ident
  c_make :: string
  c_model :: string
  c_year :: nat
  c_status :: car_status
  c_approvalStatus :: approval_status
  c_hourlyRate :: int
  c_dayRate :: int
  c_nightRate :: int
  c_fuelUpgradeRate :: "int option"
  c_fullDayRate :: int
  c_airportPickupRate :: int
  c_pricingIncludesFuel :: bool

text \<open>The columns of the financial breakdown, which bookings and extensions share.\<close>

record price_columns =
  pc_securityDetailCost :: "rat option"
  pc_fuelUpgradeCost :: "rat option"
  pc_platformCustomerServiceFeeRatePercent :: "rat option"
  pc_platformCustomerServiceFeeAmount :: "rat option"
  pc_subtotalBeforeVat :: "rat option"
  pc_vatRatePercent :: "rat option"
  pc_vatAmount :: "rat option"
  pc_platformFleetOwnerCommissionRatePercent :: "rat option"
  pc_platformFleetOwnerCommissionAmount :: "rat option"

definition no_prices :: price_columns where
  "no_prices = \<lparr>pc_securityDetailCost = None, pc_fuelUpgradeCost = None, pc_platformCustomerServiceFeeRatePercent = None,
     pc_platformCustomerServiceFeeAmount = None, pc_subtotalBeforeVat = None, pc_vatRatePercent = None,
     pc_vatAmount = None, pc_platformFleetOwnerCommissionRatePercent = None,
     pc_platformFleetOwnerCommissionAmount = None\<rparr>"

record booking =
  b_id :: ident
  b_bookingReference :: string
  b_type :: booking_type
  b_status :: booking_status
  b_paymentStatus :: payment_status
  b_carId :: ident
  b_userId :: "ident option"
  b_guestUser :: "guest_user option"
  b_chauffeurId :: "ident option"
  b_startDate :: time
  b_endDate :: time
  b_pickupLocation :: string
  b_returnLocation :: string
  b_updatedAt :: time
  b_deletedAt :: "time option"
  b_cancelledAt :: "time option"
  b_cancellationReason :: "string option"
  b_completedAt :: "time option"
  b_completedByUserId :: "ident option"
  b_completionSource :: "completion_source option"
  b_completionTokenHash :: "string option"
  b_completionTokenExpiresAt :: "time option"
  b_airportScheduleConflictAt :: "time option"
  b_paymentIntent :: "string option"
  b_paymentSessionExpiresAt :: "time option"
  b_totalAmount :: rat
  b_netTotal :: "rat option"
  b_fleetOwnerPayoutAmountNet :: "rat option"
  b_overallPayoutStatus :: "payout_status option"
  b_referralDiscountAmount :: rat
  b_referralReferrerUserId :: "ident option"
  b_referralStatus :: referral_status
  b_referralCreditsUsed :: rat
  b_referralCreditsReserved :: rat
  b_flightNumber :: "string option"
  b_flightId :: "ident option"
  b_createdAt :: time
  b_specialRequests :: "string option"
  b_paymentStatusTokenHash :: "string option"
  b_prices :: price_columns

record leg =
  l_id :: ident
  l_bookingId :: ident
  l_legStartTime :: time
  l_legEndTime :: time
  l_legDate :: time
  l_totalDailyPrice :: rat
  l_itemsNetValueForLeg :: rat
  l_platformCommissionRateOnLeg :: "rat option"
  l_platformCommissionAmountOnLeg :: "rat option"
  l_fleetOwnerEarningForLeg :: rat

record extension =
  e_id :: ident
  e_bookingLegId :: ident
  e_paymentStatus :: payment_status
  e_status :: string
  e_extensionEndTime :: time
  e_totalAmount :: rat
  e_paymentIntent :: "string option"
  e_paymentId :: "ident option"
  e_extensionStartTime :: time
  e_extendedDurationHours :: nat
  e_netTotal :: "rat option"
  e_fleetOwnerPayoutAmountNet :: "rat option"
  e_prices :: price_columns

record payment =
  p_id :: ident
  p_bookingId :: "ident option"
  p_extensionId :: "ident option"
  p_txRef :: string
  p_flutterwaveTransactionId :: "string option"
  p_amountExpected :: rat
  p_amountCharged :: "rat option"
  p_currency :: string
  p_status :: attempt_status
  p_paymentMethod :: "string option"
  p_flutterwaveReference :: "string option"
  p_confirmedAt :: "time option"
  p_refundIdempotencyKey :: "string option"
  p_refundProviderId :: "string option"
  p_refundProviderStatus :: "string option"
  p_refundRequestedAmount :: "rat option"
  p_refundRequestedAt :: "time option"
  p_refundLastCheckedAt :: "time option"
  p_refundReconciliationAttempts :: nat
  p_refundVerificationFailures :: nat
  p_refundManualReviewNotifiedAt :: "time option"
  p_webhookPayload :: "(string \<times> json_value) list"

record payout =
  po_id :: ident
  po_fleetOwnerId :: ident
  po_bookingId :: "ident option"
  po_amountToPay :: rat
  po_amountPaid :: "rat option"
  po_currency :: string
  po_status :: payout_status
  po_payoutProviderReference :: "string option"
  po_payoutMethodDetails :: "string option"
  po_payoutBankCode :: "string option"
  po_payoutAccountLast4 :: "string option"
  po_processingLeaseId :: "string option"
  po_processingLeaseExpiresAt :: "time option"
  po_initiatedAt :: time
  po_completedAt :: "time option"
  po_notes :: "string option"

record referral_reward =
  rw_id :: ident
  rw_referrerUserId :: ident
  rw_refereeUserId :: ident
  rw_bookingId :: ident
  rw_amount :: rat
  rw_status :: reward_status
  rw_releaseCondition :: release_condition
  rw_reason :: "string option"
  rw_processedAt :: "time option"

record referral_stats =
  rs_userId :: ident
  rs_totalReferrals :: nat
  rs_totalRewardsGranted :: rat
  rs_totalRewardsPending :: rat
  rs_lastReferralAt :: "time option"

record flight =
  fl_id :: ident
  fl_flightNumber :: string
  fl_scheduledDeparture :: "time option"
  fl_originCode :: string
  fl_originTimezone :: "string option"
  fl_destinationCodeIATA :: "string option"

record domain_event =
  de_id :: ident
  de_eventType :: domain_event_type
  de_status :: domain_status
  de_aggregateId :: ident
  de_dedupeKey :: string
  de_attempts :: nat
  de_nextAttemptAt :: time
  de_lastError :: "string option"
  de_processedAt :: "time option"
  de_createdAt :: time
  de_updatedAt :: time

record recipient =
  rc_userId :: "ident option"
  rc_email :: "string option"
  rc_phoneNumber :: "string option"

record job_data =
  j_id :: string
  j_type :: string
  j_audience :: "notification_audience option"
  j_channels :: "notification_channel list"
  j_bookingId :: string
  j_airportCompletionLink :: bool
  j_recipients :: "(recipient_type \<times> recipient) list"
  j_pushPayload :: "(string \<times> string) option"
  j_templateData :: "(string \<times> string) list"

text \<open>
  The JSON column payload of an outbox row: null or another non-object, or an object with the
  three keys of the envelope.
\<close>

record outbox_envelope =
  oe_eventType :: notif_event_type
  oe_subtype :: string
  oe_job :: job_data

datatype json_payload = NotAnObject | Envelope outbox_envelope

record notif_event =
  ne_id :: ident
  ne_userId :: "ident option"
  ne_eventType :: notif_event_type
  ne_status :: notif_status
  ne_dedupeKey :: string
  ne_bookingId :: string
  ne_payload :: json_payload
  ne_attempts :: nat
  ne_nextAttemptAt :: time
  ne_lastError :: "string option"
  ne_processedAt :: "time option"
  ne_createdAt :: time
  ne_updatedAt :: time

record inbox_row =
  in_userId :: ident
  in_type :: notif_event_type
  in_title :: string
  in_body :: string
  in_dedupeKey :: string

record platform_fee_rate =
  pf_id :: ident
  pf_feeType :: platform_fee_type
  pf_ratePercent :: rat
  pf_effectiveSince :: time
  pf_effectiveUntil :: "time option"

record tax_rate =
  tx_id :: ident
  tx_ratePercent :: rat
  tx_effectiveSince :: time
  tx_effectiveUntil :: "time option"

record addon_rate =
  ar_id :: ident
  ar_addonType :: addon_type
  ar_rateAmount :: rat
  ar_effectiveSince :: time
  ar_effectiveUntil :: "time option"

record promotion =
  pm_id :: ident
  pm_ownerId :: ident
  pm_carId :: "ident option"
  pm_name :: "string option"
  pm_discountValue :: rat
  pm_startDate :: time
  pm_endDate :: time
  pm_isActive :: bool
  pm_createdAt :: time

text \<open>
  The JSON column response of an idempotency row: a response as the checkpoint writes it, or any
  other value.
\<close>

record booking_response =
  br_bookingId :: ident
  br_txRef :: string
  br_checkoutUrl :: string
  br_totalAmount :: rat
  br_bookingStatus :: booking_status
  br_reservationExpiresAt :: time
  br_tokenRequired :: bool

datatype stored_response = StoredResponse booking_response | InvalidResponse

record booking_idempotency =
  bi_id :: ident
  bi_customerScope :: string
  bi_idempotencyKey :: string
  bi_requestHash :: string
  bi_state :: idempotency_state
  bi_bookingId :: "ident option"
  bi_response :: "stored_response option"
  bi_updatedAt :: time

record review =
  rv_bookingId :: ident

section \<open>What leaves the process\<close>

record domain_job =
  dj_jobId :: string
  dj_outboxEventId :: ident
  dj_eventType :: domain_event_type
  dj_aggregateId :: ident
  dj_dispatchAttempt :: nat

record payout_request =
  pr_bankCode :: string
  pr_accountNumber :: string
  pr_bankName :: string
  pr_amount :: rat
  pr_reference :: string
  pr_bookingId :: ident
  pr_bookingReference :: string

text \<open>The JSON value of a referral program setting.\<close>

datatype config_value = CNull | CBool bool | CNum rat | CStr string | CArr "config_value list" | CObj

record flight_alert_job =
  fj_jobId :: string
  fj_flightId :: ident
  fj_flightNumber :: string
  fj_departureTime :: time

text \<open>A refund asked of the provider: the payment, its transaction, the amount, the idempotency key.\<close>

record refund_request =
  rq_paymentId :: ident
  rq_transactionId :: string
  rq_amount :: rat
  rq_idempotencyKey :: string

text \<open>The rates of the platform, as the rates service returns and caches them.\<close>

record platform_rates =
  r_platformCustomerServiceFeeRatePercent :: rat
  r_platformFleetOwnerCommissionRatePercent :: rat
  r_vatRatePercent :: rat
  r_securityDetailRate :: rat

record world =
  users :: "user list"
  bankDetails :: "bank_details list"
  cars :: "car list"
  bookings :: "booking list"
  legs :: "leg list"
  extensions :: "extension list"
  payments :: "payment list"
  payouts :: "payout list"
  reviews :: "review list"
  rewards :: "referral_reward list"
  referralStats :: "referral_stats list"
  referralConfig :: "(string \<times> config_value) list"
  flights :: "flight list"
  platformFeeRates :: "platform_fee_rate list"
  taxRates :: "tax_rate list"
  addonRates :: "addon_rate list"
  promotions :: "promotion list"
  idempotencyRows :: "booking_idempotency list"
  domainEvents :: "domain_event list"
  notifEvents :: "notif_event list"
  inboxRows :: "inbox_row list"
  domainJobs :: "domain_job list"
  notifJobs :: "(string \<times> job_data) list"
  transferRequests :: "payout_request list"
  refundRequests :: "refund_request list"
  flightAlertJobs :: "flight_alert_job list"
  activationEvents :: "(ident \<times> time) list"
  ratesCache :: "platform_rates option \<times> time"

definition empty_world :: world where
  "empty_world =
     \<lparr>users = [], bankDetails = [], cars = [], bookings = [], legs = [], extensions = [],
      payments = [], payouts = [], reviews = [], rewards = [], referralStats = [], referralConfig = [], flights = [],
      platformFeeRates = [], taxRates = [], addonRates = [], promotions = [], idempotencyRows = [],
      domainEvents = [], notifEvents = [],
      inboxRows = [], domainJobs = [], notifJobs = [], transferRequests = [], refundRequests = [],
      flightAlertJobs = [], activationEvents = [], ratesCache = (None, 0)\<rparr>"

text \<open>The unique columns of the tables, as the schema declares them.\<close>

definition keys_unique :: "world \<Rightarrow> bool" where
  "keys_unique w \<longleftrightarrow>
     unique_by b_id (bookings w) \<and> unique_by c_id (cars w) \<and> unique_by p_id (payments w)
   \<and> unique_by po_id (payouts w) \<and> unique_by de_id (domainEvents w)
   \<and> unique_by de_dedupeKey (domainEvents w) \<and> unique_by ne_dedupeKey (notifEvents w)
   \<and> unique_by e_id (extensions w) \<and> unique_by l_id (legs w) \<and> unique_by u_id (users w)"

lemma keys_unique_empty: "keys_unique empty_world"
  by (simp add: keys_unique_def empty_world_def)

end
