(* ===== verification/Claims.thy ===== *)
theory Claims
  imports Prelude
begin

text \<open>
  The claim protocol that the workers of this service share: a worker takes a row by one
  conditional updateMany on its id and a guard, and goes on only when the count is not 0.
  The locale states what a guard and its update promise each other (marking a row disables the
  guard of every rival claim); inside it, at most one of any number of rival claims wins, however
  they interleave.
\<close>

definition claim_rows ::
  "('r \<Rightarrow> 'i) \<Rightarrow> ('c \<Rightarrow> 'r \<Rightarrow> bool) \<Rightarrow> ('c \<Rightarrow> 'r \<Rightarrow> 'r) \<Rightarrow> 'i \<Rightarrow> 'c \<Rightarrow> 'r list \<Rightarrow> nat \<times> 'r list" where
  "claim_rows row_id guard mark i c t = update_many (\<lambda>r. row_id r = i \<and> guard c r) (mark c) t"

text \<open>Claims on one row, one after the other in any order: how many of them win.\<close>

fun claim_wins ::
  "('r \<Rightarrow> 'i) \<Rightarrow> ('c \<Rightarrow> 'r \<Rightarrow> bool) \<Rightarrow> ('c \<Rightarrow> 'r \<Rightarrow> 'r) \<Rightarrow> 'i \<Rightarrow> 'c list \<Rightarrow> 'r list \<Rightarrow> nat" where
  "claim_wins row_id guard mark i [] t = 0"
| "claim_wins row_id guard mark i (c # cs) t =
     (let (n, t') = claim_rows row_id guard mark i c t
      in (if n = 0 then 0 else 1) + claim_wins row_id guard mark i cs t')"

locale claim_protocol =
  fixes row_id :: "'r \<Rightarrow> 'i"
    and guard :: "'c \<Rightarrow> 'r \<Rightarrow> bool"
    and mark :: "'c \<Rightarrow> 'r \<Rightarrow> 'r"
    and rival :: "'c \<Rightarrow> 'c \<Rightarrow> bool"
  assumes id_mark: "row_id (mark c r) = row_id r"
    and mark_blocks: "guard c r \<Longrightarrow> rival c d \<Longrightarrow> \<not> guard d (mark c r)"
begin

lemma claim_ids: "map row_id (snd (claim_rows row_id guard mark i c t)) = map row_id t"
  unfolding claim_rows_def by (rule key_update_many) (rule id_mark)

lemma claim_count_le_1: "unique_by row_id t \<Longrightarrow> fst (claim_rows row_id guard mark i c t) \<le> 1"
  unfolding claim_rows_def by (rule update_many_id_count)

lemma claim_won:
  "unique_by row_id t \<Longrightarrow> e \<in> set t \<Longrightarrow> guard c e \<Longrightarrow>
   claim_rows row_id guard mark (row_id e) c t = (1, map (\<lambda>r. if row_id r = row_id e then mark c e else r) t)"
  unfolding claim_rows_def by (rule update_many_at)

lemma claim_lost:
  "unique_by row_id t \<Longrightarrow> e \<in> set t \<Longrightarrow> \<not> guard c e \<Longrightarrow>
   claim_rows row_id guard mark (row_id e) c t = (0, t)"
  unfolding claim_rows_def by (rule update_many_at_none)

text \<open>A claim rewrites rows of the claimed id only.\<close>

lemma claim_rowE:
  assumes "r' \<in> set (snd (claim_rows row_id guard mark i c t))"
  obtains r where "r \<in> set t" "r' = (if row_id r = i \<and> guard c r then mark c r else r)"
  using assms unfolding claim_rows_def by (rule update_many_rowE)

lemma claim_blocks_rival:
  assumes u: "unique_by row_id t"
    and won: "fst (claim_rows row_id guard mark i c t) \<noteq> 0"
    and riv: "rival c d"
  shows "claim_rows row_id guard mark i d (snd (claim_rows row_id guard mark i c t))
       = (0, snd (claim_rows row_id guard mark i c t))"
  unfolding claim_rows_def [of _ _ _ _ d]
proof (rule update_many_none)
  fix r' assume "r' \<in> set (snd (claim_rows row_id guard mark i c t))"
  then obtain r where r: "r \<in> set t" "r' = (if row_id r = i \<and> guard c r then mark c r else r)"
    unfolding claim_rows_def by (rule update_many_rowE)
  from won have "0 < fst (update_many (\<lambda>r. row_id r = i \<and> guard c r) (mark c) t)"
    by (simp add: claim_rows_def)
  then obtain q where q: "q \<in> set t" "row_id q = i" "guard c q"
    by (auto simp: update_many_pos)
  have "row_id r = i \<Longrightarrow> r = q"
    using unique_by_same [OF u r(1) q(1)] q(2) by simp
  then show "\<not> (row_id r' = i \<and> guard d r')"
    using r(2) q(3) mark_blocks [OF _ riv] by auto
qed

lemma blocked_claims_lose:
  "(\<And>d. d \<in> set cs \<Longrightarrow> claim_rows row_id guard mark i d t = (0, t)) \<Longrightarrow>
   claim_wins row_id guard mark i cs t = 0"
  by (induction cs) auto

theorem one_winner:
  assumes "unique_by row_id t"
    and "sorted_wrt rival cs"
  shows "claim_wins row_id guard mark i cs t \<le> 1"
  using assms
proof (induction cs arbitrary: t)
  case (Cons c cs)
  let ?t' = "snd (claim_rows row_id guard mark i c t)"
  have u': "unique_by row_id ?t'" using Cons.prems(1) claim_ids by metis
  show ?case
  proof (cases "fst (claim_rows row_id guard mark i c t) = 0")
    case True
    have "claim_wins row_id guard mark i cs ?t' \<le> 1"
      using Cons.prems(2) by (intro Cons.IH [OF u']) simp
    with True show ?thesis by (simp add: case_prod_beta)
  next
    case False
    have "claim_wins row_id guard mark i cs ?t' = 0"
      using Cons.prems(2) by (intro blocked_claims_lose claim_blocks_rival [OF Cons.prems(1) False]) simp
    with False show ?thesis by (simp add: case_prod_beta)
  qed
qed simp

end

end
