(* ===== verification/JsDate.thy ===== *)
theory JsDate
  imports Prelude
begin

text \<open>
  What the services use of JavaScript's Date: the calendar date of an instant, its reading in a
  zone with a fixed offset (Africa/Lagos, the configured zone, is UTC+1 all year), setHours on
  such a reading, and toISOString.
\<close>

abbreviation day_ms :: int where "day_ms \<equiv> 86400000"

text \<open>Year, month and day of a day number (days since 1970-01-01), Gregorian.\<close>

definition civil_from_days :: "int \<Rightarrow> int \<times> int \<times> int" where
  "civil_from_days n =
     (let z = n + 719468;
          era = z div 146097;
          doe = z mod 146097;
          yoe = (doe - doe div 1460 + doe div 36524 - doe div 146096) div 365;
          doy = doe - (365 * yoe + yoe div 4 - yoe div 100);
          mp = (5 * doy + 2) div 153;
          d = doy - (153 * mp + 2) div 5 + 1;
          m = (if mp < 10 then mp + 3 else mp - 9);
          y = yoe + era * 400 + (if m \<le> 2 then 1 else 0)
      in (y, m, d))"

definition pad :: "nat \<Rightarrow> int \<Rightarrow> string" where
  "pad n v = (let s = nat_digits (nat v) in replicate (n - length s) (CHR ''0'') @ s)"

definition iso_string :: "time \<Rightarrow> string" where
  "iso_string t =
     (let (y, m, d) = civil_from_days (t div day_ms); r = t mod day_ms in
      pad 4 y @ ''-'' @ pad 2 m @ ''-'' @ pad 2 d @ ''T''
      @ pad 2 (r div 3600000) @ '':'' @ pad 2 (r div 60000 mod 60) @ '':''
      @ pad 2 (r div 1000 mod 60) @ ''.'' @ pad 3 (r mod 1000) @ ''Z'')"

section \<open>Local readings in a zone at a fixed offset\<close>

text \<open>The local day number, and the milliseconds since local midnight.\<close>

definition local_day :: "int \<Rightarrow> time \<Rightarrow> int" where
  "local_day off t = (t + off) div day_ms"

definition local_ms :: "int \<Rightarrow> time \<Rightarrow> int" where
  "local_ms off t = (t + off) mod day_ms"

definition local_hours :: "int \<Rightarrow> time \<Rightarrow> int" where
  "local_hours off t = local_ms off t div 3600000"

definition local_minutes :: "int \<Rightarrow> time \<Rightarrow> int" where
  "local_minutes off t = local_ms off t div 60000 mod 60"

text \<open>setHours(h, m, 0, 0): the hours may pass 23, which moves into the next days.\<close>

definition set_hours :: "int \<Rightarrow> time \<Rightarrow> int \<Rightarrow> int \<Rightarrow> time" where
  "set_hours off t h m = local_day off t * day_ms - off + h * 3600000 + m * 60000"

text \<open>setDate(getDate() + n).\<close>

definition add_days :: "time \<Rightarrow> int \<Rightarrow> time" where
  "add_days t n = t + n * day_ms"

lemma local_split: "t = local_day off t * day_ms + local_ms off t - off"
  by (simp add: local_day_def local_ms_def)

lemma local_ms_bounds: "0 \<le> local_ms off t" "local_ms off t < day_ms"
  by (simp_all add: local_ms_def)

lemma set_hours_day:
  "0 \<le> h \<Longrightarrow> h < 24 \<Longrightarrow> 0 \<le> m \<Longrightarrow> m < 60 \<Longrightarrow> local_day off (set_hours off t h m) = local_day off t"
  unfolding set_hours_def by (simp add: local_day_def add.assoc [symmetric])

lemma set_hours_ms:
  "0 \<le> h \<Longrightarrow> h < 24 \<Longrightarrow> 0 \<le> m \<Longrightarrow> m < 60 \<Longrightarrow>
   local_ms off (set_hours off t h m) = h * 3600000 + m * 60000"
  unfolding set_hours_def local_ms_def by (simp add: mod_pos_pos_trivial)

lemma iso_epoch: "iso_string 0 = ''1970-01-01T00:00:00.000Z''"
  by code_simp

lemma iso_leap_day: "iso_string 1709210096007 = ''2024-02-29T12:34:56.007Z''"
  by code_simp

end
