(* ===== verification/Notifications.thy ===== *)
theory Notifications
  imports Schema JsDate
begin

text \<open>
  Who is told, and through which channels: the channel resolver, the customer details that feed
  it (shared/helper.ts), and the builders of notification jobs for booking status changes,
  payouts, refunds and flight updates (notification.service.ts).  The rendering of money and of
  long dates is done by Intl and date-fns; both are fields of the configuration record.
\<close>

record notif_config =
  nc_flightWhatsAppEnabled :: bool
  nc_payoutWhatsAppEnabled :: bool
  nc_refundWhatsAppEnabled :: bool
  nc_operationsEmail :: string
  nc_formatCurrency :: "rat \<Rightarrow> string"
  nc_formatDate :: "time \<Rightarrow> string"
  nc_formatFlightTime :: "time \<Rightarrow> string"
  nc_formatLegDate :: "time \<Rightarrow> string"
  nc_formatClock :: "time \<Rightarrow> string"

text \<open>A booking together with the rows Prisma includes with it.\<close>

record booking_view =
  bv_booking :: booking
  bv_car :: car
  bv_owner :: "user option"
  bv_user :: "user option"
  bv_chauffeur :: "user option"

section \<open>Channels\<close>

definition derive_notification_channels ::
  "string option \<Rightarrow> string option \<Rightarrow> string option \<Rightarrow> string option \<Rightarrow> notification_channel list" where
  "derive_notification_channels customerEmail customerPhone email0 phoneNumber0 =
     (let email = coalesce customerEmail email0; phoneNumber = coalesce customerPhone phoneNumber0
      in (if truthy email then [EMAIL] else []) @ (if truthy phoneNumber then [WHATSAPP] else []))"

text \<open>[...new Set(xs)]: the first occurrence of each element.\<close>

fun js_unique :: "'a list \<Rightarrow> 'a list" where
  "js_unique [] = []"
| "js_unique (x # xs) = x # filter (\<lambda>y. y \<noteq> x) (js_unique xs)"

definition resolve_channels ::
  "notification_audience \<Rightarrow> string option \<Rightarrow> string option \<Rightarrow> string option \<Rightarrow> notification_channel list" where
  "resolve_channels audience email phoneNumber userId =
     js_unique (derive_notification_channels None None email phoneNumber
       @ (if audience = AUD_CUSTOMER \<and> truthy userId then [PUSH] else []))"

lemma set_js_unique [simp]: "set (js_unique xs) = set xs"
  by (induction xs) auto

lemma distinct_js_unique [simp]: "distinct (js_unique xs)"
  by (induction xs) auto

lemma resolve_channels_iff:
  "c \<in> set (resolve_channels aud em ph uid) \<longleftrightarrow>
     (case c of EMAIL \<Rightarrow> truthy em | WHATSAPP \<Rightarrow> truthy ph
              | PUSH \<Rightarrow> aud = AUD_CUSTOMER \<and> truthy uid)"
  by (cases c) (auto simp: resolve_channels_def derive_notification_channels_def)

lemma push_only_for_customers: "PUSH \<in> set (resolve_channels aud em ph uid) \<Longrightarrow> aud = AUD_CUSTOMER"
  by (simp add: resolve_channels_iff)

lemma resolve_channels_empty_iff:
  "resolve_channels aud em ph uid = [] \<longleftrightarrow>
     \<not> truthy em \<and> \<not> truthy ph \<and> \<not> (aud = AUD_CUSTOMER \<and> truthy uid)"
proof -
  have "resolve_channels aud em ph uid = [] \<longleftrightarrow> (\<forall>c. c \<notin> set (resolve_channels aud em ph uid))"
    by auto
  also have "\<dots> \<longleftrightarrow> \<not> truthy em \<and> \<not> truthy ph \<and> \<not> (aud = AUD_CUSTOMER \<and> truthy uid)"
    unfolding resolve_channels_iff by (auto split: notification_channel.splits)
  finally show ?thesis .
qed

section \<open>Customer details\<close>

definition or_else :: "string option \<Rightarrow> string option \<Rightarrow> string option" where
  "or_else x y = (if truthy x then x else y)"

datatype display_target = T_user | T_owner | T_chauffeur

definition get_user_display_name :: "booking_view \<Rightarrow> display_target \<Rightarrow> string" where
  "get_user_display_name v target =
     (let guest = b_guestUser (bv_booking v) in
      case target of
        T_user \<Rightarrow>
          str_or (or_else (Option.bind (bv_user v) u_name)
                 (or_else (Option.bind (bv_user v) u_username)
                 (or_else (map_option u_email (bv_user v))
                 (or_else (Option.bind guest g_name) (Option.bind guest g_email)))))
            ''Customer''
      | T_owner \<Rightarrow>
          str_or (or_else (Option.bind (bv_owner v) u_name)
                 (or_else (Option.bind (bv_owner v) u_username) (map_option u_email (bv_owner v))))
            ''Fleet Owner''
      | T_chauffeur \<Rightarrow>
          (case bv_chauffeur v of
             None \<Rightarrow> ''User''
           | Some c \<Rightarrow> str_or (or_else (u_name c) (Some (u_email c))) ''Chauffeur''))"

record customer_details =
  cd_email :: string
  cd_name :: string
  cd_phone_number :: string

definition get_customer_details :: "booking_view \<Rightarrow> customer_details" where
  "get_customer_details v =
     (case bv_user v of
        Some u \<Rightarrow>
          \<lparr>cd_email = u_email u, cd_name = the (coalesce (u_name u) (Some '''')),
           cd_phone_number = the (coalesce (u_phoneNumber u) (Some ''''))\<rparr>
      | None \<Rightarrow>
          (case b_guestUser (bv_booking v) of
             None \<Rightarrow> \<lparr>cd_email = '''', cd_name = '''', cd_phone_number = ''''\<rparr>
           | Some g \<Rightarrow>
               (let preferred = the (coalesce (g_preferredChannel g) (Some EMAIL_AND_WHATSAPP)) in
                \<lparr>cd_email = (if preferred = WHATSAPP_ONLY then '''' else the (coalesce (g_email g) (Some ''''))),
                 cd_name = the (coalesce (g_name g) (Some '''')),
                 cd_phone_number = (if preferred = EMAIL_ONLY then '''' else the (coalesce (g_phoneNumber g) (Some '''')))\<rparr>)))"

definition some_if_truthy :: "string \<Rightarrow> string option" where
  "some_if_truthy s = (if s = '''' then None else Some s)"

primrec booking_status_string :: "booking_status \<Rightarrow> string" where
  "booking_status_string B_PENDING = ''PENDING''"
| "booking_status_string B_CONFIRMED = ''CONFIRMED''"
| "booking_status_string B_ACTIVE = ''ACTIVE''"
| "booking_status_string B_COMPLETED = ''COMPLETED''"
| "booking_status_string B_CANCELLED = ''CANCELLED''"
| "booking_status_string B_REJECTED = ''REJECTED''"

text \<open>Template data: the keys with their rendered values; undefined keys are absent.\<close>

definition opt_field :: "string \<Rightarrow> string option \<Rightarrow> (string \<times> string) list" where
  "opt_field k x = (case x of None \<Rightarrow> [] | Some v \<Rightarrow> [(k, v)])"

definition car_name :: "car \<Rightarrow> string" where
  "car_name c = c_make c @ '' '' @ c_model c @ '' ('' @ nat_digits (c_year c) @ '')''"

definition normalise_booking_details :: "notif_config \<Rightarrow> booking_view \<Rightarrow> (string \<times> string) list" where
  "normalise_booking_details nc v =
     (let b = bv_booking v;
          cd = get_customer_details v;
          (title, status) =
            (if b_status b = B_ACTIVE then (''started'', ''active'')
             else if b_status b = B_COMPLETED then (''ended'', ''completed'')
             else (''status is '' @ js_lower (booking_status_string (b_status b)),
                   js_lower (booking_status_string (b_status b))))
      in [(''bookingReference'', b_bookingReference b), (''id'', b_id b)]
         @ opt_field ''customerPhone'' (some_if_truthy (cd_phone_number cd))
         @ opt_field ''customerEmail'' (some_if_truthy (cd_email cd))
         @ [(''ownerName'', get_user_display_name v T_owner),
            (''customerName'', get_user_display_name v T_user),
            (''chauffeurName'', get_user_display_name v T_chauffeur),
            (''chauffeurPhoneNumber'',
               the (coalesce (Option.bind (bv_chauffeur v) u_phoneNumber) (Some ''''))),
            (''carName'', car_name (bv_car v)),
            (''title'', title), (''status'', status),
            (''cancellationReason'',
               the (coalesce (b_cancellationReason b) (Some ''No reason provided''))),
            (''pickupLocation'', b_pickupLocation b), (''returnLocation'', b_returnLocation b),
            (''startDate'', nc_formatDate nc (b_startDate b)),
            (''endDate'', nc_formatDate nc (b_endDate b)),
            (''totalAmount'', nc_formatCurrency nc (b_totalAmount b))])"

end
