(* ===== verification/NotificationJobs.thy ===== *)
theory NotificationJobs
  imports Notifications
begin

text \<open>
  The notification jobs themselves: the builders for booking status changes, payouts, refunds
  and flight updates (notification.service.ts) and the outbox event handlers over them
  (notification/handlers).  A handler yields the events that the outbox persists.
\<close>

record handler_event =
  he_jobData :: "job_data option"
  he_inbox :: "inbox_row option"
  he_dedupeKey :: string
  he_userId :: "ident option"
  he_subtype :: string

definition get_status_change_subject :: "string \<Rightarrow> string" where
  "get_status_change_subject status =
     (let s = js_lower status in
      if s = ''active'' then ''Your booking has started''
      else if s = ''completed'' then ''Your booking has ended''
      else if s = ''cancelled'' then ''Your booking has been cancelled''
      else ''Your booking status has been updated'')"

definition customer_user_id :: "booking_view \<Rightarrow> ident option" where
  "customer_user_id v = coalesce (b_userId (bv_booking v)) (map_option u_id (bv_user v))"

definition build_booking_status_change_job ::
  "notif_config \<Rightarrow> time \<Rightarrow> booking_view \<Rightarrow> string \<Rightarrow> string \<Rightarrow> bool \<Rightarrow> job_data option" where
  "build_booking_status_change_job nc now v oldStatus newStatus showReviewRequest =
     (let b = bv_booking v;
          cd = get_customer_details v;
          email = some_if_truthy (cd_email cd);
          phone = some_if_truthy (cd_phone_number cd);
          channels = resolve_channels AUD_CUSTOMER email phone (customer_user_id v)
      in if channels = [] then None
         else Some
           \<lparr>j_id = ''status-'' @ b_id b @ ''-'' @ nat_digits (nat now),
            j_type = ''booking-status-change'', j_audience = Some AUD_CUSTOMER,
            j_channels = channels, j_bookingId = b_id b, j_airportCompletionLink = False,
            j_recipients = [(R_CLIENT, \<lparr>rc_userId = customer_user_id v, rc_email = email, rc_phoneNumber = phone\<rparr>)],
            j_pushPayload = Some (get_status_change_subject newStatus,
                                  ''Your booking is now '' @ js_lower newStatus @ ''.''),
            j_templateData =
              [(''templateKind'', ''bookingStatusChange'')] @ normalise_booking_details nc v
              @ [(''oldStatus'', oldStatus), (''newStatus'', newStatus),
                 (''subject'', get_status_change_subject newStatus),
                 (''showReviewRequest'', if showReviewRequest then ''true'' else ''false'')]\<rparr>)"

section \<open>Payouts\<close>

text \<open>The two terminal statuses a payout notification reports.\<close>

datatype terminal_payout = PAID_OUT | PAYOUT_FAILED

primrec terminal_payout_string :: "terminal_payout \<Rightarrow> string" where
  "terminal_payout_string PAID_OUT = ''PAID_OUT''"
| "terminal_payout_string PAYOUT_FAILED = ''FAILED''"

record payout_notice =
  pn_payoutTransactionId :: ident
  pn_bookingId :: ident
  pn_bookingReference :: string
  pn_status :: terminal_payout
  pn_amount :: rat
  pn_failureReason :: "string option"
  pn_fleetOwner :: user

definition build_payout_status_job :: "notif_config \<Rightarrow> payout_notice \<Rightarrow> job_data option" where
  "build_payout_status_job nc p =
     (let succeeded = (pn_status p = PAID_OUT);
          owner = pn_fleetOwner p;
          status = terminal_payout_string (pn_status p);
          recipientName = (if succeeded then the (coalesce (u_name owner) (Some ''Fleet Owner'')) else ''Operations team'');
          channels = (if succeeded
                      then filter (\<lambda>c. c \<noteq> WHATSAPP \<or> nc_payoutWhatsAppEnabled nc)
                             (resolve_channels AUD_FLEET_OWNER (Some (u_email owner)) (u_phoneNumber owner) None)
                      else [EMAIL])
      in if channels = [] then None
         else Some
           \<lparr>j_id = ''payout-status-'' @ pn_payoutTransactionId p @ ''-'' @ js_lower status,
            j_type = ''payout-status-changed'',
            j_audience = Some (if succeeded then AUD_FLEET_OWNER else AUD_OPERATIONS),
            j_channels = channels, j_bookingId = pn_bookingId p, j_airportCompletionLink = False,
            j_recipients =
              [if succeeded
               then (R_FLEET_OWNER, \<lparr>rc_userId = Some (u_id owner), rc_email = Some (u_email owner), rc_phoneNumber = u_phoneNumber owner\<rparr>)
               else (R_OPERATIONS, \<lparr>rc_userId = None, rc_email = Some (nc_operationsEmail nc), rc_phoneNumber = None\<rparr>)],
            j_pushPayload = None,
            j_templateData =
              [(''templateKind'', ''payoutStatus''),
               (''subject'', (if succeeded then ''Payout sent for booking '' else ''Payout failed for booking '') @ pn_bookingReference p),
               (''status'', status), (''recipientName'', recipientName),
               (''amount'', nc_formatCurrency nc (pn_amount p)),
               (''bookingReference'', pn_bookingReference p),
               (''payoutTransactionId'', pn_payoutTransactionId p)]
              @ opt_field ''failureReason'' (pn_failureReason p)\<rparr>)"

definition payout_status_changed_events :: "notif_config \<Rightarrow> payout_notice \<Rightarrow> handler_event list" where
  "payout_status_changed_events nc p =
     (case build_payout_status_job nc p of
        None \<Rightarrow> []
      | Some j \<Rightarrow>
          [\<lparr>he_jobData = Some j, he_inbox = None,
            he_dedupeKey = ''payout-status:'' @ pn_payoutTransactionId p @ '':'' @ terminal_payout_string (pn_status p),
            he_userId = None,
            he_subtype = ''PAYOUT_'' @ terminal_payout_string (pn_status p)\<rparr>])"

section \<open>Refunds\<close>

datatype refund_notice_status = RN_REFUNDED | RN_PARTIALLY_REFUNDED | RN_REFUND_FAILED | RN_REVIEW_REQUIRED

primrec refund_notice_string :: "refund_notice_status \<Rightarrow> string" where
  "refund_notice_string RN_REFUNDED = ''REFUNDED''"
| "refund_notice_string RN_PARTIALLY_REFUNDED = ''PARTIALLY_REFUNDED''"
| "refund_notice_string RN_REFUND_FAILED = ''REFUND_FAILED''"
| "refund_notice_string RN_REVIEW_REQUIRED = ''REFUND_REVIEW_REQUIRED''"

record refund_customer =
  rf_userId :: "ident option"
  rf_name :: "string option"
  rf_email :: "string option"
  rf_phoneNumber :: "string option"

record refund_notice =
  rn_refundId :: string
  rn_paymentId :: ident
  rn_bookingId :: string
  rn_bookingReference :: string
  rn_status :: refund_notice_status
  rn_amount :: rat
  rn_failureReason :: "string option"
  rn_customer :: refund_customer

definition build_refund_status_job :: "notif_config \<Rightarrow> refund_notice \<Rightarrow> job_data option" where
  "build_refund_status_job nc r =
     (let st = rn_status r;
          succeeded = (st = RN_REFUNDED \<or> st = RN_PARTIALLY_REFUNDED);
          cust = rn_customer r;
          ref = rn_bookingReference r;
          status = refund_notice_string st;
          channels = (if succeeded
                      then filter (\<lambda>c. c \<noteq> WHATSAPP \<or> nc_refundWhatsAppEnabled nc)
                             (resolve_channels AUD_CUSTOMER (rf_email cust) (rf_phoneNumber cust) (rf_userId cust))
                      else [EMAIL]);
          amount = nc_formatCurrency nc (rn_amount r);
          subject = (case st of
                       RN_REFUNDED \<Rightarrow> ''Refund completed for booking ''
                     | RN_PARTIALLY_REFUNDED \<Rightarrow> ''Partial refund completed for booking ''
                     | RN_REVIEW_REQUIRED \<Rightarrow> ''Refund requires manual review for booking ''
                     | RN_REFUND_FAILED \<Rightarrow> ''Refund failed for booking '') @ ref
      in if channels = [] then None
         else Some
           \<lparr>j_id = ''refund-status-'' @ rn_refundId r @ ''-'' @ js_lower status,
            j_type = ''refund-status-changed'',
            j_audience = Some (if succeeded then AUD_CUSTOMER else AUD_OPERATIONS),
            j_channels = channels, j_bookingId = rn_bookingId r, j_airportCompletionLink = False,
            j_recipients =
              [if succeeded
               then (R_CLIENT, \<lparr>rc_userId = rf_userId cust, rc_email = rf_email cust, rc_phoneNumber = rf_phoneNumber cust\<rparr>)
               else (R_OPERATIONS, \<lparr>rc_userId = None, rc_email = Some (nc_operationsEmail nc), rc_phoneNumber = None\<rparr>)],
            j_pushPayload =
              (if succeeded
               then Some (if st = RN_REFUNDED then ''Refund completed'' else ''Partial refund completed'',
                          amount @ '' has been refunded for booking '' @ ref @ ''.'')
               else None),
            j_templateData =
              [(''templateKind'', ''refundStatus''), (''subject'', subject), (''status'', status),
               (''recipientName'', if succeeded then the (coalesce (rf_name cust) (Some ''Customer'')) else ''Operations team''),
               (''amount'', amount), (''bookingReference'', ref),
               (''paymentId'', rn_paymentId r), (''refundId'', rn_refundId r)]
              @ opt_field ''failureReason'' (rn_failureReason r)\<rparr>)"

definition refund_status_changed_events :: "notif_config \<Rightarrow> refund_notice \<Rightarrow> handler_event list" where
  "refund_status_changed_events nc r =
     (case build_refund_status_job nc r of
        None \<Rightarrow> []
      | Some j \<Rightarrow>
          [\<lparr>he_jobData = Some j, he_inbox = None,
            he_dedupeKey = ''refund-status:'' @ rn_refundId r @ '':'' @ refund_notice_string (rn_status r),
            he_userId = None,
            he_subtype = ''REFUND_'' @ refund_notice_string (rn_status r)\<rparr>])"

section \<open>Flight updates and the airport completion link\<close>

record flight_recipient =
  fr_userId :: ident
  fr_name :: string
  fr_email :: "string option"
  fr_phoneNumber :: "string option"

definition get_flight_update_recipient :: "booking_view \<Rightarrow> recipient_type \<Rightarrow> flight_recipient option" where
  "get_flight_update_recipient v rt =
     (if rt = R_CLIENT then
        (let userId = customer_user_id v in
         if \<not> truthy userId then None
         else Some \<lparr>fr_userId = the userId,
                    fr_name = the (coalesce (Option.bind (bv_user v) u_name) (Some ''Customer'')),
                    fr_email = None, fr_phoneNumber = None\<rparr>)
      else
        (case (if rt = R_FLEET_OWNER then bv_owner v else bv_chauffeur v) of
           None \<Rightarrow> None
         | Some u \<Rightarrow>
             Some \<lparr>fr_userId = u_id u,
                   fr_name = the (coalesce (u_name u) (Some (if rt = R_FLEET_OWNER then ''Fleet owner'' else ''Chauffeur''))),
                   fr_email = Some (u_email u), fr_phoneNumber = u_phoneNumber u\<rparr>))"

record flight_update =
  fu_statusEventId :: string
  fu_recipientType :: recipient_type
  fu_type :: string
  fu_title :: string
  fu_body :: string
  fu_flightNumber :: string
  fu_expectedArrival :: string
  fu_pickupActivationTime :: string
  fu_arrivalLocation :: string

primrec audience_string :: "notification_audience \<Rightarrow> string" where
  "audience_string AUD_CUSTOMER = ''customer''"
| "audience_string AUD_FLEET_OWNER = ''fleet-owner''"
| "audience_string AUD_CHAUFFEUR = ''chauffeur''"
| "audience_string AUD_OPERATIONS = ''operations''"

definition build_flight_update_job :: "notif_config \<Rightarrow> booking_view \<Rightarrow> flight_update \<Rightarrow> job_data option" where
  "build_flight_update_job nc v f =
     (case get_flight_update_recipient v (fu_recipientType f) of
        None \<Rightarrow> None
      | Some r \<Rightarrow>
          (let rt = fu_recipientType f; b = bv_booking v;
               audience = (if rt = R_CLIENT then AUD_CUSTOMER
                           else if rt = R_FLEET_OWNER then AUD_FLEET_OWNER else AUD_CHAUFFEUR);
               channels = (if audience = AUD_CUSTOMER then [PUSH]
                           else filter (\<lambda>c. c \<noteq> WHATSAPP \<or> nc_flightWhatsAppEnabled nc)
                                  (resolve_channels audience (fr_email r) (fr_phoneNumber r) (Some (fr_userId r))))
           in if channels = [] then None
              else Some
                \<lparr>j_id = fu_type f @ ''-'' @ fu_statusEventId f @ ''-'' @ b_id b @ ''-''
                          @ audience_string audience @ ''-'' @ fr_userId r,
                 j_type = fu_type f, j_audience = Some audience, j_channels = channels,
                 j_bookingId = b_id b, j_airportCompletionLink = False,
                 j_recipients = [(rt, \<lparr>rc_userId = Some (fr_userId r), rc_email = fr_email r, rc_phoneNumber = fr_phoneNumber r\<rparr>)],
                 j_pushPayload = (if audience = AUD_CUSTOMER then Some (fu_title f, fu_body f) else None),
                 j_templateData =
                   [(''templateKind'', ''flightUpdate''), (''subject'', fu_title f),
                    (''recipientName'', fr_name r), (''flightNumber'', fu_flightNumber f),
                    (''bookingReference'', b_bookingReference b), (''updateTitle'', fu_title f),
                    (''updateBody'', fu_body f), (''expectedArrival'', fu_expectedArrival f),
                    (''pickupActivationTime'', fu_pickupActivationTime f),
                    (''arrivalLocation'', fu_arrivalLocation f)]\<rparr>))"

section \<open>Booking status changes\<close>

record status_change =
  sc_view :: booking_view
  sc_oldStatus :: string
  sc_newStatus :: string
  sc_showReviewRequest :: bool
  sc_includeChauffeurCompletionLink :: bool

definition booking_status_changed_events ::
  "notif_config \<Rightarrow> time \<Rightarrow> status_change \<Rightarrow> handler_event list" where
  "booking_status_changed_events nc now s =
     (let v = sc_view s; b = bv_booking v;
          jobData = build_booking_status_change_job nc now v (sc_oldStatus s) (sc_newStatus s) (sc_showReviewRequest s);
          key = ''booking-status:'' @ b_id b @ '':'' @ sc_oldStatus s @ '':'' @ sc_newStatus s @ '':'' @ iso_string (b_updatedAt b);
          inbox = (if truthy (b_userId b)
                   then Some \<lparr>in_userId = the (b_userId b), in_type = NE_BOOKING_LIFECYCLE,
                              in_title = ''Booking status updated'',
                              in_body = ''Your booking has moved from '' @ js_lower (sc_oldStatus s) @ '' to '' @ js_lower (sc_newStatus s) @ ''.'',
                              in_dedupeKey = key\<rparr>
                   else None);
          event = \<lparr>he_jobData = jobData, he_inbox = inbox, he_dedupeKey = key,
                   he_userId = b_userId b, he_subtype = ''BOOKING_STATUS_CHANGED''\<rparr>;
          events = (if inbox \<noteq> None \<or> jobData \<noteq> None then [event] else [])
      in if sc_includeChauffeurCompletionLink s \<and> b_type b = AIRPORT_PICKUP \<and> truthy (b_chauffeurId b)
         then (case build_flight_update_job nc v
                      \<lparr>fu_statusEventId = ''airport-active-'' @ iso_string (b_updatedAt b),
                       fu_recipientType = R_CHAUFFEUR, fu_type = ''flight-assignment-snapshot'',
                       fu_title = ''Airport trip ready'',
                       fu_body = ''After drop-off, use your secure link to complete this trip.'',
                       fu_flightNumber = the (coalesce (b_flightNumber b) (Some ''Airport pickup'')),
                       fu_expectedArrival = nc_formatFlightTime nc (b_startDate b),
                       fu_pickupActivationTime = nc_formatFlightTime nc (b_startDate b),
                       fu_arrivalLocation = b_pickupLocation b\<rparr> of
                 None \<Rightarrow> events
               | Some j \<Rightarrow>
                   events @
                   [\<lparr>he_jobData = Some (j\<lparr>j_airportCompletionLink := True\<rparr>), he_inbox = None,
                     he_dedupeKey = ''airport-completion-link:'' @ b_id b @ '':'' @ the (b_chauffeurId b) @ '':'' @ iso_string (b_updatedAt b),
                     he_userId = b_chauffeurId b, he_subtype = ''AIRPORT_COMPLETION_LINK''\<rparr>])
         else events)"

end
