(* ===== verification/Samples.thy ===== *)
theory Samples
  imports NotificationJobs
begin

text \<open>Concrete rows at which the properties of the component theories are instantiated.\<close>

definition demo_owner :: user where
  "demo_owner = \<lparr>u_id = ''o1'', u_email = ''owner@x.com'', u_username = None, u_name = Some ''Owner'',
     u_phoneNumber = None,
     u_referralDiscountUsed = False, u_referralSignupAt = None, u_referredByUserId = None,
     u_fleetOwnerId = None, u_chauffeurApprovalStatus = None\<rparr>"

definition demo_user :: user where
  "demo_user = \<lparr>u_id = ''u1'', u_email = ''user@x.com'', u_username = None, u_name = Some ''User'',
     u_phoneNumber = Some ''+234'',
     u_referralDiscountUsed = False, u_referralSignupAt = None, u_referredByUserId = None,
     u_fleetOwnerId = None, u_chauffeurApprovalStatus = None\<rparr>"

definition demo_chauffeur :: user where
  "demo_chauffeur = \<lparr>u_id = ''d1'', u_email = ''driver@x.com'', u_username = None, u_name = None,
     u_phoneNumber = None,
     u_referralDiscountUsed = False, u_referralSignupAt = None, u_referredByUserId = None,
     u_fleetOwnerId = None, u_chauffeurApprovalStatus = None\<rparr>"

definition demo_bank :: bank_details where
  "demo_bank = \<lparr>bd_userId = ''o1'', bd_bankName = ''GTB'', bd_bankCode = ''058'',
     bd_accountNumber = ''0123456789'', bd_isVerified = True\<rparr>"

definition demo_car :: car where
  "demo_car = \<lparr>c_id = ''c1'', c_ownerId = ''o1'', c_make = ''Toyota'', c_model = ''Camry'', c_year = 2020,
     c_status = BOOKED, c_approvalStatus = AP_APPROVED, c_hourlyRate = 100, c_dayRate = 1000, c_nightRate = 600,
     c_fuelUpgradeRate = Some 50, c_fullDayRate = 1800, c_airportPickupRate = 400, c_pricingIncludesFuel = False\<rparr>"

definition demo_booking :: booking where
  "demo_booking = \<lparr>b_id = ''b1'', b_bookingReference = ''BK-1'', b_type = DAY, b_status = B_ACTIVE,
     b_paymentStatus = PAID, b_carId = ''c1'', b_userId = Some ''u1'', b_guestUser = None,
     b_chauffeurId = Some ''d1'', b_startDate = 1000, b_endDate = 2000, b_pickupLocation = ''A'',
     b_returnLocation = ''B'', b_updatedAt = 0, b_deletedAt = None, b_cancelledAt = None,
     b_cancellationReason = None, b_completedAt = None, b_completedByUserId = None,
     b_completionSource = None, b_completionTokenHash = None, b_completionTokenExpiresAt = None,
     b_airportScheduleConflictAt = None, b_paymentIntent = None, b_paymentSessionExpiresAt = None,
     b_totalAmount = 1000, b_netTotal = Some 800, b_fleetOwnerPayoutAmountNet = Some 700,
     b_overallPayoutStatus = None, b_referralDiscountAmount = 0, b_referralReferrerUserId = None,
     b_referralStatus = REF_NONE, b_referralCreditsUsed = 0, b_referralCreditsReserved = 0,
     b_flightNumber = None, b_flightId = None, b_createdAt = 0, b_specialRequests = None, b_paymentStatusTokenHash = None,
     b_prices = no_prices\<rparr>"

definition demo_view :: booking_view where
  "demo_view = \<lparr>bv_booking = demo_booking, bv_car = demo_car, bv_owner = Some demo_owner,
     bv_user = Some demo_user, bv_chauffeur = Some demo_chauffeur\<rparr>"

definition demo_payment :: payment where
  "demo_payment = \<lparr>p_id = ''p1'', p_bookingId = Some ''b1'', p_extensionId = None, p_txRef = ''tx1'',
     p_flutterwaveTransactionId = Some ''77'', p_amountExpected = 1000, p_amountCharged = Some 1000,
     p_currency = ''NGN'', p_status = PA_REFUND_PROCESSING, p_paymentMethod = Some ''card'', p_flutterwaveReference = None, p_confirmedAt = Some 0,
     p_refundIdempotencyKey = None, p_refundProviderId = Some ''9'', p_refundProviderStatus = None,
     p_refundRequestedAmount = Some 1000, p_refundRequestedAt = Some 0, p_refundLastCheckedAt = None,
     p_refundReconciliationAttempts = 0, p_refundVerificationFailures = 0,
     p_refundManualReviewNotifiedAt = None, p_webhookPayload = []\<rparr>"

definition demo_payout :: payout where
  "demo_payout = \<lparr>po_id = ''po1'', po_fleetOwnerId = ''o1'', po_bookingId = Some ''b1'', po_amountToPay = 700,
     po_amountPaid = None, po_currency = ''NGN'', po_status = PO_PENDING_DISBURSEMENT,
     po_payoutProviderReference = None, po_payoutMethodDetails = None, po_payoutBankCode = Some ''058'',
     po_payoutAccountLast4 = Some ''6789'', po_processingLeaseId = None,
     po_processingLeaseExpiresAt = None, po_initiatedAt = 0, po_completedAt = None, po_notes = None\<rparr>"

definition demo_config :: notif_config where
  "demo_config = \<lparr>nc_flightWhatsAppEnabled = False, nc_payoutWhatsAppEnabled = False,
     nc_refundWhatsAppEnabled = False, nc_operationsEmail = ''ops@x.com'',
     nc_formatCurrency = (\<lambda>_. ''NGN''), nc_formatDate = iso_string, nc_formatFlightTime = iso_string,
     nc_formatLegDate = iso_string, nc_formatClock = iso_string\<rparr>"

definition demo_world :: world where
  "demo_world = empty_world\<lparr>users := [demo_owner, demo_user, demo_chauffeur], bankDetails := [demo_bank],
     cars := [demo_car], bookings := [demo_booking]\<rparr>"

lemmas demo_defs = demo_owner_def demo_user_def demo_chauffeur_def demo_bank_def demo_car_def
  demo_booking_def demo_view_def demo_payment_def demo_payout_def demo_config_def demo_world_def
  empty_world_def

end
