(* ===== verification/NotificationOutbox.thy ===== *)
theory NotificationOutbox
  imports NotificationJobs Claims Samples
begin

text \<open>
  The notification outbox (notification-outbox.service.ts): handler events become one inbox row
  and one outbox row each, written idempotently under their dedupe key; a dispatcher claims due
  rows, checks the stored envelope and hands the job to the notification queue.  The queue is
  BullMQ's: enqueue is a parameter giving the queue after an add, or the error message.
\<close>

type_synonym notif_queue = "(string \<times> job_data) list"
type_synonym notif_enqueue = "string \<Rightarrow> job_data \<Rightarrow> notif_queue \<Rightarrow> string + notif_queue"

section \<open>Writing events\<close>

definition new_outbox_row :: "time \<Rightarrow> notif_event_type \<Rightarrow> handler_event \<Rightarrow> job_data \<Rightarrow> notif_event" where
  "new_outbox_row now et ev j =
     \<lparr>ne_id = ''ne:'' @ he_dedupeKey ev, ne_userId = he_userId ev, ne_eventType = et,
      ne_status = NO_PENDING, ne_dedupeKey = he_dedupeKey ev, ne_bookingId = j_bookingId j,
      ne_payload = Envelope \<lparr>oe_eventType = et, oe_subtype = he_subtype ev, oe_job = j\<rparr>,
      ne_attempts = 0, ne_nextAttemptAt = now, ne_lastError = None, ne_processedAt = None,
      ne_createdAt = now, ne_updatedAt = now\<rparr>"

definition write_event :: "time \<Rightarrow> notif_event_type \<Rightarrow> handler_event \<Rightarrow> world \<Rightarrow> world" where
  "write_event now et ev w =
     (let w1 = (case he_inbox ev of
                  None \<Rightarrow> w
                | Some row \<Rightarrow>
                    w\<lparr>inboxRows := snd (create_skip in_dedupeKey
                        [row\<lparr>in_dedupeKey := he_dedupeKey ev\<rparr>] (inboxRows w))\<rparr>)
      in case he_jobData ev of
           None \<Rightarrow> w1
         | Some j \<Rightarrow>
             w1\<lparr>notifEvents := snd (create_skip ne_dedupeKey [new_outbox_row now et ev j] (notifEvents w1))\<rparr>)"

definition create_notifications ::
  "time \<Rightarrow> notif_event_type \<Rightarrow> handler_event list \<Rightarrow> world \<Rightarrow> nat \<times> world" where
  "create_notifications now et events w =
     (if events = [] then (0, w) else (length events, fold (write_event now et) events w))"

section \<open>Reading a stored envelope back\<close>

definition valid_recipient :: "recipient \<Rightarrow> bool" where
  "valid_recipient r \<longleftrightarrow> (case rc_userId r of None \<Rightarrow> True | Some u \<Rightarrow> u \<noteq> [])"

text \<open>The checks of notificationJobDataSchema that a well-typed value can still fail.\<close>

definition valid_job_data :: "job_data \<Rightarrow> bool" where
  "valid_job_data j \<longleftrightarrow>
     j_id j \<noteq> [] \<and> j_channels j \<noteq> [] \<and> j_bookingId j \<noteq> []
   \<and> (\<forall>x \<in> set (j_recipients j). valid_recipient (snd x))"

definition parse_notification_job_data :: "json_payload \<Rightarrow> job_data option" where
  "parse_notification_job_data p =
     (case p of
        NotAnObject \<Rightarrow> None
      | Envelope e \<Rightarrow> (if oe_subtype e \<noteq> [] \<and> valid_job_data (oe_job e) then Some (oe_job e) else None))"

section \<open>Dispatching\<close>

definition notif_max_attempts :: nat where "notif_max_attempts = 8"
definition notif_stale_after :: time where "notif_stale_after = minutes_ms 2"

text \<open>The delay before the next attempt, in seconds: doubling from 10 up to 15 minutes.\<close>

definition backoff_seconds :: "nat \<Rightarrow> int" where
  "backoff_seconds attempt = min (10 * 2 ^ (attempt - 1)) (15 * 60)"

definition compute_next_attempt_at :: "time \<Rightarrow> nat \<Rightarrow> time" where
  "compute_next_attempt_at now attempt = now + backoff_seconds attempt * 1000"

definition resolve_failure_status :: "nat \<Rightarrow> notif_status" where
  "resolve_failure_status attempt =
     (if notif_max_attempts \<le> attempt then NO_DEAD_LETTER else NO_FAILED)"

definition notif_due :: "time \<Rightarrow> time \<Rightarrow> notif_event \<Rightarrow> bool" where
  "notif_due cutoff now r \<longleftrightarrow>
     (ne_status r \<in> {NO_PENDING, NO_FAILED} \<and> ne_nextAttemptAt r \<le> now)
   \<or> (ne_status r = NO_PROCESSING \<and> ne_updatedAt r \<le> cutoff)"

text \<open>
  A dispatcher's claim on a row: the status it read, its cutoff and batch time, and the instant
  of the write, which Prisma stores in updatedAt.
\<close>

record notif_claim =
  nk_read :: notif_status
  nk_cutoff :: time
  nk_now :: time
  nk_at :: time

definition notif_guard :: "notif_claim \<Rightarrow> notif_event \<Rightarrow> bool" where
  "notif_guard c r \<longleftrightarrow>
     (if nk_read c = NO_PROCESSING
      then ne_status r = NO_PROCESSING \<and> ne_updatedAt r \<le> nk_cutoff c
      else ne_status r \<in> {NO_PENDING, NO_FAILED} \<and> ne_nextAttemptAt r \<le> nk_now c)"

definition notif_mark :: "notif_claim \<Rightarrow> notif_event \<Rightarrow> notif_event" where
  "notif_mark c r =
     (if nk_read c = NO_PROCESSING then r\<lparr>ne_status := NO_PROCESSING, ne_updatedAt := nk_at c\<rparr>
      else r\<lparr>ne_status := NO_PROCESSING, ne_attempts := ne_attempts r + 1, ne_updatedAt := nk_at c\<rparr>)"

definition notif_update :: "ident \<Rightarrow> (notif_event \<Rightarrow> notif_event) \<Rightarrow> world \<Rightarrow> world" where
  "notif_update i f w = w\<lparr>notifEvents := snd (update_many (\<lambda>r. ne_id r = i) f (notifEvents w))\<rparr>"

text \<open>
  The work on a claimed event (the try/catch of processEvent): the count it contributes, what
  it writes to the row, and the queue after it.
\<close>

definition dispatch_claimed ::
  "notif_enqueue \<Rightarrow> time \<Rightarrow> nat \<Rightarrow> notif_event \<Rightarrow> notif_queue \<Rightarrow>
   nat \<times> (notif_event \<Rightarrow> notif_event) \<times> notif_queue" where
  "dispatch_claimed enqueue wt currentAttempt ev q =
     (case parse_notification_job_data (ne_payload ev) of
        None \<Rightarrow>
          (0, \<lambda>r. r\<lparr>ne_status := NO_DEAD_LETTER, ne_lastError := Some ''Invalid notification outbox payload'',
                     ne_processedAt := Some wt, ne_updatedAt := wt\<rparr>, q)
      | Some j \<Rightarrow>
          (case enqueue (''notification-outbox-'' @ ne_id ev) j q of
             Inr q' \<Rightarrow>
               (1, \<lambda>r. r\<lparr>ne_status := NO_DISPATCHED, ne_processedAt := Some wt,
                          ne_lastError := None, ne_updatedAt := wt\<rparr>, q')
           | Inl msg \<Rightarrow>
               (0, \<lambda>r. r\<lparr>ne_status := resolve_failure_status currentAttempt,
                          ne_nextAttemptAt := compute_next_attempt_at wt currentAttempt,
                          ne_lastError := Some (take 500 msg),
                          ne_processedAt := (if resolve_failure_status currentAttempt = NO_DEAD_LETTER
                                             then Some wt else None),
                          ne_updatedAt := wt\<rparr>, q)))"

definition process_notif_event ::
  "notif_enqueue \<Rightarrow> time \<Rightarrow> time \<Rightarrow> time \<Rightarrow> notif_event \<Rightarrow> world \<Rightarrow> nat \<times> world" where
  "process_notif_event enqueue wt cutoff now ev w =
     (let isStaleReclaim = (ne_status ev = NO_PROCESSING);
          c = \<lparr>nk_read = ne_status ev, nk_cutoff = cutoff, nk_now = now, nk_at = wt\<rparr>;
          (count, t) = claim_rows ne_id notif_guard notif_mark (ne_id ev) c (notifEvents w);
          w1 = w\<lparr>notifEvents := t\<rparr>
      in if count = 0 then (0, w1)
         else let currentAttempt = (if isStaleReclaim then ne_attempts ev else ne_attempts ev + 1);
                  (n, write, q) = dispatch_claimed enqueue wt currentAttempt ev (notifJobs w1)
              in (n, notif_update (ne_id ev) write (w1\<lparr>notifJobs := q\<rparr>)))"

text \<open>
  The rows of a batch are claimed and processed independently of one another (at most five at a
  time, each touching its own row); the model runs them in batch order.
\<close>

fun process_notif_events ::
  "notif_enqueue \<Rightarrow> time \<Rightarrow> time \<Rightarrow> time \<Rightarrow> notif_event list \<Rightarrow> world \<Rightarrow> nat \<times> world" where
  "process_notif_events enqueue wt cutoff now [] w = (0, w)"
| "process_notif_events enqueue wt cutoff now (ev # evs) w =
     (let (n, w1) = process_notif_event enqueue wt cutoff now ev w;
          (m, w2) = process_notif_events enqueue wt cutoff now evs w1
      in (n + m, w2))"

definition process_pending_notifications ::
  "notif_enqueue \<Rightarrow> time \<Rightarrow> time \<Rightarrow> nat \<Rightarrow> world \<Rightarrow> nat \<times> world" where
  "process_pending_notifications enqueue now wt limit w =
     (let cutoff = now - notif_stale_after;
          candidates = find_many (notif_due cutoff now) ne_createdAt limit (notifEvents w)
      in process_notif_events enqueue wt cutoff now candidates w)"

text \<open>
  One cron firing drains the outbox in up to five consecutive batches and stops at the first
  batch that dispatched nothing (notification-outbox.scheduler.ts); every batch has its own
  clock readings.
\<close>

fun drain_ticks :: "notif_enqueue \<Rightarrow> (time \<times> time) list \<Rightarrow> nat \<Rightarrow> world \<Rightarrow> nat \<times> world" where
  "drain_ticks enqueue [] limit w = (0, w)"
| "drain_ticks enqueue ((now, wt) # clocks) limit w =
     (let (n, w1) = process_pending_notifications enqueue now wt limit w
      in if n = 0 then (0, w1)
         else let (m, w2) = drain_ticks enqueue clocks limit w1 in (n + m, w2))"

definition process_notification_outbox :: "notif_enqueue \<Rightarrow> (time \<times> time) list \<Rightarrow> world \<Rightarrow> nat \<times> world" where
  "process_notification_outbox enqueue clocks w = drain_ticks enqueue (take 5 clocks) 25 w"

section \<open>The retry schedule\<close>

lemma backoff_bounds: "10 \<le> backoff_seconds n" "backoff_seconds n \<le> 900"
proof -
  have "(1::int) \<le> 2 ^ (n - 1)" by simp
  then show "10 \<le> backoff_seconds n" by (simp add: backoff_seconds_def)
  show "backoff_seconds n \<le> 900" by (simp add: backoff_seconds_def)
qed

lemma backoff_mono: "m \<le> n \<Longrightarrow> backoff_seconds m \<le> backoff_seconds n"
proof -
  assume "m \<le> n"
  then have "(2::int) ^ (m - 1) \<le> 2 ^ (n - 1)" by (intro power_increasing) auto
  then show ?thesis unfolding backoff_seconds_def by (intro min.mono) auto
qed

section \<open>Claims of the dispatcher\<close>

interpretation notif_claims:
  claim_protocol ne_id notif_guard notif_mark "\<lambda>c d. nk_cutoff d < nk_at c"
  by unfold_locales (auto simp: notif_mark_def notif_guard_def split: if_splits)

section \<open>One event\<close>

lemma notif_update_rows:
  "notifEvents (notif_update i f w) = map (\<lambda>r. if ne_id r = i then f r else r) (notifEvents w)"
  by (simp add: notif_update_def update_many_def)

lemma process_notif_event_lost:
  assumes "fst (claim_rows ne_id notif_guard notif_mark (ne_id ev)
              \<lparr>nk_read = ne_status ev, nk_cutoff = cutoff, nk_now = now, nk_at = wt\<rparr> (notifEvents w)) = 0"
  shows "process_notif_event enqueue wt cutoff now ev w = (0, w)"
  using assms by (simp add: process_notif_event_def case_prod_beta claim_rows_def update_many_zero)

text \<open>Every row the call leaves in the table is an old row, unchanged unless it has the event's id.\<close>

lemma dispatch_claimed_id:
  "dispatch_claimed enqueue wt n ev q = (k, f, q') \<Longrightarrow> ne_id (f r) = ne_id r"
  by (auto simp: dispatch_claimed_def split: option.splits sum.splits)

lemma process_notif_event_rows:
  obtains f where "notifEvents (snd (process_notif_event enqueue wt cutoff now ev w)) =
      map (\<lambda>r. if ne_id r = ne_id ev then f r else r) (notifEvents w)" "\<And>r. ne_id (f r) = ne_id r"
proof -
  let ?c = "\<lparr>nk_read = ne_status ev, nk_cutoff = cutoff, nk_now = now, nk_at = wt\<rparr>"
  let ?g = "\<lambda>r. if notif_guard ?c r then notif_mark ?c r else r"
  have claim: "snd (claim_rows ne_id notif_guard notif_mark (ne_id ev) ?c (notifEvents w))
      = map (\<lambda>r. if ne_id r = ne_id ev then ?g r else r) (notifEvents w)"
    by (simp add: claim_rows_def snd_update_many if_if_eq_conj)
  obtain k f q where d: "dispatch_claimed enqueue wt
      (if ne_status ev = NO_PROCESSING then ne_attempts ev else ne_attempts ev + 1) ev (notifJobs w) = (k, f, q)"
    by (metis prod_cases3)
  show thesis
  proof (cases "fst (claim_rows ne_id notif_guard notif_mark (ne_id ev) ?c (notifEvents w)) = 0")
    case True
    show ?thesis
      by (rule that [of ?g]) (use True claim in \<open>auto simp: process_notif_event_def case_prod_beta notif_mark_def Let_def\<close>)
  next
    case False
    show ?thesis
    proof (rule that [of "\<lambda>r. f (?g r)"])
      have "ne_id (?g r) = ne_id r" for r by (simp add: notif_mark_def)
      then show "notifEvents (snd (process_notif_event enqueue wt cutoff now ev w)) =
          map (\<lambda>r. if ne_id r = ne_id ev then f (?g r) else r) (notifEvents w)"
        using False d claim by (simp add: process_notif_event_def case_prod_beta notif_update_rows Let_def)
      show "ne_id (f (?g r)) = ne_id r" for r
        using dispatch_claimed_id [OF d] by (simp add: notif_mark_def)
    qed
  qed
qed

lemma process_notif_event_ids:
  "map ne_id (notifEvents (snd (process_notif_event enqueue wt cutoff now ev w))) = map ne_id (notifEvents w)"
  by (rule process_notif_event_rows [of enqueue wt cutoff now ev w]) auto

lemma process_notif_event_other:
  assumes "r \<in> set (notifEvents w)" "ne_id r \<noteq> ne_id ev"
  shows "r \<in> set (notifEvents (snd (process_notif_event enqueue wt cutoff now ev w)))"
  by (rule process_notif_event_rows [of enqueue wt cutoff now ev w]) (use assms in force)

lemma process_notif_event_unclaimable:
  assumes u: "unique_by ne_id (notifEvents w)" and r: "r \<in> set (notifEvents w)"
    and ng: "\<not> notif_guard \<lparr>nk_read = ne_status ev, nk_cutoff = cutoff, nk_now = now, nk_at = wt\<rparr> r"
  shows "r \<in> set (notifEvents (snd (process_notif_event enqueue wt cutoff now ev w)))"
proof (cases "ne_id r = ne_id ev")
  case False then show ?thesis by (rule process_notif_event_other [OF r])
next
  case True
  then have "claim_rows ne_id notif_guard notif_mark (ne_id ev)
          \<lparr>nk_read = ne_status ev, nk_cutoff = cutoff, nk_now = now, nk_at = wt\<rparr> (notifEvents w)
        = (0, notifEvents w)"
    using notif_claims.claim_lost [OF u r ng] by simp
  then show ?thesis using r by (simp add: process_notif_event_lost)
qed

definition notif_terminal :: "notif_event \<Rightarrow> bool" where
  "notif_terminal r \<longleftrightarrow> ne_status r \<in> {NO_DISPATCHED, NO_DEAD_LETTER}"

lemma notif_terminal_unclaimable: "notif_terminal r \<Longrightarrow> \<not> notif_guard c r"
  by (auto simp: notif_terminal_def notif_guard_def)

lemma process_notif_events_ids:
  "map ne_id (notifEvents (snd (process_notif_events enqueue wt cutoff now evs w))) = map ne_id (notifEvents w)"
  by (induction evs arbitrary: w) (simp_all add: case_prod_beta process_notif_event_ids)

lemma process_notif_events_terminal:
  "unique_by ne_id (notifEvents w) \<Longrightarrow> r \<in> set (notifEvents w) \<Longrightarrow> notif_terminal r \<Longrightarrow>
   r \<in> set (notifEvents (snd (process_notif_events enqueue wt cutoff now evs w)))"
proof (induction evs arbitrary: w)
  case (Cons ev evs)
  let ?w = "snd (process_notif_event enqueue wt cutoff now ev w)"
  have "r \<in> set (notifEvents ?w)"
    using Cons.prems by (intro process_notif_event_unclaimable notif_terminal_unclaimable)
  moreover have "unique_by ne_id (notifEvents ?w)"
    using Cons.prems(1) by (simp only: process_notif_event_ids)
  ultimately show ?case using Cons.IH [of ?w] Cons.prems(3) by (simp add: case_prod_beta)
qed simp

lemma drain_ticks_terminal:
  "unique_by ne_id (notifEvents w) \<Longrightarrow> r \<in> set (notifEvents w) \<Longrightarrow> notif_terminal r \<Longrightarrow>
   r \<in> set (notifEvents (snd (drain_ticks enqueue clocks limit w)))"
proof (induction enqueue clocks limit w rule: drain_ticks.induct)
  case (2 enqueue now wt clocks limit w)
  obtain n w1 where P: "process_pending_notifications enqueue now wt limit w = (n, w1)"
    by (cases "process_pending_notifications enqueue now wt limit w")
  then have w1: "w1 = snd (process_notif_events enqueue wt (now - notif_stale_after) now
      (find_many (notif_due (now - notif_stale_after) now) ne_createdAt limit (notifEvents w)) w)"
    by (metis process_pending_notifications_def snd_conv)
  have "r \<in> set (notifEvents w1)"
    unfolding w1 using "2.prems" by (rule process_notif_events_terminal)
  moreover have "unique_by ne_id (notifEvents w1)"
    unfolding w1 process_notif_events_ids by (rule "2.prems"(1))
  ultimately show ?case
    using "2.IH" [OF P [symmetric] refl] "2.prems"(3) P by (simp add: case_prod_beta)
qed simp

text \<open>What a successful claim makes of the row it was read from.\<close>

definition notif_outcome ::
  "notif_enqueue \<Rightarrow> notif_queue \<Rightarrow> time \<Rightarrow> notif_event \<Rightarrow> notif_event" where
  "notif_outcome enqueue q wt ev =
     (let n = (if ne_status ev = NO_PROCESSING then ne_attempts ev else ne_attempts ev + 1)
      in fst (snd (dispatch_claimed enqueue wt n ev q))
           (ev\<lparr>ne_status := NO_PROCESSING, ne_attempts := n, ne_updatedAt := wt\<rparr>))"

lemma notif_due_guard:
  "notif_due cutoff now ev \<Longrightarrow> notif_guard \<lparr>nk_read = ne_status ev, nk_cutoff = cutoff, nk_now = now, nk_at = wt\<rparr> ev"
  by (auto simp: notif_due_def notif_guard_def)

lemma process_notif_event_outcome:
  assumes u: "unique_by ne_id (notifEvents w)" and ev: "ev \<in> set (notifEvents w)"
    and due: "notif_due cutoff now ev"
  shows "notifEvents (snd (process_notif_event enqueue wt cutoff now ev w)) =
         map (\<lambda>r. if ne_id r = ne_id ev then notif_outcome enqueue (notifJobs w) wt ev else r) (notifEvents w)"
proof -
  let ?c = "\<lparr>nk_read = ne_status ev, nk_cutoff = cutoff, nk_now = now, nk_at = wt\<rparr>"
  have claim: "claim_rows ne_id notif_guard notif_mark (ne_id ev) ?c (notifEvents w)
      = (1, map (\<lambda>r. if ne_id r = ne_id ev then notif_mark ?c ev else r) (notifEvents w))"
    by (rule notif_claims.claim_won [OF u ev notif_due_guard [OF due]])
  have mark: "notif_mark ?c ev = ev\<lparr>ne_status := NO_PROCESSING,
      ne_attempts := (if ne_status ev = NO_PROCESSING then ne_attempts ev else ne_attempts ev + 1),
      ne_updatedAt := wt\<rparr>"
    by (cases "ne_status ev = NO_PROCESSING") (simp_all add: notif_mark_def)
  show ?thesis
    by (simp add: process_notif_event_def claim mark notif_update_rows notif_outcome_def Let_def case_prod_beta)
qed

section \<open>Bounded attempts\<close>

text \<open>
  A waiting row has been tried fewer than eight times and no row more than eight times.
\<close>

definition notif_attempts_ok :: "notif_event \<Rightarrow> bool" where
  "notif_attempts_ok r \<longleftrightarrow>
     ne_attempts r \<le> notif_max_attempts
   \<and> (ne_status r \<in> {NO_PENDING, NO_FAILED} \<longrightarrow> ne_attempts r < notif_max_attempts)"

lemma notif_outcome_attempts_ok:
  "notif_due cutoff now ev \<Longrightarrow> notif_attempts_ok ev \<Longrightarrow> notif_attempts_ok (notif_outcome enqueue q wt ev)"
  by (auto simp: notif_outcome_def dispatch_claimed_def notif_attempts_ok_def notif_due_def
      resolve_failure_status_def Let_def split: option.splits sum.splits)

lemma process_notif_events_attempts_ok:
  "unique_by ne_id (notifEvents w) \<Longrightarrow> unique_by ne_id evs \<Longrightarrow> set evs \<subseteq> set (notifEvents w) \<Longrightarrow>
   \<forall>ev \<in> set evs. notif_due cutoff now ev \<Longrightarrow> \<forall>r \<in> set (notifEvents w). notif_attempts_ok r \<Longrightarrow>
   \<forall>r \<in> set (notifEvents (snd (process_notif_events enqueue wt cutoff now evs w))). notif_attempts_ok r"
proof (induction evs arbitrary: w)
  case (Cons ev evs)
  let ?w = "snd (process_notif_event enqueue wt cutoff now ev w)"
  have rows: "notifEvents ?w =
      map (\<lambda>r. if ne_id r = ne_id ev then notif_outcome enqueue (notifJobs w) wt ev else r) (notifEvents w)"
    using Cons.prems by (intro process_notif_event_outcome) auto
  have "set evs \<subseteq> set (notifEvents ?w)"
  proof
    fix e assume e: "e \<in> set evs"
    then have "ne_id e \<noteq> ne_id ev" using Cons.prems(2) by (auto simp: image_iff)
    with e Cons.prems(3) show "e \<in> set (notifEvents ?w)" by (intro process_notif_event_other) auto
  qed
  moreover have "\<forall>r \<in> set (notifEvents ?w). notif_attempts_ok r"
    unfolding rows using Cons.prems notif_outcome_attempts_ok by auto
  moreover have "unique_by ne_id (notifEvents ?w)"
    using Cons.prems(1) by (simp only: process_notif_event_ids)
  ultimately show ?case using Cons.IH [of ?w] Cons.prems by (simp add: case_prod_beta)
qed simp

lemma process_pending_attempts_ok:
  assumes "unique_by ne_id (notifEvents w)" "\<forall>r \<in> set (notifEvents w). notif_attempts_ok r"
  shows "\<forall>r \<in> set (notifEvents (snd (process_pending_notifications enqueue now wt limit w))). notif_attempts_ok r"
  unfolding process_pending_notifications_def Let_def
proof (rule process_notif_events_attempts_ok [OF assms(1) unique_find_many [OF assms(1)] _ _ assms(2)])
  let ?c = "find_many (notif_due (now - notif_stale_after) now) ne_createdAt limit (notifEvents w)"
  show "set ?c \<subseteq> set (notifEvents w)" "\<forall>ev \<in> set ?c. notif_due (now - notif_stale_after) now ev"
    using find_many_subset by fastforce+
qed

lemma drain_ticks_attempts_ok:
  "unique_by ne_id (notifEvents w) \<Longrightarrow> \<forall>r \<in> set (notifEvents w). notif_attempts_ok r \<Longrightarrow>
   \<forall>r \<in> set (notifEvents (snd (drain_ticks enqueue clocks limit w))). notif_attempts_ok r"
proof (induction enqueue clocks limit w rule: drain_ticks.induct)
  case (2 enqueue now wt clocks limit w)
  obtain n w1 where P: "process_pending_notifications enqueue now wt limit w = (n, w1)"
    by (cases "process_pending_notifications enqueue now wt limit w")
  then have "map ne_id (notifEvents w1) = map ne_id (notifEvents w)"
    by (metis process_pending_notifications_def process_notif_events_ids snd_conv)
  moreover have "\<forall>r \<in> set (notifEvents w1). notif_attempts_ok r"
    using process_pending_attempts_ok [OF "2.prems"] P by (metis snd_conv)
  ultimately show ?case
    using "2.IH" [OF P [symmetric] refl] "2.prems"(1) P by (simp add: case_prod_beta)
qed simp

section \<open>Writes are idempotent\<close>

lemma write_event_keys:
  "ne_dedupeKey ` set (notifEvents (write_event now et ev w)) =
   ne_dedupeKey ` set (notifEvents w) \<union> (if he_jobData ev = None then {} else {he_dedupeKey ev})"
  "in_dedupeKey ` set (inboxRows (write_event now et ev w)) =
   in_dedupeKey ` set (inboxRows w) \<union> (if he_inbox ev = None then {} else {he_dedupeKey ev})"
  by (auto simp: write_event_def create_skip_keys new_outbox_row_def Let_def image_iff split: option.splits)

lemma write_event_known:
  assumes "he_jobData ev \<noteq> None \<Longrightarrow> he_dedupeKey ev \<in> ne_dedupeKey ` set (notifEvents w)"
    and "he_inbox ev \<noteq> None \<Longrightarrow> he_dedupeKey ev \<in> in_dedupeKey ` set (inboxRows w)"
  shows "write_event now et ev w = w"
  using assms by (auto simp: write_event_def new_outbox_row_def Let_def split: option.splits)

lemma write_event_unique:
  "unique_by ne_dedupeKey (notifEvents w) \<Longrightarrow> unique_by ne_dedupeKey (notifEvents (write_event now et ev w))"
  by (auto simp: write_event_def Let_def intro!: create_skip_unique split: option.splits)

lemma fold_write_known:
  "\<forall>ev \<in> set evs. (he_jobData ev \<noteq> None \<longrightarrow> he_dedupeKey ev \<in> ne_dedupeKey ` set (notifEvents w))
                \<and> (he_inbox ev \<noteq> None \<longrightarrow> he_dedupeKey ev \<in> in_dedupeKey ` set (inboxRows w)) \<Longrightarrow>
   fold (write_event now et) evs w = w"
proof (induction evs)
  case (Cons ev evs)
  have "write_event now et ev w = w"
    using Cons.prems by (intro write_event_known) auto
  with Cons show ?case by simp
qed simp

lemma fold_write_keys:
  "ne_dedupeKey ` set (notifEvents (fold (write_event now et) evs w)) =
   ne_dedupeKey ` set (notifEvents w) \<union> he_dedupeKey ` {ev \<in> set evs. he_jobData ev \<noteq> None}"
  "in_dedupeKey ` set (inboxRows (fold (write_event now et) evs w)) =
   in_dedupeKey ` set (inboxRows w) \<union> he_dedupeKey ` {ev \<in> set evs. he_inbox ev \<noteq> None}"
  by (induction evs arbitrary: w) (auto simp: write_event_keys)

lemma fold_write_unique:
  "unique_by ne_dedupeKey (notifEvents w) \<Longrightarrow> unique_by ne_dedupeKey (notifEvents (fold (write_event now et) evs w))"
  by (induction evs arbitrary: w) (auto intro: write_event_unique)

lemma write_event_frame [simp]:
  "users (write_event now et ev w) = users w" "bankDetails (write_event now et ev w) = bankDetails w"
  "cars (write_event now et ev w) = cars w" "bookings (write_event now et ev w) = bookings w"
  "legs (write_event now et ev w) = legs w" "extensions (write_event now et ev w) = extensions w"
  "payments (write_event now et ev w) = payments w" "payouts (write_event now et ev w) = payouts w"
  "reviews (write_event now et ev w) = reviews w"
  "rewards (write_event now et ev w) = rewards w" "referralStats (write_event now et ev w) = referralStats w" "domainEvents (write_event now et ev w) = domainEvents w"
  "domainJobs (write_event now et ev w) = domainJobs w" "notifJobs (write_event now et ev w) = notifJobs w"
  "transferRequests (write_event now et ev w) = transferRequests w"
  "refundRequests (write_event now et ev w) = refundRequests w"
  "referralConfig (write_event now et ev w) = referralConfig w"
  "flights (write_event now et ev w) = flights w"
  "flightAlertJobs (write_event now et ev w) = flightAlertJobs w"
  "activationEvents (write_event now et ev w) = activationEvents w"
  by (simp_all add: write_event_def Let_def split: option.splits)

lemma create_notifications_snd:
  "snd (create_notifications now et evs w) = fold (write_event now et) evs w"
  by (simp add: create_notifications_def)

lemma create_notifications_frame [simp]:
  "users (snd (create_notifications now et evs w)) = users w"
  "bankDetails (snd (create_notifications now et evs w)) = bankDetails w"
  "cars (snd (create_notifications now et evs w)) = cars w"
  "bookings (snd (create_notifications now et evs w)) = bookings w"
  "legs (snd (create_notifications now et evs w)) = legs w"
  "extensions (snd (create_notifications now et evs w)) = extensions w"
  "payments (snd (create_notifications now et evs w)) = payments w"
  "payouts (snd (create_notifications now et evs w)) = payouts w"
  "reviews (snd (create_notifications now et evs w)) = reviews w"
  "rewards (snd (create_notifications now et evs w)) = rewards w" "referralStats (snd (create_notifications now et evs w)) = referralStats w"
  "domainEvents (snd (create_notifications now et evs w)) = domainEvents w"
  "domainJobs (snd (create_notifications now et evs w)) = domainJobs w"
  "notifJobs (snd (create_notifications now et evs w)) = notifJobs w"
  "transferRequests (snd (create_notifications now et evs w)) = transferRequests w"
  "refundRequests (snd (create_notifications now et evs w)) = refundRequests w"
  "referralConfig (snd (create_notifications now et evs w)) = referralConfig w"
  "flights (snd (create_notifications now et evs w)) = flights w"
  "flightAlertJobs (snd (create_notifications now et evs w)) = flightAlertJobs w"
  "activationEvents (snd (create_notifications now et evs w)) = activationEvents w"
  unfolding create_notifications_snd by (induction evs arbitrary: w) simp_all

lemma create_notifications_twice:
  "snd (create_notifications now' et evs (snd (create_notifications now et evs w)))
   = snd (create_notifications now et evs w)"
  unfolding create_notifications_snd by (rule fold_write_known) (auto simp: fold_write_keys)

section \<open>Envelopes read back\<close>

lemma build_payout_status_job_valid:
  "build_payout_status_job nc p = Some j \<Longrightarrow> pn_bookingId p \<noteq> [] \<Longrightarrow> u_id (pn_fleetOwner p) \<noteq> [] \<Longrightarrow> valid_job_data j"
  by (auto simp: build_payout_status_job_def valid_job_data_def valid_recipient_def Let_def split: if_splits)

lemma build_refund_status_job_valid:
  "build_refund_status_job nc r = Some j \<Longrightarrow> rn_bookingId r \<noteq> [] \<Longrightarrow> rf_userId (rn_customer r) \<noteq> Some [] \<Longrightarrow> valid_job_data j"
  by (auto simp: build_refund_status_job_def valid_job_data_def valid_recipient_def Let_def
      split: if_splits option.splits)

lemma build_status_change_job_valid:
  "build_booking_status_change_job nc now v old new rv = Some j \<Longrightarrow> b_id (bv_booking v) \<noteq> [] \<Longrightarrow>
   customer_user_id v \<noteq> Some [] \<Longrightarrow> valid_job_data j"
  by (auto simp: build_booking_status_change_job_def valid_job_data_def valid_recipient_def Let_def
      split: if_splits option.splits)

lemma build_flight_update_job_valid:
  assumes "build_flight_update_job nc v f = Some j" "b_id (bv_booking v) \<noteq> []" "fu_type f \<noteq> []"
    and "\<And>u. bv_owner v = Some u \<or> bv_chauffeur v = Some u \<Longrightarrow> u_id u \<noteq> []"
  shows "valid_job_data j"
proof -
  from assms(1) obtain r where r: "get_flight_update_recipient v (fu_recipientType f) = Some r"
    by (auto simp: build_flight_update_job_def split: option.splits)
  then have "fr_userId r \<noteq> []"
    using assms(4) by (auto simp: get_flight_update_recipient_def Let_def elim!: truthyE split: if_splits option.splits)
  with assms r show ?thesis
    by (auto simp: build_flight_update_job_def valid_job_data_def valid_recipient_def Let_def split: if_splits)
qed

lemma stored_job_parses:
  "he_subtype ev \<noteq> [] \<Longrightarrow> valid_job_data j \<Longrightarrow>
   parse_notification_job_data (ne_payload (new_outbox_row now et ev j)) = Some j"
  by (simp add: parse_notification_job_data_def new_outbox_row_def)

lemma airport_link_job_valid: "valid_job_data j \<Longrightarrow> valid_job_data (j\<lparr>j_airportCompletionLink := True\<rparr>)"
  by (simp add: valid_job_data_def)

lemma payout_status_event_valid:
  assumes "ev \<in> set (payout_status_changed_events nc p)" "he_jobData ev = Some j"
    and "pn_bookingId p \<noteq> []" "u_id (pn_fleetOwner p) \<noteq> []"
  shows "he_subtype ev \<noteq> [] \<and> valid_job_data j"
  using assms by (auto simp: payout_status_changed_events_def build_payout_status_job_valid split: option.splits)

lemma refund_status_event_valid:
  assumes "ev \<in> set (refund_status_changed_events nc r)" "he_jobData ev = Some j"
    and "rn_bookingId r \<noteq> []" "rf_userId (rn_customer r) \<noteq> Some []"
  shows "he_subtype ev \<noteq> [] \<and> valid_job_data j"
  using assms by (auto simp: refund_status_changed_events_def build_refund_status_job_valid split: option.splits)

lemma booking_status_event_valid:
  assumes ev: "ev \<in> set (booking_status_changed_events nc now s)" "he_jobData ev = Some j"
    and ids: "b_id (bv_booking (sc_view s)) \<noteq> []" "customer_user_id (sc_view s) \<noteq> Some []"
      "\<And>u. bv_owner (sc_view s) = Some u \<or> bv_chauffeur (sc_view s) = Some u \<Longrightarrow> u_id u \<noteq> []"
  shows "he_subtype ev \<noteq> [] \<and> valid_job_data j"
proof -
  have "valid_job_data j"
    if "build_booking_status_change_job nc now (sc_view s) (sc_oldStatus s) (sc_newStatus s) (sc_showReviewRequest s) = Some j"
    using build_status_change_job_valid [OF that ids(1,2)] .
  moreover have "valid_job_data j'" if "build_flight_update_job nc (sc_view s) f = Some j'" "fu_type f = ''flight-assignment-snapshot''" for f j'
    using build_flight_update_job_valid [OF that(1) ids(1)] that(2) ids(3) by simp
  ultimately show ?thesis
    using ev unfolding booking_status_changed_events_def Let_def
    by (auto split: if_splits option.splits intro!: airport_link_job_valid)
qed

section \<open>Properties\<close>

text \<open>
  Of any number of dispatchers that try to claim the same outbox row, in any order,
  at most one succeeds, provided no dispatcher's stale cutoff has yet passed the others' writes.
\<close>

theorem one_dispatcher_claims_notification:
  assumes "unique_by ne_id (notifEvents w)"
    and "sorted_wrt (\<lambda>c d. nk_cutoff d < nk_at c) cs"
  shows "claim_wins ne_id notif_guard notif_mark i cs (notifEvents w) \<le> 1"
  using assms by (rule notif_claims.one_winner)

definition demo_notif_row :: notif_event where
  "demo_notif_row = \<lparr>ne_id = ''n1'', ne_userId = None, ne_eventType = NE_BOOKING_LIFECYCLE, ne_status = NO_PENDING,
     ne_dedupeKey = ''k1'', ne_bookingId = ''b1'', ne_payload = NotAnObject, ne_attempts = 0,
     ne_nextAttemptAt = 0, ne_lastError = None, ne_processedAt = None, ne_createdAt = 0, ne_updatedAt = 0\<rparr>"

definition demo_notif_claim :: "time \<Rightarrow> notif_claim" where
  "demo_notif_claim t = \<lparr>nk_read = NO_PENDING, nk_cutoff = t - 120000, nk_now = t, nk_at = t\<rparr>"

theorem one_dispatcher_claims_notification_witness:
  "claim_wins ne_id notif_guard notif_mark ''n1'' [demo_notif_claim 1000, demo_notif_claim 1500]
     (notifEvents (empty_world\<lparr>notifEvents := [demo_notif_row]\<rparr>)) \<le> 1"
  by (rule one_dispatcher_claims_notification) (simp_all add: demo_notif_claim_def)

text \<open>
  Property C26: a cron firing never touches a row that is already dispatched or dead-lettered,
  and no row is attempted more than eight times, a row still waiting fewer than eight.
\<close>

theorem drain_respects_outbox:
  assumes "unique_by ne_id (notifEvents w)"
    and "\<forall>r \<in> set (notifEvents w). notif_attempts_ok r"
  shows "(\<forall>r \<in> set (notifEvents w). notif_terminal r \<longrightarrow>
             r \<in> set (notifEvents (snd (process_notification_outbox enqueue clocks w))))
       \<and> (\<forall>r \<in> set (notifEvents (snd (process_notification_outbox enqueue clocks w))). notif_attempts_ok r)"
  unfolding process_notification_outbox_def
  using drain_ticks_terminal [OF assms(1)] drain_ticks_attempts_ok [OF assms] by blast

theorem drain_respects_outbox_witness:
  "let w' = snd (process_notification_outbox (\<lambda>k j q. Inl ''down'') [(1, 1)] (empty_world\<lparr>notifEvents := [demo_notif_row]\<rparr>))
   in filter notif_attempts_ok (notifEvents w') = notifEvents w'"
  unfolding Let_def filter_id_conv
  by (rule drain_respects_outbox [THEN conjunct2])
     (simp_all add: demo_notif_row_def notif_attempts_ok_def notif_max_attempts_def)

text \<open>
  Property C27: writing the same handler events a second time, at any later instant, changes
  nothing, and dedupe keys stay unique.
\<close>

theorem notifications_written_once:
  "snd (create_notifications now' et evs (snd (create_notifications now et evs w)))
     = snd (create_notifications now et evs w)
   \<and> (unique_by ne_dedupeKey (notifEvents w) \<longrightarrow>
      unique_by ne_dedupeKey (notifEvents (snd (create_notifications now et evs w))))"
  by (intro conjI impI create_notifications_twice) (simp add: create_notifications_snd fold_write_unique)

theorem notifications_written_once_witness:
  "unique_by ne_dedupeKey (notifEvents (snd (create_notifications 0 NE_BOOKING_LIFECYCLE
      [\<lparr>he_jobData = None, he_inbox = None, he_dedupeKey = ''k'', he_userId = None, he_subtype = ''s''\<rparr>]
      (empty_world\<lparr>notifEvents := [demo_notif_row]\<rparr>))))"
  using notifications_written_once [of 0 NE_BOOKING_LIFECYCLE
      "[\<lparr>he_jobData = None, he_inbox = None, he_dedupeKey = ''k'', he_userId = None, he_subtype = ''s''\<rparr>]"
      0 "empty_world\<lparr>notifEvents := [demo_notif_row]\<rparr>"] by simp


definition demo_payout_notice :: payout_notice where
  "demo_payout_notice = \<lparr>pn_payoutTransactionId = ''po1'', pn_bookingId = ''b1'', pn_bookingReference = ''BK-1'',
     pn_status = PAYOUT_FAILED, pn_amount = 700, pn_failureReason = Some ''declined'', pn_fleetOwner = demo_owner\<rparr>"

definition demo_refund_notice :: refund_notice where
  "demo_refund_notice = \<lparr>rn_refundId = ''9'', rn_paymentId = ''p1'', rn_bookingId = ''b1'', rn_bookingReference = ''BK-1'',
     rn_status = RN_REFUNDED, rn_amount = 1000, rn_failureReason = None,
     rn_customer = \<lparr>rf_userId = Some ''u1'', rf_name = None, rf_email = Some ''user@x.com'', rf_phoneNumber = None\<rparr>\<rparr>"

definition demo_status_change :: status_change where
  "demo_status_change = \<lparr>sc_view = demo_view, sc_oldStatus = ''ACTIVE'', sc_newStatus = ''COMPLETED'',
     sc_showReviewRequest = True, sc_includeChauffeurCompletionLink = False\<rparr>"


end
