(* ===== verification/DomainOutbox.thy ===== *)
theory DomainOutbox
  imports Schema Claims Samples NotificationOutbox
begin

text \<open>
  The domain outbox (domain-outbox.service.ts and domain-outbox.processor.ts): typed commands
  written in the booking-completion transaction, claimed by a dispatcher, handed to BullMQ and
  completed or failed by a worker that is fenced by the dispatch attempt it carries.  The queue
  (enqueue) and the two commands the worker runs are parameters here; the root theory
  puts the modelled payout command in.
\<close>

type_synonym domain_enqueue = "domain_job \<Rightarrow> domain_job list \<Rightarrow> string + domain_job list"

definition domain_max_attempts :: nat where "domain_max_attempts = 8"
definition domain_processing_stale_after :: time where "domain_processing_stale_after = minutes_ms 2"
definition domain_dispatch_stale_after :: time where "domain_dispatch_stale_after = minutes_ms 30"

primrec domain_event_type_string :: "domain_event_type \<Rightarrow> string" where
  "domain_event_type_string REFERRAL_COMPLETION = ''REFERRAL_COMPLETION''"
| "domain_event_type_string PAYOUT_PROCESSING = ''PAYOUT_PROCESSING''"

definition domain_dedupe_key :: "domain_event_type \<Rightarrow> ident \<Rightarrow> string" where
  "domain_dedupe_key et i = domain_event_type_string et @ '':'' @ i"

section \<open>Writing commands\<close>

definition new_domain_event :: "time \<Rightarrow> domain_event_type \<times> ident \<Rightarrow> domain_event" where
  "new_domain_event now x =
     \<lparr>de_id = ''de:'' @ domain_dedupe_key (fst x) (snd x), de_eventType = fst x, de_status = DO_PENDING,
      de_aggregateId = snd x, de_dedupeKey = domain_dedupe_key (fst x) (snd x), de_attempts = 0,
      de_nextAttemptAt = now, de_lastError = None, de_processedAt = None, de_createdAt = now,
      de_updatedAt = now\<rparr>"

definition create_domain_events :: "time \<Rightarrow> (domain_event_type \<times> ident) list \<Rightarrow> world \<Rightarrow> nat \<times> world" where
  "create_domain_events now events w =
     (if events = [] then (0, w)
      else let (n, t) = create_skip de_dedupeKey (map (new_domain_event now) events) (domainEvents w)
           in (n, w\<lparr>domainEvents := t\<rparr>))"

section \<open>Dispatching\<close>

definition domain_due :: "time \<Rightarrow> time \<Rightarrow> domain_event \<Rightarrow> bool" where
  "domain_due cutoff now r \<longleftrightarrow>
     (de_status r \<in> {DO_PENDING, DO_FAILED} \<and> de_nextAttemptAt r \<le> now)
   \<or> (de_status r = DO_PROCESSING \<and> de_updatedAt r \<le> cutoff)
   \<or> (de_status r = DO_DISPATCHED \<and> de_nextAttemptAt r \<le> now)"

record domain_claim =
  dk_read :: domain_status
  dk_cutoff :: time
  dk_now :: time
  dk_at :: time

definition domain_guard :: "domain_claim \<Rightarrow> domain_event \<Rightarrow> bool" where
  "domain_guard c r \<longleftrightarrow>
     (if dk_read c = DO_PROCESSING then de_status r = DO_PROCESSING \<and> de_updatedAt r \<le> dk_cutoff c
      else if dk_read c = DO_DISPATCHED then de_status r = DO_DISPATCHED \<and> de_nextAttemptAt r \<le> dk_now c
      else de_status r \<in> {DO_PENDING, DO_FAILED} \<and> de_nextAttemptAt r \<le> dk_now c)"

definition domain_mark :: "domain_claim \<Rightarrow> domain_event \<Rightarrow> domain_event" where
  "domain_mark c r = r\<lparr>de_status := DO_PROCESSING, de_attempts := de_attempts r + 1, de_updatedAt := dk_at c\<rparr>"

definition claim_domain_event :: "ident \<Rightarrow> domain_claim \<Rightarrow> world \<Rightarrow> nat \<times> world" where
  "claim_domain_event i c w =
     (let (n, t) = claim_rows de_id domain_guard domain_mark i c (domainEvents w)
      in (n, w\<lparr>domainEvents := t\<rparr>))"

definition dispatch_job :: "domain_event \<Rightarrow> nat \<Rightarrow> domain_job" where
  "dispatch_job ev dispatchAttempt =
     \<lparr>dj_jobId = ''domain-outbox-'' @ de_id ev @ ''-'' @ nat_digits dispatchAttempt,
      dj_outboxEventId = de_id ev, dj_eventType = de_eventType ev, dj_aggregateId = de_aggregateId ev,
      dj_dispatchAttempt = dispatchAttempt\<rparr>"

definition mark_dispatched :: "time \<Rightarrow> time \<Rightarrow> ident \<Rightarrow> world \<Rightarrow> world" where
  "mark_dispatched wt now i w =
     w\<lparr>domainEvents := snd (update_many (\<lambda>r. de_id r = i \<and> de_status r = DO_PROCESSING)
         (\<lambda>r. r\<lparr>de_status := DO_DISPATCHED, de_nextAttemptAt := now + domain_dispatch_stale_after,
                de_processedAt := None, de_lastError := None, de_updatedAt := wt\<rparr>)
         (domainEvents w))\<rparr>"

definition domain_next_attempt_at :: "time \<Rightarrow> nat \<Rightarrow> time" where
  "domain_next_attempt_at wt attempt = wt + min (10 * 2 ^ (attempt - 1)) (15 * 60) * 1000"

definition mark_failed :: "time \<Rightarrow> ident \<Rightarrow> nat \<Rightarrow> string \<Rightarrow> bool \<Rightarrow> world \<Rightarrow> world" where
  "mark_failed wt i dispatchAttempt errorMessage terminal w =
     (let status = (if terminal \<or> domain_max_attempts \<le> dispatchAttempt then DO_DEAD_LETTER else DO_FAILED)
      in w\<lparr>domainEvents := snd (update_many
             (\<lambda>r. de_id r = i \<and> de_attempts r = dispatchAttempt \<and> de_status r \<in> {DO_PROCESSING, DO_DISPATCHED})
             (\<lambda>r. r\<lparr>de_status := status, de_nextAttemptAt := domain_next_attempt_at wt dispatchAttempt,
                    de_lastError := Some (take 500 errorMessage),
                    de_processedAt := (if status = DO_DEAD_LETTER then Some wt else None),
                    de_updatedAt := wt\<rparr>)
             (domainEvents w))\<rparr>)"

definition mark_completed :: "time \<Rightarrow> ident \<Rightarrow> nat \<Rightarrow> world \<Rightarrow> world" where
  "mark_completed wt i dispatchAttempt w =
     w\<lparr>domainEvents := snd (update_many
         (\<lambda>r. de_id r = i \<and> de_attempts r = dispatchAttempt \<and> de_status r \<in> {DO_PROCESSING, DO_DISPATCHED})
         (\<lambda>r. r\<lparr>de_status := DO_COMPLETED, de_processedAt := Some wt, de_lastError := None, de_updatedAt := wt\<rparr>)
         (domainEvents w))\<rparr>"

definition process_domain_event ::
  "domain_enqueue \<Rightarrow> time \<Rightarrow> time \<Rightarrow> time \<Rightarrow> domain_event \<Rightarrow> world \<Rightarrow> nat \<times> world" where
  "process_domain_event enqueue wt cutoff now ev w =
     (let c = \<lparr>dk_read = de_status ev, dk_cutoff = cutoff, dk_now = now, dk_at = wt\<rparr>;
          (count, w1) = claim_domain_event (de_id ev) c w
      in if count = 0 then (0, w1)
         else let currentAttempt = de_attempts ev + 1
              in case enqueue (dispatch_job ev currentAttempt) (domainJobs w1) of
                   Inr q \<Rightarrow> (1, mark_dispatched wt now (de_id ev) (w1\<lparr>domainJobs := q\<rparr>))
                 | Inl msg \<Rightarrow> (0, mark_failed wt (de_id ev) currentAttempt msg False w1))"

fun process_domain_events ::
  "domain_enqueue \<Rightarrow> time \<Rightarrow> time \<Rightarrow> time \<Rightarrow> domain_event list \<Rightarrow> world \<Rightarrow> nat \<times> world" where
  "process_domain_events enqueue wt cutoff now [] w = (0, w)"
| "process_domain_events enqueue wt cutoff now (ev # evs) w =
     (let (n, w1) = process_domain_event enqueue wt cutoff now ev w;
          (m, w2) = process_domain_events enqueue wt cutoff now evs w1
      in (n + m, w2))"

text \<open>orderBy nextAttemptAt, then createdAt: a lexicographic pair as the sort key.\<close>

definition domain_order :: "domain_event list \<Rightarrow> domain_event list" where
  "domain_order t = sort_key de_nextAttemptAt (sort_key de_createdAt t)"

definition process_pending_domain_events ::
  "domain_enqueue \<Rightarrow> time \<Rightarrow> time \<Rightarrow> nat \<Rightarrow> world \<Rightarrow> nat \<times> world" where
  "process_pending_domain_events enqueue now wt limit w =
     (let cutoff = now - domain_processing_stale_after;
          candidates = take limit (domain_order (filter (domain_due cutoff now) (domainEvents w)))
      in process_domain_events enqueue wt cutoff now candidates w)"

section \<open>The worker\<close>

definition resolve_executable_event :: "domain_job \<Rightarrow> world \<Rightarrow> domain_event option" where
  "resolve_executable_event data w =
     (case find_row (\<lambda>r. de_id r = dj_outboxEventId data) (domainEvents w) of
        None \<Rightarrow> None
      | Some ev \<Rightarrow>
          (if de_eventType ev \<noteq> dj_eventType data \<or> de_aggregateId ev \<noteq> dj_aggregateId data
              \<or> de_attempts ev \<noteq> dj_dispatchAttempt data
              \<or> (de_status ev \<noteq> DO_DISPATCHED \<and> de_status ev \<noteq> DO_PROCESSING)
           then None else Some ev))"

text \<open>
  Errors of a command: the two payout errors that no retry can cure, and everything else.
\<close>

datatype command_error =
    CmdBookingNotFound string
  | CmdBookingNotCompleted string
  | CmdOther string

primrec command_error_message :: "command_error \<Rightarrow> string" where
  "command_error_message (CmdBookingNotFound m) = m"
| "command_error_message (CmdBookingNotCompleted m) = m"
| "command_error_message (CmdOther m) = m"

primrec command_error_terminal :: "command_error \<Rightarrow> bool" where
  "command_error_terminal (CmdBookingNotFound m) = True"
| "command_error_terminal (CmdBookingNotCompleted m) = True"
| "command_error_terminal (CmdOther m) = False"

type_synonym command = "ident \<Rightarrow> world \<Rightarrow> (command_error + unit) \<times> world"

definition is_final_attempt :: "nat \<Rightarrow> nat option \<Rightarrow> bool" where
  "is_final_attempt attemptsMade optAttempts \<longleftrightarrow> the (coalesce optAttempts (Some 1)) \<le> attemptsMade + 1"

text \<open>
  The job handler: Inl is the error it rethrows to BullMQ, which retries the job.
\<close>

definition process_domain_job ::
  "command \<Rightarrow> command \<Rightarrow> time \<Rightarrow> domain_job \<Rightarrow> nat \<Rightarrow> nat option \<Rightarrow> world \<Rightarrow> (command_error + unit) \<times> world" where
  "process_domain_job referral payout wt job attemptsMade optAttempts w =
     (case resolve_executable_event job w of
        None \<Rightarrow> (Inr (), w)
      | Some ev \<Rightarrow>
          (let (r, w1) = (case de_eventType ev of
                            REFERRAL_COMPLETION \<Rightarrow> referral (de_aggregateId ev) w
                          | PAYOUT_PROCESSING \<Rightarrow> payout (de_aggregateId ev) w)
           in case r of
                Inr _ \<Rightarrow> (Inr (), mark_completed wt (dj_outboxEventId job) (dj_dispatchAttempt job) w1)
              | Inl e \<Rightarrow>
                  (if command_error_terminal e
                   then (Inr (), mark_failed wt (dj_outboxEventId job) (dj_dispatchAttempt job) (command_error_message e) True w1)
                   else if is_final_attempt attemptsMade optAttempts
                   then (Inl e, mark_failed wt (dj_outboxEventId job) (dj_dispatchAttempt job) (command_error_message e) False w1)
                   else (Inl e, w1))))"

section \<open>The table as a state machine\<close>

text \<open>
  The atomic writes any process may make to the table, at any time and with any snapshot of an
  event however stale; every other write of the service leaves the table alone.
\<close>

inductive domain_step :: "world \<Rightarrow> world \<Rightarrow> bool" where
  d_create: "domain_step w (snd (create_domain_events now evs w))"
| d_claim: "domain_step w (snd (claim_domain_event i c w))"
| d_dispatched: "domain_step w (mark_dispatched wt now i w)"
| d_completed: "domain_step w (mark_completed wt i n w)"
| d_failed: "domain_step w (mark_failed wt i n msg terminal w)"
| d_other: "domainEvents w' = domainEvents w \<Longrightarrow> domain_step w w'"

inductive_cases domain_stepE: "domain_step w w'"

definition domain_final :: "domain_event \<Rightarrow> bool" where
  "domain_final r \<longleftrightarrow> de_status r \<in> {DO_COMPLETED, DO_DEAD_LETTER}"

text \<open>How a row may change: its identity is fixed, attempts only grow, a final row is frozen.\<close>

definition evolves :: "domain_event \<Rightarrow> domain_event \<Rightarrow> bool" where
  "evolves r r' \<longleftrightarrow>
     de_id r' = de_id r \<and> de_eventType r' = de_eventType r \<and> de_aggregateId r' = de_aggregateId r
   \<and> de_dedupeKey r' = de_dedupeKey r \<and> de_createdAt r' = de_createdAt r
   \<and> de_attempts r \<le> de_attempts r' \<and> (domain_final r \<longrightarrow> r' = r)"

lemma evolves_refl [simp]: "evolves r r"
  by (simp add: evolves_def)

lemma evolves_trans: "evolves a b \<Longrightarrow> evolves b c \<Longrightarrow> evolves a c"
  unfolding evolves_def by (metis order_trans)

lemma evolves_update_many:
  "(\<And>r. P r \<Longrightarrow> evolves r (f r)) \<Longrightarrow>
   \<exists>g new. snd (update_many P f t) = map g t @ new \<and> (\<forall>r. evolves r (g r))"
  by (rule exI [of _ "\<lambda>r. if P r then f r else r"], rule exI [of _ "[]"]) (simp add: snd_update_many)

lemma select_domainEvents: "domainEvents (w\<lparr>domainEvents := t\<rparr>) = t"
  by simp

lemma domain_step_rows:
  assumes "domain_step w w'"
  shows "\<exists>g new. domainEvents w' = map g (domainEvents w) @ new \<and> (\<forall>r. evolves r (g r))"
  using assms
proof cases
  case (d_create now evs)
  obtain new where n: "snd (create_skip de_dedupeKey (map (new_domain_event now) evs) (domainEvents w)) = domainEvents w @ new"
    using create_skip_prefix [of de_dedupeKey "map (new_domain_event now) evs" "domainEvents w"] by auto
  show ?thesis
  proof (intro exI conjI)
    show "domainEvents w' = map (\<lambda>r. r) (domainEvents w) @ (if evs = [] then [] else new)"
      using n by (simp add: d_create create_domain_events_def case_prod_beta)
  qed simp
next
  case (d_claim i c)
  have "domainEvents w' = snd (update_many (\<lambda>r. de_id r = i \<and> domain_guard c r) (domain_mark c) (domainEvents w))"
    by (simp add: d_claim claim_domain_event_def case_prod_beta claim_rows_def)
  then show ?thesis
    by (simp only:) (rule evolves_update_many,
      auto simp: evolves_def domain_mark_def domain_guard_def domain_final_def split: if_splits)
next
  case (d_dispatched wt now i)
  show ?thesis unfolding d_dispatched mark_dispatched_def select_domainEvents
    by (rule evolves_update_many) (auto simp: evolves_def domain_final_def)
next
  case (d_completed wt i n)
  show ?thesis unfolding d_completed mark_completed_def select_domainEvents
    by (rule evolves_update_many) (auto simp: evolves_def domain_final_def)
next
  case (d_failed wt i n msg terminal)
  show ?thesis unfolding d_failed mark_failed_def Let_def select_domainEvents
    by (rule evolves_update_many) (auto simp: evolves_def domain_final_def)
next
  case d_other
  show ?thesis
  proof (intro exI conjI)
    show "domainEvents w' = map (\<lambda>r. r) (domainEvents w) @ []" using d_other by simp
  qed simp
qed

lemma domain_steps_evolve:
  "domain_step\<^sup>*\<^sup>* w w' \<Longrightarrow> r \<in> set (domainEvents w) \<Longrightarrow> \<exists>r' \<in> set (domainEvents w'). evolves r r'"
proof (induction rule: rtranclp_induct)
  case base
  then show ?case by (auto intro: bexI [of _ r])
next
  case (step y z)
  then obtain r1 where r1: "r1 \<in> set (domainEvents y)" "evolves r r1" by blast
  from domain_step_rows [OF step.hyps(2)] obtain g new
    where "domainEvents z = map g (domainEvents y) @ new" "\<forall>r. evolves r (g r)" by blast
  then show ?case using r1 evolves_trans by (intro bexI [of _ "g r1"]) auto
qed

text \<open>The id and dedupe key of a row are functions of its type and aggregate: unique throughout.\<close>

lemma domain_step_unique:
  assumes "domain_step w w'" "unique_by de_dedupeKey (domainEvents w)"
  shows "unique_by de_dedupeKey (domainEvents w')"
  using assms
proof cases
  case (d_create now evs)
  then show ?thesis
    using assms(2) create_skip_unique
    by (auto simp: create_domain_events_def case_prod_beta)
next
  case (d_claim i c)
  then show ?thesis
    using assms(2)
    by (auto simp: claim_domain_event_def case_prod_beta claim_rows_def intro!: unique_update_many)
       (simp add: domain_mark_def)
qed (use assms(2) in \<open>auto simp: mark_dispatched_def mark_completed_def mark_failed_def Let_def intro!: unique_update_many\<close>)

lemma domain_steps_unique:
  "domain_step\<^sup>*\<^sup>* w w' \<Longrightarrow> unique_by de_dedupeKey (domainEvents w) \<Longrightarrow> unique_by de_dedupeKey (domainEvents w')"
  by (induction rule: rtranclp_induct) (auto intro: domain_step_unique)

section \<open>The dispatcher and the worker are runs of the machine\<close>

lemma process_domain_event_steps: "domain_step\<^sup>*\<^sup>* w (snd (process_domain_event enqueue wt cutoff now ev w))"
proof -
  let ?c = "\<lparr>dk_read = de_status ev, dk_cutoff = cutoff, dk_now = now, dk_at = wt\<rparr>"
  obtain n w1 where c: "claim_domain_event (de_id ev) ?c w = (n, w1)" by fastforce
  have s1: "domain_step w w1" using d_claim [of w "de_id ev" ?c] c by simp
  show ?thesis
  proof (cases "n = 0")
    case True
    then show ?thesis using c s1 by (simp add: process_domain_event_def)
  next
    case False
    show ?thesis
    proof (cases "enqueue (dispatch_job ev (de_attempts ev + 1)) (domainJobs w1)")
      case (Inl msg)
      then show ?thesis
        using False c rtranclp.rtrancl_into_rtrancl [OF r_into_rtranclp [of domain_step, OF s1] d_failed]
        by (simp add: process_domain_event_def Let_def)
    next
      case (Inr q)
      have s2: "domain_step w1 (w1\<lparr>domainJobs := q\<rparr>)" by (rule d_other) simp
      have "domain_step\<^sup>*\<^sup>* w (mark_dispatched wt now (de_id ev) (w1\<lparr>domainJobs := q\<rparr>))"
        by (rule rtranclp.rtrancl_into_rtrancl [OF rtranclp.rtrancl_into_rtrancl [OF r_into_rtranclp [of domain_step, OF s1] s2] d_dispatched])
      then show ?thesis using False c Inr by (simp add: process_domain_event_def Let_def)
    qed
  qed
qed

lemma process_domain_events_steps:
  "domain_step\<^sup>*\<^sup>* w (snd (process_domain_events enqueue wt cutoff now evs w))"
proof (induction evs arbitrary: w)
  case (Cons ev evs)
  show ?case
    using rtranclp_trans [OF process_domain_event_steps Cons.IH] by (simp add: case_prod_beta)
qed simp

lemma process_pending_domain_steps:
  "domain_step\<^sup>*\<^sup>* w (snd (process_pending_domain_events enqueue now wt limit w))"
  by (simp add: process_pending_domain_events_def Let_def process_domain_events_steps)

lemma process_domain_job_steps:
  assumes "\<And>i v. domain_step\<^sup>*\<^sup>* v (snd (referral i v))" "\<And>i v. domain_step\<^sup>*\<^sup>* v (snd (payout i v))"
  shows "domain_step\<^sup>*\<^sup>* w (snd (process_domain_job referral payout wt job made opts w))"
proof (cases "resolve_executable_event job w")
  case None
  then show ?thesis by (simp add: process_domain_job_def)
next
  case (Some ev)
  let ?r = "case de_eventType ev of REFERRAL_COMPLETION \<Rightarrow> referral (de_aggregateId ev) w
              | PAYOUT_PROCESSING \<Rightarrow> payout (de_aggregateId ev) w"
  obtain res w1 where r: "?r = (res, w1)" by fastforce
  have s: "domain_step\<^sup>*\<^sup>* w w1"
    using r assms(1) [of w "de_aggregateId ev"] assms(2) [of w "de_aggregateId ev"]
    by (cases "de_eventType ev") simp_all
  note steps = s rtranclp.rtrancl_into_rtrancl [OF s d_completed] rtranclp.rtrancl_into_rtrancl [OF s d_failed]
  show ?thesis
  proof (cases res)
    case (Inl e)
    then show ?thesis using steps by (simp add: process_domain_job_def Some r)
  next
    case (Inr u)
    then show ?thesis using steps by (simp add: process_domain_job_def Some r)
  qed
qed

section \<open>A dispatcher tick\<close>

interpretation domain_claims:
  claim_protocol de_id domain_guard domain_mark "\<lambda>c d. dk_cutoff d < dk_at c"
  by unfold_locales (auto simp: domain_mark_def domain_guard_def split: if_splits)

definition dispatched_row :: "time \<Rightarrow> time \<Rightarrow> domain_event \<Rightarrow> domain_event" where
  "dispatched_row now wt r =
     r\<lparr>de_status := DO_DISPATCHED, de_attempts := de_attempts r + 1,
       de_nextAttemptAt := now + domain_dispatch_stale_after, de_processedAt := None,
       de_lastError := None, de_updatedAt := wt\<rparr>"

lemma domain_due_guard:
  "domain_due cutoff now ev \<Longrightarrow> domain_guard \<lparr>dk_read = de_status ev, dk_cutoff = cutoff, dk_now = now, dk_at = wt\<rparr> ev"
  by (auto simp: domain_due_def domain_guard_def)

lemma process_domain_event_dispatches:
  assumes u: "unique_by de_id (domainEvents w)" and ev: "ev \<in> set (domainEvents w)"
    and due: "domain_due cutoff now ev"
    and ok: "enqueue (dispatch_job ev (de_attempts ev + 1)) (domainJobs w) = Inr q"
  shows "fst (process_domain_event enqueue wt cutoff now ev w) = 1"
    and "domainEvents (snd (process_domain_event enqueue wt cutoff now ev w)) =
         map (\<lambda>r. if de_id r = de_id ev then dispatched_row now wt ev else r) (domainEvents w)"
proof -
  let ?c = "\<lparr>dk_read = de_status ev, dk_cutoff = cutoff, dk_now = now, dk_at = wt\<rparr>"
  have claim: "claim_rows de_id domain_guard domain_mark (de_id ev) ?c (domainEvents w)
      = (1, map (\<lambda>r. if de_id r = de_id ev then domain_mark ?c ev else r) (domainEvents w))"
    by (rule domain_claims.claim_won [OF u ev domain_due_guard [OF due]])
  show "fst (process_domain_event enqueue wt cutoff now ev w) = 1"
    using ok by (simp add: process_domain_event_def claim_domain_event_def claim Let_def)
  show "domainEvents (snd (process_domain_event enqueue wt cutoff now ev w)) =
         map (\<lambda>r. if de_id r = de_id ev then dispatched_row now wt ev else r) (domainEvents w)"
    using ok by (simp add: process_domain_event_def claim_domain_event_def claim Let_def mark_dispatched_def
        snd_update_many domain_mark_def dispatched_row_def)
qed

lemma process_domain_events_dispatch:
  assumes ok: "\<And>j q. \<exists>q'. enqueue j q = Inr q'"
  shows "unique_by de_id (domainEvents w) \<Longrightarrow> unique_by de_id evs \<Longrightarrow> set evs \<subseteq> set (domainEvents w) \<Longrightarrow>
    \<forall>ev \<in> set evs. domain_due cutoff now ev \<Longrightarrow>
    fst (process_domain_events enqueue wt cutoff now evs w) = length evs
    \<and> domainEvents (snd (process_domain_events enqueue wt cutoff now evs w)) =
       map (\<lambda>r. if de_id r \<in> de_id ` set evs then dispatched_row now wt r else r) (domainEvents w)"
proof (induction evs arbitrary: w)
  case (Cons ev evs)
  let ?p = "process_domain_event enqueue wt cutoff now ev w"
  let ?w = "snd ?p"
  have ev: "ev \<in> set (domainEvents w)" "domain_due cutoff now ev" using Cons.prems by auto
  obtain q where "enqueue (dispatch_job ev (de_attempts ev + 1)) (domainJobs w) = Inr q" using ok by blast
  note step = process_domain_event_dispatches [where enqueue = enqueue and wt = wt, OF Cons.prems(1) ev this]
  have new: "ev \<noteq> e \<and> de_id e \<noteq> de_id ev" if "e \<in> set evs" for e
    using that Cons.prems(2) by (auto simp: image_iff)
  have "unique_by de_id (domainEvents ?w)"
  proof -
    have "map de_id (domainEvents ?w) = map de_id (domainEvents w)"
      unfolding step(2) by (simp add: dispatched_row_def)
    then show ?thesis using Cons.prems(1) by simp
  qed
  moreover have "set evs \<subseteq> set (domainEvents ?w)"
    unfolding step(2) using Cons.prems(3) new by force
  ultimately have IH: "fst (process_domain_events enqueue wt cutoff now evs ?w) = length evs"
    "domainEvents (snd (process_domain_events enqueue wt cutoff now evs ?w)) =
       map (\<lambda>r. if de_id r \<in> de_id ` set evs then dispatched_row now wt r else r) (domainEvents ?w)"
    using Cons.IH [of ?w] Cons.prems by auto
  have row: "(if de_id (if de_id r = de_id ev then dispatched_row now wt ev else r) \<in> de_id ` set evs
       then dispatched_row now wt (if de_id r = de_id ev then dispatched_row now wt ev else r)
       else if de_id r = de_id ev then dispatched_row now wt ev else r)
      = (if de_id r \<in> de_id ` set (ev # evs) then dispatched_row now wt r else r)"
    if "r \<in> set (domainEvents w)" for r
  proof (cases "de_id r = de_id ev")
    case True
    then have "r = ev" using unique_by_same [OF Cons.prems(1) that ev(1)] by simp
    moreover have "de_id (dispatched_row now wt ev) \<notin> de_id ` set evs"
    proof
      assume "de_id (dispatched_row now wt ev) \<in> de_id ` set evs"
      then obtain e where "e \<in> set evs" "de_id e = de_id ev" by (auto simp: dispatched_row_def)
      with new show False by blast
    qed
    ultimately show ?thesis by simp
  qed simp
  have "domainEvents (snd (process_domain_events enqueue wt cutoff now evs ?w)) =
      map (\<lambda>r. if de_id r \<in> de_id ` set (ev # evs) then dispatched_row now wt r else r) (domainEvents w)"
    unfolding IH(2) step(2) map_map o_def by (rule map_cong [OF refl]) (rule row)
  then show ?case using IH(1) step(1) by (simp add: case_prod_beta)
qed simp

lemma domain_order_set [simp]: "set (domain_order t) = set t" "length (domain_order t) = length t"
  by (simp_all add: domain_order_def)

lemma domain_order_unique: "unique_by de_id t \<Longrightarrow> unique_by de_id (domain_order t)"
  by (simp add: distinct_map domain_order_def)

section \<open>Properties\<close>

text \<open>
  Of any number of dispatchers that try to claim the same domain event, in any
  order, at most one succeeds, as long as the stale cutoff of each is older than the writes of
  those before it.
\<close>

theorem one_dispatcher_claims_domain_event:
  assumes "unique_by de_id (domainEvents w)" and "sorted_wrt (\<lambda>c d. dk_cutoff d < dk_at c) cs"
  shows "claim_wins de_id domain_guard domain_mark i cs (domainEvents w) \<le> 1"
  using assms by (rule domain_claims.one_winner)

definition demo_domain_event :: domain_event where
  "demo_domain_event = new_domain_event 0 (PAYOUT_PROCESSING, ''b1'')"

theorem one_dispatcher_claims_domain_event_witness:
  "claim_wins de_id domain_guard domain_mark (de_id demo_domain_event)
     [\<lparr>dk_read = DO_PENDING, dk_cutoff = 0, dk_now = 9, dk_at = 9\<rparr>, \<lparr>dk_read = DO_PROCESSING, dk_cutoff = 8, dk_now = 9, dk_at = 9\<rparr>]
     (domainEvents (empty_world\<lparr>domainEvents := [demo_domain_event]\<rparr>)) \<le> 1"
  by (rule one_dispatcher_claims_domain_event) simp_all

text \<open>
  Property C14: under any interleaving of the service's writes to the domain outbox, with event
  snapshots of any age, every row keeps its identity, its attempt counter never decreases, and a
  completed or dead-lettered row never changes again; dedupe keys stay unique.
\<close>

theorem domain_rows_evolve:
  assumes "domain_step\<^sup>*\<^sup>* w w'"
  shows "(\<forall>r \<in> set (domainEvents w). \<exists>r' \<in> set (domainEvents w'). evolves r r')
       \<and> (unique_by de_dedupeKey (domainEvents w) \<longrightarrow> unique_by de_dedupeKey (domainEvents w'))"
  using domain_steps_evolve [OF assms] domain_steps_unique [OF assms] by blast

theorem domain_rows_evolve_witness:
  "\<exists>r' \<in> set (domainEvents (mark_completed 7 (de_id demo_domain_event) 0 (empty_world\<lparr>domainEvents := [demo_domain_event]\<rparr>))).
     evolves demo_domain_event r'"
  using domain_rows_evolve [OF r_into_rtranclp [of domain_step, OF d_completed
      [of "empty_world\<lparr>domainEvents := [demo_domain_event]\<rparr>" 7 "de_id demo_domain_event" 0]]] by simp





text \<open>
  Property C24: a job whose dispatch attempt is no longer the row's current attempt, or whose row
  is gone, already completed or failed, runs no command and changes nothing.
\<close>

theorem superseded_job_is_fenced:
  assumes "\<forall>r \<in> set (domainEvents w). de_id r = dj_outboxEventId job \<longrightarrow>
             de_attempts r \<noteq> dj_dispatchAttempt job \<or> de_status r \<notin> {DO_DISPATCHED, DO_PROCESSING}"
  shows "process_domain_job referral payout wt job made opts w = (Inr (), w)"
proof -
  have "resolve_executable_event job w = None"
    using assms by (auto simp: resolve_executable_event_def dest: find_row_Some split: option.splits)
  then show ?thesis by (simp add: process_domain_job_def)
qed

theorem superseded_job_is_fenced_witness:
  "process_domain_job (\<lambda>i w. (Inr (), empty_world)) (\<lambda>i w. (Inr (), empty_world)) 5 (dispatch_job demo_domain_event 1) 0 None
     (empty_world\<lparr>domainEvents := [demo_domain_event\<lparr>de_status := DO_DISPATCHED, de_attempts := 2\<rparr>]\<rparr>)
   = (Inr (), empty_world\<lparr>domainEvents := [demo_domain_event\<lparr>de_status := DO_DISPATCHED, de_attempts := 2\<rparr>]\<rparr>)"
  by (rule superseded_job_is_fenced) (simp add: dispatch_job_def)

text \<open>
  Property C25: what the worker leaves of a row it could execute, on every outcome of the
  command: completed; dead-lettered without a retry when the booking is missing or not completed;
  failed (dead-lettered from the eighth dispatch on) on the last BullMQ attempt of another error;
  and untouched, with the error rethrown, on the earlier attempts.
\<close>

theorem worker_outcome:
  assumes "unique_by de_id (domainEvents w)" and "resolve_executable_event job w = Some ev"
    and "(case de_eventType ev of REFERRAL_COMPLETION \<Rightarrow> referral (de_aggregateId ev) w
            | PAYOUT_PROCESSING \<Rightarrow> payout (de_aggregateId ev) w) = (res, w1)"
    and "domainEvents w1 = domainEvents w"
  shows "fst (process_domain_job referral payout wt job made opts w)
           = (case res of Inr _ \<Rightarrow> Inr () | Inl e \<Rightarrow> if command_error_terminal e then Inr () else Inl e)
    \<and> domainEvents (snd (process_domain_job referral payout wt job made opts w)) =
       map (\<lambda>r. if de_id r \<noteq> de_id ev then r else
          (case res of
             Inr _ \<Rightarrow> ev\<lparr>de_status := DO_COMPLETED, de_processedAt := Some wt, de_lastError := None, de_updatedAt := wt\<rparr>
           | Inl e \<Rightarrow>
               if \<not> command_error_terminal e \<and> \<not> is_final_attempt made opts then ev
               else let dead = (command_error_terminal e \<or> 8 \<le> de_attempts ev) in
                 ev\<lparr>de_status := (if dead then DO_DEAD_LETTER else DO_FAILED),
                    de_nextAttemptAt := domain_next_attempt_at wt (de_attempts ev),
                    de_lastError := Some (take 500 (command_error_message e)),
                    de_processedAt := (if dead then Some wt else None), de_updatedAt := wt\<rparr>)) (domainEvents w)"
proof -
  from assms(2) have ev: "ev \<in> set (domainEvents w)" "de_id ev = dj_outboxEventId job"
      "de_attempts ev = dj_dispatchAttempt job" "de_status ev \<in> {DO_PROCESSING, DO_DISPATCHED}"
    by (auto simp: resolve_executable_event_def dest: find_row_Some split: option.splits if_splits)
  have upd: "snd (update_many (\<lambda>r. de_id r = dj_outboxEventId job \<and> de_attempts r = dj_dispatchAttempt job
        \<and> de_status r \<in> {DO_PROCESSING, DO_DISPATCHED}) f (domainEvents w))
      = map (\<lambda>r. if de_id r \<noteq> de_id ev then r else f ev) (domainEvents w)" for f
    using update_many_at [OF assms(1) ev(1), of "\<lambda>r. de_attempts r = dj_dispatchAttempt job
        \<and> de_status r \<in> {DO_PROCESSING, DO_DISPATCHED}" f] ev by (simp add: if_distrib cong: if_cong)
  have same: "map (\<lambda>r. if de_id r \<noteq> de_id ev then r else ev) (domainEvents w) = domainEvents w"
    using unique_by_same [OF assms(1) _ ev(1)] by (intro map_idI) auto
  show ?thesis
  proof (cases res)
    case (Inr u)
    then show ?thesis
      using assms(2,3,4) upd by (simp add: process_domain_job_def mark_completed_def cong: if_cong)
  next
    case (Inl e)
    then show ?thesis
      using assms(2,3,4) upd same ev(3)
      by (simp add: process_domain_job_def mark_failed_def Let_def domain_max_attempts_def cong: if_cong)
  qed
qed

theorem worker_outcome_witness:
  "fst (process_domain_job (\<lambda>i w. (Inr (), w)) (\<lambda>i w. (Inl (CmdOther ''x''), w)) 5 (dispatch_job demo_domain_event 1) 2 (Some 3)
     (empty_world\<lparr>domainEvents := [demo_domain_event\<lparr>de_status := DO_DISPATCHED, de_attempts := 1\<rparr>]\<rparr>))
   = Inl (CmdOther ''x'')"
  using worker_outcome [of "empty_world\<lparr>domainEvents := [demo_domain_event\<lparr>de_status := DO_DISPATCHED, de_attempts := 1\<rparr>]\<rparr>"
      "dispatch_job demo_domain_event 1" "demo_domain_event\<lparr>de_status := DO_DISPATCHED, de_attempts := 1\<rparr>"
      "\<lambda>i w. (Inr (), w)" "\<lambda>i w. (Inl (CmdOther ''x''), w)" "Inl (CmdOther ''x'')"
      "empty_world\<lparr>domainEvents := [demo_domain_event\<lparr>de_status := DO_DISPATCHED, de_attempts := 1\<rparr>]\<rparr>" 5 2 "Some 3"]
  by (simp add: resolve_executable_event_def dispatch_job_def find_row_def demo_domain_event_def new_domain_event_def)

end
