(* ===== verification/Flutterwave.thy ===== *)
theory Flutterwave
  imports Schema
begin

text \<open>
  The payment provider's client (flutterwave.service.ts) over an HTTP client: what it sends, how
  it reads the answer, and which failures it reports as a refusal and which it throws because the
  outcome is unknown.  The HTTP exchange itself is a parameter: the result of each request.
\<close>

section \<open>HTTP results\<close>

record error_body =
  eb_message :: "string option"
  eb_code :: "string option"
  eb_dataCode :: "string option"

text \<open>
  An exchange ends with a body, with an error status and body, without any response, or with an
  exception of another kind.
\<close>

datatype 'a http_result =
    HttpOk 'a
  | HttpError nat string error_body
  | HttpNoResponse
  | HttpException string

record 'a fw_response =
  fr_status :: string
  fr_message :: string
  fr_data :: "'a option"

record flutterwave_error =
  fe_message :: string
  fe_code :: "string option"
  fe_statusCode :: "nat option"

record error_info =
  ei_message :: string
  ei_code :: "string option"
  ei_status :: "nat option"

text \<open>What a request can end with other than an answer: the error the try block catches.\<close>

datatype request_failure =
    FailStatus nat string error_body
  | FailNoResponse
  | FailException string
  | FailFlutterwave flutterwave_error

definition http_handle_error :: "request_failure \<Rightarrow> error_info" where
  "http_handle_error e =
     (case e of
        FailStatus status text body \<Rightarrow>
          \<lparr>ei_message = str_or (eb_message body) (''HTTP '' @ nat_digits status @ '': '' @ text),
           ei_code = eb_code body, ei_status = Some status\<rparr>
      | FailNoResponse \<Rightarrow>
          \<lparr>ei_message = ''Network error: Unable to reach server'', ei_code = Some ''NETWORK_ERROR'', ei_status = None\<rparr>
      | FailException msg \<Rightarrow>
          \<lparr>ei_message = ''Unexpected error: '' @ msg, ei_code = Some ''UNEXPECTED_ERROR'', ei_status = None\<rparr>
      | FailFlutterwave fe \<Rightarrow>
          \<lparr>ei_message = ''Unexpected error: '' @ fe_message fe, ei_code = Some ''UNEXPECTED_ERROR'', ei_status = None\<rparr>)"

definition handle_error :: "request_failure \<Rightarrow> flutterwave_error" where
  "handle_error e =
     (case e of
        FailFlutterwave fe \<Rightarrow> fe
      | FailNoResponse \<Rightarrow>
          \<lparr>fe_message = ''Network error: Unable to reach Flutterwave servers'',
           fe_code = Some ''NETWORK_ERROR'', fe_statusCode = None\<rparr>
      | FailStatus status text body \<Rightarrow>
          (let info = http_handle_error e in
           \<lparr>fe_message = str_or (eb_message body) (ei_message info),
            fe_code = (if truthy (eb_dataCode body) then eb_dataCode body else ei_code info),
            fe_statusCode = Some status\<rparr>)
      | FailException msg \<Rightarrow>
          (let info = http_handle_error e in
           \<lparr>fe_message = ei_message info,
            fe_code = Some (str_or (ei_code info) ''UNEXPECTED_ERROR''),
            fe_statusCode = ei_status info\<rparr>))"

text \<open>The failures after which the provider may or may not have acted.\<close>

definition uncertain_error :: "flutterwave_error \<Rightarrow> bool" where
  "uncertain_error fe \<longleftrightarrow>
     fe_code fe = Some ''NETWORK_ERROR'' \<or> fe_code fe = Some ''UNEXPECTED_ERROR''
   \<or> fe_statusCode fe = Some 409
   \<or> (case fe_statusCode fe of None \<Rightarrow> False | Some st \<Rightarrow> 500 \<le> st)"

section \<open>Transfers\<close>

record transfer =
  tr_account_number :: string
  tr_bank_code :: string
  tr_currency :: string
  tr_amount :: rat
  tr_status :: string
  tr_reference :: string
  tr_complete_message :: "string option"

record transfer_payload =
  tp_account_bank :: string
  tp_account_number :: string
  tp_amount :: rat
  tp_narration :: string
  tp_currency :: string
  tp_reference :: string
  tp_callback_url :: string
  tp_debit_currency :: string

text \<open>The data of a payout response: the transfer of a success, the message of a refusal.\<close>

record payout_response =
  ps_success :: bool
  ps_message :: "string option"

definition transfer_payload_of :: "string \<Rightarrow> payout_request \<Rightarrow> transfer_payload" where
  "transfer_payload_of webhookUrl req =
     \<lparr>tp_account_bank = pr_bankCode req, tp_account_number = pr_accountNumber req,
      tp_amount = pr_amount req,
      tp_narration = ''Payout for booking '' @ pr_bookingReference req @ '' - '' @ pr_bookingId req,
      tp_currency = ''NGN'', tp_reference = pr_reference req,
      tp_callback_url = webhookUrl @ ''/api/payments/webhook/flutterwave'', tp_debit_currency = ''NGN''\<rparr>"

definition initiate_payout_request ::
  "(transfer_payload \<Rightarrow> transfer fw_response http_result) \<Rightarrow> string \<Rightarrow> payout_request \<Rightarrow>
   flutterwave_error + payout_response" where
  "initiate_payout_request post webhookUrl req =
     (let caught = (\<lambda>e. let handled = handle_error e in
            if uncertain_error handled then Inl handled
            else Inr \<lparr>ps_success = False, ps_message = Some (fe_message handled)\<rparr>)
      in case post (transfer_payload_of webhookUrl req) of
           HttpOk response \<Rightarrow>
             (if fr_status response = ''success'' then Inr \<lparr>ps_success = True, ps_message = None\<rparr>
              else Inr \<lparr>ps_success = False, ps_message = Some (fr_message response)\<rparr>)
         | HttpError status text body \<Rightarrow> caught (FailStatus status text body)
         | HttpNoResponse \<Rightarrow> caught FailNoResponse
         | HttpException msg \<Rightarrow> caught (FailException msg))"

definition find_transfer_by_reference ::
  "(string \<Rightarrow> transfer list fw_response http_result) \<Rightarrow> string \<Rightarrow> flutterwave_error + transfer option" where
  "find_transfer_by_reference get reference =
     (case get reference of
        HttpOk response \<Rightarrow>
          Inr (case fr_data response of None \<Rightarrow> None
               | Some ts \<Rightarrow> find_row (\<lambda>t. tr_reference t = reference) ts)
      | HttpError status text body \<Rightarrow> Inl (handle_error (FailStatus status text body))
      | HttpNoResponse \<Rightarrow> Inl (handle_error FailNoResponse)
      | HttpException msg \<Rightarrow> Inl (handle_error (FailException msg)))"

section \<open>Refunds\<close>

record fetched_refund =
  fx_id :: nat
  fx_amount_refunded :: rat
  fx_status :: string
  fx_flw_ref :: string
  fx_comment :: "string option"
  fx_transaction_id :: nat

record refund_created =
  fc_id :: nat
  fc_amount_refunded :: rat
  fc_status :: string

record refund_payload =
  fp_amount :: rat
  fp_callbackurl :: "string option"

record refund_response =
  rr_success :: bool
  rr_refundId :: "nat option"
  rr_amountRefunded :: "rat option"
  rr_status :: "string option"
  rr_error :: "string option"

definition initiate_refund_request ::
  "(string \<Rightarrow> string \<Rightarrow> refund_payload \<Rightarrow> refund_created fw_response http_result) \<Rightarrow>
   string \<Rightarrow> rat \<Rightarrow> string option \<Rightarrow> string \<Rightarrow> flutterwave_error + refund_response" where
  "initiate_refund_request post transactionId amount callbackUrl idempotencyKey =
     (let payload = \<lparr>fp_amount = amount, fp_callbackurl = (if truthy callbackUrl then callbackUrl else None)\<rparr>;
          refused = (\<lambda>msg. \<lparr>rr_success = False, rr_refundId = None, rr_amountRefunded = None,
                            rr_status = None, rr_error = Some msg\<rparr>);
          caught = (\<lambda>e. let handled = handle_error e in
            if uncertain_error handled then Inl handled else Inr (refused (fe_message handled)))
      in case post transactionId idempotencyKey payload of
           HttpOk response \<Rightarrow>
             (case fr_data response of
                Some d \<Rightarrow>
                  (if fr_status response = ''success''
                   then Inr \<lparr>rr_success = True, rr_refundId = Some (fc_id d),
                             rr_amountRefunded = Some (fc_amount_refunded d),
                             rr_status = Some (fc_status d), rr_error = None\<rparr>
                   else Inr (refused (str_or (Some (fr_message response)) ''Failed to initiate refund'')))
              | None \<Rightarrow> Inr (refused (str_or (Some (fr_message response)) ''Failed to initiate refund'')))
         | HttpError status text body \<Rightarrow> caught (FailStatus status text body)
         | HttpNoResponse \<Rightarrow> caught FailNoResponse
         | HttpException msg \<Rightarrow> caught (FailException msg))"

definition fetch_refund ::
  "(string \<Rightarrow> fetched_refund fw_response http_result) \<Rightarrow> string \<Rightarrow> flutterwave_error + fetched_refund" where
  "fetch_refund get refundId =
     (case get refundId of
        HttpOk response \<Rightarrow>
          (case fr_data response of
             Some d \<Rightarrow>
               (if fr_status response = ''success'' then Inr d
                else Inl (handle_error (FailFlutterwave
                       \<lparr>fe_message = str_or (Some (fr_message response)) ''Failed to fetch refund'',
                        fe_code = Some ''REFUND_FETCH_FAILED'', fe_statusCode = None\<rparr>)))
           | None \<Rightarrow>
               Inl (handle_error (FailFlutterwave
                 \<lparr>fe_message = str_or (Some (fr_message response)) ''Failed to fetch refund'',
                  fe_code = Some ''REFUND_FETCH_FAILED'', fe_statusCode = None\<rparr>)))
      | HttpError status text body \<Rightarrow> Inl (handle_error (FailStatus status text body))
      | HttpNoResponse \<Rightarrow> Inl (handle_error FailNoResponse)
      | HttpException msg \<Rightarrow> Inl (handle_error (FailException msg)))"

section \<open>Transactions by reference\<close>

record verification =
  vf_id :: nat
  vf_tx_ref :: string
  vf_flw_ref :: string
  vf_status :: string
  vf_charged_amount :: rat
  vf_amount :: rat
  vf_currency :: string
  vf_payment_type :: "string option"
  vf_created_at :: string

text \<open>The data of a charge.completed webhook, as its schema validates it.\<close>

record charge_data =
  cg_id :: nat
  cg_tx_ref :: string
  cg_flw_ref :: string
  cg_amount :: rat
  cg_charged_amount :: rat
  cg_currency :: string
  cg_status :: string
  cg_payment_type :: string
  cg_created_at :: string

definition verify_transaction ::
  "(string \<Rightarrow> verification fw_response http_result) \<Rightarrow> string \<Rightarrow> flutterwave_error + verification fw_response" where
  "verify_transaction get transactionId =
     (case get transactionId of
        HttpOk response \<Rightarrow> Inr response
      | HttpError status text body \<Rightarrow> Inl (handle_error (FailStatus status text body))
      | HttpNoResponse \<Rightarrow> Inl (handle_error FailNoResponse)
      | HttpException msg \<Rightarrow> Inl (handle_error (FailException msg)))"

text \<open>Trailing full stops and exclamation marks removed.\<close>

definition strip_trailing_punct :: "string \<Rightarrow> string" where
  "strip_trailing_punct s = rev (dropWhile (\<lambda>c. c = CHR ''.'' \<or> c = CHR ''!'') (rev s))"

definition is_missing_transaction_reference :: "flutterwave_error \<Rightarrow> bool" where
  "is_missing_transaction_reference e \<longleftrightarrow>
     (if fe_statusCode e = Some 404 then True
      else if fe_statusCode e \<noteq> Some 400 then False
      else let m = strip_trailing_punct (js_lower (js_trim (fe_message e)))
           in m = ''no transaction was found for this id'' \<or> m = ''transaction not found'')"

definition find_transaction_by_reference ::
  "(string \<Rightarrow> verification fw_response http_result) \<Rightarrow> string \<Rightarrow> flutterwave_error + verification option" where
  "find_transaction_by_reference get txRef =
     (let caught = (\<lambda>e. let handled = handle_error e in
            if is_missing_transaction_reference handled then Inr None else Inl handled);
          unable = (\<lambda>response. FailFlutterwave
            \<lparr>fe_message = str_or (Some (fr_message response)) ''Unable to verify transaction reference'',
             fe_code = Some ''TRANSACTION_REFERENCE_VERIFICATION_FAILED'', fe_statusCode = None\<rparr>)
      in case get txRef of
           HttpOk response \<Rightarrow>
             (case fr_data response of
                Some d \<Rightarrow> (if fr_status response = ''success'' then Inr (Some d) else caught (unable response))
              | None \<Rightarrow> caught (unable response))
         | HttpError status text body \<Rightarrow> caught (FailStatus status text body)
         | HttpNoResponse \<Rightarrow> caught FailNoResponse
         | HttpException msg \<Rightarrow> caught (FailException msg))"

section \<open>Payment links\<close>

text \<open>toFixed(2): the nearest hundredth, ties away from zero.\<close>

definition to_fixed2 :: "rat \<Rightarrow> rat" where
  "to_fixed2 x = (if x < 0 then - (of_int \<lfloor>- x * 100 + 1/2\<rfloor> / 100) else of_int \<lfloor>x * 100 + 1/2\<rfloor> / 100)"

datatype transaction_type = Booking_creation | Booking_extension

record intent_options =
  io_amount :: rat
  io_customerEmail :: string
  io_customerName :: "string option"
  io_customerPhone :: "string option"
  io_metadata :: "(string \<times> string) list"
  io_idempotencyKey :: "string option"
  io_callbackUrl :: string
  io_transactionType :: transaction_type
  io_sessionDurationMinutes :: "nat option"

record intent_payload =
  ip_tx_ref :: string
  ip_amount :: rat
  ip_currency :: string
  ip_redirect_url :: string
  ip_email :: string
  ip_name :: string
  ip_phonenumber :: "string option"
  ip_meta :: "(string \<times> string) list"
  ip_title :: string
  ip_description :: string
  ip_session_duration :: "nat option"

definition intent_payload_of :: "string \<Rightarrow> intent_options \<Rightarrow> intent_payload" where
  "intent_payload_of uuid opts =
     (let txRef = str_or (io_idempotencyKey opts) uuid;
          creation = (io_transactionType opts = Booking_creation) in
      \<lparr>ip_tx_ref = txRef, ip_amount = to_fixed2 (io_amount opts), ip_currency = ''NGN'',
       ip_redirect_url = io_callbackUrl opts, ip_email = io_customerEmail opts,
       ip_name = str_or (io_customerName opts) ''Customer'', ip_phonenumber = io_customerPhone opts,
       ip_meta = filter (\<lambda>kv. fst kv \<noteq> ''tx_ref'') (io_metadata opts) @ [(''tx_ref'', txRef)],
       ip_title = (if creation then ''Booking Payment'' else ''Extension Payment''),
       ip_description = (if creation then ''Payment for car booking'' else ''Payment for booking extension''),
       ip_session_duration = (case io_sessionDurationMinutes opts of None \<Rightarrow> None
                              | Some n \<Rightarrow> if n = 0 then None else Some n)\<rparr>)"

text \<open>The answer carries the checkout link as its data.\<close>

definition create_payment_intent ::
  "(intent_payload \<Rightarrow> string fw_response http_result) \<Rightarrow> string \<Rightarrow> intent_options \<Rightarrow>
   flutterwave_error + (string \<times> string)" where
  "create_payment_intent post uuid opts =
     (let payload = intent_payload_of uuid opts;
          failed = (\<lambda>response. Inl
            \<lparr>fe_message = str_or (Some (fr_message response)) ''Failed to create payment link'',
             fe_code = Some ''PAYMENT_LINK_FAILED'', fe_statusCode = None\<rparr>)
      in case post payload of
           HttpOk response \<Rightarrow>
             (if fr_status response = ''success'' \<and> truthy (fr_data response)
              then Inr (ip_tx_ref payload, the (fr_data response)) else failed response)
         | HttpError status text body \<Rightarrow> Inl (handle_error (FailStatus status text body))
         | HttpNoResponse \<Rightarrow> Inl (handle_error FailNoResponse)
         | HttpException msg \<Rightarrow> Inl (handle_error (FailException msg)))"

definition get_webhook_url :: "string \<Rightarrow> string \<Rightarrow> string" where
  "get_webhook_url webhookUrl path =
     webhookUrl @ (if path = [] then [] else if hd path = CHR ''/'' then path else CHR ''/'' # path)"

section \<open>When a refusal is definite\<close>

text \<open>An exchange whose outcome at the provider is unknown.\<close>

definition outcome_unknown :: "'a http_result \<Rightarrow> bool" where
  "outcome_unknown h \<longleftrightarrow>
     (case h of HttpOk _ \<Rightarrow> False | HttpError st _ _ \<Rightarrow> st = 409 \<or> 500 \<le> st
              | HttpNoResponse \<Rightarrow> True | HttpException _ \<Rightarrow> True)"

lemma uncertain_of_unknown:
  "uncertain_error (handle_error FailNoResponse)" "uncertain_error (handle_error (FailException m))"
  "st = 409 \<or> 500 \<le> st \<Longrightarrow> uncertain_error (handle_error (FailStatus st t b))"
  by (auto simp: uncertain_error_def handle_error_def http_handle_error_def str_or_def Let_def)

lemma initiate_payout_answered:
  "initiate_payout_request post url req = Inr resp \<Longrightarrow> \<not> outcome_unknown (post (transfer_payload_of url req))"
  by (auto simp: initiate_payout_request_def outcome_unknown_def Let_def uncertain_of_unknown
      split: http_result.splits if_splits)

lemma initiate_refund_answered:
  "initiate_refund_request post tx amt cb key = Inr resp \<Longrightarrow>
   \<not> outcome_unknown (post tx key \<lparr>fp_amount = amt, fp_callbackurl = (if truthy cb then cb else None)\<rparr>)"
  by (auto simp: initiate_refund_request_def outcome_unknown_def Let_def uncertain_of_unknown
      split: http_result.splits if_splits option.splits)

lemma find_transfer_reference:
  "find_transfer_by_reference get ref = Inr (Some t) \<Longrightarrow> tr_reference t = ref"
  by (auto simp: find_transfer_by_reference_def dest: find_row_Some split: http_result.splits option.splits)

end
