(* ===== verification/Payouts.thy ===== *)
theory Payouts
  imports Flutterwave NotificationOutbox
begin

text \<open>
  Payouts to fleet owners (payment.service.ts and transfer-completed.handler.ts): the payout
  row of a completed booking, the ten-minute processing lease that guards the provider call, the
  reconciliation of transfers whose outcome was not learnt, and the terminal transition with its
  notification.  Each function is one call; its clock reading, the random lease id and the
  answers of the provider are its environment.
\<close>

record payout_env =
  pe_now :: time
  pe_uuid :: string
  pe_newId :: ident
  pe_config :: notif_config
  pe_webhookUrl :: string
  pe_post :: "transfer_payload \<Rightarrow> transfer fw_response http_result"
  pe_get :: "string \<Rightarrow> transfer list fw_response http_result"

datatype pay_error =
    PayoutBankDetailsRequired ident
  | PayoutTransactionRecoveryFailed ident
  | PayoutInitiationFailed ident string
  | PayoutBookingNotFound ident
  | PayoutBookingNotCompleted ident
  | PayoutProcessingInProgress ident
  | PayoutProcessingClaimLost ident
  | PayProviderError flutterwave_error
  | PayRecordNotFound ident

definition payout_processing_lease :: time where "payout_processing_lease = minutes_ms 10"
definition payout_grace_period :: time where "payout_grace_period = minutes_ms 15"
definition payout_batch_size :: nat where "payout_batch_size = 50"

type_synonym 'a pay_result = "(pay_error + 'a) \<times> world"

section \<open>The payout row\<close>

definition has_no_payout_amount :: "booking \<Rightarrow> bool" where
  "has_no_payout_amount b \<longleftrightarrow> (case b_fleetOwnerPayoutAmountNet b of None \<Rightarrow> True | Some a \<Rightarrow> a = 0)"

definition get_verified_bank_details :: "ident \<Rightarrow> world \<Rightarrow> bank_details option" where
  "get_verified_bank_details ownerId w =
     (case find_row (\<lambda>d. bd_userId d = ownerId) (bankDetails w) of
        None \<Rightarrow> None
      | Some d \<Rightarrow> (if bd_isVerified d then Some d else None))"

definition get_masked_account_details :: "bank_details \<Rightarrow> string" where
  "get_masked_account_details d =
     ''Bank: '' @ bd_bankName d @ '', Account: ''
     @ (if 4 \<le> length (bd_accountNumber d) then ''****'' @ slice_last 4 (bd_accountNumber d) else ''********'')"

definition new_payout :: "payout_env \<Rightarrow> ident \<Rightarrow> booking \<Rightarrow> bank_details \<Rightarrow> rat \<Rightarrow> payout" where
  "new_payout env ownerId b d amount =
     \<lparr>po_id = pe_newId env, po_fleetOwnerId = ownerId, po_bookingId = Some (b_id b), po_amountToPay = amount,
      po_amountPaid = None, po_currency = ''NGN'', po_status = PO_PENDING_DISBURSEMENT,
      po_payoutProviderReference = None, po_payoutMethodDetails = Some (get_masked_account_details d),
      po_payoutBankCode = Some (bd_bankCode d), po_payoutAccountLast4 = Some (slice_last 4 (bd_accountNumber d)),
      po_processingLeaseId = None, po_processingLeaseExpiresAt = None, po_initiatedAt = pe_now env,
      po_completedAt = None, po_notes = None\<rparr>"

definition refresh_payout :: "bank_details \<Rightarrow> rat \<Rightarrow> payout \<Rightarrow> payout" where
  "refresh_payout d amount p =
     p\<lparr>po_amountToPay := amount, po_currency := ''NGN'',
       po_payoutMethodDetails := Some (get_masked_account_details d),
       po_payoutBankCode := Some (bd_bankCode d),
       po_payoutAccountLast4 := Some (slice_last 4 (bd_accountNumber d))\<rparr>"

definition create_or_update_payout_transaction ::
  "payout_env \<Rightarrow> ident \<Rightarrow> booking \<Rightarrow> bank_details \<Rightarrow> rat \<Rightarrow> world \<Rightarrow> payout pay_result" where
  "create_or_update_payout_transaction env ownerId b d amount w =
     (let row = new_payout env ownerId b d amount in
      case create_unique po_bookingId row (payouts w) of
        Some t \<Rightarrow> (Inr row, w\<lparr>payouts := t\<rparr>)
      | None \<Rightarrow>
          (case find_row (\<lambda>p. po_bookingId p = Some (b_id b)) (payouts w) of
             None \<Rightarrow> (Inl (PayoutTransactionRecoveryFailed (b_id b)), w)
           | Some existing \<Rightarrow>
               (Inr (refresh_payout d amount existing),
                w\<lparr>payouts := snd (update_many (\<lambda>p. po_id p = po_id existing) (refresh_payout d amount) (payouts w))\<rparr>)))"

section \<open>Claims on the processing lease\<close>

datatype claim_kind = Initiation | Reconciliation

record payout_claim =
  pk_kind :: claim_kind
  pk_now :: time
  pk_leaseId :: string
  pk_reference :: string

definition payout_guard :: "payout_claim \<Rightarrow> payout \<Rightarrow> bool" where
  "payout_guard c p \<longleftrightarrow>
     (let expired = (case po_processingLeaseExpiresAt p of None \<Rightarrow> False | Some t \<Rightarrow> t \<le> pk_now c) in
      case pk_kind c of
        Initiation \<Rightarrow>
          po_status p \<in> {PO_PENDING_DISBURSEMENT, PO_FAILED} \<or> (po_status p = PO_PROCESSING \<and> expired)
      | Reconciliation \<Rightarrow>
          po_status p = PO_PROCESSING \<and> (po_processingLeaseId p = None \<or> expired))"

definition payout_mark :: "payout_claim \<Rightarrow> payout \<Rightarrow> payout" where
  "payout_mark c p =
     (let leased = p\<lparr>po_processingLeaseId := Some (pk_leaseId c),
                     po_processingLeaseExpiresAt := Some (pk_now c + payout_processing_lease)\<rparr> in
      case pk_kind c of
        Initiation \<Rightarrow>
          leased\<lparr>po_status := PO_PROCESSING, po_initiatedAt := pk_now c,
                 po_payoutProviderReference := Some (pk_reference c)\<rparr>
      | Reconciliation \<Rightarrow> leased)"

definition claim_payout :: "ident \<Rightarrow> payout_claim \<Rightarrow> world \<Rightarrow> nat \<times> world" where
  "claim_payout i c w =
     (let (n, t) = claim_rows po_id payout_guard payout_mark i c (payouts w) in (n, w\<lparr>payouts := t\<rparr>))"

definition claim_payout_processing ::
  "payout_env \<Rightarrow> ident \<Rightarrow> payout \<Rightarrow> string \<Rightarrow> world \<Rightarrow> string option pay_result" where
  "claim_payout_processing env bookingId p reference w =
     (if po_status p = PO_PAID_OUT \<or> (po_status p = PO_PROCESSING \<and> \<not> truthy (po_processingLeaseId p))
      then (Inr None, w)
      else let (n, w1) = claim_payout (po_id p)
                 \<lparr>pk_kind = Initiation, pk_now = pe_now env, pk_leaseId = pe_uuid env, pk_reference = reference\<rparr> w
           in if n = 0 then (Inl (PayoutProcessingInProgress bookingId), w1)
              else (Inr (Some (pe_uuid env)), w1))"

section \<open>Leaving the processing state\<close>

primrec terminal_status :: "terminal_payout \<Rightarrow> payout_status" where
  "terminal_status PAID_OUT = PO_PAID_OUT"
| "terminal_status PAYOUT_FAILED = PO_FAILED"

definition set_overall_payout_status :: "time \<Rightarrow> ident \<Rightarrow> payout_status \<Rightarrow> world \<Rightarrow> world" where
  "set_overall_payout_status now i st w =
     w\<lparr>bookings := snd (update_many (\<lambda>b. b_id b = i)
         (\<lambda>b. b\<lparr>b_overallPayoutStatus := Some st, b_updatedAt := now\<rparr>) (bookings w))\<rparr>"

record finalize_options =
  fo_processingLeaseId :: "string option"
  fo_failureReason :: "string option"
  fo_amountPaid :: "rat option"

definition finalized_payout :: "time \<Rightarrow> payout \<Rightarrow> terminal_payout \<Rightarrow> finalize_options \<Rightarrow> payout \<Rightarrow> payout" where
  "finalized_payout now snapshot status options p =
     (let q = p\<lparr>po_status := terminal_status status, po_completedAt := Some now,
                po_processingLeaseId := None, po_processingLeaseExpiresAt := None\<rparr> in
      case status of
        PAID_OUT \<Rightarrow> q\<lparr>po_amountPaid := coalesce (fo_amountPaid options) (Some (po_amountToPay snapshot))\<rparr>
      | PAYOUT_FAILED \<Rightarrow>
          q\<lparr>po_notes := Some (''Flutterwave payout failed: '' @ the (coalesce (fo_failureReason options) (Some ''Unknown failure'')))\<rparr>)"

text \<open>One transaction: an exception inside leaves the world as it was.\<close>

definition finalize_payout_status ::
  "payout_env \<Rightarrow> payout \<Rightarrow> terminal_payout \<Rightarrow> finalize_options \<Rightarrow> world \<Rightarrow> bool pay_result" where
  "finalize_payout_status env snapshot status options w =
     (let (n, t) = update_many
            (\<lambda>p. po_id p = po_id snapshot \<and> po_status p = PO_PROCESSING
               \<and> (truthy (fo_processingLeaseId options) \<longrightarrow> po_processingLeaseId p = fo_processingLeaseId options))
            (finalized_payout (pe_now env) snapshot status options) (payouts w);
          w1 = w\<lparr>payouts := t\<rparr>
      in if n = 0 then (Inr False, w)
         else if \<not> truthy (po_bookingId snapshot) then (Inr True, w1)
         else let bookingId = the (po_bookingId snapshot) in
           case find_row (\<lambda>b. b_id b = bookingId) (bookings w1) of
             None \<Rightarrow> (Inl (PayRecordNotFound bookingId), w)
           | Some b \<Rightarrow>
               (let w2 = set_overall_payout_status (pe_now env) bookingId (terminal_status status) w1 in
                case find_row (\<lambda>p. po_id p = po_id snapshot) (payouts w2) of
                  None \<Rightarrow> (Inl (PayRecordNotFound (po_id snapshot)), w)
                | Some final \<Rightarrow>
                    (case find_row (\<lambda>u. u_id u = po_fleetOwnerId final) (users w2) of
                       None \<Rightarrow> (Inl (PayRecordNotFound (po_fleetOwnerId final)), w)
                     | Some owner \<Rightarrow>
                         (Inr True,
                          snd (create_notifications (pe_now env) NE_BOOKING_LIFECYCLE
                            (payout_status_changed_events (pe_config env)
                              \<lparr>pn_payoutTransactionId = po_id final, pn_bookingId = bookingId,
                               pn_bookingReference = b_bookingReference b, pn_status = status,
                               pn_amount = po_amountToPay final, pn_failureReason = fo_failureReason options,
                               pn_fleetOwner = owner\<rparr>) w2)))))"

text \<open>The transfer was accepted: the row stays in processing without a lease.\<close>

definition accept_payout :: "payout_env \<Rightarrow> ident \<Rightarrow> payout \<Rightarrow> string \<Rightarrow> world \<Rightarrow> unit pay_result" where
  "accept_payout env bookingId snapshot leaseId w =
     (let (n, t) = update_many
            (\<lambda>p. po_id p = po_id snapshot \<and> po_status p = PO_PROCESSING \<and> po_processingLeaseId p = Some leaseId)
            (\<lambda>p. p\<lparr>po_status := PO_PROCESSING, po_processingLeaseId := None,
                   po_processingLeaseExpiresAt := None, po_completedAt := None\<rparr>) (payouts w)
      in if n = 0 then (Inl (PayoutProcessingClaimLost bookingId), w)
         else case find_row (\<lambda>b. b_id b = bookingId) (bookings w) of
           None \<Rightarrow> (Inl (PayRecordNotFound bookingId), w)
         | Some b \<Rightarrow> (Inr (), set_overall_payout_status (pe_now env) bookingId PO_PROCESSING (w\<lparr>payouts := t\<rparr>)))"

definition handle_successful_payout ::
  "payout_env \<Rightarrow> ident \<Rightarrow> payout \<Rightarrow> string \<Rightarrow> bool \<Rightarrow> rat option \<Rightarrow> world \<Rightarrow> unit pay_result" where
  "handle_successful_payout env bookingId snapshot leaseId paidOut amountPaid w =
     (if paidOut then
        (case finalize_payout_status env snapshot PAID_OUT
                \<lparr>fo_processingLeaseId = Some leaseId, fo_failureReason = None, fo_amountPaid = amountPaid\<rparr> w of
           (Inl e, w1) \<Rightarrow> (Inl e, w1)
         | (Inr finalized, w1) \<Rightarrow>
             (if finalized then (Inr (), w1) else (Inl (PayoutProcessingClaimLost bookingId), w1)))
      else accept_payout env bookingId snapshot leaseId w)"

definition handle_failed_payout ::
  "payout_env \<Rightarrow> payout \<Rightarrow> string \<Rightarrow> string \<Rightarrow> world \<Rightarrow> bool pay_result" where
  "handle_failed_payout env snapshot errorMessage leaseId w =
     finalize_payout_status env snapshot PAYOUT_FAILED
       \<lparr>fo_processingLeaseId = Some leaseId, fo_failureReason = Some errorMessage, fo_amountPaid = None\<rparr> w"

definition release_payout_processing_lease :: "ident \<Rightarrow> string \<Rightarrow> world \<Rightarrow> world" where
  "release_payout_processing_lease i leaseId w =
     w\<lparr>payouts := snd (update_many
         (\<lambda>p. po_id p = i \<and> po_status p = PO_PROCESSING \<and> po_processingLeaseId p = Some leaseId)
         (\<lambda>p. p\<lparr>po_processingLeaseId := None, po_processingLeaseExpiresAt := None\<rparr>) (payouts w))\<rparr>"

section \<open>Reconciliation with the provider\<close>

definition get_payout_transfer_mismatch_reason :: "payout \<Rightarrow> transfer \<Rightarrow> string \<Rightarrow> string option" where
  "get_payout_transfer_mismatch_reason p t expectedReference =
     (if tr_reference t \<noteq> expectedReference
      then Some ''Flutterwave transfer reference does not match the payout reference''
      else if js_upper (js_trim (tr_currency t)) \<noteq> js_upper (js_trim (po_currency p))
      then Some ''Flutterwave transfer currency does not match the payout currency''
      else if po_amountToPay p \<noteq> tr_amount t
      then Some ''Flutterwave transfer amount does not match the payout amount''
      else if \<not> truthy (po_payoutBankCode p) \<or> \<not> truthy (po_payoutAccountLast4 p)
      then Some ''Payout beneficiary snapshot is unavailable''
      else if Some (tr_bank_code t) \<noteq> po_payoutBankCode p
      then Some ''Flutterwave transfer bank does not match the payout beneficiary''
      else if \<not> ends_with (tr_account_number t) (the (po_payoutAccountLast4 p))
      then Some ''Flutterwave transfer account does not match the payout beneficiary''
      else None)"

record reconciliation_result =
  re_reconciled :: bool
  re_providerStatus :: "string option"
  re_mismatchReason :: "string option"

definition reconcile_claimed_transfer ::
  "payout_env \<Rightarrow> ident \<Rightarrow> payout \<Rightarrow> transfer \<Rightarrow> string \<Rightarrow> string \<Rightarrow> world \<Rightarrow> reconciliation_result pay_result" where
  "reconcile_claimed_transfer env bookingId p t reference leaseId w =
     (let status = js_upper (js_trim (tr_status t));
          res = (\<lambda>ok reason. \<lparr>re_reconciled = ok, re_providerStatus = Some status, re_mismatchReason = reason\<rparr>)
      in case get_payout_transfer_mismatch_reason p t reference of
           Some reason \<Rightarrow> (Inr (res False (Some reason)), release_payout_processing_lease (po_id p) leaseId w)
         | None \<Rightarrow>
             (if status = ''FAILED'' then
                (case handle_failed_payout env p (str_or (tr_complete_message t) ''Flutterwave transfer failed'') leaseId w of
                   (Inl e, w1) \<Rightarrow> (Inl e, w1)
                 | (Inr ok, w1) \<Rightarrow> (Inr (res ok None), w1))
              else if status = ''SUCCESSFUL'' then
                (case handle_successful_payout env bookingId p leaseId True (Some (tr_amount t)) w of
                   (Inl e, w1) \<Rightarrow> (Inl e, w1)
                 | (Inr _, w1) \<Rightarrow> (Inr (res True None), w1))
              else (Inr (res False None), release_payout_processing_lease (po_id p) leaseId w)))"

definition reconcile_payout :: "payout_env \<Rightarrow> payout \<Rightarrow> world \<Rightarrow> reconciliation_result pay_result" where
  "reconcile_payout env p w =
     (let none = \<lparr>re_reconciled = False, re_providerStatus = None, re_mismatchReason = None\<rparr> in
      if \<not> truthy (po_payoutProviderReference p) \<or> \<not> truthy (po_bookingId p) then (Inr none, w)
      else let reference = the (po_payoutProviderReference p); bookingId = the (po_bookingId p);
               (n, w1) = claim_payout (po_id p)
                 \<lparr>pk_kind = Reconciliation, pk_now = pe_now env, pk_leaseId = pe_uuid env, pk_reference = reference\<rparr> w
           in if n = 0 then (Inr none, w1)
              else case find_transfer_by_reference (pe_get env) reference of
                     Inl e \<Rightarrow> (Inl (PayProviderError e), w1)
                   | Inr (Some t) \<Rightarrow> reconcile_claimed_transfer env bookingId p t reference (pe_uuid env) w1
                   | Inr None \<Rightarrow>
                       (Inr \<lparr>re_reconciled = False, re_providerStatus = Some ''NOT_FOUND'', re_mismatchReason = None\<rparr>,
                        release_payout_processing_lease (po_id p) (pe_uuid env) w1))"

definition payout_reconcilable :: "time \<Rightarrow> payout \<Rightarrow> bool" where
  "payout_reconcilable now p \<longleftrightarrow>
     po_status p = PO_PROCESSING \<and> po_bookingId p \<noteq> None \<and> po_payoutProviderReference p \<noteq> None
   \<and> po_initiatedAt p \<le> now - payout_grace_period
   \<and> (po_processingLeaseId p = None
      \<or> (case po_processingLeaseExpiresAt p of None \<Rightarrow> False | Some t \<Rightarrow> t \<le> now))"

text \<open>Each payout of the batch is reconciled with its own clock and lease id; errors are logged.\<close>

fun reconcile_each :: "(nat \<Rightarrow> payout_env) \<Rightarrow> nat \<Rightarrow> payout list \<Rightarrow> world \<Rightarrow> nat \<times> world" where
  "reconcile_each env k [] w = (0, w)"
| "reconcile_each env k (p # ps) w =
     (let (r, w1) = reconcile_payout (env k) p w;
          (m, w2) = reconcile_each env (Suc k) ps w1
      in ((case r of Inr res \<Rightarrow> if re_reconciled res then 1 else 0 | Inl _ \<Rightarrow> 0) + m, w2))"

definition reconcile_processing_payouts :: "(nat \<Rightarrow> payout_env) \<Rightarrow> time \<Rightarrow> world \<Rightarrow> nat \<times> world" where
  "reconcile_processing_payouts env now w =
     reconcile_each env 0 (find_many (payout_reconcilable now) po_initiatedAt payout_batch_size (payouts w)) w"

section \<open>Initiation\<close>

definition payout_reference :: "ident \<Rightarrow> string" where
  "payout_reference i = ''payout_'' @ i"

definition payout_request_of :: "booking \<Rightarrow> bank_details \<Rightarrow> rat \<Rightarrow> string \<Rightarrow> payout_request" where
  "payout_request_of b d amount reference =
     \<lparr>pr_bankCode = bd_bankCode d, pr_accountNumber = bd_accountNumber d, pr_bankName = bd_bankName d,
      pr_amount = amount, pr_reference = reference, pr_bookingId = b_id b,
      pr_bookingReference = b_bookingReference b\<rparr>"

text \<open>The provider call under the lease, recorded in the world, and what follows its answer.\<close>

definition submit_payout ::
  "payout_env \<Rightarrow> booking \<Rightarrow> bank_details \<Rightarrow> rat \<Rightarrow> payout \<Rightarrow> string \<Rightarrow> world \<Rightarrow> unit pay_result" where
  "submit_payout env b d amount p leaseId w =
     (let req = payout_request_of b d amount (payout_reference (po_id p));
          w1 = w\<lparr>transferRequests := transferRequests w @ [req]\<rparr>
      in case initiate_payout_request (pe_post env) (pe_webhookUrl env) req of
           Inl e \<Rightarrow> (Inl (PayoutInitiationFailed (b_id b) (fe_message e)), w1)
         | Inr resp \<Rightarrow>
             (if ps_success resp then handle_successful_payout env (b_id b) p leaseId False None w1
              else let reason = the (coalesce (ps_message resp) (Some ''Unknown error from Flutterwave'')) in
                (case handle_failed_payout env p reason leaseId w1 of
                   (Inl e, w2) \<Rightarrow> (Inl e, w2)
                 | (Inr _, w2) \<Rightarrow> (Inl (PayoutInitiationFailed (b_id b) reason), w2))))"

text \<open>Under a fresh lease: a transfer that an earlier attempt may have made is looked up first.\<close>

definition run_claimed_payout ::
  "payout_env \<Rightarrow> booking \<Rightarrow> bank_details \<Rightarrow> rat \<Rightarrow> payout \<Rightarrow> string \<Rightarrow> world \<Rightarrow> unit pay_result" where
  "run_claimed_payout env b d amount p leaseId w =
     (case (if po_status p = PO_PROCESSING
            then find_transfer_by_reference (pe_get env) (payout_reference (po_id p)) else Inr None) of
        Inl e \<Rightarrow> (Inl (PayProviderError e), w)
      | Inr (Some t) \<Rightarrow>
          (case reconcile_claimed_transfer env (b_id b) p t (payout_reference (po_id p)) leaseId w of
             (Inl e, w1) \<Rightarrow> (Inl e, w1)
           | (Inr _, w1) \<Rightarrow> (Inr (), w1))
      | Inr None \<Rightarrow> submit_payout env b d amount p leaseId w)"

definition initiate_payout :: "payout_env \<Rightarrow> booking \<Rightarrow> world \<Rightarrow> unit pay_result" where
  "initiate_payout env b w =
     (if has_no_payout_amount b then (Inr (), w)
      else case find_row (\<lambda>c. c_id c = b_carId b) (cars w) of
        None \<Rightarrow> (Inl (PayRecordNotFound (b_carId b)), w)
      | Some c \<Rightarrow>
        (case get_verified_bank_details (c_ownerId c) w of
           None \<Rightarrow> (Inl (PayoutBankDetailsRequired (b_id b)), w)
         | Some d \<Rightarrow>
           (let amount = the (b_fleetOwnerPayoutAmountNet b) in
            case create_or_update_payout_transaction env (c_ownerId c) b d amount w of
              (Inl e, w1) \<Rightarrow> (Inl e, w1)
            | (Inr p, w1) \<Rightarrow>
              (case claim_payout_processing env (b_id b) p (payout_reference (po_id p)) w1 of
                 (Inl e, w2) \<Rightarrow> (Inl e, w2)
               | (Inr None, w2) \<Rightarrow> (Inr (), w2)
               | (Inr (Some leaseId), w2) \<Rightarrow> run_claimed_payout env b d amount p leaseId w2))))"

definition process_payout_for_booking :: "payout_env \<Rightarrow> ident \<Rightarrow> world \<Rightarrow> unit pay_result" where
  "process_payout_for_booking env bookingId w =
     (case find_row (\<lambda>b. b_id b = bookingId) (bookings w) of
        None \<Rightarrow> (Inl (PayoutBookingNotFound bookingId), w)
      | Some b \<Rightarrow>
          (if b_status b \<noteq> B_COMPLETED then (Inl (PayoutBookingNotCompleted bookingId), w)
           else initiate_payout env b w))"

section \<open>The transfer webhook\<close>

definition handle_transfer_completed :: "payout_env \<Rightarrow> string \<Rightarrow> world \<Rightarrow> unit pay_result" where
  "handle_transfer_completed env reference w =
     (case find_row (\<lambda>p. po_payoutProviderReference p = Some reference) (payouts w) of
        None \<Rightarrow> (Inr (), w)
      | Some p \<Rightarrow>
          (if po_status p = PO_PAID_OUT \<or> po_status p = PO_FAILED then (Inr (), w)
           else case reconcile_payout env p w of
                  (Inl e, w1) \<Rightarrow> (Inl e, w1)
                | (Inr _, w1) \<Rightarrow> (Inr (), w1)))"

section \<open>The payout row as a state machine\<close>

interpretation payout_claims:
  claim_protocol po_id payout_guard payout_mark "\<lambda>c d. pk_now d < pk_now c + payout_processing_lease"
  by unfold_locales (auto simp: payout_mark_def payout_guard_def Let_def split: claim_kind.splits)

inductive payout_move :: "payout \<Rightarrow> payout \<Rightarrow> bool" where
  pm_refresh: "payout_move p (refresh_payout d a p)"
| pm_claim: "payout_guard c p \<Longrightarrow> pk_reference c = payout_reference (po_id p) \<Longrightarrow> payout_move p (payout_mark c p)"
| pm_finalize: "po_status p = PO_PROCESSING \<Longrightarrow> payout_move p (finalized_payout now snapshot st opts p)"
| pm_accept: "po_status p = PO_PROCESSING \<Longrightarrow>
    payout_move p (p\<lparr>po_processingLeaseId := None, po_processingLeaseExpiresAt := None, po_completedAt := None\<rparr>)"
| pm_release: "po_status p = PO_PROCESSING \<Longrightarrow>
    payout_move p (p\<lparr>po_processingLeaseId := None, po_processingLeaseExpiresAt := None\<rparr>)"

inductive_cases payout_moveE: "payout_move p p'"

text \<open>The atomic writes any process may make to the table.\<close>

inductive payouts_step :: "world \<Rightarrow> world \<Rightarrow> bool" where
  ps_create: "create_unique po_bookingId (new_payout env ownerId b d a) (payouts w) = Some (payouts w') \<Longrightarrow> payouts_step w w'"
| ps_move: "payouts w' = snd (update_many P f (payouts w)) \<Longrightarrow>
    (\<And>p. p \<in> set (payouts w) \<Longrightarrow> P p \<Longrightarrow> payout_move p (f p)) \<Longrightarrow> payouts_step w w'"
| ps_other: "payouts w' = payouts w \<Longrightarrow> payouts_step w w'"

definition payout_ok :: "payout \<Rightarrow> bool" where
  "payout_ok p \<longleftrightarrow>
     (po_processingLeaseId p = None \<longleftrightarrow> po_processingLeaseExpiresAt p = None)
   \<and> (po_processingLeaseId p \<noteq> None \<longrightarrow> po_status p = PO_PROCESSING)
   \<and> (po_payoutProviderReference p = None \<and> po_status p = PO_PENDING_DISBURSEMENT
      \<or> po_payoutProviderReference p = Some (payout_reference (po_id p)))
   \<and> (po_status p = PO_PAID_OUT \<longrightarrow> po_amountPaid p \<noteq> None \<and> po_completedAt p \<noteq> None)"

definition paid_frozen :: "payout \<Rightarrow> payout \<Rightarrow> bool" where
  "paid_frozen p p' \<longleftrightarrow>
     po_id p' = po_id p \<and> po_bookingId p' = po_bookingId p \<and> po_fleetOwnerId p' = po_fleetOwnerId p
   \<and> (po_status p = PO_PAID_OUT \<longrightarrow>
        po_status p' = PO_PAID_OUT \<and> po_amountPaid p' = po_amountPaid p \<and> po_completedAt p' = po_completedAt p
      \<and> po_payoutProviderReference p' = po_payoutProviderReference p \<and> po_processingLeaseId p' = po_processingLeaseId p)"

lemma paid_frozen_refl [simp]: "paid_frozen p p" by (simp add: paid_frozen_def)

lemma paid_frozen_trans: "paid_frozen a b \<Longrightarrow> paid_frozen b c \<Longrightarrow> paid_frozen a c"
  by (simp add: paid_frozen_def)

lemma payout_move_frozen: "payout_move p p' \<Longrightarrow> paid_frozen p p'"
  by (cases rule: payout_move.cases)
     (auto simp: paid_frozen_def refresh_payout_def payout_mark_def payout_guard_def finalized_payout_def Let_def
       split: claim_kind.splits terminal_payout.splits)

lemma finalized_payout_ok: "payout_ok p \<Longrightarrow> po_status p = PO_PROCESSING \<Longrightarrow> payout_ok (finalized_payout now snap st opts p)"
  by (cases st) (auto simp: payout_ok_def finalized_payout_def Let_def coalesce_def split: option.splits)

lemma payout_mark_ok:
  "payout_ok p \<Longrightarrow> payout_guard c p \<Longrightarrow> pk_reference c = payout_reference (po_id p) \<Longrightarrow> payout_ok (payout_mark c p)"
  by (cases "pk_kind c") (auto simp: payout_ok_def payout_mark_def payout_guard_def Let_def)

lemma payout_move_ok: "payout_move p p' \<Longrightarrow> payout_ok p \<Longrightarrow> payout_ok p'"
proof (induction rule: payout_move.induct)
  case (pm_claim c p)
  then show ?case by (intro payout_mark_ok)
next
  case (pm_finalize p now snapshot st opts)
  then show ?case by (intro finalized_payout_ok)
qed (auto simp: payout_ok_def refresh_payout_def)

lemma new_payout_ok: "payout_ok (new_payout env ownerId b d a)"
  by (simp add: payout_ok_def new_payout_def)

definition payouts_invariant :: "world \<Rightarrow> bool" where
  "payouts_invariant w \<longleftrightarrow>
     (\<forall>p \<in> set (payouts w). payout_ok p)
   \<and> unique_by po_bookingId (filter (\<lambda>p. po_bookingId p \<noteq> None) (payouts w))"

lemma map_key_filter_update:
  "(\<And>r. r \<in> set t \<Longrightarrow> key (g r) = key r) \<Longrightarrow>
   map key (filter (\<lambda>r. Q (key r)) (map g t)) = map key (filter (\<lambda>r. Q (key r)) t)"
  by (induction t) auto

lemma update_many_eq_map: "snd (update_many P f t) = map (\<lambda>r. if P r then f r else r) t"
  by (rule snd_update_many)

lemma payouts_step_rows:
  assumes "payouts_step w w'" "p \<in> set (payouts w)"
  shows "\<exists>p' \<in> set (payouts w'). paid_frozen p p'"
  using assms
proof cases
  case (ps_create env ownerId b d a)
  then show ?thesis using assms(2) create_unique_Some [OF ps_create] by (auto intro: bexI [of _ p])
next
  case (ps_move P f)
  have "(if P p then f p else p) \<in> set (payouts w')"
    using assms(2) by (auto simp: ps_move(1) snd_update_many)
  moreover have "paid_frozen p (if P p then f p else p)"
    using ps_move(2) [OF assms(2)] payout_move_frozen by auto
  ultimately show ?thesis by blast
next
  case ps_other
  then show ?thesis using assms(2) by (auto intro: bexI [of _ p])
qed

lemma payouts_steps_rows:
  "payouts_step\<^sup>*\<^sup>* w w' \<Longrightarrow> p \<in> set (payouts w) \<Longrightarrow> \<exists>p' \<in> set (payouts w'). paid_frozen p p'"
  by (induction rule: rtranclp_induct) (auto intro: bexI [of _ p], meson paid_frozen_trans payouts_step_rows)

lemma payouts_step_invariant:
  assumes "payouts_step w w'" "payouts_invariant w"
  shows "payouts_invariant w'"
  using assms
proof cases
  case (ps_create env ownerId b d a)
  have "payouts w' = payouts w @ [new_payout env ownerId b d a]"
    "po_bookingId (new_payout env ownerId b d a) \<notin> po_bookingId ` set (payouts w)"
    using create_unique_Some [OF ps_create] by blast+
  then show ?thesis using assms(2) new_payout_ok by (auto simp: payouts_invariant_def)
next
  case (ps_move P f)
  let ?g = "\<lambda>p. if P p then f p else p"
  have "po_bookingId (?g p) = po_bookingId p" if "p \<in> set (payouts w)" for p
    using ps_move(2) [OF that] payout_move_frozen by (auto simp: paid_frozen_def)
  then have "map po_bookingId (filter (\<lambda>p. po_bookingId p \<noteq> None) (payouts w'))
      = map po_bookingId (filter (\<lambda>p. po_bookingId p \<noteq> None) (payouts w))"
    unfolding ps_move(1) snd_update_many by (rule map_key_filter_update [where Q = "\<lambda>k. k \<noteq> None"])
  moreover have "payout_ok p'" if "p' \<in> set (payouts w')" for p'
  proof -
    from that obtain p where "p \<in> set (payouts w)" "p' = ?g p" unfolding ps_move(1) by (rule update_many_rowE)
    then show ?thesis using ps_move(2) [of p] payout_move_ok [of p] assms(2) by (auto simp: payouts_invariant_def)
  qed
  ultimately show ?thesis
    using assms(2) by (simp add: payouts_invariant_def)
next
  case ps_other
  then show ?thesis using assms(2) by (simp add: payouts_invariant_def)
qed

lemma payouts_steps_invariant: "payouts_step\<^sup>*\<^sup>* w w' \<Longrightarrow> payouts_invariant w \<Longrightarrow> payouts_invariant w'"
  by (induction rule: rtranclp_induct) (auto intro: payouts_step_invariant)

section \<open>Every entry point is a run of the machine\<close>

named_theorems payout_runs "operations as runs of payouts_step"

lemma other_steps: "payouts w' = payouts w \<Longrightarrow> payouts_step\<^sup>*\<^sup>* w w'"
  by (intro r_into_rtranclp ps_other)

lemma set_overall_payouts [simp]: "payouts (set_overall_payout_status now i st w) = payouts w"
  by (simp add: set_overall_payout_status_def)

lemma set_overall_requests [simp]: "transferRequests (set_overall_payout_status now i st w) = transferRequests w"
  by (simp add: set_overall_payout_status_def)

lemma run_create_or_update [payout_runs]:
  assumes "create_or_update_payout_transaction env ownerId b d a w = (r, w')"
  shows "payouts_step\<^sup>*\<^sup>* w w'"
proof (cases "create_unique po_bookingId (new_payout env ownerId b d a) (payouts w)")
  case None
  with assms have "payouts w' = payouts w \<or> (\<exists>i. payouts w' = snd (update_many (\<lambda>q. po_id q = i) (refresh_payout d a) (payouts w)))"
    by (auto simp: create_or_update_payout_transaction_def Let_def split: option.splits)
  then show ?thesis by (auto intro!: r_into_rtranclp intro: ps_other ps_move pm_refresh)
next
  case (Some t)
  with assms have "payouts w' = t" by (auto simp: create_or_update_payout_transaction_def Let_def)
  with Some show ?thesis by (intro r_into_rtranclp ps_create) simp
qed

lemma run_claim [payout_runs]:
  "claim_payout i c w = (n, w') \<Longrightarrow> pk_reference c = payout_reference i \<Longrightarrow> payouts_step\<^sup>*\<^sup>* w w'"
  by (auto simp: claim_payout_def claim_rows_def case_prod_beta
      intro!: r_into_rtranclp ps_move [where P = "\<lambda>r. po_id r = i \<and> payout_guard c r" and f = "payout_mark c"] pm_claim)

lemma run_claim_processing [payout_runs]:
  "claim_payout_processing env i p ref w = (r, w') \<Longrightarrow> ref = payout_reference (po_id p) \<Longrightarrow> payouts_step\<^sup>*\<^sup>* w w'"
  by (auto simp: claim_payout_processing_def Let_def split: if_splits prod.splits intro!: run_claim)

lemma payouts_select: "payouts (w\<lparr>payouts := t\<rparr>) = t" by simp

lemma run_finalize [payout_runs]:
  assumes "finalize_payout_status env snapshot st opts w = (r, w')" shows "payouts_step\<^sup>*\<^sup>* w w'"
proof -
  let ?P = "\<lambda>p. po_id p = po_id snapshot \<and> po_status p = PO_PROCESSING
               \<and> (truthy (fo_processingLeaseId opts) \<longrightarrow> po_processingLeaseId p = fo_processingLeaseId opts)"
  have "payouts w' = payouts w \<or> payouts w' = snd (update_many ?P (finalized_payout (pe_now env) snapshot st opts) (payouts w))"
    using assms unfolding finalize_payout_status_def
    by (auto simp: case_prod_beta Let_def split: if_splits option.splits)
  then show ?thesis
    by (auto intro!: r_into_rtranclp intro: ps_other ps_move pm_finalize)
qed

lemma run_accept [payout_runs]:
  assumes "accept_payout env i snapshot lease w = (r, w')" shows "payouts_step\<^sup>*\<^sup>* w w'"
proof -
  let ?P = "\<lambda>p. po_id p = po_id snapshot \<and> po_status p = PO_PROCESSING \<and> po_processingLeaseId p = Some lease"
  let ?f = "\<lambda>p. p\<lparr>po_status := PO_PROCESSING, po_processingLeaseId := None,
                   po_processingLeaseExpiresAt := None, po_completedAt := None\<rparr>"
  have "payouts w' = payouts w \<or> payouts w' = snd (update_many ?P ?f (payouts w))"
    using assms unfolding accept_payout_def
    by (auto simp: case_prod_beta Let_def split: if_splits option.splits)
  moreover have "payout_move p (?f p)" if "?P p" for p
    using pm_accept [of p] that by (metis (no_types, lifting) payout.surjective payout.update_convs(7))
  ultimately show ?thesis
    by (auto intro!: r_into_rtranclp intro: ps_other ps_move)
qed

lemma run_release [payout_runs]: "payouts_step\<^sup>*\<^sup>* w (release_payout_processing_lease i lease w)"
  by (intro r_into_rtranclp ps_move [where P = "\<lambda>p. po_id p = i \<and> po_status p = PO_PROCESSING \<and> po_processingLeaseId p = Some lease"
        and f = "\<lambda>p. p\<lparr>po_processingLeaseId := None, po_processingLeaseExpiresAt := None\<rparr>"])
     (auto simp: release_payout_processing_lease_def intro: pm_release)

lemma run_successful [payout_runs]:
  "handle_successful_payout env i p lease paid amt w = (r, w') \<Longrightarrow> payouts_step\<^sup>*\<^sup>* w w'"
  by (auto simp: handle_successful_payout_def split: if_splits prod.splits sum.splits intro: run_finalize run_accept)

lemma run_failed [payout_runs]:
  "handle_failed_payout env p msg lease w = (r, w') \<Longrightarrow> payouts_step\<^sup>*\<^sup>* w w'"
  by (auto simp: handle_failed_payout_def intro: run_finalize)

lemma run_reconcile_claimed [payout_runs]:
  "reconcile_claimed_transfer env i p t ref lease w = (r, w') \<Longrightarrow> payouts_step\<^sup>*\<^sup>* w w'"
  unfolding reconcile_claimed_transfer_def Let_def
  by (auto split: if_splits prod.splits sum.splits option.splits intro: run_failed run_successful run_release)

lemma truthy_payout_reference [simp]: "truthy (Some (payout_reference i))"
  by (simp add: payout_reference_def)

lemma run_reconcile [payout_runs]:
  assumes "reconcile_payout env p w = (r, w')"
    and "po_payoutProviderReference p = None \<or> po_payoutProviderReference p = Some (payout_reference (po_id p))"
  shows "payouts_step\<^sup>*\<^sup>* w w'"
proof (cases "po_payoutProviderReference p = None \<or> \<not> truthy (po_bookingId p)")
  case True
  then show ?thesis using assms(1) by (auto simp: reconcile_payout_def)
next
  case False
  let ?c = "\<lparr>pk_kind = Reconciliation, pk_now = pe_now env, pk_leaseId = pe_uuid env, pk_reference = payout_reference (po_id p)\<rparr>"
  obtain n w1 where c: "claim_payout (po_id p) ?c w = (n, w1)" by fastforce
  have s1: "payouts_step\<^sup>*\<^sup>* w w1" by (rule run_claim [OF c]) simp
  have "payouts_step\<^sup>*\<^sup>* w1 w'"
    using assms False c unfolding reconcile_payout_def Let_def
    by (auto split: if_splits sum.splits option.splits intro: run_release run_reconcile_claimed)
  with s1 show ?thesis by simp
qed

lemma run_submit [payout_runs]:
  assumes "submit_payout env b d a p lease w = (r, w')"
  shows "payouts_step\<^sup>*\<^sup>* w w'"
proof -
  let ?w = "w\<lparr>transferRequests := transferRequests w @ [payout_request_of b d a (payout_reference (po_id p))]\<rparr>"
  have "payouts_step\<^sup>*\<^sup>* ?w w'"
    using assms unfolding submit_payout_def Let_def
    by (auto split: if_splits sum.splits prod.splits dest!: run_successful run_failed)
  then show ?thesis by (rule rtranclp_trans [OF other_steps, rotated]) simp
qed

lemma run_claimed [payout_runs]:
  "run_claimed_payout env b d a p lease w = (r, w') \<Longrightarrow> payouts_step\<^sup>*\<^sup>* w w'"
  unfolding run_claimed_payout_def
  by (auto split: if_splits sum.splits option.splits prod.splits intro: run_submit run_reconcile_claimed)

lemma run_initiate [payout_runs]:
  "initiate_payout env b w = (r, w') \<Longrightarrow> payouts_step\<^sup>*\<^sup>* w w'"
  unfolding initiate_payout_def Let_def
  by (auto split: if_splits sum.splits option.splits prod.splits
      dest!: run_create_or_update run_claim_processing [OF _ refl] run_claimed intro: rtranclp_trans)

lemma run_process [payout_runs]:
  "process_payout_for_booking env i w = (r, w') \<Longrightarrow> payouts_step\<^sup>*\<^sup>* w w'"
  unfolding process_payout_for_booking_def
  by (auto split: if_splits option.splits intro: run_initiate)

lemma run_reconcile_each:
  "(\<And>p. p \<in> set ps \<Longrightarrow> po_payoutProviderReference p = None \<or> po_payoutProviderReference p = Some (payout_reference (po_id p))) \<Longrightarrow>
   payouts_step\<^sup>*\<^sup>* w (snd (reconcile_each env k ps w))"
proof (induction ps arbitrary: k w)
  case (Cons p ps)
  obtain r w1 where r: "reconcile_payout (env k) p w = (r, w1)" by fastforce
  have "payouts_step\<^sup>*\<^sup>* w w1" by (rule run_reconcile [OF r]) (use Cons.prems in simp)
  moreover have "payouts_step\<^sup>*\<^sup>* w1 (snd (reconcile_each env (Suc k) ps w1))"
    using Cons.prems by (intro Cons.IH) simp
  ultimately show ?case by (simp add: r case_prod_beta)
qed simp

lemma invariant_reference:
  "payouts_invariant w \<Longrightarrow> p \<in> set (payouts w) \<Longrightarrow>
   po_payoutProviderReference p = None \<or> po_payoutProviderReference p = Some (payout_reference (po_id p))"
  by (auto simp: payouts_invariant_def payout_ok_def)

lemma run_reconcile_processing:
  "payouts_invariant w \<Longrightarrow> payouts_step\<^sup>*\<^sup>* w (snd (reconcile_processing_payouts env now w))"
  unfolding reconcile_processing_payouts_def
proof (rule run_reconcile_each)
  fix p assume "payouts_invariant w"
    and p: "p \<in> set (find_many (payout_reconcilable now) po_initiatedAt payout_batch_size (payouts w))"
  moreover have "p \<in> set (payouts w)" using find_many_subset p by fastforce
  ultimately show "po_payoutProviderReference p = None \<or> po_payoutProviderReference p = Some (payout_reference (po_id p))"
    using invariant_reference by blast
qed

lemma run_webhook:
  "payouts_invariant w \<Longrightarrow> payouts_step\<^sup>*\<^sup>* w (snd (handle_transfer_completed env ref w))"
  unfolding handle_transfer_completed_def
  by (auto split: option.splits prod.splits sum.splits dest!: find_row_Some dest: invariant_reference intro!: run_reconcile)

section \<open>What the operations do to the provider\<close>

definition initiation_claim :: "payout_env \<Rightarrow> ident \<Rightarrow> payout_claim" where
  "initiation_claim env i =
     \<lparr>pk_kind = Initiation, pk_now = pe_now env, pk_leaseId = pe_uuid env, pk_reference = payout_reference i\<rparr>"

text \<open>A payout row that a new initiation may take: not in processing, or its lease has run out.\<close>

definition payout_free :: "time \<Rightarrow> payout \<Rightarrow> bool" where
  "payout_free now p \<longleftrightarrow>
     po_status p \<in> {PO_PENDING_DISBURSEMENT, PO_FAILED}
   \<or> (po_status p = PO_PROCESSING \<and> (\<exists>t. po_processingLeaseExpiresAt p = Some t \<and> t \<le> now))"

lemma payout_guard_initiation: "pk_kind c = Initiation \<Longrightarrow> payout_guard c p \<longleftrightarrow> payout_free (pk_now c) p"
  by (auto simp: payout_guard_def payout_free_def split: option.splits)

lemma refresh_free [simp]:
  "payout_free now (refresh_payout d a p) = payout_free now p" "po_status (refresh_payout d a p) = po_status p"
  "po_id (refresh_payout d a p) = po_id p" "po_bookingId (refresh_payout d a p) = po_bookingId p"
  "po_processingLeaseId (refresh_payout d a p) = po_processingLeaseId p"
  by (simp_all add: payout_free_def refresh_payout_def)

lemma requests_create_or_update:
  "create_or_update_payout_transaction env o' b d a w = (r, w') \<Longrightarrow> transferRequests w' = transferRequests w"
  by (auto simp: create_or_update_payout_transaction_def Let_def split: option.splits)

lemma requests_claim: "claim_payout i c w = (n, w') \<Longrightarrow> transferRequests w' = transferRequests w"
  by (auto simp: claim_payout_def case_prod_beta)

lemma requests_claim_processing:
  "claim_payout_processing env i p ref w = (r, w') \<Longrightarrow> transferRequests w' = transferRequests w"
  by (auto simp: claim_payout_processing_def Let_def dest: requests_claim split: if_splits prod.splits)

lemma requests_finalize:
  "finalize_payout_status env p st opts w = (r, w') \<Longrightarrow> transferRequests w' = transferRequests w"
  unfolding finalize_payout_status_def
  by (auto simp: case_prod_beta Let_def split: if_splits option.splits)

lemma requests_successful:
  "handle_successful_payout env i p l paid amt w = (r, w') \<Longrightarrow> transferRequests w' = transferRequests w"
  unfolding handle_successful_payout_def accept_payout_def Let_def
  by (auto dest: requests_finalize split: if_splits prod.splits sum.splits option.splits)

lemma requests_failed:
  "handle_failed_payout env p msg l w = (r, w') \<Longrightarrow> transferRequests w' = transferRequests w"
  by (auto simp: handle_failed_payout_def dest: requests_finalize)

lemma requests_reconcile_claimed:
  "reconcile_claimed_transfer env i p t ref l w = (r, w') \<Longrightarrow> transferRequests w' = transferRequests w"
  unfolding reconcile_claimed_transfer_def Let_def
  by (auto simp: release_payout_processing_lease_def dest: requests_failed requests_successful
      split: if_splits prod.splits sum.splits option.splits)

lemma requests_submit:
  "submit_payout env b d a p l w = (r, w') \<Longrightarrow>
   transferRequests w' = transferRequests w @ [payout_request_of b d a (payout_reference (po_id p))]"
  unfolding submit_payout_def Let_def
  by (auto dest!: requests_failed requests_successful split: if_splits prod.splits sum.splits)

lemma run_claimed_request:
  assumes "run_claimed_payout env b d a p l w = (r, w')" "transferRequests w' \<noteq> transferRequests w"
  shows "transferRequests w' = transferRequests w @ [payout_request_of b d a (payout_reference (po_id p))]"
    and "po_status p = PO_PROCESSING \<longrightarrow> find_transfer_by_reference (pe_get env) (payout_reference (po_id p)) = Inr None"
  using assms unfolding run_claimed_payout_def
  by (auto dest!: requests_submit requests_reconcile_claimed split: if_splits prod.splits sum.splits option.splits)

text \<open>The row the initiation works with: a new one, or the booking's row with a fresh snapshot.\<close>

lemma create_or_update_row:
  assumes "create_or_update_payout_transaction env o' b d a w = (Inr p, w')"
    and "unique_by po_id (payouts w)" "pe_newId env \<notin> po_id ` set (payouts w)"
  shows "p \<in> set (payouts w') \<and> unique_by po_id (payouts w') \<and>
    (p = new_payout env o' b d a \<and> find_row (\<lambda>q. po_bookingId q = Some (b_id b)) (payouts w) = None
     \<or> (\<exists>e. find_row (\<lambda>q. po_bookingId q = Some (b_id b)) (payouts w) = Some e \<and> p = refresh_payout d a e
          \<and> payouts w' = map (\<lambda>q. if po_id q = po_id e then refresh_payout d a q else q) (payouts w)))"
proof (cases "create_unique po_bookingId (new_payout env o' b d a) (payouts w)")
  case (Some t)
  with assms have "p = new_payout env o' b d a" "payouts w' = t"
    by (auto simp: create_or_update_payout_transaction_def Let_def)
  moreover have "t = payouts w @ [new_payout env o' b d a]"
      "Some (b_id b) \<notin> po_bookingId ` set (payouts w)"
    using create_unique_Some [OF Some] by (auto simp: new_payout_def)
  ultimately show ?thesis
    using assms(2,3) by (force simp: find_row_None new_payout_def)
next
  case None
  with assms(1) obtain e where e: "find_row (\<lambda>q. po_bookingId q = Some (b_id b)) (payouts w) = Some e"
      "p = refresh_payout d a e" "payouts w' = snd (update_many (\<lambda>q. po_id q = po_id e) (refresh_payout d a) (payouts w))"
    by (auto simp: create_or_update_payout_transaction_def Let_def split: option.splits)
  moreover have "unique_by po_id (payouts w')"
    unfolding e(3) by (rule unique_update_many) (simp_all add: assms(2))
  ultimately show ?thesis
    using find_row_Some [OF e(1)] by (force simp: snd_update_many)
qed

lemma claim_processing_free:
  assumes "claim_payout_processing env i p ref w = (Inr (Some l), w')"
    and "p \<in> set (payouts w)" "unique_by po_id (payouts w)"
  shows "payout_free (pe_now env) p"
proof -
  let ?c = "\<lparr>pk_kind = Initiation, pk_now = pe_now env, pk_leaseId = pe_uuid env, pk_reference = ref\<rparr>"
  from assms(1) have "fst (claim_payout (po_id p) ?c w) \<noteq> 0"
    by (auto simp: claim_payout_processing_def Let_def split: if_splits prod.splits)
  then have "fst (claim_rows po_id payout_guard payout_mark (po_id p) ?c (payouts w)) \<noteq> 0"
    by (simp add: claim_payout_def case_prod_beta)
  then have "payout_guard ?c p"
    using payout_claims.claim_lost [OF assms(3,2), of ?c] by fastforce
  then show ?thesis by (simp add: payout_guard_initiation)
qed

lemma demo_payout_ok: "payouts_invariant (demo_world\<lparr>payouts := [demo_payout]\<rparr>)"
  by (simp add: payouts_invariant_def payout_ok_def demo_payout_def)

section \<open>Properties\<close>

text \<open>
  Property C1: Of any number of workers that claim the same payout (first initiations, retries and
  reconciliations in any order), all started within the ten minutes of the first lease, at most
  one obtains the lease.
\<close>

theorem one_worker_holds_payout_lease:
  assumes "unique_by po_id (payouts w)"
    and "sorted_wrt (\<lambda>c d. pk_now d < pk_now c + payout_processing_lease) cs"
  shows "claim_wins po_id payout_guard payout_mark i cs (payouts w) \<le> 1"
  using assms by (rule payout_claims.one_winner)

definition demo_payout_claim :: "claim_kind \<Rightarrow> time \<Rightarrow> payout_claim" where
  "demo_payout_claim k t = \<lparr>pk_kind = k, pk_now = t, pk_leaseId = ''lease'', pk_reference = ''payout_po1''\<rparr>"

theorem one_worker_holds_payout_lease_witness:
  "claim_wins po_id payout_guard payout_mark ''po1''
     [demo_payout_claim Initiation 0, demo_payout_claim Initiation 500, demo_payout_claim Reconciliation 599999]
     (payouts (demo_world\<lparr>payouts := [demo_payout]\<rparr>)) \<le> 1"
  by (rule one_worker_holds_payout_lease)
     (simp_all add: demo_payout_claim_def payout_processing_lease_def)

text \<open>
  Property C15: Processing a payout, reconciling a batch and handling a transfer webhook keep the
  payout table well formed (a lease is held only in processing and has an expiry, the provider
  reference is that of the row, a paid-out row has its amount and date, one row per booking), and
  a paid-out row never leaves that status nor changes what was paid.
\<close>

theorem payout_operations_keep_invariant:
  assumes "payouts_invariant w"
    and "w' \<in> {snd (process_payout_for_booking env i w), snd (reconcile_processing_payouts envs now w),
               snd (handle_transfer_completed env ref w)}"
  shows "payouts_invariant w' \<and> (\<forall>p \<in> set (payouts w). \<exists>p' \<in> set (payouts w'). paid_frozen p p')"
proof -
  have "payouts_step\<^sup>*\<^sup>* w w'"
    using assms run_process [OF prod.collapse [symmetric]] run_reconcile_processing run_webhook by blast
  then show ?thesis using assms(1) payouts_steps_invariant payouts_steps_rows by blast
qed

theorem payout_operations_keep_invariant_witness:
  "payouts_invariant (snd (reconcile_processing_payouts (\<lambda>k. \<lparr>pe_now = 5, pe_uuid = ''l'', pe_newId = ''n'',
      pe_config = demo_config, pe_webhookUrl = [], pe_post = (\<lambda>_. HttpNoResponse), pe_get = (\<lambda>_. HttpNoResponse)\<rparr>)
      5 (demo_world\<lparr>payouts := [demo_payout]\<rparr>)))"
  using payout_operations_keep_invariant [OF demo_payout_ok insertI2 [OF insertI1]] by blast

text \<open>
  Property C2: a transfer is requested from the provider at most once per call, under the
  reference of the booking's own payout row, for the booking's net amount and the owner's verified
  account, and only when that row is new, waiting, failed, or left in processing by a lease that has
  run out for which the provider knows no transfer.
\<close>

theorem transfer_requested_only_when_free:
  assumes "unique_by po_id (payouts w)" and "pe_newId env \<notin> po_id ` set (payouts w)"
    and "transferRequests (snd (process_payout_for_booking env i w)) \<noteq> transferRequests w"
  shows "\<exists>b c d j. find_row (\<lambda>b. b_id b = i) (bookings w) = Some b \<and> b_status b = B_COMPLETED
    \<and> find_row (\<lambda>c. c_id c = b_carId b) (cars w) = Some c \<and> get_verified_bank_details (c_ownerId c) w = Some d
    \<and> transferRequests (snd (process_payout_for_booking env i w)) =
        transferRequests w @ [payout_request_of b d (the (b_fleetOwnerPayoutAmountNet b)) (payout_reference j)]
    \<and> (case find_row (\<lambda>q. po_bookingId q = Some i) (payouts w) of
          None \<Rightarrow> j = pe_newId env
        | Some e \<Rightarrow> j = po_id e \<and> payout_free (pe_now env) e
            \<and> (po_status e = PO_PROCESSING \<longrightarrow> find_transfer_by_reference (pe_get env) (payout_reference (po_id e)) = Inr None))"
proof -
  obtain r w' where run: "process_payout_for_booking env i w = (r, w')" by fastforce
  with assms(3) have new: "transferRequests w' \<noteq> transferRequests w" by simp
  from run new obtain b where b: "find_row (\<lambda>b. b_id b = i) (bookings w) = Some b" "b_status b = B_COMPLETED"
      "initiate_payout env b w = (r, w')"
    by (auto simp: process_payout_for_booking_def split: option.splits if_splits)
  then have bid: "b_id b = i" by (auto dest: find_row_Some)
  let ?a = "the (b_fleetOwnerPayoutAmountNet b)"
  from b(3) new obtain c d p w1 l w2 where c: "find_row (\<lambda>c. c_id c = b_carId b) (cars w) = Some c"
      "get_verified_bank_details (c_ownerId c) w = Some d"
      and cu: "create_or_update_payout_transaction env (c_ownerId c) b d ?a w = (Inr p, w1)"
      and cl: "claim_payout_processing env (b_id b) p (payout_reference (po_id p)) w1 = (Inr (Some l), w2)"
      and rc: "run_claimed_payout env b d ?a p l w2 = (r, w')"
    unfolding initiate_payout_def Let_def
    by (auto split: option.splits if_splits sum.splits prod.splits dest!: requests_create_or_update requests_claim_processing)
  have same: "transferRequests w2 = transferRequests w"
    using requests_create_or_update [OF cu] requests_claim_processing [OF cl] by simp
  note req = run_claimed_request [OF rc new [folded same]]
  note row = create_or_update_row [OF cu assms(1,2)]
  then have free: "payout_free (pe_now env) p" using claim_processing_free [OF cl] by blast
  have "case find_row (\<lambda>q. po_bookingId q = Some i) (payouts w) of
          None \<Rightarrow> po_id p = pe_newId env
        | Some e \<Rightarrow> po_id p = po_id e \<and> payout_free (pe_now env) e
            \<and> (po_status e = PO_PROCESSING \<longrightarrow> find_transfer_by_reference (pe_get env) (payout_reference (po_id e)) = Inr None)"
    using row free req(2) bid by (auto simp: new_payout_def)
  moreover have "transferRequests (snd (process_payout_for_booking env i w)) =
      transferRequests w @ [payout_request_of b d ?a (payout_reference (po_id p))]"
    using req(1) same run by simp
  ultimately show ?thesis using b(1,2) c by - (rule exI [of _ b], rule exI [of _ c], rule exI [of _ d], rule exI [of _ "po_id p"], simp)
qed

section \<open>Exact outcomes of an initiation\<close>

text \<open>A completed booking with an amount, its car, the owner's verified account and its payout row.\<close>

definition payable :: "ident \<Rightarrow> world \<Rightarrow> booking \<Rightarrow> car \<Rightarrow> bank_details \<Rightarrow> payout \<Rightarrow> bool" where
  "payable i w b c d e \<longleftrightarrow>
     find_row (\<lambda>b. b_id b = i) (bookings w) = Some b \<and> b_status b = B_COMPLETED \<and> \<not> has_no_payout_amount b
   \<and> find_row (\<lambda>c. c_id c = b_carId b) (cars w) = Some c \<and> get_verified_bank_details (c_ownerId c) w = Some d
   \<and> unique_by po_id (payouts w) \<and> find_row (\<lambda>q. po_bookingId q = Some i) (payouts w) = Some e"

definition put_payout :: "payout \<Rightarrow> world \<Rightarrow> world" where
  "put_payout p w = w\<lparr>payouts := map (\<lambda>q. if po_id q = po_id p then p else q) (payouts w)\<rparr>"

lemma map_put_same:
  "unique_by key t \<Longrightarrow> e \<in> set t \<Longrightarrow> map (\<lambda>q. if key q = key e then f q else q) t = map (\<lambda>q. if key q = key e then f e else q) t"
  using unique_by_same by (intro map_cong) fastforce+

lemma put_payout_payouts: "e \<in> set (payouts w) \<Longrightarrow> po_id p = po_id e \<Longrightarrow> p \<in> set (payouts (put_payout p w))"
  by (auto simp: put_payout_def)

lemma put_payout_unique: "unique_by po_id (payouts w) \<Longrightarrow> unique_by po_id (payouts (put_payout p w))"
  by (simp add: put_payout_def o_def if_distrib cong: if_cong)

lemma put_payout_put [simp]: "po_id q = po_id p \<Longrightarrow> put_payout q (put_payout p w) = put_payout q w"
  by (auto simp: put_payout_def)

lemma payable_create:
  assumes "payable i w b c d e"
  shows "create_or_update_payout_transaction env o' b d a w = (Inr (refresh_payout d a e), put_payout (refresh_payout d a e) w)"
proof -
  have b: "b_id b = i" and e: "e \<in> set (payouts w)" "po_bookingId e = Some i" and u: "unique_by po_id (payouts w)"
    using assms by (auto simp: payable_def dest: find_row_Some)
  then have "create_unique po_bookingId (new_payout env o' b d a) (payouts w) = None"
    by (auto simp: create_unique_def new_payout_def image_iff) metis
  then show ?thesis using assms b map_put_same [OF u e(1), of "refresh_payout d a"]
    by (simp add: create_or_update_payout_transaction_def payable_def put_payout_def snd_update_many)
qed

lemma claim_payout_won:
  "unique_by po_id (payouts w) \<Longrightarrow> p \<in> set (payouts w) \<Longrightarrow> payout_guard k p \<Longrightarrow>
   claim_payout (po_id p) k w = (1, put_payout (payout_mark k p) w)"
  by (simp add: claim_payout_def payout_claims.claim_won put_payout_def payout_claims.id_mark)

lemma claim_payout_lost:
  "unique_by po_id (payouts w) \<Longrightarrow> p \<in> set (payouts w) \<Longrightarrow> \<not> payout_guard k p \<Longrightarrow>
   claim_payout (po_id p) k w = (0, w)"
  by (simp add: claim_payout_def payout_claims.claim_lost)

lemma payable_initiate:
  assumes "payable i w b c d e" and "a = the (b_fleetOwnerPayoutAmountNet b)"
  shows "process_payout_for_booking env i w =
    (let p = refresh_payout d a e; w1 = put_payout p w in
     if po_status e = PO_PAID_OUT \<or> (po_status e = PO_PROCESSING \<and> \<not> truthy (po_processingLeaseId e)) then (Inr (), w1)
     else if payout_free (pe_now env) e
       then run_claimed_payout env b d a p (pe_uuid env) (put_payout (payout_mark (initiation_claim env (po_id e)) p) w)
     else (Inl (PayoutProcessingInProgress i), w1))"
proof -
  let ?p = "refresh_payout d a e"
  have b: "b_id b = i" and e: "e \<in> set (payouts w)" and u: "unique_by po_id (payouts w)"
    using assms by (auto simp: payable_def dest: find_row_Some)
  have p: "?p \<in> set (payouts (put_payout ?p w))" "unique_by po_id (payouts (put_payout ?p w))"
    using e u by (auto intro: put_payout_payouts put_payout_unique)
  have proc: "process_payout_for_booking env i w =
      (case claim_payout_processing env i ?p (payout_reference (po_id e)) (put_payout ?p w) of
         (Inl e, w2) \<Rightarrow> (Inl e, w2) | (Inr None, w2) \<Rightarrow> (Inr (), w2)
       | (Inr (Some l), w2) \<Rightarrow> run_claimed_payout env b d a ?p l w2)"
    unfolding assms(2) using assms(1) payable_create [OF assms(1)] b
    by (simp add: process_payout_for_booking_def initiate_payout_def payable_def Let_def)
  have "claim_payout (po_id e) (initiation_claim env (po_id e)) (put_payout ?p w) =
     (if payout_free (pe_now env) e then (1, put_payout (payout_mark (initiation_claim env (po_id e)) ?p) w) else (0, put_payout ?p w))"
    using claim_payout_won [OF p(2,1), of "initiation_claim env (po_id e)"]
      claim_payout_lost [OF p(2,1), of "initiation_claim env (po_id e)"]
      payout_guard_initiation [of "initiation_claim env (po_id e)" ?p]
    by (simp add: initiation_claim_def payout_claims.id_mark)
  then show ?thesis unfolding proc claim_payout_processing_def Let_def
    by (simp add: initiation_claim_def [symmetric])
qed

lemma put_payout_select [simp]:
  "bookings (put_payout p w) = bookings w" "users (put_payout p w) = users w"
  "transferRequests (put_payout p w) = transferRequests w"
  "put_payout p (w\<lparr>transferRequests := q\<rparr>) = (put_payout p w)\<lparr>transferRequests := q\<rparr>"
  by (simp_all add: put_payout_def)

lemma put_payout_find:
  "unique_by po_id (payouts w) \<Longrightarrow> e \<in> set (payouts w) \<Longrightarrow> po_id p = po_id e \<Longrightarrow>
   find_row (\<lambda>q. po_id q = po_id e) (payouts (put_payout p w)) = Some p"
  using find_row_unique [OF put_payout_unique [of w p] put_payout_payouts [of e w p]] by simp

lemma update_put_payout:
  assumes "unique_by po_id (payouts w)" "e \<in> set (payouts w)" "po_id p = po_id e" "P p" "\<And>p. po_id (f p) = po_id p"
  shows "update_many (\<lambda>r. po_id r = po_id e \<and> P r) f (payouts (put_payout p w)) = (1, payouts (put_payout (f p) w))"
  using update_many_at [where P = P and f = f, OF put_payout_unique [OF assms(1), of p] put_payout_payouts [OF assms(2,3)]] assms(3-5)
  by (simp add: put_payout_def cong: if_cong)

lemma finalized_payout_id [simp]: "po_id (finalized_payout now snap st opts p) = po_id p"
  by (cases st) (simp_all add: finalized_payout_def Let_def)

definition accepted_payout :: "payout \<Rightarrow> payout" where
  "accepted_payout p = p\<lparr>po_processingLeaseId := None, po_processingLeaseExpiresAt := None, po_completedAt := None\<rparr>"

lemma accept_payout_put:
  assumes "unique_by po_id (payouts w)" "e \<in> set (payouts w)" "po_id p = po_id e" "po_status p = PO_PROCESSING"
    and "po_processingLeaseId p = Some l" "po_id snapshot = po_id e" "find_row (\<lambda>b. b_id b = i) (bookings w) = Some b"
  shows "accept_payout env i snapshot l (put_payout p w)
       = (Inr (), set_overall_payout_status (pe_now env) i PO_PROCESSING (put_payout (accepted_payout p) w))"
proof -
  let ?f = "\<lambda>p. p\<lparr>po_status := PO_PROCESSING, po_processingLeaseId := None, po_processingLeaseExpiresAt := None, po_completedAt := None\<rparr>"
  have f: "?f p = accepted_payout p" using assms(4) by (simp add: accepted_payout_def)
  have "update_many (\<lambda>r. po_id r = po_id e \<and> po_status r = PO_PROCESSING \<and> po_processingLeaseId r = Some l) ?f (payouts (put_payout p w))
      = (1, payouts (put_payout (accepted_payout p) w))"
    using update_put_payout [OF assms(1-3), of "\<lambda>r. po_status r = PO_PROCESSING \<and> po_processingLeaseId r = Some l" ?f] assms(4,5) f
    by simp
  then show ?thesis using assms(6,7) by (simp add: accept_payout_def put_payout_def)
qed

lemma finalize_put:
  assumes "unique_by po_id (payouts w)" "e \<in> set (payouts w)" "po_id p = po_id e" "po_status p = PO_PROCESSING"
    and "po_processingLeaseId p = Some l" "po_id snapshot = po_id e" "po_bookingId snapshot = Some i"
    and "find_row (\<lambda>b. b_id b = i) (bookings w) = Some b" "find_row (\<lambda>u. u_id u = po_fleetOwnerId p) (users w) = Some u"
    and "i \<noteq> []" "fo_processingLeaseId opts = Some l"
    and p'_def: "p' = finalized_payout (pe_now env) snapshot st opts p"
  shows "finalize_payout_status env snapshot st opts (put_payout p w) =
    (Inr True, snd (create_notifications (pe_now env) NE_BOOKING_LIFECYCLE
       (payout_status_changed_events (pe_config env)
          \<lparr>pn_payoutTransactionId = po_id e, pn_bookingId = i, pn_bookingReference = b_bookingReference b, pn_status = st,
           pn_amount = po_amountToPay p, pn_failureReason = fo_failureReason opts, pn_fleetOwner = u\<rparr>)
       (set_overall_payout_status (pe_now env) i (terminal_status st) (put_payout p' w))))"
proof -
  have up: "update_many (\<lambda>r. po_id r = po_id e \<and> po_status r = PO_PROCESSING
        \<and> (truthy (fo_processingLeaseId opts) \<longrightarrow> po_processingLeaseId r = fo_processingLeaseId opts))
      (finalized_payout (pe_now env) snapshot st opts) (payouts (put_payout p w)) = (1, payouts (put_payout p' w))"
    unfolding p'_def
    by (rule update_put_payout [OF assms(1-3)]) (simp_all add: assms(4,5,11))
  have fin: "find_row (\<lambda>q. po_id q = po_id e) (payouts (put_payout p' w)) = Some p'"
    by (rule put_payout_find [OF assms(1,2)]) (simp add: p'_def assms(3))
  have "po_amountToPay p' = po_amountToPay p" "po_fleetOwnerId p' = po_fleetOwnerId p" "po_id p' = po_id e"
    by (cases st; simp add: p'_def finalized_payout_def Let_def assms(3))+
  moreover have "truthy (Some i)" using assms(10) by (cases i) simp_all
  ultimately show ?thesis
    using up fin assms(6-9) by (simp add: finalize_payout_status_def put_payout_def set_overall_payout_status_def Let_def)
qed

lemma payable_facts:
  assumes "payable i w b c d e"
  shows "b_id b = i" "unique_by po_id (payouts w)" "e \<in> set (payouts w)" "po_bookingId e = Some i"
    "find_row (\<lambda>b. b_id b = i) (bookings w) = Some b"
  using assms by (auto simp: payable_def dest: find_row_Some)

lemma initiation_mark_row:
  "p = payout_mark (initiation_claim env i) q \<Longrightarrow>
   po_id p = po_id q \<and> po_status p = PO_PROCESSING \<and> po_processingLeaseId p = Some (pe_uuid env)
   \<and> po_fleetOwnerId p = po_fleetOwnerId q \<and> po_amountToPay p = po_amountToPay q"
  by (simp add: payout_mark_def initiation_claim_def Let_def)

text \<open>
  Property C17: what an initiation leaves behind, for every answer of the provider, when the row is
  free and no earlier transfer is known.  An accepted transfer leaves the row in processing without
  a lease; a definite refusal fails it and tells the owner; an exchange whose outcome is unknown
  leaves it in processing under its ten-minute lease, neither failed nor free, and changes nothing
  else.
\<close>

theorem payout_initiation_outcome:
  assumes "payable i w b c d e" and "i \<noteq> []" and "payout_free (pe_now env) e"
    and "po_status e = PO_PROCESSING \<longrightarrow> truthy (po_processingLeaseId e)
           \<and> find_transfer_by_reference (pe_get env) (payout_reference (po_id e)) = Inr None"
    and "find_row (\<lambda>u. u_id u = po_fleetOwnerId e) (users w) = Some u"
  shows "let a = the (b_fleetOwnerPayoutAmountNet b);
      leased = payout_mark (initiation_claim env (po_id e)) (refresh_payout d a e);
      req = payout_request_of b d a (payout_reference (po_id e));
      res = process_payout_for_booking env i w
    in case initiate_payout_request (pe_post env) (pe_webhookUrl env) req of
      Inl err \<Rightarrow> res = (Inl (PayoutInitiationFailed i (fe_message err)),
                     (put_payout leased w)\<lparr>transferRequests := transferRequests w @ [req]\<rparr>)
    | Inr resp \<Rightarrow> \<not> outcome_unknown (pe_post env (transfer_payload_of (pe_webhookUrl env) req))
        \<and> (if ps_success resp
           then fst res = Inr () \<and> payouts (snd res) = payouts (put_payout (accepted_payout leased) w)
              \<and> bookings (snd res) = bookings (set_overall_payout_status (pe_now env) i PO_PROCESSING w)
           else (\<exists>msg. fst res = Inl (PayoutInitiationFailed i msg)
              \<and> payouts (snd res) = payouts (put_payout (finalized_payout (pe_now env) e PAYOUT_FAILED
                   \<lparr>fo_processingLeaseId = Some (pe_uuid env), fo_failureReason = Some msg, fo_amountPaid = None\<rparr> leased) w))
              \<and> bookings (snd res) = bookings (set_overall_payout_status (pe_now env) i PO_FAILED w))"
proof -
  note f = payable_facts [OF assms(1)]
  define a where "a = the (b_fleetOwnerPayoutAmountNet b)"
  define leased where "leased = payout_mark (initiation_claim env (po_id e)) (refresh_payout d a e)"
  define req where "req = payout_request_of b d a (payout_reference (po_id e))"
  define res where "res = process_payout_for_booking env i w"
  note folds = a_def [symmetric] leased_def [symmetric] req_def [symmetric] res_def [symmetric]
  let ?p = "refresh_payout d a e"
  have st: "\<not> (po_status e = PO_PAID_OUT \<or> (po_status e = PO_PROCESSING \<and> \<not> truthy (po_processingLeaseId e)))"
    using assms(3,4) by (auto simp: payout_free_def)
  have mk: "po_id leased = po_id e \<and> po_status leased = PO_PROCESSING \<and> po_processingLeaseId leased = Some (pe_uuid env)
      \<and> po_fleetOwnerId leased = po_fleetOwnerId e"
    using initiation_mark_row [of leased env "po_id e" ?p] by (simp add: leased_def refresh_payout_def)
  have res: "res = submit_payout env b d a ?p (pe_uuid env) (put_payout leased w)"
    unfolding res_def payable_initiate [OF assms(1) refl] Let_def using st assms(3,4)
    by (simp add: run_claimed_payout_def leased_def a_def)
  define w1 where "w1 = w\<lparr>transferRequests := transferRequests w @ [req]\<rparr>"
  have w1: "unique_by po_id (payouts w1)" "e \<in> set (payouts w1)" "find_row (\<lambda>b. b_id b = i) (bookings w1) = Some b"
     "users w1 = users w" "bookings w1 = bookings w" "payouts w1 = payouts w"
    using f by (simp_all add: w1_def)
  have put1: "(put_payout leased w)\<lparr>transferRequests := transferRequests (put_payout leased w) @ [req]\<rparr> = put_payout leased w1"
    by (simp add: w1_def)
  have same: "payouts (put_payout q w1) = payouts (put_payout q w)"
     "bookings (set_overall_payout_status now i s (put_payout q w1)) = bookings (set_overall_payout_status now i s w)" for q now s
    by (simp_all add: put_payout_def set_overall_payout_status_def w1(5,6))
  have acc: "accept_payout env i ?p (pe_uuid env) (put_payout leased w1)
       = (Inr (), set_overall_payout_status (pe_now env) i PO_PROCESSING (put_payout (accepted_payout leased) w1))"
    by (rule accept_payout_put [OF w1(1,2)]) (use mk w1 in simp_all)
  have ref: "res = (case initiate_payout_request (pe_post env) (pe_webhookUrl env) req of
           Inl err \<Rightarrow> (Inl (PayoutInitiationFailed i (fe_message err)), put_payout leased w1)
         | Inr resp \<Rightarrow>
             (if ps_success resp then accept_payout env i ?p (pe_uuid env) (put_payout leased w1)
              else let reason = the (coalesce (ps_message resp) (Some ''Unknown error from Flutterwave'')) in
                (case handle_failed_payout env ?p reason (pe_uuid env) (put_payout leased w1) of
                   (Inl e, w2) \<Rightarrow> (Inl e, w2)
                 | (Inr _, w2) \<Rightarrow> (Inl (PayoutInitiationFailed i reason), w2))))"
    unfolding res submit_payout_def Let_def refresh_free f(1) req_def [symmetric] put1 handle_successful_payout_def
    by simp
  show ?thesis
  proof (cases "initiate_payout_request (pe_post env) (pe_webhookUrl env) req")
    case (Inl err)
    then show ?thesis unfolding Let_def folds by (simp add: ref w1_def)
  next
    case (Inr resp)
    show ?thesis
    proof (cases "ps_success resp")
      case True
      then show ?thesis unfolding Let_def folds using initiate_payout_answered [OF Inr] by (simp add: ref Inr acc same)
    next
      case False
      define reason where "reason = the (coalesce (ps_message resp) (Some ''Unknown error from Flutterwave''))"
      define opts where "opts = \<lparr>fo_processingLeaseId = Some (pe_uuid env), fo_failureReason = Some reason, fo_amountPaid = None\<rparr>"
      have snap: "finalized_payout now ?p PAYOUT_FAILED opts = finalized_payout now e PAYOUT_FAILED opts" for now
        by (rule ext) (simp add: finalized_payout_def Let_def)
      have "po_bookingId ?p = Some i" "po_id ?p = po_id e" using f by simp_all
      then have "finalize_payout_status env ?p PAYOUT_FAILED opts (put_payout leased w1) =
        (Inr True, snd (create_notifications (pe_now env) NE_BOOKING_LIFECYCLE
         (payout_status_changed_events (pe_config env)
          \<lparr>pn_payoutTransactionId = po_id e, pn_bookingId = i, pn_bookingReference = b_bookingReference b, pn_status = PAYOUT_FAILED,
           pn_amount = po_amountToPay leased, pn_failureReason = fo_failureReason opts, pn_fleetOwner = u\<rparr>)
         (set_overall_payout_status (pe_now env) i (terminal_status PAYOUT_FAILED)
            (put_payout (finalized_payout (pe_now env) ?p PAYOUT_FAILED opts leased) w1))))"
        using mk w1 assms(2,5) by (intro finalize_put) (simp_all add: opts_def)
      then show ?thesis unfolding Let_def folds
        using initiate_payout_answered [OF Inr] False
        by (simp add: ref Inr handle_failed_payout_def reason_def [symmetric] opts_def [symmetric] snap same)
    qed
  qed
qed

text \<open>The sample world: the booking is completed and its payout row waits.\<close>

definition demo_payout_world :: world where
  "demo_payout_world = demo_world\<lparr>bookings := [demo_booking\<lparr>b_status := B_COMPLETED\<rparr>], payouts := [demo_payout]\<rparr>"

definition demo_payout_env :: "time \<Rightarrow> transfer fw_response http_result \<Rightarrow> transfer list fw_response http_result \<Rightarrow> payout_env" where
  "demo_payout_env now post get = \<lparr>pe_now = now, pe_uuid = ''lease'', pe_newId = ''po2'', pe_config = demo_config,
     pe_webhookUrl = ''https://x'', pe_post = (\<lambda>_. post), pe_get = (\<lambda>_. get)\<rparr>"

lemma demo_payable:
  "payable ''b1'' demo_payout_world (demo_booking\<lparr>b_status := B_COMPLETED\<rparr>) demo_car demo_bank demo_payout"
  by (simp add: payable_def demo_payout_world_def demo_defs find_row_def has_no_payout_amount_def get_verified_bank_details_def)

theorem payout_initiation_outcome_witness:
  "fst (process_payout_for_booking (demo_payout_env 5 HttpNoResponse HttpNoResponse) ''b1'' demo_payout_world)
   = Inl (PayoutInitiationFailed ''b1'' ''Network error: Unable to reach Flutterwave servers'')"
  using payout_initiation_outcome [OF demo_payable, of "demo_payout_env 5 HttpNoResponse HttpNoResponse" demo_owner]
  by (simp add: demo_payout_env_def demo_payout_world_def demo_defs find_row_def payout_free_def
      initiate_payout_request_def uncertain_error_def handle_error_def Let_def)

theorem transfer_requested_only_when_free_witness:
  "\<exists>b c d j. find_row (\<lambda>b. b_id b = ''b1'') (bookings demo_payout_world) = Some b \<and> b_status b = B_COMPLETED
    \<and> find_row (\<lambda>c. c_id c = b_carId b) (cars demo_payout_world) = Some c
    \<and> get_verified_bank_details (c_ownerId c) demo_payout_world = Some d
    \<and> transferRequests (snd (process_payout_for_booking (demo_payout_env 5 HttpNoResponse HttpNoResponse) ''b1'' demo_payout_world)) =
        transferRequests demo_payout_world @ [payout_request_of b d (the (b_fleetOwnerPayoutAmountNet b)) (payout_reference j)]"
proof -
  let ?env = "demo_payout_env 5 HttpNoResponse HttpNoResponse"
  have "transferRequests (snd (process_payout_for_booking ?env ''b1'' demo_payout_world)) \<noteq> transferRequests demo_payout_world"
    unfolding payable_initiate [OF demo_payable refl] Let_def
    by (simp add: run_claimed_payout_def submit_payout_def demo_payout_env_def demo_payout_def payout_free_def
      initiate_payout_request_def uncertain_error_def handle_error_def Let_def)
  from transfer_requested_only_when_free [OF _ _ this] show ?thesis
    by (fastforce simp: demo_payout_world_def demo_payout_env_def demo_payout_def)
qed

text \<open>
  While a lease on the booking's payout has not run out, processing the payout
  requests nothing from the provider, keeps the lease and the status, changes no booking, and
  reports that a payout is in progress.
\<close>

theorem active_lease_blocks_payout:
  assumes "payable i w b c d e" and "po_status e = PO_PROCESSING"
    and "truthy (po_processingLeaseId e)" and "po_processingLeaseExpiresAt e = Some t" and "pe_now env < t"
  shows "process_payout_for_booking env i w
       = (Inl (PayoutProcessingInProgress i), put_payout (refresh_payout d (the (b_fleetOwnerPayoutAmountNet b)) e) w)"
  using assms unfolding payable_initiate [OF assms(1) refl] Let_def by (simp add: payout_free_def)

definition demo_leased :: payout where
  "demo_leased = payout_mark (initiation_claim (demo_payout_env 5 HttpNoResponse HttpNoResponse) ''po1'') demo_payout"

lemma demo_payable_row:
  "po_bookingId e = Some ''b1'' \<Longrightarrow>
   payable ''b1'' (demo_payout_world\<lparr>payouts := [e]\<rparr>) (demo_booking\<lparr>b_status := B_COMPLETED\<rparr>) demo_car demo_bank e"
  using demo_payable by (simp add: payable_def demo_payout_world_def find_row_def get_verified_bank_details_def)

theorem active_lease_blocks_payout_witness:
  "fst (process_payout_for_booking (demo_payout_env 600004 HttpNoResponse HttpNoResponse) ''b1''
      (demo_payout_world\<lparr>payouts := [demo_leased]\<rparr>)) = Inl (PayoutProcessingInProgress ''b1'')"
  by (subst active_lease_blocks_payout [OF demo_payable_row, of demo_leased 600005])
     (simp_all add: demo_leased_def payout_mark_def initiation_claim_def demo_payout_env_def demo_payout_def
       payout_processing_lease_def)

lemma bank_mismatch:
  "Some (tr_bank_code t) \<noteq> po_payoutBankCode p \<Longrightarrow> get_payout_transfer_mismatch_reason p t ref \<noteq> None"
  by (simp add: get_payout_transfer_mismatch_reason_def)

lemma payable_settled:
  assumes "payable i w b c d e"
    and "po_status e = PO_PAID_OUT \<or> (po_status e = PO_PROCESSING \<and> \<not> truthy (po_processingLeaseId e))"
  shows "process_payout_for_booking env i w = (Inr (), put_payout (refresh_payout d (the (b_fleetOwnerPayoutAmountNet b)) e) w)"
  unfolding payable_initiate [OF assms(1) refl] Let_def using assms(2) by (simp only: if_True)

text \<open>
  Property C18: processing a payout that is already paid out, or accepted and waiting for the
  provider, makes no transfer but rewrites its amount and beneficiary snapshot with the current ones;
  when the owner's bank has changed since, the provider's record of the transfer to the old account,
  which matched the row, no longer matches it.
\<close>

theorem settled_payout_snapshot_overwritten:
  assumes "payable i w b c d e"
    and "po_status e = PO_PAID_OUT \<or> (po_status e = PO_PROCESSING \<and> \<not> truthy (po_processingLeaseId e))"
    and "get_payout_transfer_mismatch_reason e t ref = None" and "tr_bank_code t \<noteq> bd_bankCode d"
  shows "\<exists>p. process_payout_for_booking env i w = (Inr (), put_payout p w) \<and> po_id p = po_id e
    \<and> po_amountToPay p = the (b_fleetOwnerPayoutAmountNet b) \<and> po_payoutBankCode p = Some (bd_bankCode d)
    \<and> get_payout_transfer_mismatch_reason p t ref \<noteq> None"
  using payable_settled [OF assms(1,2)] bank_mismatch [of t "refresh_payout d (the (b_fleetOwnerPayoutAmountNet b)) e"] assms(4)
  by (intro exI [of _ "refresh_payout d (the (b_fleetOwnerPayoutAmountNet b)) e"]) (simp add: refresh_payout_def)

definition demo_transfer :: "string \<Rightarrow> transfer" where
  "demo_transfer status = \<lparr>tr_account_number = ''0123456789'', tr_bank_code = ''058'', tr_currency = ''NGN'', tr_amount = 700,
     tr_status = status, tr_reference = payout_reference ''po1'', tr_complete_message = None\<rparr>"

lemma demo_transfer_matches:
  "get_payout_transfer_mismatch_reason (demo_payout\<lparr>po_status := s, po_payoutBankCode := Some ''058''\<rparr>) (demo_transfer st) (payout_reference ''po1'') = None"
  by (simp add: get_payout_transfer_mismatch_reason_def demo_transfer_def demo_payout_def ends_with_def)

theorem settled_payout_snapshot_overwritten_witness:
  "\<exists>p. process_payout_for_booking (demo_payout_env 9 HttpNoResponse HttpNoResponse) ''b1''
      (demo_payout_world\<lparr>payouts := [demo_payout\<lparr>po_status := PO_PAID_OUT, po_payoutBankCode := Some ''058''\<rparr>],
         bankDetails := [demo_bank\<lparr>bd_bankCode := ''999''\<rparr>]\<rparr>) = (Inr (), put_payout p
      (demo_payout_world\<lparr>payouts := [demo_payout\<lparr>po_status := PO_PAID_OUT, po_payoutBankCode := Some ''058''\<rparr>],
         bankDetails := [demo_bank\<lparr>bd_bankCode := ''999''\<rparr>]\<rparr>)) \<and> po_payoutBankCode p = Some ''999''"
proof -
  let ?e = "demo_payout\<lparr>po_status := PO_PAID_OUT, po_payoutBankCode := Some ''058''\<rparr>"
  let ?w = "demo_payout_world\<lparr>payouts := [?e], bankDetails := [demo_bank\<lparr>bd_bankCode := ''999''\<rparr>]\<rparr>"
  have "payable ''b1'' ?w (demo_booking\<lparr>b_status := B_COMPLETED\<rparr>) demo_car (demo_bank\<lparr>bd_bankCode := ''999''\<rparr>) ?e"
    by (simp add: payable_def demo_payout_world_def demo_defs find_row_def has_no_payout_amount_def get_verified_bank_details_def)
  from settled_payout_snapshot_overwritten [OF this _ demo_transfer_matches [of PO_PAID_OUT "''NEW''"]] show ?thesis
    by (auto simp: demo_transfer_def)
qed

section \<open>When a row becomes paid out\<close>

definition paid_ids :: "world \<Rightarrow> ident set" where
  "paid_ids w = po_id ` {p \<in> set (payouts w). po_status p = PO_PAID_OUT}"

lemma paid_ids_cong: "payouts w' = payouts w \<Longrightarrow> paid_ids w' = paid_ids w"
  by (simp add: paid_ids_def)

lemma paid_ids_update:
  assumes "payouts w' = snd (update_many P f (payouts w))"
    and "\<And>p. p \<in> set (payouts w) \<Longrightarrow> P p \<Longrightarrow> po_id (f p) = po_id p \<and> (po_status (f p) = PO_PAID_OUT \<longrightarrow> po_status p = PO_PAID_OUT)"
  shows "paid_ids w' \<subseteq> paid_ids w"
  using assms(2) unfolding paid_ids_def assms(1) by (auto elim!: update_many_rowE split: if_splits)

lemma paid_ids_release [simp]: "paid_ids (release_payout_processing_lease i l w) \<subseteq> paid_ids w"
  by (rule paid_ids_update [where P = "\<lambda>p. po_id p = i \<and> po_status p = PO_PROCESSING \<and> po_processingLeaseId p = Some l"
      and f = "\<lambda>p. p\<lparr>po_processingLeaseId := None, po_processingLeaseExpiresAt := None\<rparr>"])
     (simp_all add: release_payout_processing_lease_def)

lemma payout_mark_not_paid: "payout_guard c p \<Longrightarrow> po_status (payout_mark c p) = PO_PROCESSING"
  by (auto simp: payout_mark_def payout_guard_def Let_def split: claim_kind.splits)

lemma paid_ids_claim:
  assumes "claim_payout i c w = (n, w')" shows "paid_ids w' \<subseteq> paid_ids w"
proof (rule paid_ids_update)
  show "payouts w' = snd (update_many (\<lambda>r. po_id r = i \<and> payout_guard c r) (payout_mark c) (payouts w))"
    using assms by (auto simp: claim_payout_def claim_rows_def case_prod_beta)
qed (simp add: payout_claims.id_mark payout_mark_not_paid)

lemma payouts_finalize:
  "finalize_payout_status env snap st opts w = (r, w') \<Longrightarrow> payouts w' = payouts w \<or>
   (r = Inr True \<and> payouts w' = snd (update_many (\<lambda>p. po_id p = po_id snap \<and> po_status p = PO_PROCESSING
      \<and> (truthy (fo_processingLeaseId opts) \<longrightarrow> po_processingLeaseId p = fo_processingLeaseId opts))
      (finalized_payout (pe_now env) snap st opts) (payouts w)))"
  unfolding finalize_payout_status_def by (auto simp: case_prod_beta Let_def split: if_splits option.splits)

lemma finalized_failed_status: "po_status (finalized_payout now snap PAYOUT_FAILED opts q) = PO_FAILED"
  by (simp add: finalized_payout_def Let_def)

lemma paid_ids_failed:
  assumes "handle_failed_payout env p msg l w = (r, w')" shows "paid_ids w' \<subseteq> paid_ids w"
proof -
  define opts where "opts = \<lparr>fo_processingLeaseId = Some l, fo_failureReason = Some msg, fo_amountPaid = None\<rparr>"
  have fin: "finalize_payout_status env p PAYOUT_FAILED opts w = (r, w')"
    using assms unfolding handle_failed_payout_def opts_def .
  from payouts_finalize [OF fin] show ?thesis
  proof (elim disjE conjE)
    assume "payouts w' = payouts w"
    then show ?thesis by (simp add: paid_ids_def)
  next
    assume "payouts w' = snd (update_many (\<lambda>q. po_id q = po_id p \<and> po_status q = PO_PROCESSING
        \<and> (truthy (fo_processingLeaseId opts) \<longrightarrow> po_processingLeaseId q = fo_processingLeaseId opts))
        (finalized_payout (pe_now env) p PAYOUT_FAILED opts) (payouts w))"
    then show ?thesis by (rule paid_ids_update) (simp add: finalized_failed_status)
  qed
qed

lemma mismatch_snapshot:
  "po_amountToPay p' = po_amountToPay p \<Longrightarrow> po_currency p' = po_currency p \<Longrightarrow> po_payoutBankCode p' = po_payoutBankCode p \<Longrightarrow>
   po_payoutAccountLast4 p' = po_payoutAccountLast4 p \<Longrightarrow>
   get_payout_transfer_mismatch_reason p' t ref = get_payout_transfer_mismatch_reason p t ref"
  by (simp add: get_payout_transfer_mismatch_reason_def)

definition same_terms :: "payout \<Rightarrow> payout \<Rightarrow> bool" where
  "same_terms p p' \<longleftrightarrow> po_amountToPay p' = po_amountToPay p \<and> po_currency p' = po_currency p
     \<and> po_payoutBankCode p' = po_payoutBankCode p \<and> po_payoutAccountLast4 p' = po_payoutAccountLast4 p"

text \<open>The payout id j is newly paid out, on the evidence of a successful transfer that matches the row.\<close>

definition paid_with :: "transfer \<Rightarrow> ident \<Rightarrow> world \<Rightarrow> bool" where
  "paid_with t j w \<longleftrightarrow> js_upper (js_trim (tr_status t)) = ''SUCCESSFUL''
     \<and> (\<exists>p \<in> set (payouts w). po_id p = j \<and> po_amountPaid p = Some (tr_amount t)
          \<and> get_payout_transfer_mismatch_reason p t (payout_reference j) = None)"

lemma paid_by_reconcile_claimed:
  assumes "reconcile_claimed_transfer env i p t (payout_reference (po_id p)) l w = (r, w')"
    and "j \<in> paid_ids w'" "j \<notin> paid_ids w"
    and same: "\<And>q. q \<in> set (payouts w) \<Longrightarrow> po_id q = po_id p \<Longrightarrow> same_terms p q"
  shows "j = po_id p \<and> paid_with t j w'"
proof -
  let ?opts = "\<lparr>fo_processingLeaseId = Some l, fo_failureReason = None, fo_amountPaid = Some (tr_amount t)\<rparr>"
  have none: "get_payout_transfer_mismatch_reason p t (payout_reference (po_id p)) = None"
    using assms(1-3) subsetD [OF paid_ids_release]
    by (auto simp: reconcile_claimed_transfer_def Let_def split: option.splits)
  have succ: "js_upper (js_trim (tr_status t)) = ''SUCCESSFUL'' \<and> (\<exists>r. handle_successful_payout env i p l True (Some (tr_amount t)) w = (r, w'))"
    using assms(1-3) subsetD [OF paid_ids_release] none
    unfolding reconcile_claimed_transfer_def Let_def
    by (cases "js_upper (js_trim (tr_status t)) = ''FAILED''"; cases "js_upper (js_trim (tr_status t)) = ''SUCCESSFUL''")
       (auto split: prod.splits sum.splits dest: subsetD [OF paid_ids_failed])
  then obtain r0 where fin: "finalize_payout_status env p PAID_OUT ?opts w = (r0, w')"
    by (auto simp: handle_successful_payout_def split: prod.splits sum.splits if_splits)
  let ?P = "\<lambda>q. po_id q = po_id p \<and> po_status q = PO_PROCESSING \<and> (truthy (Some l) \<longrightarrow> po_processingLeaseId q = Some l)"
  have rows: "payouts w' = snd (update_many ?P (finalized_payout (pe_now env) p PAID_OUT ?opts) (payouts w))"
    using payouts_finalize [OF fin] assms(2,3) by (auto dest: paid_ids_cong)
  from assms(2) obtain q' where q': "q' \<in> set (payouts w')" "po_id q' = j" "po_status q' = PO_PAID_OUT"
    by (auto simp: paid_ids_def)
  from q'(1) obtain q where q: "q \<in> set (payouts w)" "q' = (if ?P q then finalized_payout (pe_now env) p PAID_OUT ?opts q else q)"
    unfolding rows by (rule update_many_rowE)
  have P: "?P q" using q q' assms(3) by (auto simp: paid_ids_def split: if_splits)
  then have eq: "q' = finalized_payout (pe_now env) p PAID_OUT ?opts q" and id: "po_id q = po_id p" using q(2) by simp_all
  have "same_terms p q'" using same [OF q(1) id] by (simp add: eq finalized_payout_def Let_def same_terms_def)
  then have "get_payout_transfer_mismatch_reason q' t (payout_reference (po_id p)) = None"
    using none mismatch_snapshot [of q' p t] by (simp add: same_terms_def)
  moreover have "po_amountPaid q' = Some (tr_amount t)" by (simp add: eq finalized_payout_def Let_def)
  moreover have "j = po_id p" using q'(2) id by (simp add: eq)
  ultimately show ?thesis using succ q' by (auto simp: paid_with_def)
qed

lemma paid_ids_accept: "accept_payout env i p l w = (r, w') \<Longrightarrow> paid_ids w' \<subseteq> paid_ids w"
proof -
  assume a: "accept_payout env i p l w = (r, w')"
  let ?f = "\<lambda>p. p\<lparr>po_status := PO_PROCESSING, po_processingLeaseId := None, po_processingLeaseExpiresAt := None, po_completedAt := None\<rparr>"
  have "payouts w' = payouts w \<or> payouts w' = snd (update_many (\<lambda>q. po_id q = po_id p \<and> po_status q = PO_PROCESSING
          \<and> po_processingLeaseId q = Some l) ?f (payouts w))"
    using a unfolding accept_payout_def by (auto simp: case_prod_beta Let_def split: if_splits option.splits)
  then show ?thesis
  proof
    assume "payouts w' = payouts w" then show ?thesis by (simp add: paid_ids_def)
  next
    assume "payouts w' = snd (update_many (\<lambda>q. po_id q = po_id p \<and> po_status q = PO_PROCESSING
          \<and> po_processingLeaseId q = Some l) ?f (payouts w))"
    then show ?thesis by (rule paid_ids_update) simp
  qed
qed

lemma paid_ids_submit:
  assumes "submit_payout env b d a p l w = (r, w')" shows "paid_ids w' \<subseteq> paid_ids w"
proof -
  let ?w = "w\<lparr>transferRequests := transferRequests w @ [payout_request_of b d a (payout_reference (po_id p))]\<rparr>"
  have "paid_ids w' \<subseteq> paid_ids ?w"
    using assms unfolding submit_payout_def Let_def handle_successful_payout_def
    by (auto split: if_splits sum.splits prod.splits dest: subsetD [OF paid_ids_accept] subsetD [OF paid_ids_failed])
  then show ?thesis by (simp add: paid_ids_def)
qed

lemma same_terms_refl [simp]: "same_terms p p" by (simp add: same_terms_def)

lemma claimed_rows_terms:
  assumes "claim_payout i c w = (n, w')" "unique_by po_id (payouts w)" "p \<in> set (payouts w)" "q \<in> set (payouts w')" "po_id q = po_id p"
  shows "same_terms p q"
proof -
  have "payouts w' = snd (claim_rows po_id payout_guard payout_mark i c (payouts w))"
    using assms(1) by (auto simp: claim_payout_def case_prod_beta)
  with assms(4) have "q \<in> set (snd (claim_rows po_id payout_guard payout_mark i c (payouts w)))" by simp
  then obtain r where r: "r \<in> set (payouts w)" "q = (if po_id r = i \<and> payout_guard c r then payout_mark c r else r)"
    by (rule payout_claims.claim_rowE)
  then have "po_id r = po_id p" using assms(5) by (auto simp: payout_claims.id_mark split: if_splits)
  then have "r = p" using unique_by_same [OF assms(2) r(1) assms(3)] by simp
  then show ?thesis using r(2) by (auto simp: same_terms_def payout_mark_def Let_def split: claim_kind.splits)
qed

lemma paid_by_reconcile:
  assumes "reconcile_payout env p w = (r, w')" "unique_by po_id (payouts w)" "p \<in> set (payouts w)"
    and "po_payoutProviderReference p \<in> {None, Some (payout_reference (po_id p))}"
    and "j \<in> paid_ids w'" "j \<notin> paid_ids w"
  shows "\<exists>t. find_transfer_by_reference (pe_get env) (payout_reference j) = Inr (Some t) \<and> paid_with t j w'"
proof -
  have ref: "po_payoutProviderReference p = Some (payout_reference (po_id p))" "truthy (po_bookingId p)"
    using assms(1,4,5,6) by (cases "truthy (po_bookingId p)"; auto simp: reconcile_payout_def)+
  let ?c = "\<lparr>pk_kind = Reconciliation, pk_now = pe_now env, pk_leaseId = pe_uuid env, pk_reference = payout_reference (po_id p)\<rparr>"
  obtain n w1 where cl: "claim_payout (po_id p) ?c w = (n, w1)" by fastforce
  have j1: "j \<notin> paid_ids w1" using paid_ids_claim [OF cl] assms(6) by blast
  obtain t where t: "find_transfer_by_reference (pe_get env) (payout_reference (po_id p)) = Inr (Some t)"
      and rc: "reconcile_claimed_transfer env (the (po_bookingId p)) p t (payout_reference (po_id p)) (pe_uuid env) w1 = (r, w')"
    using assms(1,5) ref cl j1 subsetD [OF paid_ids_release] unfolding reconcile_payout_def Let_def
    by (auto split: if_splits sum.splits option.splits)
  have "j = po_id p \<and> paid_with t j w'"
    using claimed_rows_terms [OF cl assms(2,3)] by (intro paid_by_reconcile_claimed [OF rc assms(5) j1])
  with t show ?thesis by blast
qed

lemma paid_by_process:
  assumes "process_payout_for_booking env i w = (r, w')" "unique_by po_id (payouts w)" "pe_newId env \<notin> po_id ` set (payouts w)"
    and "j \<in> paid_ids w'" "j \<notin> paid_ids w"
  shows "\<exists>t. find_transfer_by_reference (pe_get env) (payout_reference j) = Inr (Some t) \<and> paid_with t j w'"
proof -
  have no_new: "paid_ids w1 \<subseteq> paid_ids w" if cu: "create_or_update_payout_transaction env o' b d a w = (x, w1)" for o' b d a x w1
  proof (cases "create_unique po_bookingId (new_payout env o' b d a) (payouts w)")
    case None
    with cu have "payouts w1 = payouts w \<or> (\<exists>i. payouts w1 = snd (update_many (\<lambda>q. po_id q = i) (refresh_payout d a) (payouts w)))"
      by (auto simp: create_or_update_payout_transaction_def Let_def split: option.splits)
    then show ?thesis
    proof (elim disjE exE)
      assume "payouts w1 = payouts w" then show ?thesis by (simp add: paid_ids_def)
    next
      fix i assume "payouts w1 = snd (update_many (\<lambda>q. po_id q = i) (refresh_payout d a) (payouts w))"
      then show ?thesis by (rule paid_ids_update) simp
    qed
  next
    case (Some t)
    then show ?thesis using cu create_unique_Some [OF Some]
      by (auto simp: create_or_update_payout_transaction_def Let_def paid_ids_def new_payout_def)
  qed
  from assms(1,4,5) obtain b c d where b: "initiate_payout env b w = (r, w')" "find_row (\<lambda>c. c_id c = b_carId b) (cars w) = Some c"
      "get_verified_bank_details (c_ownerId c) w = Some d" "\<not> has_no_payout_amount b"
    by (auto simp: process_payout_for_booking_def initiate_payout_def split: option.splits if_splits)
  let ?a = "the (b_fleetOwnerPayoutAmountNet b)"
  have claims: "paid_ids w2 \<subseteq> paid_ids w1" if "claim_payout_processing env i' p ref w1 = (x, w2)" for i' p ref x w1 w2
    using that paid_ids_claim by (auto simp: claim_payout_processing_def Let_def split: if_splits prod.splits)
  obtain x w1 where cu0: "create_or_update_payout_transaction env (c_ownerId c) b d ?a w = (x, w1)" by fastforce
  from b(1) assms(4,5) no_new [OF cu0] obtain p where xp: "x = Inr p"
    by (cases x) (auto simp: initiate_payout_def b Let_def cu0)
  obtain y w2 where cl0: "claim_payout_processing env (b_id b) p (payout_reference (po_id p)) w1 = (y, w2)" by fastforce
  have j2: "j \<notin> paid_ids w2" using no_new [OF cu0] claims [OF cl0] assms(5) by blast
  from b(1) assms(4) j2 obtain l where yl: "y = Inr (Some l)" and rc: "run_claimed_payout env b d ?a p l w2 = (r, w')"
    by (cases y) (auto simp: initiate_payout_def b Let_def cu0 xp cl0 split: option.splits)
  from rc assms(4) j2 obtain t r' where t: "find_transfer_by_reference (pe_get env) (payout_reference (po_id p)) = Inr (Some t)"
      and rec: "reconcile_claimed_transfer env (b_id b) p t (payout_reference (po_id p)) l w2 = (r', w')"
    unfolding run_claimed_payout_def
    by (auto split: if_splits sum.splits option.splits prod.splits dest: subsetD [OF paid_ids_submit])
  have row: "p \<in> set (payouts w1)" "unique_by po_id (payouts w1)"
    using create_or_update_row [OF cu0 [unfolded xp] assms(2,3)] by blast+
  have "same_terms p q" if "q \<in> set (payouts w2)" "po_id q = po_id p" for q
  proof (cases "payouts w2 = payouts w1")
    case True
    then show ?thesis using that unique_by_same [OF row(2) _ row(1)] by force
  next
    case False
    then obtain n k where "claim_payout (po_id p) k w1 = (n, w2)"
      using cl0 by (auto simp: claim_payout_processing_def Let_def split: if_splits prod.splits)
    then show ?thesis using claimed_rows_terms row that by blast
  qed
  then have "j = po_id p \<and> paid_with t j w'"
    by (intro paid_by_reconcile_claimed [OF rec assms(4) j2])
  with t show ?thesis by blast
qed


definition demo_found :: "transfer list fw_response http_result" where
  "demo_found = HttpOk \<lparr>fr_status = ''success'', fr_message = [], fr_data = Some [demo_transfer ''successful'']\<rparr>"

definition demo_accepted :: payout where
  "demo_accepted = demo_payout\<lparr>po_status := PO_PROCESSING, po_payoutProviderReference := Some (payout_reference ''po1''),
     po_payoutBankCode := Some ''058''\<rparr>"

lemma demo_transfer_paid:
  "''po1'' \<in> paid_ids (snd (handle_transfer_completed (demo_payout_env 9 HttpNoResponse demo_found) (payout_reference ''po1'')
      (demo_payout_world\<lparr>payouts := [demo_accepted]\<rparr>)))"
proof -
  have up: "js_upper (js_trim ''successful'') = ''SUCCESSFUL''" by code_simp
  have m: "get_payout_transfer_mismatch_reason demo_accepted (demo_transfer ''successful'') (payout_reference ''po1'') = None"
    by (simp add: get_payout_transfer_mismatch_reason_def demo_transfer_def demo_payout_def demo_accepted_def ends_with_def)
  show ?thesis
    using m
    by (simp add: handle_transfer_completed_def find_row_def demo_accepted_def reconcile_payout_def Let_def
       claim_payout_def claim_rows_def update_many_def payout_guard_def payout_mark_def demo_payout_env_def demo_found_def
       find_transfer_by_reference_def demo_payout_world_def demo_payout_def
       reconcile_claimed_transfer_def handle_successful_payout_def finalize_payout_status_def
       finalized_payout_def paid_ids_def set_overall_payout_status_def up demo_defs)
       (auto simp: demo_transfer_def up payout_reference_def image_iff)
qed


text \<open>
  A terminal transition happens once.  After a finalisation that reported success,
  any further finalisation of the same payout, by any worker, with any lease, status or snapshot,
  reports that it did nothing and changes nothing.
\<close>

theorem payout_finalized_once:
  assumes "finalize_payout_status env snapshot st opts w = (Inr True, w')"
    and "po_id snapshot' = po_id snapshot" and "unique_by po_id (payouts w)"
  shows "finalize_payout_status env' snapshot' st' opts' w' = (Inr False, w')"
proof -
  let ?P = "\<lambda>p. po_id p = po_id snapshot \<and> po_status p = PO_PROCESSING
      \<and> (truthy (fo_processingLeaseId opts) \<longrightarrow> po_processingLeaseId p = fo_processingLeaseId opts)"
  let ?f = "finalized_payout (pe_now env) snapshot st opts"
  have pos: "0 < fst (update_many ?P ?f (payouts w))" and rows: "payouts w' = snd (update_many ?P ?f (payouts w))"
    using assms(1) unfolding finalize_payout_status_def
    by (auto simp: case_prod_beta Let_def split: if_splits option.splits)
  from pos obtain e where e: "e \<in> set (payouts w)" "?P e" by (auto simp: update_many_pos)
  have "\<not> (po_id q' = po_id snapshot \<and> po_status q' = PO_PROCESSING)" if "q' \<in> set (payouts w')" for q'
  proof -
    from that obtain q where q: "q \<in> set (payouts w)" "q' = (if ?P q then ?f q else q)"
      unfolding rows by (rule update_many_rowE)
    show ?thesis
    proof (cases "po_id q = po_id snapshot")
      case True
      then have "q = e" using unique_by_same [OF assms(3) q(1) e(1)] e(2) by simp
      then show ?thesis using q(2) e(2) by (cases st) (simp_all add: finalized_payout_def Let_def)
    qed (use q(2) in \<open>simp split: if_splits\<close>)
  qed
  then have "update_many (\<lambda>p. po_id p = po_id snapshot' \<and> po_status p = PO_PROCESSING
      \<and> (truthy (fo_processingLeaseId opts') \<longrightarrow> po_processingLeaseId p = fo_processingLeaseId opts'))
      (finalized_payout (pe_now env') snapshot' st' opts') (payouts w') = (0, payouts w')"
    unfolding assms(2) by (intro update_many_none) blast
  then show ?thesis by (simp add: finalize_payout_status_def)
qed

theorem payout_finalized_once_witness:
  "let w = demo_payout_world\<lparr>payouts := [demo_leased]\<rparr>;
       w' = snd (finalize_payout_status (demo_payout_env 9 HttpNoResponse HttpNoResponse) demo_leased PAYOUT_FAILED
              \<lparr>fo_processingLeaseId = Some ''lease'', fo_failureReason = None, fo_amountPaid = None\<rparr> w)
   in finalize_payout_status (demo_payout_env 10 HttpNoResponse HttpNoResponse) demo_leased PAID_OUT
        \<lparr>fo_processingLeaseId = None, fo_failureReason = None, fo_amountPaid = None\<rparr> w' = (Inr False, w')"
  unfolding Let_def
proof (rule payout_finalized_once)
  show "finalize_payout_status (demo_payout_env 9 HttpNoResponse HttpNoResponse) demo_leased PAYOUT_FAILED
              \<lparr>fo_processingLeaseId = Some ''lease'', fo_failureReason = None, fo_amountPaid = None\<rparr> (demo_payout_world\<lparr>payouts := [demo_leased]\<rparr>)
     = (Inr True, snd (finalize_payout_status (demo_payout_env 9 HttpNoResponse HttpNoResponse) demo_leased PAYOUT_FAILED
              \<lparr>fo_processingLeaseId = Some ''lease'', fo_failureReason = None, fo_amountPaid = None\<rparr> (demo_payout_world\<lparr>payouts := [demo_leased]\<rparr>)))"
    by (simp add: finalize_payout_status_def update_many_def demo_leased_def payout_mark_def initiation_claim_def demo_payout_env_def
        demo_payout_world_def demo_defs find_row_def set_overall_payout_status_def finalized_payout_def Let_def)
qed simp_all

end
