(* ===== verification/Refunds.thy ===== *)
theory Refunds
  imports Flutterwave NotificationOutbox
begin

text \<open>
  Refunds: the reservation and the provider call (payment-api.service.ts), the terminal
  transition with its notification and the hand-over to manual review
  (refund-finalization.service.ts), the reconciliation with the provider by cron and by webhook
  (refund-reconciliation.service.ts, refund-status.ts, refund-completed.handler.ts).  Operations
  that read a row and later write it conditionally take the row they read as an argument, so that
  it may be stale.
\<close>

record refund_env =
  rv_now :: time
  rv_uuid :: string
  rv_config :: notif_config
  rv_webhookUrl :: string
  rv_post :: "string \<Rightarrow> string \<Rightarrow> refund_payload \<Rightarrow> refund_created fw_response http_result"
  rv_get :: "string \<Rightarrow> fetched_refund fw_response http_result"

primrec attempt_status_string :: "attempt_status \<Rightarrow> string" where
  "attempt_status_string PA_PENDING = ''PENDING''"
| "attempt_status_string PA_SUCCESSFUL = ''SUCCESSFUL''"
| "attempt_status_string PA_FAILED = ''FAILED''"
| "attempt_status_string PA_REFUNDED = ''REFUNDED''"
| "attempt_status_string PA_REFUND_PROCESSING = ''REFUND_PROCESSING''"
| "attempt_status_string PA_REFUND_FAILED = ''REFUND_FAILED''"
| "attempt_status_string PA_PARTIALLY_REFUNDED = ''PARTIALLY_REFUNDED''"
| "attempt_status_string PA_REFUND_ERROR = ''REFUND_ERROR''"

definition refund_open :: "payment \<Rightarrow> bool" where
  "refund_open p \<longleftrightarrow> p_status p \<in> {PA_REFUND_PROCESSING, PA_REFUND_ERROR}"

section \<open>The provider's vocabulary\<close>

datatype refund_provider_state = SUCCEEDED | PENDING | FAILED | UNKNOWN

definition classify_refund_provider_status :: "string \<Rightarrow> refund_provider_state" where
  "classify_refund_provider_status status =
     (let s = js_lower (js_trim status) in
      if s \<in> {''completed-bank-transfer'', ''completed-momo'', ''completed-mpgs'', ''completed-offline'', ''completed-preauth''}
      then SUCCEEDED
      else if s \<in> {''completed'', ''pending-momo'', ''processing''} then PENDING
      else if s \<in> {''failed'', ''cancelled'', ''rejected''} then FAILED
      else UNKNOWN)"

section \<open>The related booking\<close>

definition extension_booking :: "ident \<Rightarrow> world \<Rightarrow> booking option" where
  "extension_booking i w =
     (case find_row (\<lambda>e. e_id e = i) (extensions w) of
        None \<Rightarrow> None
      | Some e \<Rightarrow>
          (case find_row (\<lambda>l. l_id l = e_bookingLegId e) (legs w) of
             None \<Rightarrow> None
           | Some l \<Rightarrow> find_row (\<lambda>b. b_id b = l_bookingId l) (bookings w)))"

definition payment_booking :: "payment \<Rightarrow> world \<Rightarrow> booking option" where
  "payment_booking p w =
     coalesce (case p_bookingId p of None \<Rightarrow> None | Some i \<Rightarrow> find_row (\<lambda>b. b_id b = i) (bookings w))
              (case p_extensionId p of None \<Rightarrow> None | Some i \<Rightarrow> extension_booking i w)"

definition exactly_one_association :: "payment \<Rightarrow> bool" where
  "exactly_one_association p \<longleftrightarrow> truthy (p_bookingId p) \<noteq> truthy (p_extensionId p)"

definition get_refund_notification_customer :: "booking \<Rightarrow> world \<Rightarrow> refund_customer" where
  "get_refund_notification_customer b w =
     (let u = (case b_userId b of None \<Rightarrow> None | Some i \<Rightarrow> find_row (\<lambda>u. u_id u = i) (users w));
          g = b_guestUser b;
          field = (\<lambda>uf gf. coalesce (case u of None \<Rightarrow> None | Some u \<Rightarrow> uf u) (case g of None \<Rightarrow> None | Some g \<Rightarrow> gf g))
      in \<lparr>rf_userId = coalesce (b_userId b) (map_option u_id u),
          rf_name = field u_name g_name, rf_email = field (\<lambda>u. Some (u_email u)) g_email,
          rf_phoneNumber = field u_phoneNumber g_phoneNumber\<rparr>)"

section \<open>Manual review\<close>

definition reviewable_refund :: "payment \<Rightarrow> bool" where
  "reviewable_refund p \<longleftrightarrow>
     p_refundManualReviewNotifiedAt p = None
   \<and> p_status p \<in> {PA_SUCCESSFUL, PA_REFUND_PROCESSING, PA_REFUND_ERROR}"

definition manual_review_notice :: "payment \<Rightarrow> string \<Rightarrow> world \<Rightarrow> refund_notice" where
  "manual_review_notice p reason w =
     (let bk = (if exactly_one_association p then payment_booking p w else None) in
      \<lparr>rn_refundId = the (coalesce (p_refundProviderId p) (Some (''unresolved:'' @ p_id p))),
       rn_paymentId = p_id p,
       rn_bookingId = (case bk of None \<Rightarrow> ''payment:'' @ p_id p | Some b \<Rightarrow> b_id b),
       rn_bookingReference = (case bk of None \<Rightarrow> ''Payment '' @ p_id p | Some b \<Rightarrow> b_bookingReference b),
       rn_status = RN_REVIEW_REQUIRED,
       rn_amount = the (coalesce (coalesce (p_refundRequestedAmount p) (p_amountCharged p)) (Some 0)),
       rn_failureReason = Some reason,
       rn_customer = (case bk of
           None \<Rightarrow> \<lparr>rf_userId = None, rf_name = None, rf_email = None, rf_phoneNumber = None\<rparr>
         | Some b \<Rightarrow> get_refund_notification_customer b w)\<rparr>)"

text \<open>The transaction, on the payment read before it.\<close>

definition claim_manual_review :: "refund_env \<Rightarrow> payment \<Rightarrow> string \<Rightarrow> world \<Rightarrow> bool \<times> world" where
  "claim_manual_review env p reason w =
     (let (n, t) = update_many (\<lambda>q. p_id q = p_id p \<and> reviewable_refund q)
                     (\<lambda>q. q\<lparr>p_refundManualReviewNotifiedAt := Some (rv_now env)\<rparr>) (payments w)
      in if n = 0 then (False, w)
         else (True, snd (create_notifications (rv_now env) NE_BOOKING_LIFECYCLE
                (refund_status_changed_events (rv_config env) (manual_review_notice p reason w)) (w\<lparr>payments := t\<rparr>))))"

definition request_manual_review :: "refund_env \<Rightarrow> ident \<Rightarrow> string \<Rightarrow> world \<Rightarrow> bool \<times> world" where
  "request_manual_review env i reason w =
     (case find_row (\<lambda>p. p_id p = i) (payments w) of
        None \<Rightarrow> (False, w)
      | Some p \<Rightarrow> (if \<not> reviewable_refund p then (False, w) else claim_manual_review env p reason w))"

section \<open>The terminal transition\<close>

datatype terminal_refund = T_REFUNDED | T_PARTIALLY_REFUNDED | T_REFUND_FAILED

primrec terminal_refund_status :: "terminal_refund \<Rightarrow> attempt_status" where
  "terminal_refund_status T_REFUNDED = PA_REFUNDED"
| "terminal_refund_status T_PARTIALLY_REFUNDED = PA_PARTIALLY_REFUNDED"
| "terminal_refund_status T_REFUND_FAILED = PA_REFUND_FAILED"

primrec to_domain_payment_status :: "terminal_refund \<Rightarrow> payment_status" where
  "to_domain_payment_status T_REFUNDED = REFUNDED"
| "to_domain_payment_status T_PARTIALLY_REFUNDED = PARTIALLY_REFUNDED"
| "to_domain_payment_status T_REFUND_FAILED = REFUND_FAILED"

primrec terminal_refund_notice :: "terminal_refund \<Rightarrow> refund_notice_status" where
  "terminal_refund_notice T_REFUNDED = RN_REFUNDED"
| "terminal_refund_notice T_PARTIALLY_REFUNDED = RN_PARTIALLY_REFUNDED"
| "terminal_refund_notice T_REFUND_FAILED = RN_REFUND_FAILED"

record finalize_refund_input =
  fi_paymentId :: ident
  fi_refundId :: string
  fi_status :: terminal_refund
  fi_amount :: rat
  fi_failureReason :: "string option"
  fi_providerMetadata :: "(string \<times> string) option"

fun json_put :: "string \<Rightarrow> json_value \<Rightarrow> (string \<times> json_value) list \<Rightarrow> (string \<times> json_value) list" where
  "json_put k v [] = [(k, v)]"
| "json_put k v ((k', v') # kvs) = (if k' = k then (k, v) # kvs else (k', v') # json_put k v kvs)"

text \<open>The payload is rebuilt from the payment read before the transaction.\<close>

definition refund_webhook_payload :: "time \<Rightarrow> payment \<Rightarrow> finalize_refund_input \<Rightarrow> (string \<times> json_value) list option" where
  "refund_webhook_payload now p input =
     (case fi_providerMetadata input of
        None \<Rightarrow> None
      | Some (status, flwRef) \<Rightarrow>
          Some (json_put ''refundedAt'' (JStr (iso_string now))
                (json_put ''refundFlwRef'' (JStr flwRef)
                 (json_put ''refundStatus'' (JStr status)
                  (json_put ''refundAmount'' (JNum (fi_amount input)) (p_webhookPayload p))))))"

text \<open>Whether a booking or an extension may still move to a refund outcome.\<close>

definition refundable_domain_status :: "payment_status \<Rightarrow> bool" where
  "refundable_domain_status s \<longleftrightarrow> s \<in> {PAID, REFUND_PROCESSING}"

text \<open>
  The conditional update of the booking or else the extension of a payment; None is the thrown
  RefundDomainStateMismatchException.
\<close>

definition move_domain_status :: "time \<Rightarrow> payment \<Rightarrow> payment_status \<Rightarrow> world \<Rightarrow> world option" where
  "move_domain_status now p s w =
     (if truthy (p_bookingId p) then
        (let (n, t) = update_many (\<lambda>b. b_id b = the (p_bookingId p) \<and> refundable_domain_status (b_paymentStatus b))
                        (\<lambda>b. b\<lparr>b_paymentStatus := s, b_updatedAt := now\<rparr>) (bookings w)
         in if n = 0 then None else Some (w\<lparr>bookings := t\<rparr>))
      else if truthy (p_extensionId p) then
        (let (n, t) = update_many (\<lambda>e. e_id e = the (p_extensionId p) \<and> refundable_domain_status (e_paymentStatus e))
                        (\<lambda>e. e\<lparr>e_paymentStatus := s\<rparr>) (extensions w)
         in if n = 0 then None else Some (w\<lparr>extensions := t\<rparr>))
      else Some w)"

text \<open>The transaction of the finalisation, on the payment read before it.\<close>

definition finalize_transaction :: "refund_env \<Rightarrow> payment \<Rightarrow> finalize_refund_input \<Rightarrow> world \<Rightarrow> bool \<times> world" where
  "finalize_transaction env p input w =
     (let (n, t) = update_many (\<lambda>q. p_id q = p_id p \<and> refund_open q)
            (\<lambda>q. let q' = q\<lparr>p_status := terminal_refund_status (fi_status input)\<rparr> in
                 case refund_webhook_payload (rv_now env) p input of
                   None \<Rightarrow> q' | Some payload \<Rightarrow> q'\<lparr>p_webhookPayload := payload\<rparr>) (payments w)
      in if n = 0 then (False, w)
         else case move_domain_status (rv_now env) p (to_domain_payment_status (fi_status input)) (w\<lparr>payments := t\<rparr>) of
           None \<Rightarrow> request_manual_review env (p_id p)
                     ''Refund finalization could not update the related booking or extension payment status'' w
         | Some w1 \<Rightarrow>
             (case payment_booking p w of
                None \<Rightarrow> (True, w1)
              | Some b \<Rightarrow>
                  (True, snd (create_notifications (rv_now env) NE_BOOKING_LIFECYCLE
                     (refund_status_changed_events (rv_config env)
                       \<lparr>rn_refundId = fi_refundId input, rn_paymentId = p_id p, rn_bookingId = b_id b,
                        rn_bookingReference = b_bookingReference b,
                        rn_status = terminal_refund_notice (fi_status input), rn_amount = fi_amount input,
                        rn_failureReason = fi_failureReason input,
                        rn_customer = get_refund_notification_customer b w\<rparr>) w1))))"

definition finalize_refund :: "refund_env \<Rightarrow> finalize_refund_input \<Rightarrow> world \<Rightarrow> bool \<times> world" where
  "finalize_refund env input w =
     (case find_row (\<lambda>p. p_id p = fi_paymentId input) (payments w) of
        None \<Rightarrow> (False, w)
      | Some p \<Rightarrow>
          (if \<not> refund_open p then (False, w)
           else if \<not> exactly_one_association p
           then request_manual_review env (p_id p)
                  ''Payment must reference exactly one booking or extension before refund finalization'' w
           else finalize_transaction env p input w))"

section \<open>Reconciliation\<close>

definition refund_grace_period :: time where "refund_grace_period = minutes_ms 15"
definition refund_batch_size :: nat where "refund_batch_size = 50"
definition fetch_failure_handoff_attempts :: nat where "fetch_failure_handoff_attempts = 3"
definition bank_refund_sla :: time where "bank_refund_sla = hours_ms 48"
definition mobile_money_refund_sla :: time where "mobile_money_refund_sla = days_ms 6"
definition card_or_unknown_refund_sla :: time where "card_or_unknown_refund_sla = days_ms 16"

definition get_refund_mismatch_reason :: "payment \<Rightarrow> fetched_refund \<Rightarrow> refund_provider_state \<Rightarrow> string option" where
  "get_refund_mismatch_reason p r st =
     (if Some (nat_digits (fx_id r)) \<noteq> p_refundProviderId p
      then Some (''Refund provider ID mismatch: expected '' @ the (coalesce (p_refundProviderId p) (Some ''null''))
                 @ '', received '' @ nat_digits (fx_id r))
      else if truthy (p_flutterwaveTransactionId p) \<and> Some (nat_digits (fx_transaction_id r)) \<noteq> p_flutterwaveTransactionId p
      then Some ''Flutterwave refund belongs to a different transaction''
      else if fx_amount_refunded r < 0 \<or> (st \<noteq> FAILED \<and> fx_amount_refunded r = 0)
            \<or> (case p_amountCharged p of None \<Rightarrow> False | Some a \<Rightarrow> a < fx_amount_refunded r)
      then Some ''Flutterwave refund amount does not match the refundable payment amount''
      else None)"

definition record_provider_check :: "time \<Rightarrow> ident \<Rightarrow> string \<Rightarrow> bool \<Rightarrow> world \<Rightarrow> world" where
  "record_provider_check now i providerStatus verificationFailed w =
     w\<lparr>payments := snd (update_many (\<lambda>q. p_id q = i \<and> refund_open q)
         (\<lambda>q. q\<lparr>p_refundProviderStatus := Some providerStatus, p_refundLastCheckedAt := Some now,
                p_refundReconciliationAttempts := p_refundReconciliationAttempts q + 1,
                p_refundVerificationFailures :=
                  (if verificationFailed then p_refundVerificationFailures q + 1 else 0)\<rparr>) (payments w))\<rparr>"

definition handle_fetch_failure :: "refund_env \<Rightarrow> payment \<Rightarrow> world \<Rightarrow> world" where
  "handle_fetch_failure env p w =
     (let attempts = p_refundVerificationFailures p + 1;
          w1 = record_provider_check (rv_now env) (p_id p)
                 (the (coalesce (p_refundProviderStatus p) (Some ''fetch-error''))) True w
      in if fetch_failure_handoff_attempts \<le> attempts
         then snd (request_manual_review env (p_id p)
                (''Flutterwave refund verification failed '' @ nat_digits attempts @ '' consecutive times'') w1)
         else w1)"

definition is_past_provider_sla :: "time \<Rightarrow> payment \<Rightarrow> bool" where
  "is_past_provider_sla now p \<longleftrightarrow>
     (case p_refundRequestedAt p of
        None \<Rightarrow> True
      | Some requestedAt \<Rightarrow>
          (let m = (case p_paymentMethod p of None \<Rightarrow> [] | Some x \<Rightarrow> js_lower (js_trim x));
               sla = (if js_includes m ''momo'' \<or> js_includes m ''mobile'' then mobile_money_refund_sla
                      else if js_includes m ''bank'' \<or> js_includes m ''account'' then bank_refund_sla
                      else card_or_unknown_refund_sla)
           in requestedAt \<le> now - sla))"

definition reconcile_refund :: "refund_env \<Rightarrow> payment \<Rightarrow> world \<Rightarrow> bool \<times> world" where
  "reconcile_refund env p w =
     (if \<not> truthy (p_refundProviderId p)
      then request_manual_review env (p_id p)
             ''Flutterwave refund ID is unavailable after an uncertain initiation; verify the transaction before retrying'' w
      else let refundId = the (p_refundProviderId p) in
      case fetch_refund (rv_get env) refundId of
        Inl e \<Rightarrow> (False, handle_fetch_failure env p w)
      | Inr r \<Rightarrow>
          (let st = classify_refund_provider_status (fx_status r) in
           case get_refund_mismatch_reason p r st of
             Some reason \<Rightarrow> request_manual_review env (p_id p) reason w
           | None \<Rightarrow>
               (let w1 = record_provider_check (rv_now env) (p_id p) (fx_status r) (st = UNKNOWN) w;
                    metadata = Some (fx_status r, fx_flw_ref r)
                in if st = SUCCEEDED then
                     finalize_refund env
                       \<lparr>fi_paymentId = p_id p, fi_refundId = refundId,
                        fi_status = (case p_amountCharged p of
                            None \<Rightarrow> T_PARTIALLY_REFUNDED
                          | Some a \<Rightarrow> if a \<le> fx_amount_refunded r then T_REFUNDED else T_PARTIALLY_REFUNDED),
                        fi_amount = fx_amount_refunded r, fi_failureReason = None, fi_providerMetadata = metadata\<rparr> w1
                   else if st = FAILED then
                     finalize_refund env
                       \<lparr>fi_paymentId = p_id p, fi_refundId = refundId, fi_status = T_REFUND_FAILED,
                        fi_amount = the (coalesce (p_refundRequestedAmount p) (Some (fx_amount_refunded r))),
                        fi_failureReason = Some (str_or (fx_comment r) (fx_status r)),
                        fi_providerMetadata = metadata\<rparr> w1
                   else if st = UNKNOWN \<and> fetch_failure_handoff_attempts \<le> p_refundVerificationFailures p + 1 then
                     request_manual_review env (p_id p)
                       (''Flutterwave returned unrecognized refund status \"'' @ fx_status r @ ''\"'') w1
                   else if is_past_provider_sla (rv_now env) p then
                     request_manual_review env (p_id p)
                       (''Refund remains '' @ fx_status r @ '' beyond the expected provider completion window'') w1
                   else (False, w1))))"

definition refund_reconcilable :: "time \<Rightarrow> payment \<Rightarrow> bool" where
  "refund_reconcilable now p \<longleftrightarrow>
     refund_open p \<and> p_refundManualReviewNotifiedAt p = None
   \<and> (case p_refundRequestedAt p of None \<Rightarrow> False | Some t \<Rightarrow> t \<le> now - refund_grace_period)"

fun reconcile_refunds_each :: "(nat \<Rightarrow> refund_env) \<Rightarrow> nat \<Rightarrow> payment list \<Rightarrow> world \<Rightarrow> nat \<times> world" where
  "reconcile_refunds_each env k [] w = (0, w)"
| "reconcile_refunds_each env k (p # ps) w =
     (let (ok, w1) = reconcile_refund (env k) p w;
          (n, w2) = reconcile_refunds_each env (Suc k) ps w1
      in ((if ok then 1 else 0) + n, w2))"

definition reconcile_processing_refunds :: "(nat \<Rightarrow> refund_env) \<Rightarrow> time \<Rightarrow> world \<Rightarrow> nat \<times> world" where
  "reconcile_processing_refunds env now w =
     reconcile_refunds_each env 0
       (find_many (refund_reconcilable now) (\<lambda>p. the (p_refundRequestedAt p)) refund_batch_size (payments w)) w"

section \<open>The refund webhook\<close>

definition attach_provider_refund :: "ident \<Rightarrow> string \<Rightarrow> world \<Rightarrow> nat \<times> world" where
  "attach_provider_refund i refundProviderId w =
     (let (n, t) = update_many (\<lambda>q. p_id q = i \<and> p_refundProviderId q = None \<and> refund_open q)
                     (\<lambda>q. q\<lparr>p_refundProviderId := Some refundProviderId\<rparr>) (payments w)
      in (n, w\<lparr>payments := t\<rparr>))"

definition webhook_id_mismatch :: "string \<Rightarrow> string \<Rightarrow> string" where
  "webhook_id_mismatch reported persisted =
     ''Webhook refund ID '' @ reported @ '' does not match persisted refund ID '' @ persisted"

definition reconcile_webhook_payment :: "refund_env \<Rightarrow> payment \<Rightarrow> string \<Rightarrow> world \<Rightarrow> bool \<times> world" where
  "reconcile_webhook_payment env p refundProviderId w =
     (if p_status p \<in> {PA_REFUNDED, PA_PARTIALLY_REFUNDED, PA_REFUND_FAILED} then (False, w)
      else if \<not> refund_open p
      then request_manual_review env (p_id p)
             (''Flutterwave reported refund '' @ refundProviderId @ '' while local payment status is ''
              @ attempt_status_string (p_status p)) w
      else if truthy (p_refundProviderId p) \<and> p_refundProviderId p \<noteq> Some refundProviderId
      then request_manual_review env (p_id p) (webhook_id_mismatch refundProviderId (the (p_refundProviderId p))) w
      else if truthy (p_refundProviderId p) then reconcile_refund env p w
      else let (n, w1) = attach_provider_refund (p_id p) refundProviderId w in
        if n \<noteq> 0 then reconcile_refund env (p\<lparr>p_refundProviderId := Some refundProviderId\<rparr>) w1
        else (case find_row (\<lambda>q. p_id q = p_id p) (payments w1) of
                None \<Rightarrow> (False, w1)
              | Some q \<Rightarrow>
                  (if \<not> refund_open q then (False, w1)
                   else if p_refundProviderId q \<noteq> Some refundProviderId
                   then request_manual_review env (p_id p)
                          (webhook_id_mismatch refundProviderId (the (coalesce (p_refundProviderId q) (Some ''missing'')))) w1
                   else reconcile_refund env q w1)))"

definition reconcile_webhook_refund :: "refund_env \<Rightarrow> ident \<Rightarrow> string \<Rightarrow> world \<Rightarrow> bool \<times> world" where
  "reconcile_webhook_refund env i refundProviderId w =
     (case find_row (\<lambda>p. p_id p = i) (payments w) of
        None \<Rightarrow> (False, w)
      | Some p \<Rightarrow> reconcile_webhook_payment env p refundProviderId w)"

datatype refund_error =
    PaymentNotFound string
  | PaymentAccessForbidden ident
  | RefundReconciliationRequired ident
  | RefundPaymentNotSuccessful ident attempt_status
  | RefundChargedAmountMissing ident
  | RefundAmountExceedsCharge ident rat rat
  | RefundProviderReferenceMissing ident
  | RefundDomainStateMismatch ident
  | RefundReservationConflict ident
  | RefundProviderIdMissing ident
  | RefundProviderError flutterwave_error
  | RefundWebhookPaymentNotFound nat

definition handle_refund_completed :: "refund_env \<Rightarrow> nat \<Rightarrow> nat \<Rightarrow> world \<Rightarrow> (refund_error + unit) \<times> world" where
  "handle_refund_completed env transactionId refundId w =
     (case find_row (\<lambda>p. p_flutterwaveTransactionId p = Some (nat_digits transactionId)) (payments w) of
        None \<Rightarrow> (Inl (RefundWebhookPaymentNotFound transactionId), w)
      | Some p \<Rightarrow> (Inr (), snd (reconcile_webhook_refund env (p_id p) (nat_digits refundId) w)))"

section \<open>Initiation\<close>

definition payment_owner :: "payment \<Rightarrow> world \<Rightarrow> ident option" where
  "payment_owner p w =
     (let direct = (case p_bookingId p of None \<Rightarrow> None
                    | Some i \<Rightarrow> (case find_row (\<lambda>b. b_id b = i) (bookings w) of None \<Rightarrow> None | Some b \<Rightarrow> b_userId b))
      in if truthy direct then direct
         else case p_extensionId p of None \<Rightarrow> None
              | Some i \<Rightarrow> (case extension_booking i w of None \<Rightarrow> None | Some b \<Rightarrow> b_userId b))"

definition validate_refund_eligibility :: "payment \<Rightarrow> ident option \<Rightarrow> ident \<Rightarrow> rat \<Rightarrow> refund_error + unit" where
  "validate_refund_eligibility p ownerId userId refundAmount =
     (if ownerId \<noteq> Some userId then Inl (PaymentAccessForbidden (p_id p))
      else if p_status p = PA_REFUND_ERROR then Inl (RefundReconciliationRequired (p_id p))
      else if p_status p \<noteq> PA_SUCCESSFUL then Inl (RefundPaymentNotSuccessful (p_id p) (p_status p))
      else case p_amountCharged p of
        None \<Rightarrow> Inl (RefundChargedAmountMissing (p_id p))
      | Some charged \<Rightarrow>
          (if charged < refundAmount then Inl (RefundAmountExceedsCharge (p_id p) refundAmount charged)
           else if \<not> truthy (p_flutterwaveTransactionId p) then Inl (RefundProviderReferenceMissing (p_id p))
           else Inr ()))"

definition get_refund_idempotency_key :: "string \<Rightarrow> ident \<Rightarrow> string" where
  "get_refund_idempotency_key uuid i = ''refund_'' @ i @ ''_'' @ uuid"

definition reserved_payment :: "time \<Rightarrow> rat \<Rightarrow> string \<Rightarrow> payment \<Rightarrow> payment" where
  "reserved_payment now amount key q =
     q\<lparr>p_status := PA_REFUND_PROCESSING, p_refundIdempotencyKey := Some key,
       p_refundRequestedAmount := Some amount, p_refundRequestedAt := Some now,
       p_refundReconciliationAttempts := 0, p_refundVerificationFailures := 0,
       p_refundManualReviewNotifiedAt := None\<rparr>"

definition reserve_refund :: "refund_env \<Rightarrow> payment \<Rightarrow> rat \<Rightarrow> string \<Rightarrow> world \<Rightarrow> (refund_error + unit) \<times> world" where
  "reserve_refund env p amount key w =
     (if \<not> exactly_one_association p then (Inl (RefundDomainStateMismatch (p_id p)), w)
      else let (n, t) = update_many (\<lambda>q. p_id q = p_id p \<and> p_status q = PA_SUCCESSFUL)
                          (reserved_payment (rv_now env) amount key) (payments w)
      in if n = 0 then (Inl (RefundReservationConflict (p_id p)), w)
         else case move_domain_status (rv_now env) p REFUND_PROCESSING (w\<lparr>payments := t\<rparr>) of
                None \<Rightarrow> (Inl (RefundDomainStateMismatch (p_id p)), w)
              | Some w1 \<Rightarrow> (Inr (), w1))"

definition provider_status_of :: "refund_response \<Rightarrow> string" where
  "provider_status_of r = str_or (map_option js_trim (rr_status r)) ''unknown''"

definition mark_refund_uncertain :: "time \<Rightarrow> ident \<Rightarrow> refund_response option \<Rightarrow> world \<Rightarrow> world" where
  "mark_refund_uncertain now i result w =
     w\<lparr>payments := snd (update_many (\<lambda>q. p_id q = i \<and> p_status q = PA_REFUND_PROCESSING)
         (\<lambda>q. let q' = q\<lparr>p_status := PA_REFUND_ERROR\<rparr> in
              case result of
                None \<Rightarrow> q'
              | Some r \<Rightarrow>
                  (case rr_refundId r of
                     None \<Rightarrow> q'
                   | Some refundId \<Rightarrow>
                       (if rr_success r
                        then q'\<lparr>p_refundProviderId := Some (nat_digits refundId),
                                p_refundProviderStatus := Some (provider_status_of r),
                                p_refundLastCheckedAt := Some now\<rparr>
                        else q'))) (payments w))\<rparr>"

definition handle_refund_result ::
  "refund_env \<Rightarrow> ident \<Rightarrow> rat \<Rightarrow> string \<Rightarrow> refund_response \<Rightarrow> world \<Rightarrow> (refund_error + unit) \<times> world" where
  "handle_refund_result env i amount key r w =
     (if rr_success r then
        (case rr_refundId r of
           None \<Rightarrow> (Inl (RefundProviderIdMissing i), w)
         | Some refundId \<Rightarrow>
             (Inr (), w\<lparr>payments := snd (update_many (\<lambda>q. p_id q = i \<and> p_status q = PA_REFUND_PROCESSING)
                (\<lambda>q. q\<lparr>p_refundProviderId := Some (nat_digits refundId),
                       p_refundProviderStatus := Some (provider_status_of r),
                       p_refundLastCheckedAt := Some (rv_now env)\<rparr>) (payments w))\<rparr>))
      else (Inr (), snd (finalize_refund env
              \<lparr>fi_paymentId = i, fi_refundId = ''idempotency:'' @ key, fi_status = T_REFUND_FAILED,
               fi_amount = amount, fi_failureReason = Some (str_or (rr_error r) ''Flutterwave rejected refund''),
               fi_providerMetadata = None\<rparr> w)))"

text \<open>The provider call is recorded in the world; its callback is the webhook route.\<close>

definition execute_refund ::
  "refund_env \<Rightarrow> ident \<Rightarrow> string \<Rightarrow> rat \<Rightarrow> string \<Rightarrow> world \<Rightarrow> (refund_error + refund_response) \<times> world" where
  "execute_refund env i transactionId amount key w =
     (let w1 = w\<lparr>refundRequests := refundRequests w @
                  [\<lparr>rq_paymentId = i, rq_transactionId = transactionId, rq_amount = amount, rq_idempotencyKey = key\<rparr>]\<rparr>
      in case initiate_refund_request (rv_post env) transactionId amount
                (Some (get_webhook_url (rv_webhookUrl env) ''/api/payments/webhook/flutterwave'')) key of
           Inl e \<Rightarrow> (Inl (RefundProviderError e), mark_refund_uncertain (rv_now env) i None w1)
         | Inr r \<Rightarrow>
             (case handle_refund_result env i amount key r w1 of
                (Inl e, w2) \<Rightarrow> (Inl e, mark_refund_uncertain (rv_now env) i (Some r) w2)
              | (Inr _, w2) \<Rightarrow> (Inr r, w2)))"

definition initiate_refund ::
  "refund_env \<Rightarrow> string \<Rightarrow> rat \<Rightarrow> ident \<Rightarrow> world \<Rightarrow> (refund_error + refund_response) \<times> world" where
  "initiate_refund env txRef amount userId w =
     (case find_row (\<lambda>p. p_txRef p = txRef) (payments w) of
        None \<Rightarrow> (Inl (PaymentNotFound txRef), w)
      | Some p \<Rightarrow>
          (case validate_refund_eligibility p (payment_owner p w) userId amount of
             Inl e \<Rightarrow> (Inl e, w)
           | Inr _ \<Rightarrow>
               (let key = get_refund_idempotency_key (rv_uuid env) (p_id p) in
                case reserve_refund env p amount key w of
                  (Inl e, w1) \<Rightarrow> (Inl e, w1)
                | (Inr _, w1) \<Rightarrow> execute_refund env (p_id p) (the (p_flutterwaveTransactionId p)) amount key w1)))"

section \<open>The refund state machine\<close>

text \<open>The abstract machine: the moves of a payment's status that refunds may make.\<close>

inductive refund_status_step :: "attempt_status \<Rightarrow> attempt_status \<Rightarrow> bool" where
  rs_reserve: "refund_status_step PA_SUCCESSFUL PA_REFUND_PROCESSING"
| rs_uncertain: "refund_status_step PA_REFUND_PROCESSING PA_REFUND_ERROR"
| rs_finish: "s \<in> {PA_REFUND_PROCESSING, PA_REFUND_ERROR} \<Longrightarrow> refund_status_step s (terminal_refund_status t)"

inductive_cases refund_status_stepE: "refund_status_step s t"

text \<open>
  How a payment row may change: what was paid and for what is fixed, the status moves along the
  machine, and a row outside the machine's live states does not change at all.
\<close>

definition refund_evolves :: "payment \<Rightarrow> payment \<Rightarrow> bool" where
  "refund_evolves p p' \<longleftrightarrow>
     p_id p' = p_id p \<and> p_bookingId p' = p_bookingId p \<and> p_extensionId p' = p_extensionId p \<and> p_txRef p' = p_txRef p
   \<and> p_amountExpected p' = p_amountExpected p \<and> p_amountCharged p' = p_amountCharged p \<and> p_currency p' = p_currency p
   \<and> p_flutterwaveTransactionId p' = p_flutterwaveTransactionId p
   \<and> refund_status_step\<^sup>*\<^sup>* (p_status p) (p_status p')
   \<and> (p_status p \<notin> {PA_SUCCESSFUL, PA_REFUND_PROCESSING, PA_REFUND_ERROR} \<longrightarrow> p' = p)"

definition payments_evolve :: "world \<Rightarrow> world \<Rightarrow> bool" where
  "payments_evolve w w' \<longleftrightarrow> list_all2 refund_evolves (payments w) (payments w')"

lemma refund_evolves_refl [simp]: "refund_evolves p p" by (simp add: refund_evolves_def)

lemma refund_evolves_trans: "refund_evolves a b \<Longrightarrow> refund_evolves b c \<Longrightarrow> refund_evolves a c"
proof -
  assume ab: "refund_evolves a b" and bc: "refund_evolves b c"
  have "refund_status_step\<^sup>*\<^sup>* (p_status a) (p_status c)"
    using ab bc unfolding refund_evolves_def by (meson rtranclp_trans)
  with ab bc show ?thesis unfolding refund_evolves_def by auto
qed

lemma payments_evolve_refl [simp]: "payments_evolve w w"
  by (simp add: payments_evolve_def list_all2_refl)

lemma payments_evolve_trans: "payments_evolve a b \<Longrightarrow> payments_evolve b c \<Longrightarrow> payments_evolve a c"
  unfolding payments_evolve_def by (rule list_all2_trans [OF refund_evolves_trans])

lemma payments_evolve_cong: "payments w' = payments v' \<Longrightarrow> payments_evolve w w' = payments_evolve w v'"
  by (simp add: payments_evolve_def)

lemma evolve_update_many:
  "(\<And>p. P p \<Longrightarrow> refund_evolves p (f p)) \<Longrightarrow> payments w' = snd (update_many P f (payments w)) \<Longrightarrow> payments_evolve w w'"
  by (simp add: payments_evolve_def snd_update_many list_all2_map2 list_all2_refl)

lemma evolve_same_status:
  assumes "p_id p' = p_id p" "p_bookingId p' = p_bookingId p" "p_extensionId p' = p_extensionId p" "p_txRef p' = p_txRef p"
    "p_amountExpected p' = p_amountExpected p" "p_amountCharged p' = p_amountCharged p" "p_currency p' = p_currency p"
    "p_flutterwaveTransactionId p' = p_flutterwaveTransactionId p"
    and "p_status p' = p_status p \<or> refund_status_step (p_status p) (p_status p')"
    and "p_status p \<in> {PA_SUCCESSFUL, PA_REFUND_PROCESSING, PA_REFUND_ERROR}"
  shows "refund_evolves p p'"
  using assms by (auto simp: refund_evolves_def)

lemma evolve_claim_review: "payments_evolve w (snd (claim_manual_review env p reason w))"
proof -
  let ?P = "\<lambda>q. p_id q = p_id p \<and> reviewable_refund q"
  let ?f = "\<lambda>q. q\<lparr>p_refundManualReviewNotifiedAt := Some (rv_now env)\<rparr>"
  have "payments_evolve w (w\<lparr>payments := snd (update_many ?P ?f (payments w))\<rparr>)"
    by (rule evolve_update_many [where P = ?P and f = ?f]) (auto simp: reviewable_refund_def intro!: evolve_same_status)
  then show ?thesis
    by (simp add: claim_manual_review_def case_prod_beta payments_evolve_def list_all2_refl)
qed

lemma evolve_review: "payments_evolve w (snd (request_manual_review env i reason w))"
  by (simp add: request_manual_review_def evolve_claim_review split: option.splits)

lemma move_domain_payments: "move_domain_status now p s w = Some w' \<Longrightarrow> payments w' = payments w"
  by (auto simp: move_domain_status_def Let_def case_prod_beta split: if_splits)

definition finalized_refund :: "time \<Rightarrow> payment \<Rightarrow> finalize_refund_input \<Rightarrow> payment \<Rightarrow> payment" where
  "finalized_refund now p input q =
     (let q' = q\<lparr>p_status := terminal_refund_status (fi_status input)\<rparr> in
      case refund_webhook_payload now p input of None \<Rightarrow> q' | Some payload \<Rightarrow> q'\<lparr>p_webhookPayload := payload\<rparr>)"

lemma finalized_refund_evolves: "refund_open q \<Longrightarrow> refund_evolves q (finalized_refund now p input q)"
  by (rule evolve_same_status)
     (auto simp: finalized_refund_def refund_open_def Let_def intro: rs_finish split: option.splits)

lemma evolve_finalize_transaction: "payments_evolve w (snd (finalize_transaction env p input w))"
proof -
  let ?P = "\<lambda>q. p_id q = p_id p \<and> refund_open q"
  let ?f = "finalized_refund (rv_now env) p input"
  let ?w = "w\<lparr>payments := snd (update_many ?P ?f (payments w))\<rparr>"
  have "payments_evolve w ?w"
    by (rule evolve_update_many [where P = ?P and f = ?f]) (auto intro: finalized_refund_evolves)
  moreover have "payments w' = payments ?w" if "move_domain_status now p s ?w = Some w'" for now s w'
    using move_domain_payments [OF that] .
  ultimately show ?thesis
    unfolding finalize_transaction_def finalized_refund_def [symmetric] case_prod_beta
    using evolve_review [of w, unfolded payments_evolve_def]
    by (simp add: Let_def payments_evolve_def list_all2_refl split: option.splits)
qed

lemma evolve_finalize: "payments_evolve w (snd (finalize_refund env input w))"
  by (simp add: finalize_refund_def evolve_review evolve_finalize_transaction split: option.splits)

lemma evolve_check: "payments_evolve w (record_provider_check now i s vf w)"
proof -
  let ?P = "\<lambda>q. p_id q = i \<and> refund_open q"
  let ?f = "\<lambda>q. q\<lparr>p_refundProviderStatus := Some s, p_refundLastCheckedAt := Some now,
                p_refundReconciliationAttempts := p_refundReconciliationAttempts q + 1,
                p_refundVerificationFailures := (if vf then p_refundVerificationFailures q + 1 else 0)\<rparr>"
  show ?thesis
    by (rule evolve_update_many [where P = ?P and f = ?f])
       (auto simp: record_provider_check_def refund_open_def intro!: evolve_same_status)
qed

lemma evolve_fetch_failure: "payments_evolve w (handle_fetch_failure env p w)"
  unfolding handle_fetch_failure_def Let_def
  using payments_evolve_trans [OF evolve_check evolve_review] evolve_check by simp

lemma evolve_reconcile: "payments_evolve w (snd (reconcile_refund env p w))"
  unfolding reconcile_refund_def Let_def
  using payments_evolve_trans [OF evolve_check evolve_review] payments_evolve_trans [OF evolve_check evolve_finalize]
  by (simp add: evolve_review evolve_check evolve_fetch_failure split: sum.splits option.splits)

lemma evolve_reconcile_each: "payments_evolve w (snd (reconcile_refunds_each env k ps w))"
proof (induction ps arbitrary: k w)
  case (Cons p ps)
  show ?case using payments_evolve_trans [OF evolve_reconcile Cons.IH] by (simp add: case_prod_beta)
qed simp

lemma evolve_attach: "payments_evolve w (snd (attach_provider_refund i r w))"
proof -
  let ?P = "\<lambda>q. p_id q = i \<and> p_refundProviderId q = None \<and> refund_open q"
  show ?thesis
    by (rule evolve_update_many [where P = ?P and f = "\<lambda>q. q\<lparr>p_refundProviderId := Some r\<rparr>"])
       (auto simp: attach_provider_refund_def case_prod_beta refund_open_def intro!: evolve_same_status)
qed

lemma evolve_webhook_payment: "payments_evolve w (snd (reconcile_webhook_payment env p r w))"
proof -
  have "payments_evolve w (snd (reconcile_refund env q (snd (attach_provider_refund i r w))))"
    "payments_evolve w (snd (request_manual_review env i reason (snd (attach_provider_refund i' r w))))" for q i i' reason
    using payments_evolve_trans [OF evolve_attach] evolve_reconcile evolve_review by blast+
  then show ?thesis
    unfolding reconcile_webhook_payment_def case_prod_beta Let_def
    by (simp add: evolve_review evolve_reconcile evolve_attach split: option.splits)
qed

lemma evolve_refund_completed: "payments_evolve w (snd (handle_refund_completed env t r w))"
  by (simp add: handle_refund_completed_def reconcile_webhook_refund_def evolve_webhook_payment split: option.splits)

lemma reserved_payment_evolves: "p_status q = PA_SUCCESSFUL \<Longrightarrow> refund_evolves q (reserved_payment now a k q)"
  by (rule evolve_same_status) (auto simp: reserved_payment_def intro: rs_reserve)

lemma reserve_payments:
  assumes "reserve_refund env p a k w = (r, w')"
  shows "(r \<noteq> Inr () \<and> w' = w) \<or> (r = Inr () \<and> exactly_one_association p
     \<and> fst (update_many (\<lambda>q. p_id q = p_id p \<and> p_status q = PA_SUCCESSFUL) (reserved_payment (rv_now env) a k) (payments w)) \<noteq> 0
     \<and> payments w' = snd (update_many (\<lambda>q. p_id q = p_id p \<and> p_status q = PA_SUCCESSFUL)
                       (reserved_payment (rv_now env) a k) (payments w)))"
  using assms by (auto simp: reserve_refund_def case_prod_beta Let_def dest: move_domain_payments split: if_splits option.splits)

lemma evolve_reserve: "payments_evolve w (snd (reserve_refund env p a k w))"
proof -
  obtain r w' where r: "reserve_refund env p a k w = (r, w')" by fastforce
  have "payments_evolve w w'"
    using reserve_payments [OF r]
    by (auto intro: evolve_update_many [where P = "\<lambda>q. p_id q = p_id p \<and> p_status q = PA_SUCCESSFUL"
         and f = "reserved_payment (rv_now env) a k"] reserved_payment_evolves)
  then show ?thesis by (simp add: r)
qed

lemma evolve_uncertain: "payments_evolve w (mark_refund_uncertain now i res w)"
proof -
  let ?P = "\<lambda>q. p_id q = i \<and> p_status q = PA_REFUND_PROCESSING"
  show ?thesis unfolding mark_refund_uncertain_def
    by (rule evolve_update_many [where P = ?P])
       (auto simp: Let_def intro!: evolve_same_status rs_uncertain split: option.splits)
qed

lemma evolve_result: "payments_evolve w (snd (handle_refund_result env i a k r w))"
proof -
  have "payments_evolve w (w\<lparr>payments := snd (update_many (\<lambda>q. p_id q = i \<and> p_status q = PA_REFUND_PROCESSING)
                (\<lambda>q. q\<lparr>p_refundProviderId := x, p_refundProviderStatus := y, p_refundLastCheckedAt := z\<rparr>) (payments w))\<rparr>)" for x y z
    by (rule evolve_update_many [where P = "\<lambda>q. p_id q = i \<and> p_status q = PA_REFUND_PROCESSING"])
       (auto intro!: evolve_same_status)
  then show ?thesis by (simp add: handle_refund_result_def evolve_finalize split: option.splits)
qed

lemma evolve_execute: "payments_evolve w (snd (execute_refund env i t a k w))"
proof -
  let ?w = "w\<lparr>refundRequests := refundRequests w @ [\<lparr>rq_paymentId = i, rq_transactionId = t, rq_amount = a, rq_idempotencyKey = k\<rparr>]\<rparr>"
  have w: "payments_evolve w v = payments_evolve ?w v" for v by (simp add: payments_evolve_def)
  show ?thesis unfolding w
  proof (cases "initiate_refund_request (rv_post env) t a
      (Some (get_webhook_url (rv_webhookUrl env) ''/api/payments/webhook/flutterwave'')) k")
    case (Inl e)
    then show "payments_evolve ?w (snd (execute_refund env i t a k w))"
      by (simp add: execute_refund_def evolve_uncertain)
  next
    case (Inr r)
    obtain x w2 where x: "handle_refund_result env i a k r ?w = (x, w2)" by fastforce
    have "payments_evolve ?w w2" using evolve_result [of ?w env i a k r] x by simp
    then show "payments_evolve ?w (snd (execute_refund env i t a k w))"
      using x Inr payments_evolve_trans [OF _ evolve_uncertain]
      by (cases x) (simp_all add: execute_refund_def)
  qed
qed

lemma evolve_initiate: "payments_evolve w (snd (initiate_refund env txRef a u w))"
proof (cases "find_row (\<lambda>p. p_txRef p = txRef) (payments w)")
  case None
  then show ?thesis by (simp add: initiate_refund_def)
next
  case (Some p)
  let ?k = "get_refund_idempotency_key (rv_uuid env) (p_id p)"
  obtain r w1 where r: "reserve_refund env p a ?k w = (r, w1)" by fastforce
  have e: "payments_evolve w w1" using evolve_reserve [of w env p a ?k] r by simp
  show ?thesis
  proof (cases "validate_refund_eligibility p (payment_owner p w) u a")
    case (Inl x)
    then show ?thesis by (simp add: initiate_refund_def Some)
  next
    case (Inr x)
    then show ?thesis using r e payments_evolve_trans [OF e evolve_execute]
      by (cases r) (simp_all add: initiate_refund_def Some)
  qed
qed

section \<open>Runs: which reservations succeed\<close>

text \<open>
  Any process may at any time change payments along the machine or create new ones; the
  reservations that succeed, each with a payment snapshot of any age, are logged.
\<close>

definition payments_progress :: "world \<Rightarrow> world \<Rightarrow> bool" where
  "payments_progress w w' \<longleftrightarrow>
     (\<exists>ps new. payments w' = ps @ new \<and> list_all2 refund_evolves (payments w) ps) \<and> unique_by p_id (payments w')"

inductive refund_run :: "world \<Rightarrow> ident list \<Rightarrow> world \<Rightarrow> bool" where
  rr_start: "refund_run w [] w"
| rr_other: "refund_run w won w1 \<Longrightarrow> payments_progress w1 w2 \<Longrightarrow> refund_run w won w2"
| rr_reserve: "refund_run w won w1 \<Longrightarrow> reserve_refund env p a k w1 = (Inr (), w2) \<Longrightarrow> refund_run w (p_id p # won) w2"

lemma terminal_refund_status_neq [simp]:
  "terminal_refund_status t \<notin> {PA_SUCCESSFUL, PA_REFUND_PROCESSING, PA_REFUND_ERROR, PA_PENDING, PA_FAILED}"
  by (cases t) simp_all

lemma never_back_to_successful: "refund_status_step\<^sup>*\<^sup>* s t \<Longrightarrow> t = PA_SUCCESSFUL \<Longrightarrow> s = PA_SUCCESSFUL"
proof (induction rule: rtranclp_induct)
  case (step y z)
  from step.hyps(2) have "z \<noteq> PA_SUCCESSFUL"
  proof (cases rule: refund_status_step.cases)
    case (rs_finish t)
    then show ?thesis by (cases t) simp_all
  qed simp_all
  with step.prems show ?case by simp
qed

lemma evolves_not_successful: "refund_evolves x q \<Longrightarrow> p_status x \<noteq> PA_SUCCESSFUL \<Longrightarrow> p_status q \<noteq> PA_SUCCESSFUL"
  unfolding refund_evolves_def by (metis never_back_to_successful)

lemma evolve_ids: "list_all2 refund_evolves xs ys \<Longrightarrow> map p_id ys = map p_id xs"
  by (induction rule: list_all2_induct) (auto simp: refund_evolves_def)

lemma evolve_row:
  "list_all2 refund_evolves xs ys \<Longrightarrow> y \<in> set ys \<Longrightarrow> \<exists>x \<in> set xs. refund_evolves x y"
  by (induction rule: list_all2_induct) auto

definition won_spent :: "ident list \<Rightarrow> world \<Rightarrow> bool" where
  "won_spent won w \<longleftrightarrow> unique_by p_id (payments w) \<and> set won \<subseteq> p_id ` set (payments w)
     \<and> (\<forall>q \<in> set (payments w). p_id q \<in> set won \<longrightarrow> p_status q \<noteq> PA_SUCCESSFUL)"

lemma progress_won_spent:
  assumes "payments_progress w w'" "won_spent won w" shows "won_spent won w'"
proof -
  from assms(1) obtain ps new where p: "payments w' = ps @ new" "list_all2 refund_evolves (payments w) ps"
      and u: "unique_by p_id (payments w')" by (auto simp: payments_progress_def)
  have ids: "p_id ` set ps = p_id ` set (payments w)"
    using evolve_ids [OF p(2)] by (metis list.set_map)
  have "p_status q \<noteq> PA_SUCCESSFUL" if q: "q \<in> set (payments w')" "p_id q \<in> set won" for q
  proof -
    have "p_id q \<in> p_id ` set ps" using q(2) assms(2) ids by (auto simp: won_spent_def)
    then obtain q0 where q0: "q0 \<in> set ps" "p_id q0 = p_id q" by auto
    then have "q0 = q" using unique_by_same [OF u _ q(1)] p(1) by auto
    then obtain x where x: "x \<in> set (payments w)" "refund_evolves x q" using evolve_row [OF p(2)] q0 by blast
    then have "p_status x \<noteq> PA_SUCCESSFUL" using assms(2) q(2) by (auto simp: won_spent_def refund_evolves_def)
    then show ?thesis using x(2) by (rule evolves_not_successful [rotated])
  qed
  then show ?thesis using u ids assms(2) p(1) by (auto simp: won_spent_def)
qed

lemma reserve_won_spent:
  assumes "reserve_refund env p a k w = (Inr (), w')" "won_spent won w"
  shows "p_id p \<notin> set won \<and> won_spent (p_id p # won) w'"
proof -
  let ?P = "\<lambda>q. p_id q = p_id p \<and> p_status q = PA_SUCCESSFUL" and ?f = "reserved_payment (rv_now env) a k"
  have pos: "0 < fst (update_many ?P ?f (payments w))" and rows: "payments w' = snd (update_many ?P ?f (payments w))"
    using reserve_payments [OF assms(1)] by auto
  from pos obtain e where e: "e \<in> set (payments w)" "?P e" by (auto simp: update_many_pos)
  have u: "unique_by p_id (payments w')" unfolding rows
    by (rule unique_update_many) (use assms(2) in \<open>simp_all add: reserved_payment_def won_spent_def\<close>)
  have ids: "p_id ` set (payments w') = p_id ` set (payments w)"
  proof -
    have "map p_id (payments w') = map p_id (payments w)"
      unfolding rows by (rule key_update_many) (simp add: reserved_payment_def)
    then show ?thesis by (metis list.set_map)
  qed
  have "p_status q' \<noteq> PA_SUCCESSFUL" if "q' \<in> set (payments w')" "p_id q' \<in> set (p_id p # won)" for q'
  proof -
    from that(1) obtain q where q: "q \<in> set (payments w)" "q' = (if ?P q then ?f q else q)"
      unfolding rows by (rule update_many_rowE)
    show ?thesis using q that(2) assms(2) by (auto simp: reserved_payment_def won_spent_def split: if_splits)
  qed
  moreover have "p_id p \<in> p_id ` set (payments w)" using e by (auto intro: image_eqI [of _ _ e])
  moreover have "p_id p \<notin> set won" using e assms(2) by (auto simp: won_spent_def)
  ultimately show ?thesis using u ids assms(2) by (simp add: won_spent_def)
qed

lemma refund_run_spent: "refund_run w won w' \<Longrightarrow> unique_by p_id (payments w) \<Longrightarrow> distinct won \<and> won_spent won w'"
proof (induction rule: refund_run.induct)
  case (rr_start w)
  then show ?case by (simp add: won_spent_def)
next
  case (rr_other w won w1 w2)
  then show ?case using progress_won_spent by blast
next
  case (rr_reserve w won w1 env p a k w2)
  then show ?case using reserve_won_spent [of env p a k w1 w2 won] by simp
qed

section \<open>What initiation asks of the provider\<close>

lemma create_notifications_requests: "refundRequests (snd (create_notifications now et evs w)) = refundRequests w"
  by simp

lemma requests_review [simp]: "refundRequests (snd (request_manual_review env i reason w)) = refundRequests w"
  by (simp add: request_manual_review_def claim_manual_review_def case_prod_beta split: option.splits)

lemma requests_move: "move_domain_status now p s w = Some w' \<Longrightarrow> refundRequests w' = refundRequests w"
  by (auto simp: move_domain_status_def Let_def case_prod_beta split: if_splits)

lemma requests_finalize_refund [simp]: "refundRequests (snd (finalize_refund env input w)) = refundRequests w"
  by (auto simp: finalize_refund_def finalize_transaction_def case_prod_beta Let_def dest: requests_move split: option.splits)

lemma requests_reserve: "reserve_refund env p a k w = (r, w') \<Longrightarrow> refundRequests w' = refundRequests w"
  by (auto simp: reserve_refund_def case_prod_beta Let_def dest: requests_move split: option.splits if_splits)

lemma requests_result [simp]: "refundRequests (snd (handle_refund_result env i a k r w)) = refundRequests w"
  by (simp add: handle_refund_result_def split: option.splits)

lemma requests_uncertain [simp]: "refundRequests (mark_refund_uncertain now i r w) = refundRequests w"
  by (simp add: mark_refund_uncertain_def)

lemma requests_execute:
  "refundRequests (snd (execute_refund env i t a k w)) = refundRequests w @
     [\<lparr>rq_paymentId = i, rq_transactionId = t, rq_amount = a, rq_idempotencyKey = k\<rparr>]"
proof (cases "initiate_refund_request (rv_post env) t a
    (Some (get_webhook_url (rv_webhookUrl env) ''/api/payments/webhook/flutterwave'')) k")
  case (Inl e)
  then show ?thesis by (simp add: execute_refund_def)
next
  case (Inr r)
  let ?w = "w\<lparr>refundRequests := refundRequests w @ [\<lparr>rq_paymentId = i, rq_transactionId = t, rq_amount = a, rq_idempotencyKey = k\<rparr>]\<rparr>"
  obtain x w2 where x: "handle_refund_result env i a k r ?w = (x, w2)" by fastforce
  then have "refundRequests w2 = refundRequests ?w" using requests_result [of env i a k r ?w] by simp
  then show ?thesis using x Inr by (cases x) (simp_all add: execute_refund_def)
qed

section \<open>Payment statuses\<close>

definition statuses :: "world \<Rightarrow> (ident \<times> attempt_status) list" where
  "statuses w = map (\<lambda>q. (p_id q, p_status q)) (payments w)"

lemma statuses_update:
  "payments w' = snd (update_many P f (payments w)) \<Longrightarrow> (\<And>q. P q \<Longrightarrow> p_id (f q) = p_id q \<and> p_status (f q) = p_status q) \<Longrightarrow>
   statuses w' = statuses w"
  by (simp add: statuses_def snd_update_many)

lemma statuses_review [simp]: "statuses (snd (request_manual_review env i reason w)) = statuses w"
proof -
  have "statuses (snd (claim_manual_review env p reason w)) = statuses w" for p
  proof -
    let ?P = "\<lambda>q. p_id q = p_id p \<and> reviewable_refund q" and ?f = "\<lambda>q. q\<lparr>p_refundManualReviewNotifiedAt := Some (rv_now env)\<rparr>"
    have "payments (snd (claim_manual_review env p reason w)) = payments w
        \<or> payments (snd (claim_manual_review env p reason w)) = snd (update_many ?P ?f (payments w))"
      by (simp add: claim_manual_review_def case_prod_beta)
    then show ?thesis
    proof
      assume "payments (snd (claim_manual_review env p reason w)) = snd (update_many ?P ?f (payments w))"
      then show ?thesis by (rule statuses_update) simp
    qed (simp add: statuses_def)
  qed
  then show ?thesis by (simp add: request_manual_review_def split: option.splits)
qed

lemma statuses_check [simp]: "statuses (record_provider_check now i s vf w) = statuses w"
  by (simp add: statuses_def record_provider_check_def snd_update_many)

lemma statuses_fetch_failure [simp]: "statuses (handle_fetch_failure env p w) = statuses w"
  by (simp add: handle_fetch_failure_def Let_def)

lemma finalized_refund_row [simp]:
  "p_id (finalized_refund now p input q) = p_id q" "p_status (finalized_refund now p input q) = terminal_refund_status (fi_status input)"
  by (simp_all add: finalized_refund_def Let_def split: option.splits)

lemma payments_finalize_transaction:
  "payments (snd (finalize_transaction env p input w)) =
     snd (update_many (\<lambda>q. p_id q = p_id p \<and> refund_open q) (finalized_refund (rv_now env) p input) (payments w))
   \<or> statuses (snd (finalize_transaction env p input w)) = statuses w"
  unfolding finalize_transaction_def finalized_refund_def [symmetric] case_prod_beta
  by (auto simp: Let_def dest: move_domain_payments split: option.splits)

lemma statuses_finalize:
  assumes "(i, s) \<in> set (statuses (snd (finalize_refund env input w)))"
  shows "(i, s) \<in> set (statuses w) \<or> (i = fi_paymentId input \<and> s = terminal_refund_status (fi_status input))"
proof (cases "\<exists>p. find_row (\<lambda>p. p_id p = fi_paymentId input) (payments w) = Some p \<and> refund_open p \<and> exactly_one_association p")
  case False
  then have "statuses (snd (finalize_refund env input w)) = statuses w"
    by (auto simp: finalize_refund_def split: option.splits)
  with assms show ?thesis by simp
next
  case True
  then obtain p where p: "find_row (\<lambda>p. p_id p = fi_paymentId input) (payments w) = Some p" "refund_open p" "exactly_one_association p"
    by blast
  then have f: "finalize_refund env input w = finalize_transaction env p input w" by (simp add: finalize_refund_def)
  have id: "p_id p = fi_paymentId input" using find_row_Some [OF p(1)] by simp
  show ?thesis using payments_finalize_transaction [of env p input w]
  proof
    assume rows: "payments (snd (finalize_transaction env p input w)) =
       snd (update_many (\<lambda>q. p_id q = p_id p \<and> refund_open q) (finalized_refund (rv_now env) p input) (payments w))"
    from assms obtain q' where q': "q' \<in> set (payments (snd (finalize_transaction env p input w)))" "p_id q' = i" "p_status q' = s"
      by (auto simp: f statuses_def)
    then obtain q where "q \<in> set (payments w)" "q' = (if p_id q = p_id p \<and> refund_open q then finalized_refund (rv_now env) p input q else q)"
      unfolding rows by (elim update_many_rowE)
    then show ?thesis using q' id by (auto simp: statuses_def split: if_splits)
  qed (use assms f in simp)
qed

section \<open>Properties\<close>

text \<open>
  Property C12: every refund operation (initiation, webhook, reconciliation by cron, and the
  transactions they are built of with payments read earlier) moves payment rows only along the
  refund machine: reserved once from successful, then perhaps uncertain, then terminal; the
  identity, amounts and transaction of a payment never change, and a row in any other status,
  the terminal ones included, does not change at all.
\<close>

theorem refund_operations_refine_machine:
  "payments_evolve w (snd (initiate_refund env txRef a u w))
   \<and> payments_evolve w (snd (handle_refund_completed env t r w))
   \<and> payments_evolve w (snd (reconcile_processing_refunds envs now w))
   \<and> payments_evolve w (snd (reconcile_refund env stale w))
   \<and> payments_evolve w (snd (finalize_transaction env stale input w))
   \<and> payments_evolve w (snd (execute_refund env i tx a k w))"
  by (intro conjI evolve_initiate evolve_refund_completed evolve_reconcile evolve_finalize_transaction evolve_execute)
     (simp add: reconcile_processing_refunds_def evolve_reconcile_each)

text \<open>
  Property C11: in any run in which processes change payments along the machine, create payments
  and try to reserve refunds with payment rows read at any earlier time, no payment is reserved
  twice; since the provider is asked only after a reservation, it is asked to refund a payment at
  most once.
\<close>

theorem payment_reserved_at_most_once:
  assumes "refund_run w won w'" and "unique_by p_id (payments w)"
  shows "distinct won \<and> (\<forall>i \<in> set won. \<forall>q \<in> set (payments w'). p_id q = i \<longrightarrow> p_status q \<noteq> PA_SUCCESSFUL)"
  using refund_run_spent [OF assms] by (auto simp: won_spent_def)

text \<open>
  Property C19: an initiation asks the provider for a refund at most once, and only when the
  payment was successful, belongs to the caller, is of exactly one booking or extension, and the
  amount does not exceed the charge; the request carries the payment's own transaction.
\<close>

theorem refund_requested_only_when_eligible:
  assumes "refundRequests (snd (initiate_refund env txRef a u w)) \<noteq> refundRequests w" and "unique_by p_id (payments w)"
  shows "\<exists>p charged. p \<in> set (payments w) \<and> p_txRef p = txRef \<and> p_status p = PA_SUCCESSFUL \<and> payment_owner p w = Some u
    \<and> exactly_one_association p \<and> p_amountCharged p = Some charged \<and> a \<le> charged
    \<and> refundRequests (snd (initiate_refund env txRef a u w)) = refundRequests w @
        [\<lparr>rq_paymentId = p_id p, rq_transactionId = the (p_flutterwaveTransactionId p), rq_amount = a,
          rq_idempotencyKey = get_refund_idempotency_key (rv_uuid env) (p_id p)\<rparr>]
    \<and> (\<forall>q \<in> set (payments (snd (initiate_refund env txRef a u w))). p_id q = p_id p \<longrightarrow> p_status q \<noteq> PA_SUCCESSFUL)"
proof -
  from assms(1) obtain p where p: "find_row (\<lambda>p. p_txRef p = txRef) (payments w) = Some p"
      "validate_refund_eligibility p (payment_owner p w) u a = Inr ()"
    by (auto simp: initiate_refund_def split: option.splits sum.splits)
  let ?k = "get_refund_idempotency_key (rv_uuid env) (p_id p)"
  obtain r w1 where r: "reserve_refund env p a ?k w = (r, w1)" by fastforce
  have rI: "r = Inr ()" using assms(1) p r requests_reserve [OF r] by (cases r) (auto simp: initiate_refund_def)
  have run: "initiate_refund env txRef a u w = execute_refund env (p_id p) (the (p_flutterwaveTransactionId p)) a ?k w1"
    using p r rI by (simp add: initiate_refund_def)
  have "won_spent [] w" using assms(2) by (simp add: won_spent_def)
  then have spent: "won_spent [p_id p] w1" using reserve_won_spent [OF r [unfolded rI]] by blast
  have "payments_progress w1 (snd (initiate_refund env txRef a u w))"
    using evolve_execute [of w1] evolve_ids spent unfolding run payments_progress_def won_spent_def payments_evolve_def
    by (metis append_Nil2)
  then have "won_spent [p_id p] (snd (initiate_refund env txRef a u w))" using progress_won_spent spent by blast
  moreover have "exactly_one_association p" using reserve_payments [OF r] rI by simp
  moreover have "refundRequests (snd (initiate_refund env txRef a u w)) = refundRequests w @
        [\<lparr>rq_paymentId = p_id p, rq_transactionId = the (p_flutterwaveTransactionId p), rq_amount = a, rq_idempotencyKey = ?k\<rparr>]"
    unfolding run requests_execute requests_reserve [OF r] ..
  moreover have "p_status p = PA_SUCCESSFUL \<and> payment_owner p w = Some u \<and> (\<exists>charged. p_amountCharged p = Some charged \<and> a \<le> charged)"
    using p(2) by (auto simp: validate_refund_eligibility_def split: if_splits option.splits)
  ultimately show ?thesis using find_row_Some [OF p(1)] by (auto simp: won_spent_def)
qed

text \<open>
  Property C20: reconciliation marks a payment refunded, in full or in part, only when the provider,
  asked by the persisted refund id, reports a completed refund of that id and of the payment's
  transaction, with a positive amount not above the charge; in full exactly when the amount is the
  whole charge.
\<close>

theorem refunded_only_when_verified:
  assumes "(p_id p, s) \<in> set (statuses (snd (reconcile_refund env p w)))" and "s \<in> {PA_REFUNDED, PA_PARTIALLY_REFUNDED}"
    and "(p_id p, s) \<notin> set (statuses w)"
  shows "\<exists>i r. p_refundProviderId p = Some i \<and> fetch_refund (rv_get env) i = Inr r
    \<and> classify_refund_provider_status (fx_status r) = SUCCEEDED \<and> nat_digits (fx_id r) = i
    \<and> (truthy (p_flutterwaveTransactionId p) \<longrightarrow> p_flutterwaveTransactionId p = Some (nat_digits (fx_transaction_id r)))
    \<and> 0 < fx_amount_refunded r \<and> (\<forall>charged. p_amountCharged p = Some charged \<longrightarrow> fx_amount_refunded r \<le> charged)
    \<and> (s = PA_REFUNDED \<longleftrightarrow> p_amountCharged p = Some (fx_amount_refunded r))"
proof -
  obtain i where i: "p_refundProviderId p = Some i" "i \<noteq> []"
    using assms by (cases "truthy (p_refundProviderId p)") (auto simp: reconcile_refund_def elim!: truthyE)
  then have tr: "truthy (p_refundProviderId p)" by (simp add: truthy_def)
  obtain r where r: "fetch_refund (rv_get env) i = Inr r"
    using assms i tr by (cases "fetch_refund (rv_get env) i") (auto simp: reconcile_refund_def)
  let ?st = "classify_refund_provider_status (fx_status r)"
  have none: "get_refund_mismatch_reason p r ?st = None"
    using assms i tr r by (cases "get_refund_mismatch_reason p r ?st") (auto simp: reconcile_refund_def)
  let ?w = "record_provider_check (rv_now env) (p_id p) (fx_status r) (?st = UNKNOWN) w"
  have other: "statuses (snd (reconcile_refund env p w)) = statuses w" if "?st \<noteq> SUCCEEDED" "?st \<noteq> FAILED"
    using that i tr r none by (simp add: reconcile_refund_def Let_def)
  have failed: "s \<noteq> PA_REFUNDED \<and> s \<noteq> PA_PARTIALLY_REFUNDED" if "?st = FAILED"
    using assms(1,3) that i tr r none by (auto simp: reconcile_refund_def Let_def dest!: statuses_finalize)
  have st: "?st = SUCCEEDED" using other failed assms by (cases ?st) auto
  have s: "s = terminal_refund_status (case p_amountCharged p of None \<Rightarrow> T_PARTIALLY_REFUNDED
            | Some a \<Rightarrow> if a \<le> fx_amount_refunded r then T_REFUNDED else T_PARTIALLY_REFUNDED)"
    using assms(1,3) st i tr r none by (auto simp: reconcile_refund_def Let_def dest!: statuses_finalize)
  show ?thesis using i r st none s
    by (intro exI [of _ i] exI [of _ r])
       (auto simp: get_refund_mismatch_reason_def split: if_splits option.splits)
qed


lemma reviewable_open: "refund_open p \<Longrightarrow> reviewable_refund p \<longleftrightarrow> p_refundManualReviewNotifiedAt p = None"
  by (auto simp: reviewable_refund_def refund_open_def)

lemma review_frame [simp]:
  "bookings (snd (request_manual_review env i reason w)) = bookings w"
  by (simp add: request_manual_review_def claim_manual_review_def case_prod_beta split: option.splits)

lemma review_result:
  assumes "unique_by p_id (payments w)" "p \<in> set (payments w)"
  shows "fst (request_manual_review env (p_id p) reason w) \<longleftrightarrow> reviewable_refund p"
  using find_row_unique [OF assms]
  by (auto simp: request_manual_review_def claim_manual_review_def case_prod_beta Let_def
      update_many_at [OF assms, of reviewable_refund])

lemma finalize_transaction_booking:
  assumes "unique_by p_id (payments w)" "p \<in> set (payments w)" "refund_open p" "p_bookingId p = Some i" "i \<noteq> []"
    and "\<exists>b \<in> set (bookings w). b_id b = i \<and> refundable_domain_status (b_paymentStatus b)"
  shows "fst (finalize_transaction env p input w)"
    and "payments (snd (finalize_transaction env p input w)) =
      map (\<lambda>q. if p_id q = p_id p then finalized_refund (rv_now env) p input p else q) (payments w)"
    and "bookings (snd (finalize_transaction env p input w)) =
      snd (update_many (\<lambda>b. b_id b = i \<and> refundable_domain_status (b_paymentStatus b))
        (\<lambda>b. b\<lparr>b_paymentStatus := to_domain_payment_status (fi_status input), b_updatedAt := rv_now env\<rparr>) (bookings w))"
proof -
  have tr: "truthy (Some i)" using assms(5) by (cases i) simp_all
  have up: "update_many (\<lambda>q. p_id q = p_id p \<and> refund_open q) (finalized_refund (rv_now env) p input) (payments w)
     = (1, map (\<lambda>q. if p_id q = p_id p then finalized_refund (rv_now env) p input p else q) (payments w))"
    by (rule update_many_at [where P = refund_open, OF assms(1,2,3)])
  have "fst (update_many (\<lambda>b. b_id b = i \<and> refundable_domain_status (b_paymentStatus b))
        (\<lambda>b. b\<lparr>b_paymentStatus := s, b_updatedAt := t\<rparr>) (bookings w)) \<noteq> 0" for s t
    using assms(6) unfolding neq0_conv update_many_pos .
  note f = up this assms(4) tr
  show "fst (finalize_transaction env p input w)"
    unfolding finalize_transaction_def finalized_refund_def [symmetric] up
    by (simp add: f move_domain_status_def case_prod_beta Let_def split: option.splits)
  show "payments (snd (finalize_transaction env p input w)) =
      map (\<lambda>q. if p_id q = p_id p then finalized_refund (rv_now env) p input p else q) (payments w)"
    unfolding finalize_transaction_def finalized_refund_def [symmetric] up
    by (simp add: f move_domain_status_def case_prod_beta Let_def split: option.splits)
  show "bookings (snd (finalize_transaction env p input w)) =
      snd (update_many (\<lambda>b. b_id b = i \<and> refundable_domain_status (b_paymentStatus b))
        (\<lambda>b. b\<lparr>b_paymentStatus := to_domain_payment_status (fi_status input), b_updatedAt := rv_now env\<rparr>) (bookings w))"
    unfolding finalize_transaction_def finalized_refund_def [symmetric] up
    by (simp add: f move_domain_status_def case_prod_beta Let_def split: option.splits)
qed

lemma finalize_transaction_mismatch:
  assumes "unique_by p_id (payments w)" "p \<in> set (payments w)" "refund_open p" "p_bookingId p = Some i" "i \<noteq> []"
    and "\<not> (\<exists>b \<in> set (bookings w). b_id b = i \<and> refundable_domain_status (b_paymentStatus b))"
  shows "finalize_transaction env p input w = request_manual_review env (p_id p)
     ''Refund finalization could not update the related booking or extension payment status'' w"
proof -
  have tr: "truthy (Some i)" using assms(5) by (cases i) simp_all
  have up: "update_many (\<lambda>q. p_id q = p_id p \<and> refund_open q) (finalized_refund (rv_now env) p input) (payments w)
     = (1, map (\<lambda>q. if p_id q = p_id p then finalized_refund (rv_now env) p input p else q) (payments w))"
    by (rule update_many_at [where P = refund_open, OF assms(1,2,3)])
  have "update_many (\<lambda>b. b_id b = i \<and> refundable_domain_status (b_paymentStatus b))
        (\<lambda>b. b\<lparr>b_paymentStatus := s, b_updatedAt := t\<rparr>) (bookings w) = (0, bookings w)" for s t
    using assms(6) by (intro update_many_none) blast
  then show ?thesis unfolding finalize_transaction_def finalized_refund_def [symmetric] up
    using assms(4) tr by (simp add: move_domain_status_def)
qed

text \<open>
  Property C22: finalising the refund of a booking's payment is atomic.  When the booking is paid or
  being refunded, the payment becomes terminal and the booking takes the same outcome, together;
  otherwise neither status changes and the payment goes to manual review, once.  A second
  finalisation of a payment that became terminal does nothing.
\<close>

theorem refund_finalized_atomically:
  assumes "unique_by p_id (payments w)" and "p \<in> set (payments w)" and "refund_open p"
    and "p_bookingId p = Some i" and "i \<noteq> []" and "p_extensionId p = None" and "fi_paymentId input = p_id p"
  shows "let (ok, w') = finalize_refund env input w in
    if \<exists>b \<in> set (bookings w). b_id b = i \<and> refundable_domain_status (b_paymentStatus b)
    then ok \<and> statuses w' = map (\<lambda>q. (p_id q, if p_id q = p_id p then terminal_refund_status (fi_status input) else p_status q)) (payments w)
       \<and> bookings w' = map (\<lambda>b. if b_id b = i \<and> refundable_domain_status (b_paymentStatus b)
            then b\<lparr>b_paymentStatus := to_domain_payment_status (fi_status input), b_updatedAt := rv_now env\<rparr> else b) (bookings w)
       \<and> finalize_refund env' (input'\<lparr>fi_paymentId := p_id p\<rparr>) w' = (False, w')
    else statuses w' = statuses w \<and> bookings w' = bookings w \<and> (ok \<longleftrightarrow> p_refundManualReviewNotifiedAt p = None)"
proof -
  have one: "exactly_one_association p" using assms(4-6) by (cases i) (simp_all add: exactly_one_association_def)
  have run: "finalize_refund env input w = finalize_transaction env p input w"
    using find_row_unique [OF assms(1,2)] assms(3,7) one by (simp add: finalize_refund_def)
  show ?thesis
  proof (cases "\<exists>b \<in> set (bookings w). b_id b = i \<and> refundable_domain_status (b_paymentStatus b)")
    case True
    note f = finalize_transaction_booking [OF assms(1-5) True, of env input]
    let ?w' = "snd (finalize_transaction env p input w)"
    let ?q = "finalized_refund (rv_now env) p input p"
    have q: "?q \<in> set (payments ?w')" unfolding f(2) using assms(2) by force
    have u: "unique_by p_id (payments ?w')" unfolding f(2) using assms(1) by (simp add: o_def if_distrib cong: if_cong)
    have closed: "\<not> refund_open ?q" by (cases "fi_status input") (simp_all add: refund_open_def)
    have "finalize_refund env' (input'\<lparr>fi_paymentId := p_id p\<rparr>) ?w' = (False, ?w')"
      using find_row_unique [OF u q] closed by (simp add: finalize_refund_def)
    moreover have "statuses ?w' = map (\<lambda>q. (p_id q, if p_id q = p_id p then terminal_refund_status (fi_status input) else p_status q)) (payments w)"
      unfolding statuses_def f(2) by simp
    ultimately show ?thesis using f True unfolding run by (simp add: case_prod_beta snd_update_many)
  next
    case False
    note m = finalize_transaction_mismatch [OF assms(1-5) False, of env input]
    show ?thesis unfolding run m case_prod_beta Let_def if_not_P [OF False]
      using review_result [OF assms(1,2)] reviewable_open [OF assms(3)] by simp
  qed
qed

section \<open>Witnesses\<close>

definition demo_refund_world :: "payment \<Rightarrow> world" where
  "demo_refund_world p = demo_world\<lparr>payments := [p], bookings := [demo_booking\<lparr>b_paymentStatus := PAID\<rparr>]\<rparr>"

definition demo_refund_env :: "refund_created fw_response http_result \<Rightarrow> fetched_refund fw_response http_result \<Rightarrow> refund_env" where
  "demo_refund_env post get = \<lparr>rv_now = 5, rv_uuid = ''u'', rv_config = demo_config, rv_webhookUrl = ''https://x'',
     rv_post = (\<lambda>_ _ _. post), rv_get = (\<lambda>_. get)\<rparr>"

definition demo_paid :: payment where
  "demo_paid = demo_payment\<lparr>p_status := PA_SUCCESSFUL, p_refundProviderId := None, p_refundRequestedAmount := None\<rparr>"

lemma demo_paid_initiate:
  "initiate_refund (demo_refund_env HttpNoResponse HttpNoResponse) ''tx1'' 400 ''u1'' (demo_refund_world demo_paid)
   = (Inl (RefundProviderError (handle_error FailNoResponse)),
      snd (initiate_refund (demo_refund_env HttpNoResponse HttpNoResponse) ''tx1'' 400 ''u1'' (demo_refund_world demo_paid)))"
  and demo_paid_requests:
  "refundRequests (snd (initiate_refund (demo_refund_env HttpNoResponse HttpNoResponse) ''tx1'' 400 ''u1'' (demo_refund_world demo_paid)))
     \<noteq> refundRequests (demo_refund_world demo_paid)"
  by (simp_all add: initiate_refund_def demo_refund_world_def demo_paid_def demo_refund_env_def demo_defs find_row_def
      validate_refund_eligibility_def payment_owner_def reserve_refund_def exactly_one_association_def update_many_def
      move_domain_status_def refundable_domain_status_def execute_refund_def initiate_refund_request_def
      uncertain_error_def handle_error_def mark_refund_uncertain_def Let_def)


theorem refund_requested_only_when_eligible_witness:
  "\<exists>p. p \<in> set (payments (demo_refund_world demo_paid)) \<and> p_status p = PA_SUCCESSFUL \<and> payment_owner p (demo_refund_world demo_paid) = Some ''u1''"
  using refund_requested_only_when_eligible [OF demo_paid_requests] by (force simp: demo_refund_world_def)

theorem payment_reserved_at_most_once_witness:
  "distinct [p_id demo_paid]"
proof -
  have "fst (reserve_refund (demo_refund_env HttpNoResponse HttpNoResponse) demo_paid 400 ''k'' (demo_refund_world demo_paid)) = Inr ()"
    by (simp add: reserve_refund_def demo_refund_world_def demo_paid_def demo_defs exactly_one_association_def update_many_def
      move_domain_status_def refundable_domain_status_def)
  then have "reserve_refund (demo_refund_env HttpNoResponse HttpNoResponse) demo_paid 400 ''k'' (demo_refund_world demo_paid)
     = (Inr (), snd (reserve_refund (demo_refund_env HttpNoResponse HttpNoResponse) demo_paid 400 ''k'' (demo_refund_world demo_paid)))"
    by (metis prod.collapse)
  from rr_reserve [OF rr_start this] have "refund_run (demo_refund_world demo_paid) [p_id demo_paid]
      (snd (reserve_refund (demo_refund_env HttpNoResponse HttpNoResponse) demo_paid 400 ''k'' (demo_refund_world demo_paid)))" .
  from payment_reserved_at_most_once [OF this] show ?thesis by (simp add: demo_refund_world_def)
qed

definition demo_fetched :: "fetched_refund fw_response http_result" where
  "demo_fetched = HttpOk \<lparr>fr_status = ''success'', fr_message = [], fr_data = Some
     \<lparr>fx_id = 9, fx_amount_refunded = 1000, fx_status = ''completed-mpgs'', fx_flw_ref = ''F'', fx_comment = None, fx_transaction_id = 77\<rparr>\<rparr>"

lemma demo_digits: "nat_digits 9 = ''9''" "nat_digits 77 = ''77''"
  by code_simp+

lemma demo_refund_classified: "classify_refund_provider_status ''completed-mpgs'' = SUCCEEDED"
  by code_simp

theorem refund_finalized_atomically_witness:
  "fst (finalize_refund (demo_refund_env HttpNoResponse HttpNoResponse)
     \<lparr>fi_paymentId = ''p1'', fi_refundId = ''9'', fi_status = T_REFUNDED, fi_amount = 1000, fi_failureReason = None, fi_providerMetadata = None\<rparr>
     (demo_refund_world demo_payment))"
  using refund_finalized_atomically [of "demo_refund_world demo_payment" demo_payment "''b1''"
      "\<lparr>fi_paymentId = ''p1'', fi_refundId = ''9'', fi_status = T_REFUNDED, fi_amount = 1000, fi_failureReason = None, fi_providerMetadata = None\<rparr>"
      "demo_refund_env HttpNoResponse HttpNoResponse"]
  by (simp add: demo_refund_world_def demo_payment_def demo_booking_def refund_open_def refundable_domain_status_def case_prod_beta)

theorem refunded_only_when_verified_witness:
  "\<exists>i r. fetch_refund (\<lambda>_. demo_fetched) i = Inr r \<and> nat_digits (fx_id r) = i"
proof -
  let ?env = "demo_refund_env HttpNoResponse demo_fetched"
  have "fetch_refund (rv_get ?env) ''9'' = Inr \<lparr>fx_id = 9, fx_amount_refunded = 1000, fx_status = ''completed-mpgs'',
      fx_flw_ref = ''F'', fx_comment = None, fx_transaction_id = 77\<rparr>"
    by (simp add: fetch_refund_def demo_fetched_def demo_refund_env_def)
  then have "(p_id demo_payment, PA_REFUNDED) \<in> set (statuses (snd (reconcile_refund ?env demo_payment (demo_refund_world demo_payment))))"
    by (simp add: reconcile_refund_def demo_payment_def demo_refund_classified get_refund_mismatch_reason_def demo_digits
      record_provider_check_def update_many_def refund_open_def demo_refund_world_def finalize_refund_def find_row_def
      exactly_one_association_def finalize_transaction_def move_domain_status_def refundable_domain_status_def demo_booking_def
      payment_booking_def statuses_def refund_webhook_payload_def Let_def)
  moreover have "(p_id demo_payment, PA_REFUNDED) \<notin> set (statuses (demo_refund_world demo_payment))"
    by (simp add: demo_refund_world_def statuses_def demo_payment_def)
  moreover have "rv_get ?env = (\<lambda>_. demo_fetched)" by (simp add: demo_refund_env_def)
  ultimately show ?thesis using refunded_only_when_verified [of demo_payment PA_REFUNDED ?env "demo_refund_world demo_payment"]
    by (metis insertI1)
qed

end
