(* ===== verification/BookingNotifications.thy ===== *)
theory BookingNotifications
  imports NotificationJobs
begin

text \<open>
  The notification jobs and outbox events of confirmed and cancelled bookings, confirmed
  extensions and released referral rewards (notification.service.ts and
  notification/handlers).
\<close>

section \<open>Recipients\<close>

definition customer_channels :: "booking_view \<Rightarrow> notification_channel list" where
  "customer_channels v =
     resolve_channels AUD_CUSTOMER (some_if_truthy (cd_email (get_customer_details v)))
       (some_if_truthy (cd_phone_number (get_customer_details v))) (customer_user_id v)"

definition customer_recipient :: "booking_view \<Rightarrow> recipient" where
  "customer_recipient v =
     \<lparr>rc_userId = customer_user_id v, rc_email = some_if_truthy (cd_email (get_customer_details v)),
      rc_phoneNumber = some_if_truthy (cd_phone_number (get_customer_details v))\<rparr>"

definition owner_channels :: "booking_view \<Rightarrow> notification_channel list" where
  "owner_channels v =
     resolve_channels AUD_FLEET_OWNER (map_option u_email (bv_owner v)) (Option.bind (bv_owner v) u_phoneNumber)
       (map_option u_id (bv_owner v))"

definition owner_recipient :: "booking_view \<Rightarrow> recipient" where
  "owner_recipient v =
     \<lparr>rc_userId = map_option u_id (bv_owner v), rc_email = map_option u_email (bv_owner v),
      rc_phoneNumber = Option.bind (bv_owner v) u_phoneNumber\<rparr>"

text \<open>The inbox entry of the customer's event, when the booking has a user.\<close>

definition customer_inbox :: "booking \<Rightarrow> string \<Rightarrow> string \<Rightarrow> string \<Rightarrow> inbox_row option" where
  "customer_inbox b title body key =
     (if truthy (b_userId b)
      then Some \<lparr>in_userId = the (b_userId b), in_type = NE_BOOKING_LIFECYCLE, in_title = title, in_body = body, in_dedupeKey = key\<rparr>
      else None)"

text \<open>The customer's event is written when it has an inbox entry or a job, the owner's when it has a job.\<close>

definition customer_and_owner_events ::
  "booking \<Rightarrow> job_data option \<Rightarrow> inbox_row option \<Rightarrow> string \<Rightarrow> string \<Rightarrow> job_data option \<Rightarrow> string \<Rightarrow> string \<Rightarrow> handler_event list" where
  "customer_and_owner_events b customer inbox key subtype owner ownerKey ownerSubtype =
     (if inbox \<noteq> None \<or> customer \<noteq> None
      then [\<lparr>he_jobData = customer, he_inbox = inbox, he_dedupeKey = key, he_userId = b_userId b, he_subtype = subtype\<rparr>] else [])
     @ (case owner of None \<Rightarrow> []
        | Some j \<Rightarrow> [\<lparr>he_jobData = Some j, he_inbox = None, he_dedupeKey = ownerKey, he_userId = None, he_subtype = ownerSubtype\<rparr>])"

section \<open>Confirmed bookings\<close>

definition build_booking_confirmed_jobs ::
  "notif_config \<Rightarrow> time \<Rightarrow> booking_view \<Rightarrow> job_data option \<times> job_data option" where
  "build_booking_confirmed_jobs nc now v =
     (let b = bv_booking v;
          referralDiscount = (if b_referralStatus b = REF_APPLIED \<and> 0 < b_referralDiscountAmount b
                              then Some (nc_formatCurrency nc (b_referralDiscountAmount b)) else None);
          body = (case referralDiscount of
                    Some d \<Rightarrow> (if d = [] then ''Your booking for '' @ car_name (bv_car v) @ '' has been confirmed.''
                              else ''Your booking is confirmed. You saved '' @ d @ '' with your referral discount.'')
                  | None \<Rightarrow> ''Your booking for '' @ car_name (bv_car v) @ '' has been confirmed.'')
      in (if customer_channels v = [] then None
          else Some
            \<lparr>j_id = ''booking-confirmed-'' @ b_id b @ ''-'' @ nat_digits (nat now), j_type = ''booking-confirmed'',
             j_audience = Some AUD_CUSTOMER, j_channels = customer_channels v, j_bookingId = b_id b,
             j_airportCompletionLink = False, j_recipients = [(R_CLIENT, customer_recipient v)],
             j_pushPayload = Some (''Booking confirmed'', body),
             j_templateData = [(''templateKind'', ''bookingConfirmed'')] @ normalise_booking_details nc v
               @ [(''subject'', ''Your booking is confirmed!'')]\<rparr>,
          if owner_channels v = [] then None
          else Some
            \<lparr>j_id = ''fleet-owner-new-booking-'' @ b_id b @ ''-'' @ nat_digits (nat now), j_type = ''fleet-owner-new-booking'',
             j_audience = Some AUD_FLEET_OWNER, j_channels = owner_channels v, j_bookingId = b_id b,
             j_airportCompletionLink = False, j_recipients = [(R_FLEET_OWNER, owner_recipient v)],
             j_pushPayload = None,
             j_templateData = [(''templateKind'', ''fleetOwnerNewBooking'')] @ normalise_booking_details nc v
               @ [(''subject'', ''New Booking Alert'')]\<rparr>))"

definition booking_confirmed_events :: "notif_config \<Rightarrow> time \<Rightarrow> booking_view \<Rightarrow> handler_event list" where
  "booking_confirmed_events nc now v =
     (let b = bv_booking v;
          (customer, owner) = build_booking_confirmed_jobs nc now v;
          anchor = iso_string (b_updatedAt b);
          key = ''booking-confirmed:'' @ b_id b @ '':client:'' @ anchor;
          body = the (coalesce (map_option snd (Option.bind customer j_pushPayload)) (Some ''Your booking has been confirmed.''))
      in customer_and_owner_events b customer (customer_inbox b ''Booking confirmed'' body key) key
           ''BOOKING_CONFIRMED_CUSTOMER'' owner
           (''booking-confirmed:'' @ b_id b @ '':fleet-owner:'' @ anchor) ''BOOKING_CONFIRMED_OWNER'')"

section \<open>Cancelled bookings\<close>

definition build_booking_cancellation_jobs ::
  "notif_config \<Rightarrow> time \<Rightarrow> booking_view \<Rightarrow> job_data option \<times> job_data option" where
  "build_booking_cancellation_jobs nc now v =
     (let b = bv_booking v;
          data = (\<lambda>subject. [(''templateKind'', ''bookingCancelled'')] @ normalise_booking_details nc v @ [(''subject'', subject)])
      in (if customer_channels v = [] then None
          else Some
            \<lparr>j_id = ''cancelled-client-'' @ b_id b @ ''-'' @ nat_digits (nat now), j_type = ''booking-cancelled'',
             j_audience = Some AUD_CUSTOMER, j_channels = customer_channels v, j_bookingId = b_id b,
             j_airportCompletionLink = False, j_recipients = [(R_CLIENT, customer_recipient v)],
             j_pushPayload = Some (''Your booking has been cancelled'', ''Your booking has been cancelled. A refund is being processed.''),
             j_templateData = data ''Your booking has been cancelled''\<rparr>,
          if owner_channels v = [] then None
          else Some
            \<lparr>j_id = ''cancelled-owner-'' @ b_id b @ ''-'' @ nat_digits (nat now), j_type = ''booking-cancelled'',
             j_audience = Some AUD_FLEET_OWNER, j_channels = owner_channels v, j_bookingId = b_id b,
             j_airportCompletionLink = False, j_recipients = [(R_FLEET_OWNER, owner_recipient v)],
             j_pushPayload = Some (''A booking for your vehicle has been cancelled'',
                                   ''A booking for '' @ car_name (bv_car v) @ '' has been cancelled.''),
             j_templateData = data ''A booking for your vehicle has been cancelled''\<rparr>))"

definition booking_cancellation_events :: "notif_config \<Rightarrow> time \<Rightarrow> booking_view \<Rightarrow> handler_event list" where
  "booking_cancellation_events nc now v =
     (let b = bv_booking v;
          (customer, owner) = build_booking_cancellation_jobs nc now v;
          anchor = iso_string (the (coalesce (b_cancelledAt b) (Some (b_updatedAt b))));
          key = ''booking-cancelled:'' @ b_id b @ '':client:'' @ anchor
      in customer_and_owner_events b customer
           (customer_inbox b ''Booking cancelled'' ''Your booking has been cancelled. A refund is being processed.'' key) key
           ''BOOKING_CANCELLED_CUSTOMER'' owner
           (''booking-cancelled:'' @ b_id b @ '':fleet-owner:'' @ anchor) ''BOOKING_CANCELLED_OWNER'')"

section \<open>Confirmed extensions\<close>

definition build_booking_extension_confirmed_job ::
  "notif_config \<Rightarrow> booking_view \<Rightarrow> leg \<Rightarrow> extension \<Rightarrow> job_data option" where
  "build_booking_extension_confirmed_job nc v l e =
     (let b = bv_booking v; hours = nat_digits (e_extendedDurationHours e) in
      if customer_channels v = [] then None
      else Some
        \<lparr>j_id = ''booking-extension-confirmed-'' @ e_id e, j_type = ''booking-extension-confirmed'',
         j_audience = Some AUD_CUSTOMER, j_channels = customer_channels v, j_bookingId = b_id b,
         j_airportCompletionLink = False, j_recipients = [(R_CLIENT, customer_recipient v)],
         j_pushPayload = Some (''Booking extension confirmed'',
           ''Your booking has been extended by '' @ hours @ '' hour''
           @ (if e_extendedDurationHours e = 1 then [] else ''s'') @ ''.''),
         j_templateData = [(''templateKind'', ''bookingExtensionConfirmed'')] @ normalise_booking_details nc v
           @ [(''legDate'', nc_formatLegDate nc (l_legDate l)), (''extensionHours'', hours),
              (''from'', nc_formatClock nc (e_extensionStartTime e)), (''to'', nc_formatClock nc (e_extensionEndTime e)),
              (''subject'', ''Booking Extension Confirmed'')]\<rparr>)"

definition booking_extension_confirmed_events ::
  "notif_config \<Rightarrow> booking_view \<Rightarrow> leg \<Rightarrow> extension \<Rightarrow> handler_event list" where
  "booking_extension_confirmed_events nc v l e =
     (let b = bv_booking v; key = ''booking-extension-confirmed:'' @ e_id e @ '':client'' in
      customer_and_owner_events b (build_booking_extension_confirmed_job nc v l e)
        (customer_inbox b ''Booking extension confirmed'' ''Your booking extension has been confirmed.'' key) key
        ''BOOKING_EXTENSION_CONFIRMED_CUSTOMER'' None [] [])"

section \<open>Released referral rewards\<close>

record reward_notice =
  wn_rewardId :: ident
  wn_bookingId :: ident
  wn_referrerUserId :: ident
  wn_amount :: rat
  wn_releasedAt :: time

definition build_referral_reward_released_job :: "notif_config \<Rightarrow> reward_notice \<Rightarrow> job_data" where
  "build_referral_reward_released_job nc r =
     \<lparr>j_id = ''referral-reward-released-'' @ wn_rewardId r, j_type = ''referral-reward-released'',
      j_audience = Some AUD_CUSTOMER, j_channels = [PUSH], j_bookingId = wn_bookingId r, j_airportCompletionLink = False,
      j_recipients = [(R_CLIENT, \<lparr>rc_userId = Some (wn_referrerUserId r), rc_email = None, rc_phoneNumber = None\<rparr>)],
      j_pushPayload = Some (''Referral reward earned'', nc_formatCurrency nc (wn_amount r) @ '' has been added to your referral balance.''),
      j_templateData = [(''templateKind'', ''pushOnly''), (''subject'', ''Referral reward earned'')]\<rparr>"

definition referral_reward_released_events :: "notif_config \<Rightarrow> reward_notice \<Rightarrow> handler_event list" where
  "referral_reward_released_events nc r =
     (let j = build_referral_reward_released_job nc r;
          key = ''referral-reward-released:'' @ wn_rewardId r @ '':'' @ iso_string (wn_releasedAt r)
      in [\<lparr>he_jobData = Some j,
           he_inbox = Some \<lparr>in_userId = wn_referrerUserId r, in_type = NE_BOOKING_LIFECYCLE,
              in_title = ''Referral reward earned'',
              in_body = the (map_option snd (j_pushPayload j)), in_dedupeKey = key\<rparr>,
           he_dedupeKey = key, he_userId = Some (wn_referrerUserId r), he_subtype = ''REFERRAL_REWARD_RELEASED''\<rparr>])"

section \<open>The view of a stored booking\<close>

text \<open>The rows that an include of user, chauffeur, car and owner joins to a booking.\<close>

definition view_booking :: "world \<Rightarrow> booking \<Rightarrow> booking_view option" where
  "view_booking w b =
     (case find_row (\<lambda>c. c_id c = b_carId b) (cars w) of
        None \<Rightarrow> None
      | Some c \<Rightarrow>
          (let by_id = (\<lambda>i. case i of None \<Rightarrow> None | Some i \<Rightarrow> find_row (\<lambda>u. u_id u = i) (users w)) in
           Some \<lparr>bv_booking = b, bv_car = c, bv_owner = by_id (Some (c_ownerId c)),
                 bv_user = by_id (b_userId b), bv_chauffeur = by_id (b_chauffeurId b)\<rparr>))"

end
