(* ===== verification/JsNumber.thy ===== *)
theory JsNumber
  imports Prelude
begin

text \<open>
  Number(string) of JavaScript on ASCII strings, with exact rationals for doubles: a trimmed
  decimal literal with optional sign, fraction and exponent, a binary, octal or hexadecimal
  integer, or the empty string, which is 0; everything else, Infinity included, is not a finite
  number.
\<close>

definition is_digit :: "char \<Rightarrow> bool" where
  "is_digit c \<longleftrightarrow> (let n = (of_char c :: nat) in 48 \<le> n \<and> n \<le> 57)"

text \<open>The value of a character as a digit; 36 when it is none.\<close>

definition digit_value :: "char \<Rightarrow> nat" where
  "digit_value c =
     (let n = (of_char c :: nat) in
      if 48 \<le> n \<and> n \<le> 57 then n - 48
      else if 97 \<le> n \<and> n \<le> 122 then n - 87
      else if 65 \<le> n \<and> n \<le> 90 then n - 55
      else 36)"

definition radix_value :: "nat \<Rightarrow> string \<Rightarrow> nat" where
  "radix_value r s = foldl (\<lambda>acc c. acc * r + digit_value c) 0 s"

definition parse_radix :: "nat \<Rightarrow> string \<Rightarrow> rat option" where
  "parse_radix r s =
     (if s \<noteq> [] \<and> list_all (\<lambda>c. digit_value c < r) s then Some (of_nat (radix_value r s)) else None)"

definition split_sign :: "string \<Rightarrow> bool \<times> string" where
  "split_sign s =
     (case s of [] \<Rightarrow> (False, [])
      | c # u \<Rightarrow> (if c = CHR ''-'' then (True, u) else if c = CHR ''+'' then (False, u) else (False, s)))"

definition apply_exponent :: "rat \<Rightarrow> string \<Rightarrow> rat option" where
  "apply_exponent m s =
     (case s of
        [] \<Rightarrow> Some m
      | c # r \<Rightarrow>
          (let (neg, ds) = split_sign r in
           if (c = CHR ''e'' \<or> c = CHR ''E'') \<and> ds \<noteq> [] \<and> list_all is_digit ds
           then Some (if neg then m / 10 ^ radix_value 10 ds else m * 10 ^ radix_value 10 ds)
           else None))"

definition parse_decimal_literal :: "string \<Rightarrow> rat option" where
  "parse_decimal_literal s =
     (let (neg, u) = split_sign s;
          ip = takeWhile is_digit u; r1 = dropWhile is_digit u;
          (fp, r2) = (case r1 of [] \<Rightarrow> ([], [])
                      | c # r \<Rightarrow> (if c = CHR ''.'' then (takeWhile is_digit r, dropWhile is_digit r) else ([], r1)))
      in if ip = [] \<and> fp = [] then None
         else map_option (\<lambda>v. if neg then - v else v)
                (apply_exponent (of_nat (radix_value 10 ip) + of_nat (radix_value 10 fp) / 10 ^ length fp) r2))"

definition js_number :: "string \<Rightarrow> rat option" where
  "js_number s =
     (let t = js_trim s; p = js_lower (take 2 t) in
      if t = [] then Some 0
      else if p = ''0x'' then parse_radix 16 (drop 2 t)
      else if p = ''0o'' then parse_radix 8 (drop 2 t)
      else if p = ''0b'' then parse_radix 2 (drop 2 t)
      else parse_decimal_literal t)"

text \<open>Concrete readings.\<close>

lemma js_number_empty: "js_number [] = Some 0"
  by (simp add: js_number_def js_trim_def)

end
