(* ===== verification/Referrals.thy ===== *)
theory Referrals
  imports BookingNotifications NotificationOutbox JsNumber Samples
begin

text \<open>
  The referral programme (booking-eligibility.service.ts and referral-processing.service.ts): the
  settings and how they are parsed, who may use a discount, how a booking reserves and releases it,
  the pending reward of the referrer with its statistics row, and the release of the reward when
  the booking completes.
\<close>

section \<open>Settings\<close>

text \<open>The value of a setting, or a default when it is missing or null.\<close>

definition config_or :: "string \<Rightarrow> config_value option \<Rightarrow> world \<Rightarrow> config_value option" where
  "config_or key dflt w =
     (case map_of (referralConfig w) key of
        None \<Rightarrow> dflt | Some v \<Rightarrow> (case v of CNull \<Rightarrow> dflt | _ \<Rightarrow> Some v))"

definition parse_enabled_config :: "config_value option \<Rightarrow> bool" where
  "parse_enabled_config v =
     (case v of Some (CBool b) \<Rightarrow> b | Some (CStr s) \<Rightarrow> js_lower s = ''true'' | _ \<Rightarrow> False)"

definition parse_decimal_config :: "config_value option \<Rightarrow> rat" where
  "parse_decimal_config v =
     (case v of Some (CNum n) \<Rightarrow> n
      | Some (CStr s) \<Rightarrow> (case js_number s of Some n \<Rightarrow> n | None \<Rightarrow> 0)
      | _ \<Rightarrow> 0)"

definition parse_number_config :: "config_value option \<Rightarrow> rat \<Rightarrow> rat" where
  "parse_number_config v fallback =
     (case v of Some (CNum n) \<Rightarrow> n
      | Some (CStr s) \<Rightarrow> (case js_number s of Some n \<Rightarrow> n | None \<Rightarrow> fallback)
      | _ \<Rightarrow> fallback)"

fun strings_of :: "config_value list \<Rightarrow> string list" where
  "strings_of [] = []"
| "strings_of (CStr s # vs) = s # strings_of vs"
| "strings_of (_ # vs) = strings_of vs"

definition parse_string_array_config :: "config_value option \<Rightarrow> string list \<Rightarrow> string list" where
  "parse_string_array_config v fallback =
     (case v of Some (CArr vs) \<Rightarrow> (if strings_of vs = [] then fallback else strings_of vs) | _ \<Rightarrow> fallback)"

definition parse_release_condition_config :: "config_value option \<Rightarrow> release_condition" where
  "parse_release_condition_config v = (if v = Some (CStr ''PAID'') then RC_PAID else RC_COMPLETED)"

text \<open>Number(value) on a JSON value; None is NaN or not finite.\<close>

fun js_to_number :: "config_value \<Rightarrow> rat option" where
  "js_to_number CNull = Some 0"
| "js_to_number (CBool b) = Some (if b then 1 else 0)"
| "js_to_number (CNum n) = Some n"
| "js_to_number (CStr s) = js_number s"
| "js_to_number (CArr []) = Some 0"
| "js_to_number (CArr [CBool b]) = None"
| "js_to_number (CArr [v]) = js_to_number v"
| "js_to_number (CArr (v # v' # vs)) = None"
| "js_to_number CObj = None"

text \<open>The truth value of a JSON value.\<close>

definition js_truthy :: "config_value \<Rightarrow> bool" where
  "js_truthy v = (case v of CNull \<Rightarrow> False | CBool b \<Rightarrow> b | CNum n \<Rightarrow> n \<noteq> 0 | CStr s \<Rightarrow> s \<noteq> [] | _ \<Rightarrow> True)"

record referral_pricing_config =
  rp_enabled :: bool
  rp_discountAmount :: rat
  rp_minBookingAmount :: rat
  rp_eligibleTypes :: "string list"
  rp_expiryDays :: rat

definition get_referral_pricing_config :: "world \<Rightarrow> referral_pricing_config" where
  "get_referral_pricing_config w =
     \<lparr>rp_enabled = parse_enabled_config (config_or ''REFERRAL_ENABLED'' (Some (CBool True)) w),
      rp_discountAmount = parse_decimal_config (config_or ''REFERRAL_DISCOUNT_AMOUNT'' (Some (CNum 10000)) w),
      rp_minBookingAmount = parse_decimal_config (config_or ''REFERRAL_MIN_BOOKING_AMOUNT'' (Some (CNum 20000)) w),
      rp_eligibleTypes = parse_string_array_config (config_or ''REFERRAL_ELIGIBLE_TYPES'' None w) [''DAY'', ''NIGHT'', ''FULL_DAY''],
      rp_expiryDays = parse_number_config (config_or ''REFERRAL_EXPIRY_DAYS'' (Some (CNum 30)) w) 30\<rparr>"

section \<open>Eligibility for the discount\<close>

record referral_eligibility =
  el_eligible :: bool
  el_referrerUserId :: "ident option"
  el_discountAmount :: rat

definition ineligible_referral :: referral_eligibility where
  "ineligible_referral = \<lparr>el_eligible = False, el_referrerUserId = None, el_discountAmount = 0\<rparr>"

text \<open>A booking that uses the user's discount and that a new attempt cannot release.\<close>

definition existing_discount_claim :: "ident \<Rightarrow> booking \<Rightarrow> bool" where
  "existing_discount_claim userId b \<longleftrightarrow>
     b_userId b = Some userId \<and> b_status b \<in> {B_PENDING, B_CONFIRMED, B_ACTIVE}
   \<and> (b_referralStatus b \<in> {REF_APPLIED, REF_REWARDED}
      \<or> (b_referralStatus b = REF_RESERVED \<and> b_paymentStatus b \<noteq> UNPAID))"

definition check_referral_eligibility_for_pricing ::
  "time \<Rightarrow> ident option \<Rightarrow> rat \<Rightarrow> string \<Rightarrow> world \<Rightarrow> referral_eligibility" where
  "check_referral_eligibility_for_pricing now sessionUser bookingAmount bookingType w =
     (case sessionUser of
        None \<Rightarrow> ineligible_referral
      | Some userId \<Rightarrow>
          (case find_row (\<lambda>u. u_id u = userId) (users w) of
             None \<Rightarrow> ineligible_referral
           | Some u \<Rightarrow>
               (let config = get_referral_pricing_config w in
                if \<not> truthy (u_referredByUserId u) \<or> u_referralDiscountUsed u then ineligible_referral
                else if \<not> rp_enabled config \<or> rp_discountAmount config \<le> 0 then ineligible_referral
                else if find_row (existing_discount_claim userId) (bookings w) \<noteq> None then ineligible_referral
                else if bookingAmount < rp_minBookingAmount config then ineligible_referral
                else if bookingType \<notin> set (rp_eligibleTypes config) then ineligible_referral
                else if 0 < rp_expiryDays config
                   \<and> (case u_referralSignupAt u of None \<Rightarrow> False
                      | Some t \<Rightarrow> add_days t \<lfloor>rp_expiryDays config\<rfloor> < now) then ineligible_referral
                else \<lparr>el_eligible = True, el_referrerUserId = u_referredByUserId u,
                      el_discountAmount = min (rp_discountAmount config) bookingAmount\<rparr>)))"

section \<open>The credit balance\<close>

definition released_total :: "ident \<Rightarrow> world \<Rightarrow> rat" where
  "released_total userId w =
     sum_list (map rw_amount (filter (\<lambda>r. rw_referrerUserId r = userId \<and> rw_status r = RW_RELEASED) (rewards w)))"

definition committed_credits :: "booking \<Rightarrow> rat" where
  "committed_credits b =
     (if b_paymentStatus b = PAID then b_referralCreditsUsed b
      else if b_paymentStatus b = UNPAID \<and> b_status b \<noteq> B_CANCELLED then b_referralCreditsReserved b
      else 0)"

definition get_capped_referral_credit_balance :: "ident \<Rightarrow> world \<Rightarrow> rat" where
  "get_capped_referral_credit_balance userId w =
     (let committed = sum_list (map committed_credits (filter (\<lambda>b. b_userId b = Some userId) (bookings w)));
          available = max 0 (released_total userId w - committed);
          cap = max 0 (parse_decimal_config (config_or ''REFERRAL_MAX_CREDITS_PER_BOOKING'' (Some (CNum 30000)) w))
      in min available cap)"

definition get_referral_credit_balance_for_pricing :: "ident option \<Rightarrow> rat \<Rightarrow> world \<Rightarrow> rat" where
  "get_referral_credit_balance_for_pricing sessionUser requestedCredits w =
     (case sessionUser of None \<Rightarrow> 0
      | Some userId \<Rightarrow> if requestedCredits \<le> 0 then 0 else get_capped_referral_credit_balance userId w)"

definition verify_referral_credit_balance_in_transaction :: "ident \<Rightarrow> rat \<Rightarrow> world \<Rightarrow> rat" where
  "verify_referral_credit_balance_in_transaction userId requestedCredits w =
     (if requestedCredits \<le> 0 then 0
      else if find_row (\<lambda>u. u_id u = userId) (users w) = None then 0
      else get_capped_referral_credit_balance userId w)"

section \<open>Reversing pending rewards\<close>

text \<open>One referrer's statistics row after the reversal of some of its pending rewards.\<close>

definition decrement_stats :: "ident \<Rightarrow> nat \<Rightarrow> rat \<Rightarrow> referral_stats list \<Rightarrow> referral_stats list" where
  "decrement_stats referrer n amount t =
     (case find_row (\<lambda>s. rs_userId s = referrer) t of
        None \<Rightarrow> t
      | Some s \<Rightarrow>
          (let pending = rs_totalRewardsPending s - amount in
           snd (update_many (\<lambda>x. rs_userId x = referrer)
             (\<lambda>x. x\<lparr>rs_totalReferrals := rs_totalReferrals s - n,
                    rs_totalRewardsPending := (if pending < 0 then 0 else pending)\<rparr>) t)))"

text \<open>The reversed rewards aggregated per referrer, in the order the referrers first occur.\<close>

definition decrement_referral_stats_for_reversed_rewards ::
  "referral_reward list \<Rightarrow> referral_stats list \<Rightarrow> referral_stats list" where
  "decrement_referral_stats_for_reversed_rewards rs t =
     fold (\<lambda>referrer. let mine = filter (\<lambda>r. rw_referrerUserId r = referrer) rs in
             decrement_stats referrer (length mine) (sum_list (map rw_amount mine)))
          (js_unique (map rw_referrerUserId rs)) t"

definition reverse_pending_referral_rewards :: "time \<Rightarrow> ident \<Rightarrow> string \<Rightarrow> world \<Rightarrow> nat \<times> world" where
  "reverse_pending_referral_rewards now bookingId reason w =
     (let sel = (\<lambda>r. rw_bookingId r = bookingId \<and> rw_status r = RW_PENDING);
          reversed = filter sel (rewards w);
          t = snd (update_many sel (\<lambda>r. r\<lparr>rw_status := RW_REVERSED, rw_processedAt := Some now, rw_reason := Some reason\<rparr>) (rewards w))
      in (length reversed,
          w\<lparr>rewards := t,
            referralStats := (if reversed = [] then referralStats w
                              else decrement_referral_stats_for_reversed_rewards reversed (referralStats w))\<rparr>))"

section \<open>Reserving and releasing the discount\<close>

definition releasable_reservation :: "booking \<Rightarrow> bool" where
  "releasable_reservation b \<longleftrightarrow>
     b_referralStatus b = REF_RESERVED \<and> b_status b = B_PENDING \<and> b_paymentStatus b = UNPAID"

definition release_referral_reservation :: "time \<Rightarrow> ident \<Rightarrow> world \<Rightarrow> bool \<times> world" where
  "release_referral_reservation now bookingId w =
     (let (n, t) = update_many (\<lambda>b. b_id b = bookingId \<and> releasable_reservation b)
            (\<lambda>b. b\<lparr>b_referralStatus := REF_REVERSED, b_referralDiscountAmount := 0,
                   b_referralReferrerUserId := None, b_updatedAt := now\<rparr>) (bookings w)
      in if n = 0 then (False, w)
         else (True, snd (reverse_pending_referral_rewards now bookingId ''RESERVATION_RELEASED'' (w\<lparr>bookings := t\<rparr>))))"

definition release_stale_referral_reservations_for_user :: "time \<Rightarrow> ident \<Rightarrow> world \<Rightarrow> world" where
  "release_stale_referral_reservations_for_user now userId w =
     fold (\<lambda>b w. snd (release_referral_reservation now (b_id b) w))
          (filter (\<lambda>b. b_userId b = Some userId \<and> releasable_reservation b) (bookings w)) w"

datatype referral_reservation_error = ReferralDiscountNoLongerAvailable

definition verify_and_reserve_referral_discount_in_transaction ::
  "time \<Rightarrow> ident \<Rightarrow> referral_eligibility \<Rightarrow> world \<Rightarrow> (referral_reservation_error + referral_eligibility) \<times> world" where
  "verify_and_reserve_referral_discount_in_transaction now userId preliminary w =
     (if \<not> el_eligible preliminary then (Inr preliminary, w)
      else case find_row (\<lambda>u. u_id u = userId) (users w) of
        None \<Rightarrow> (Inr ineligible_referral, w)
      | Some u \<Rightarrow>
          (if u_referralDiscountUsed u then (Inl ReferralDiscountNoLongerAvailable, w)
           else if \<not> truthy (u_referredByUserId u) then (Inr ineligible_referral, w)
           else let w1 = release_stale_referral_reservations_for_user now userId w in
             if find_row (existing_discount_claim userId) (bookings w1) \<noteq> None
             then (Inl ReferralDiscountNoLongerAvailable, w1)
             else (Inr preliminary, w1)))"

definition create_referral_reward_if_eligible ::
  "ident \<Rightarrow> ident \<Rightarrow> referral_eligibility \<Rightarrow> ident option \<Rightarrow> world \<Rightarrow> world" where
  "create_referral_reward_if_eligible newId bookingId eligibility userId w =
     (if \<not> el_eligible eligibility \<or> \<not> truthy (el_referrerUserId eligibility) \<or> \<not> truthy userId then w
      else let referrer = the (el_referrerUserId eligibility);
               amount = parse_decimal_config (config_or ''REFERRAL_REWARD_AMOUNT'' (config_or ''REFERRAL_DISCOUNT_AMOUNT'' None w) w)
           in if \<not> 0 < amount then w
              else w\<lparr>rewards := rewards w @
                  [\<lparr>rw_id = newId, rw_referrerUserId = referrer, rw_refereeUserId = the userId, rw_bookingId = bookingId,
                    rw_amount = amount, rw_status = RW_PENDING,
                    rw_releaseCondition = parse_release_condition_config (config_or ''REFERRAL_RELEASE_CONDITION'' None w),
                    rw_reason = None, rw_processedAt = None\<rparr>],
                referralStats :=
                  (if find_row (\<lambda>s. rs_userId s = referrer) (referralStats w) = None
                   then referralStats w @
                     [\<lparr>rs_userId = referrer, rs_totalReferrals = 1, rs_totalRewardsGranted = 0,
                       rs_totalRewardsPending = amount, rs_lastReferralAt = None\<rparr>]
                   else snd (update_many (\<lambda>s. rs_userId s = referrer)
                     (\<lambda>s. s\<lparr>rs_totalReferrals := rs_totalReferrals s + 1,
                            rs_totalRewardsPending := rs_totalRewardsPending s + amount\<rparr>) (referralStats w)))\<rparr>)"

section \<open>Releasing the reward of a completed booking\<close>

record referral_env =
  re_now :: time
  re_config :: notif_config

definition referral_expired :: "time \<Rightarrow> rat option \<Rightarrow> user option \<Rightarrow> bool" where
  "referral_expired now expiryDays referee \<longleftrightarrow>
     (case expiryDays of None \<Rightarrow> False
      | Some n \<Rightarrow> 0 < n \<and> (case Option.bind referee u_referralSignupAt of None \<Rightarrow> False
                          | Some t \<Rightarrow> n < of_int ((now - t) div days_ms 1)))"

definition release_reward :: "referral_env \<Rightarrow> booking \<Rightarrow> referral_reward \<Rightarrow> world \<Rightarrow> world" where
  "release_reward env b pending w =
     (let now = re_now env;
          (n, t) = update_many (\<lambda>r. rw_id r = rw_id pending \<and> rw_status r = RW_PENDING \<and> rw_releaseCondition r = RC_COMPLETED)
                     (\<lambda>r. r\<lparr>rw_status := RW_RELEASED, rw_processedAt := Some now\<rparr>) (rewards w)
      in if n = 0 then w
         else let referrer = rw_referrerUserId pending; amount = rw_amount pending;
                  stats = find_row (\<lambda>s. rs_userId s = referrer) (referralStats w);
                  computed = (case stats of None \<Rightarrow> 0 | Some s \<Rightarrow> rs_totalRewardsPending s) - amount;
                  newPending = (if computed < 0 then 0 else computed);
                  w1 = w\<lparr>rewards := t,
                    bookings := snd (update_many (\<lambda>x. b_id x = b_id b)
                      (\<lambda>x. x\<lparr>b_referralStatus := REF_REWARDED, b_updatedAt := now\<rparr>) (bookings w)),
                    referralStats := (case stats of
                        None \<Rightarrow> referralStats w @
                          [\<lparr>rs_userId = referrer, rs_totalReferrals = 1, rs_totalRewardsGranted = amount,
                            rs_totalRewardsPending = 0, rs_lastReferralAt = Some now\<rparr>]
                      | Some s \<Rightarrow> snd (update_many (\<lambda>x. rs_userId x = referrer)
                          (\<lambda>x. x\<lparr>rs_totalRewardsGranted := rs_totalRewardsGranted x + amount,
                                 rs_totalRewardsPending := newPending, rs_lastReferralAt := Some now\<rparr>) (referralStats w)))\<rparr>
              in snd (create_notifications now NE_BOOKING_LIFECYCLE
                   (referral_reward_released_events (re_config env)
                     \<lparr>wn_rewardId = rw_id pending, wn_bookingId = b_id b, wn_referrerUserId = referrer,
                      wn_amount = amount, wn_releasedAt = now\<rparr>) w1))"

definition complete_referral :: "referral_env \<Rightarrow> booking \<Rightarrow> rat option \<Rightarrow> world \<Rightarrow> world" where
  "complete_referral env b expiryDays w =
     (if find_row (\<lambda>r. rw_bookingId r = b_id b \<and> rw_status r = RW_RELEASED) (rewards w) \<noteq> None then w
      else let userId = the (b_userId b); referee = find_row (\<lambda>u. u_id u = userId) (users w) in
        if referral_expired (re_now env) expiryDays referee then w
        else let w1 = (case referee of
                 None \<Rightarrow> w
               | Some u \<Rightarrow> (if u_referralDiscountUsed u then w
                    else w\<lparr>users := snd (update_many (\<lambda>x. u_id x = userId) (\<lambda>x. x\<lparr>u_referralDiscountUsed := True\<rparr>) (users w))\<rparr>))
             in case find_row (\<lambda>r. rw_bookingId r = b_id b \<and> rw_status r = RW_PENDING \<and> rw_releaseCondition r = RC_COMPLETED) (rewards w1) of
                  None \<Rightarrow> w1
                | Some pending \<Rightarrow> release_reward env b pending w1)"

definition process_referral_completion_for_booking :: "referral_env \<Rightarrow> ident \<Rightarrow> world \<Rightarrow> world" where
  "process_referral_completion_for_booking env bookingId w =
     (let enabled = the (config_or ''REFERRAL_ENABLED'' (Some (CBool True)) w);
          condition = the (config_or ''REFERRAL_RELEASE_CONDITION'' (Some (CStr ''COMPLETED'')) w);
          expiryDays = js_to_number (the (config_or ''REFERRAL_EXPIRY_DAYS'' (Some (CNum 0)) w))
      in if condition \<noteq> CStr ''PAID'' \<and> condition \<noteq> CStr ''COMPLETED'' then w
         else if \<not> js_truthy enabled \<or> condition \<noteq> CStr ''COMPLETED'' then w
         else case find_row (\<lambda>b. b_id b = bookingId \<and> b_deletedAt b = None) (bookings w) of
           None \<Rightarrow> w
         | Some b \<Rightarrow>
             (if b_referralStatus b \<noteq> REF_APPLIED \<or> \<not> truthy (b_userId b) \<or> \<not> truthy (b_referralReferrerUserId b) then w
              else complete_referral env b expiryDays w))"

section \<open>Rewards and statistics agree\<close>

definition reward_total :: "ident \<Rightarrow> reward_status \<Rightarrow> referral_reward list \<Rightarrow> rat" where
  "reward_total u st t = sum_list (map rw_amount (filter (\<lambda>r. rw_referrerUserId r = u \<and> rw_status r = st) t))"

definition reward_count :: "ident \<Rightarrow> reward_status \<Rightarrow> referral_reward list \<Rightarrow> nat" where
  "reward_count u st t = length (filter (\<lambda>r. rw_referrerUserId r = u \<and> rw_status r = st) t)"

definition stats_of :: "ident \<Rightarrow> world \<Rightarrow> referral_stats option" where
  "stats_of u w = find_row (\<lambda>s. rs_userId s = u) (referralStats w)"

text \<open>
  A statistics row states exactly the rewards of its referrer: the pending and the released
  amounts, and how many are not reversed; a referrer without a row has no such reward.
\<close>

definition rewards_accounted :: "world \<Rightarrow> bool" where
  "rewards_accounted w \<longleftrightarrow> (\<forall>r \<in> set (rewards w). 0 \<le> rw_amount r) \<and> (\<forall>u.
     case stats_of u w of
       None \<Rightarrow> reward_count u RW_PENDING (rewards w) = 0 \<and> reward_count u RW_RELEASED (rewards w) = 0
     | Some s \<Rightarrow> rs_totalRewardsPending s = reward_total u RW_PENDING (rewards w)
         \<and> rs_totalRewardsGranted s = reward_total u RW_RELEASED (rewards w)
         \<and> rs_totalReferrals s = reward_count u RW_PENDING (rewards w) + reward_count u RW_RELEASED (rewards w))"

lemma find_row_update_key:
  assumes "\<And>x. k (f x) = k x"
  shows "find_row (\<lambda>s. k s = u) (snd (update_many (\<lambda>x. k x = v) f t))
       = map_option (\<lambda>s. if u = v then f s else s) (find_row (\<lambda>s. k s = u) t)"
  by (induction t) (auto simp: find_row_def update_many_def assms)

lemma find_row_append: "find_row P (t @ [x]) = (case find_row P t of None \<Rightarrow> if P x then Some x else None | Some y \<Rightarrow> Some y)"
  by (induction t) (auto simp: find_row_def)

lemma decrement_stats_find:
  "find_row (\<lambda>s. rs_userId s = u) (decrement_stats v n a t) =
     map_option (\<lambda>s. if u = v then s\<lparr>rs_totalReferrals := rs_totalReferrals s - n,
          rs_totalRewardsPending := max 0 (rs_totalRewardsPending s - a)\<rparr> else s) (find_row (\<lambda>s. rs_userId s = u) t)"
proof (cases "find_row (\<lambda>s. rs_userId s = v) t")
  case None
  then show ?thesis by (cases "u = v") (simp_all add: decrement_stats_def option.map_ident)
next
  case (Some s)
  then show ?thesis
    by (cases "u = v") (simp_all add: decrement_stats_def Let_def find_row_update_key max_def option.map_ident)
qed

lemma fold_decrement_find:
  "distinct vs \<Longrightarrow> find_row (\<lambda>s. rs_userId s = u) (fold (\<lambda>v. decrement_stats v (n v) (a v)) vs t) =
     map_option (\<lambda>s. if u \<in> set vs then s\<lparr>rs_totalReferrals := rs_totalReferrals s - n u,
          rs_totalRewardsPending := max 0 (rs_totalRewardsPending s - a u)\<rparr> else s) (find_row (\<lambda>s. rs_userId s = u) t)"
proof (induction vs arbitrary: t)
  case Nil
  show ?case by (simp add: option.map_ident)
next
  case (Cons v vs)
  then show ?case
    by (cases "u = v") (auto simp: decrement_stats_find option.map_comp o_def option.map_ident)
qed

text \<open>Reversing a set of pending rewards moves them out of the pending totals only.\<close>

lemma reversed_totals:
  assumes "\<And>r. sel r \<Longrightarrow> rw_status r = RW_PENDING"
    and "\<And>r. rw_referrerUserId (f r) = rw_referrerUserId r \<and> rw_amount (f r) = rw_amount r \<and> rw_status (f r) = RW_REVERSED"
  shows "reward_total u RW_PENDING (snd (update_many sel f t))
       = reward_total u RW_PENDING t - sum_list (map rw_amount (filter (\<lambda>r. rw_referrerUserId r = u) (filter sel t)))"
    and "reward_total u RW_RELEASED (snd (update_many sel f t)) = reward_total u RW_RELEASED t"
    and "reward_count u RW_PENDING t = reward_count u RW_PENDING (snd (update_many sel f t))
       + length (filter (\<lambda>r. rw_referrerUserId r = u) (filter sel t))"
    and "reward_count u RW_RELEASED (snd (update_many sel f t)) = reward_count u RW_RELEASED t"
  using assms by (induction t) (auto simp: reward_total_def reward_count_def update_many_def)

lemma reward_total_nonneg: "\<forall>r \<in> set t. 0 \<le> rw_amount r \<Longrightarrow> 0 \<le> reward_total u st t"
  by (auto simp: reward_total_def intro!: sum_list_nonneg)

lemma reverse_accounted:
  assumes "rewards_accounted w"
  shows "rewards_accounted (snd (reverse_pending_referral_rewards now i reason w))"
proof -
  let ?sel = "\<lambda>r. rw_bookingId r = i \<and> rw_status r = RW_PENDING"
  let ?f = "\<lambda>r. r\<lparr>rw_status := RW_REVERSED, rw_processedAt := Some now, rw_reason := Some reason\<rparr>"
  let ?w = "snd (reverse_pending_referral_rewards now i reason w)"
  let ?rs = "filter ?sel (rewards w)"
  have rw: "rewards ?w = snd (update_many ?sel ?f (rewards w))"
    by (simp add: reverse_pending_referral_rewards_def Let_def)
  note tot = reversed_totals [where sel = ?sel and f = ?f and t = "rewards w"]
  have st: "stats_of u ?w = map_option (\<lambda>s. s\<lparr>rs_totalReferrals := rs_totalReferrals s - length (filter (\<lambda>r. rw_referrerUserId r = u) ?rs),
       rs_totalRewardsPending := (if u \<in> set (map rw_referrerUserId ?rs)
          then max 0 (rs_totalRewardsPending s - sum_list (map rw_amount (filter (\<lambda>r. rw_referrerUserId r = u) ?rs)))
          else rs_totalRewardsPending s)\<rparr>) (stats_of u w)" for u
  proof (cases "?rs = []")
    case True
    then show ?thesis by (simp add: stats_of_def reverse_pending_referral_rewards_def Let_def option.map_ident)
  next
    case False
    have none: "u \<notin> set (map rw_referrerUserId ?rs) \<Longrightarrow> filter (\<lambda>r. rw_referrerUserId r = u) ?rs = []"
      by (auto simp: filter_empty_conv)
    show ?thesis
      using False none
      by (auto simp: stats_of_def reverse_pending_referral_rewards_def Let_def decrement_referral_stats_for_reversed_rewards_def
          fold_decrement_find intro!: option.map_cong)
  qed
  have pos: "\<forall>r \<in> set (rewards ?w). 0 \<le> rw_amount r"
    using assms unfolding rw by (auto simp: rewards_accounted_def elim!: update_many_rowE)
  show ?thesis unfolding rewards_accounted_def
  proof (intro conjI allI pos)
    fix u
    let ?mine = "filter (\<lambda>r. rw_referrerUserId r = u) ?rs"
    have nn: "0 \<le> reward_total u RW_PENDING (rewards ?w)" by (rule reward_total_nonneg [OF pos])
    have none: "u \<notin> set (map rw_referrerUserId ?rs) \<Longrightarrow> ?mine = []" by (auto simp: filter_empty_conv)
    have acc: "case stats_of u w of
       None \<Rightarrow> reward_count u RW_PENDING (rewards w) = 0 \<and> reward_count u RW_RELEASED (rewards w) = 0
     | Some s \<Rightarrow> rs_totalRewardsPending s = reward_total u RW_PENDING (rewards w)
         \<and> rs_totalRewardsGranted s = reward_total u RW_RELEASED (rewards w)
         \<and> rs_totalReferrals s = reward_count u RW_PENDING (rewards w) + reward_count u RW_RELEASED (rewards w)"
      using assms by (simp add: rewards_accounted_def)
    have p: "reward_total u RW_PENDING (rewards ?w) = reward_total u RW_PENDING (rewards w) - sum_list (map rw_amount ?mine)"
      "reward_total u RW_RELEASED (rewards ?w) = reward_total u RW_RELEASED (rewards w)"
      "reward_count u RW_PENDING (rewards w) = reward_count u RW_PENDING (rewards ?w) + length ?mine"
      "reward_count u RW_RELEASED (rewards ?w) = reward_count u RW_RELEASED (rewards w)"
      unfolding rw by (rule tot; simp)+
    show "case stats_of u ?w of
       None \<Rightarrow> reward_count u RW_PENDING (rewards ?w) = 0 \<and> reward_count u RW_RELEASED (rewards ?w) = 0
     | Some s \<Rightarrow> rs_totalRewardsPending s = reward_total u RW_PENDING (rewards ?w)
         \<and> rs_totalRewardsGranted s = reward_total u RW_RELEASED (rewards ?w)
         \<and> rs_totalReferrals s = reward_count u RW_PENDING (rewards ?w) + reward_count u RW_RELEASED (rewards ?w)"
    proof (cases "stats_of u w")
      case None
      then show ?thesis using acc p by (simp add: st)
    next
      case (Some s)
      then show ?thesis using acc p nn none
        by (cases "u \<in> set (map rw_referrerUserId ?rs)") (simp_all add: st max_def)
    qed
  qed
qed

lemma rewards_accounted_cong:
  "rewards w' = rewards w \<Longrightarrow> referralStats w' = referralStats w \<Longrightarrow> rewards_accounted w' = rewards_accounted w"
  unfolding rewards_accounted_def stats_of_def by (simp cong: option.case_cong)

lemma release_reservation_accounted:
  assumes "rewards_accounted w" shows "rewards_accounted (snd (release_referral_reservation now i w))"
proof -
  have "rewards_accounted (w\<lparr>bookings := t\<rparr>)" for t
    using assms rewards_accounted_cong [of "w\<lparr>bookings := t\<rparr>" w] by simp
  then show ?thesis using assms reverse_accounted
    by (simp add: release_referral_reservation_def case_prod_beta Let_def)
qed

lemma release_stale_accounted:
  "rewards_accounted w \<Longrightarrow> rewards_accounted (release_stale_referral_reservations_for_user now u w)"
proof -
  have "rewards_accounted w \<Longrightarrow> rewards_accounted (fold (\<lambda>b w. snd (release_referral_reservation now (b_id b) w)) bs w)" for bs w
    by (induction bs arbitrary: w) (simp_all add: release_reservation_accounted)
  then show "rewards_accounted w \<Longrightarrow> ?thesis" by (simp add: release_stale_referral_reservations_for_user_def)
qed

lemma verify_and_reserve_accounted:
  "rewards_accounted w \<Longrightarrow> rewards_accounted (snd (verify_and_reserve_referral_discount_in_transaction now u el w))"
  by (simp add: verify_and_reserve_referral_discount_in_transaction_def Let_def release_stale_accounted split: option.splits)

lemma reward_append:
  "reward_total u st (t @ [r]) = reward_total u st t + (if rw_referrerUserId r = u \<and> rw_status r = st then rw_amount r else 0)"
  "reward_count u st (t @ [r]) = reward_count u st t + (if rw_referrerUserId r = u \<and> rw_status r = st then 1 else 0)"
  by (simp_all add: reward_total_def reward_count_def)

lemma reward_count_zero_total: "reward_count u st t = 0 \<Longrightarrow> reward_total u st t = 0"
  by (simp add: reward_count_def reward_total_def)

lemma create_reward_accounted:
  assumes "rewards_accounted w"
  shows "rewards_accounted (create_referral_reward_if_eligible newId i el userId w)"
proof (cases "create_referral_reward_if_eligible newId i el userId w = w")
  case True
  with assms show ?thesis by simp
next
  case False
  let ?v = "the (el_referrerUserId el)"
  let ?a = "parse_decimal_config (config_or ''REFERRAL_REWARD_AMOUNT'' (config_or ''REFERRAL_DISCOUNT_AMOUNT'' None w) w)"
  let ?w = "create_referral_reward_if_eligible newId i el userId w"
  have pos: "0 < ?a" using False by (auto simp: create_referral_reward_if_eligible_def Let_def split: if_splits)
  obtain r where rows: "rewards ?w = rewards w @ [r]" and r: "rw_referrerUserId r = ?v" "rw_status r = RW_PENDING" "rw_amount r = ?a"
    using False by (auto simp: create_referral_reward_if_eligible_def Let_def split: if_splits)
  have st: "stats_of u ?w = (if u = ?v
      then Some (case stats_of u w of
          None \<Rightarrow> \<lparr>rs_userId = ?v, rs_totalReferrals = 1, rs_totalRewardsGranted = 0, rs_totalRewardsPending = ?a, rs_lastReferralAt = None\<rparr>
        | Some s \<Rightarrow> s\<lparr>rs_totalReferrals := rs_totalReferrals s + 1, rs_totalRewardsPending := rs_totalRewardsPending s + ?a\<rparr>)
      else stats_of u w)" for u
  proof (cases "find_row (\<lambda>s. rs_userId s = ?v) (referralStats w)")
    case None
    then show ?thesis using False
      by (auto simp: stats_of_def create_referral_reward_if_eligible_def Let_def find_row_append split: if_splits option.splits)
  next
    case (Some s)
    then show ?thesis using False
      by (auto simp: stats_of_def create_referral_reward_if_eligible_def Let_def find_row_update_key option.map_ident split: if_splits)
  qed
  show ?thesis unfolding rewards_accounted_def
  proof (intro conjI allI)
    show "\<forall>r \<in> set (rewards ?w). 0 \<le> rw_amount r" using assms pos r by (auto simp: rows rewards_accounted_def)
    fix u
    have "case stats_of u w of
       None \<Rightarrow> reward_count u RW_PENDING (rewards w) = 0 \<and> reward_count u RW_RELEASED (rewards w) = 0
     | Some s \<Rightarrow> rs_totalRewardsPending s = reward_total u RW_PENDING (rewards w)
         \<and> rs_totalRewardsGranted s = reward_total u RW_RELEASED (rewards w)
         \<and> rs_totalReferrals s = reward_count u RW_PENDING (rewards w) + reward_count u RW_RELEASED (rewards w)"
      using assms by (simp add: rewards_accounted_def)
    then show "case stats_of u ?w of
       None \<Rightarrow> reward_count u RW_PENDING (rewards ?w) = 0 \<and> reward_count u RW_RELEASED (rewards ?w) = 0
     | Some s \<Rightarrow> rs_totalRewardsPending s = reward_total u RW_PENDING (rewards ?w)
         \<and> rs_totalRewardsGranted s = reward_total u RW_RELEASED (rewards ?w)
         \<and> rs_totalReferrals s = reward_count u RW_PENDING (rewards ?w) + reward_count u RW_RELEASED (rewards ?w)"
      using r reward_count_zero_total
      by (cases "stats_of u w"; cases "u = ?v") (simp_all add: st rows reward_append)
  qed
qed

text \<open>Releasing one pending reward moves its amount from the pending to the released total.\<close>

lemma released_totals:
  assumes "unique_by rw_id t" "p \<in> set t" "rw_status p = RW_PENDING" "rw_releaseCondition p = RC_COMPLETED"
    and t'_def: "t' = map (\<lambda>r. if rw_id r = rw_id p then p\<lparr>rw_status := RW_RELEASED, rw_processedAt := x\<rparr> else r) t"
  shows "reward_total u RW_PENDING t = reward_total u RW_PENDING t' + (if rw_referrerUserId p = u then rw_amount p else 0)"
    and "reward_total u RW_RELEASED t' = reward_total u RW_RELEASED t + (if rw_referrerUserId p = u then rw_amount p else 0)"
    and "reward_count u RW_PENDING t = reward_count u RW_PENDING t' + (if rw_referrerUserId p = u then 1 else 0)"
    and "reward_count u RW_RELEASED t' = reward_count u RW_RELEASED t + (if rw_referrerUserId p = u then 1 else 0)"
proof -
  from assms(2) obtain xs ys where t: "t = xs @ p # ys" by (meson split_list)
  have ids: "rw_id r \<noteq> rw_id p" if "r \<in> set xs \<union> set ys" for r
    using that assms(1) by (auto simp: t image_iff)
  have other: "map (\<lambda>r. if rw_id r = rw_id p then p\<lparr>rw_status := RW_RELEASED, rw_processedAt := x\<rparr> else r) zs = zs"
    if "set zs \<subseteq> set xs \<union> set ys" for zs
    using that ids by (intro map_idI) auto
  have "t' = xs @ p\<lparr>rw_status := RW_RELEASED, rw_processedAt := x\<rparr> # ys"
    using other [of xs] other [of ys] by (simp add: t'_def t)
  with t assms(3) show "reward_total u RW_PENDING t = reward_total u RW_PENDING t' + (if rw_referrerUserId p = u then rw_amount p else 0)"
    "reward_total u RW_RELEASED t' = reward_total u RW_RELEASED t + (if rw_referrerUserId p = u then rw_amount p else 0)"
    "reward_count u RW_PENDING t = reward_count u RW_PENDING t' + (if rw_referrerUserId p = u then 1 else 0)"
    "reward_count u RW_RELEASED t' = reward_count u RW_RELEASED t + (if rw_referrerUserId p = u then 1 else 0)"
    by (simp_all add: reward_total_def reward_count_def)
qed

definition release_stats :: "time \<Rightarrow> referral_reward \<Rightarrow> referral_stats list \<Rightarrow> referral_stats list" where
  "release_stats now p t =
     (case find_row (\<lambda>s. rs_userId s = rw_referrerUserId p) t of
        None \<Rightarrow> t @ [\<lparr>rs_userId = rw_referrerUserId p, rs_totalReferrals = 1, rs_totalRewardsGranted = rw_amount p,
                     rs_totalRewardsPending = 0, rs_lastReferralAt = Some now\<rparr>]
      | Some s \<Rightarrow> snd (update_many (\<lambda>x. rs_userId x = rw_referrerUserId p)
          (\<lambda>x. x\<lparr>rs_totalRewardsGranted := rs_totalRewardsGranted x + rw_amount p,
                 rs_totalRewardsPending := (if rs_totalRewardsPending s - rw_amount p < 0 then 0 else rs_totalRewardsPending s - rw_amount p),
                 rs_lastReferralAt := Some now\<rparr>) t))"

lemma release_reward_tables:
  assumes "unique_by rw_id (rewards w)" "p \<in> set (rewards w)" "rw_status p = RW_PENDING" "rw_releaseCondition p = RC_COMPLETED"
  shows "rewards (release_reward env b p w) =
      map (\<lambda>r. if rw_id r = rw_id p then p\<lparr>rw_status := RW_RELEASED, rw_processedAt := Some (re_now env)\<rparr> else r) (rewards w)"
    and "referralStats (release_reward env b p w) = release_stats (re_now env) p (referralStats w)"
    and "bookings (release_reward env b p w) = snd (update_many (\<lambda>x. b_id x = b_id b)
           (\<lambda>x. x\<lparr>b_referralStatus := REF_REWARDED, b_updatedAt := re_now env\<rparr>) (bookings w))"
proof -
  have up: "update_many (\<lambda>r. rw_id r = rw_id p \<and> rw_status r = RW_PENDING \<and> rw_releaseCondition r = RC_COMPLETED)
      (\<lambda>r. r\<lparr>rw_status := RW_RELEASED, rw_processedAt := Some (re_now env)\<rparr>) (rewards w)
     = (1, map (\<lambda>r. if rw_id r = rw_id p then p\<lparr>rw_status := RW_RELEASED, rw_processedAt := Some (re_now env)\<rparr> else r) (rewards w))"
    by (rule update_many_at [where P = "\<lambda>r. rw_status r = RW_PENDING \<and> rw_releaseCondition r = RC_COMPLETED", OF assms(1,2)])
       (use assms in simp)
  show "rewards (release_reward env b p w) =
      map (\<lambda>r. if rw_id r = rw_id p then p\<lparr>rw_status := RW_RELEASED, rw_processedAt := Some (re_now env)\<rparr> else r) (rewards w)"
    by (simp add: release_reward_def up Let_def)
  show "bookings (release_reward env b p w) = snd (update_many (\<lambda>x. b_id x = b_id b)
           (\<lambda>x. x\<lparr>b_referralStatus := REF_REWARDED, b_updatedAt := re_now env\<rparr>) (bookings w))"
    by (simp add: release_reward_def up Let_def)
  show "referralStats (release_reward env b p w) = release_stats (re_now env) p (referralStats w)"
    by (simp add: release_reward_def up Let_def release_stats_def split: option.splits)
qed

lemma release_reward_accounted:
  assumes "rewards_accounted w"
    and "unique_by rw_id (rewards w)" "p \<in> set (rewards w)" "rw_status p = RW_PENDING" "rw_releaseCondition p = RC_COMPLETED"
  shows "rewards_accounted (release_reward env b p w)"
proof -
  let ?w = "release_reward env b p w" and ?v = "rw_referrerUserId p"
  note rows = release_reward_tables [OF assms(2-5), of env b]
  have pos: "\<forall>r \<in> set (rewards ?w). 0 \<le> rw_amount r"
    using assms(1,3) unfolding rows by (auto simp: rewards_accounted_def)
  have pc: "0 < reward_count ?v RW_PENDING (rewards w)"
    using assms(3,4) by (auto simp: reward_count_def filter_empty_conv)
  have acc: "case stats_of u w of
       None \<Rightarrow> reward_count u RW_PENDING (rewards w) = 0 \<and> reward_count u RW_RELEASED (rewards w) = 0
     | Some s \<Rightarrow> rs_totalRewardsPending s = reward_total u RW_PENDING (rewards w)
         \<and> rs_totalRewardsGranted s = reward_total u RW_RELEASED (rewards w)
         \<and> rs_totalReferrals s = reward_count u RW_PENDING (rewards w) + reward_count u RW_RELEASED (rewards w)" for u
    using assms(1) by (simp add: rewards_accounted_def)
  obtain sv where sv: "find_row (\<lambda>s. rs_userId s = ?v) (referralStats w) = Some sv"
    using acc [of ?v] pc by (auto simp: stats_of_def split: option.splits)
  have st: "stats_of u ?w = map_option (\<lambda>s. if u = ?v then s\<lparr>rs_totalRewardsGranted := rs_totalRewardsGranted s + rw_amount p,
       rs_totalRewardsPending := max 0 (rs_totalRewardsPending s - rw_amount p), rs_lastReferralAt := Some (re_now env)\<rparr> else s) (stats_of u w)" for u
    using sv by (cases "u = ?v") (simp_all add: stats_of_def rows release_stats_def find_row_update_key max_def option.map_ident)
  show ?thesis unfolding rewards_accounted_def
  proof (intro conjI allI pos)
    fix u
    have nn: "0 \<le> reward_total u RW_PENDING (rewards ?w)" by (rule reward_total_nonneg [OF pos])
    note tot = released_totals [OF assms(2-5) rows(1), of u]
    show "case stats_of u ?w of
       None \<Rightarrow> reward_count u RW_PENDING (rewards ?w) = 0 \<and> reward_count u RW_RELEASED (rewards ?w) = 0
     | Some s \<Rightarrow> rs_totalRewardsPending s = reward_total u RW_PENDING (rewards ?w)
         \<and> rs_totalRewardsGranted s = reward_total u RW_RELEASED (rewards ?w)
         \<and> rs_totalReferrals s = reward_count u RW_PENDING (rewards ?w) + reward_count u RW_RELEASED (rewards ?w)"
      using acc [of u] tot nn sv [folded stats_of_def]
      by (cases "stats_of u w"; cases "u = ?v") (auto simp: st max_def)
  qed
qed

lemma complete_referral_accounted:
  assumes "rewards_accounted w" "unique_by rw_id (rewards w)"
  shows "rewards_accounted (complete_referral env b n w)"
proof -
  have "rewards_accounted (release_reward env b p (w\<lparr>users := us\<rparr>))"
    if "find_row (\<lambda>r. rw_bookingId r = b_id b \<and> rw_status r = RW_PENDING \<and> rw_releaseCondition r = RC_COMPLETED) (rewards w) = Some p" for p us
    using find_row_Some [OF that] assms rewards_accounted_cong [of "w\<lparr>users := us\<rparr>" w]
    by (intro release_reward_accounted) auto
  moreover have "rewards_accounted (release_reward env b p w)"
    if "find_row (\<lambda>r. rw_bookingId r = b_id b \<and> rw_status r = RW_PENDING \<and> rw_releaseCondition r = RC_COMPLETED) (rewards w) = Some p" for p
    using find_row_Some [OF that] assms by (intro release_reward_accounted) auto
  moreover have "rewards_accounted (w\<lparr>users := us\<rparr>)" for us
    using assms(1) rewards_accounted_cong [of "w\<lparr>users := us\<rparr>" w] by simp
  ultimately show ?thesis using assms(1)
    by (simp add: complete_referral_def Let_def split: option.splits)
qed

lemma process_referral_accounted:
  "rewards_accounted w \<Longrightarrow> unique_by rw_id (rewards w) \<Longrightarrow>
   rewards_accounted (process_referral_completion_for_booking env i w)"
  by (simp add: process_referral_completion_for_booking_def Let_def complete_referral_accounted split: option.splits)

section \<open>Completing a referral twice\<close>

lemma find_row_bookings_referral:
  "find_row (\<lambda>b. b_id b = i \<and> b_deletedAt b = None) (snd (update_many (\<lambda>x. b_id x = j)
      (\<lambda>x. x\<lparr>b_referralStatus := st, b_updatedAt := t\<rparr>) bs))
   = map_option (\<lambda>b. if b_id b = j then b\<lparr>b_referralStatus := st, b_updatedAt := t\<rparr> else b)
       (find_row (\<lambda>b. b_id b = i \<and> b_deletedAt b = None) bs)"
  by (induction bs) (auto simp: find_row_def update_many_def)

lemma release_reward_config [simp]: "referralConfig (release_reward env b p w) = referralConfig w"
  by (simp add: release_reward_def Let_def case_prod_beta)

lemma config_or_cong: "referralConfig w' = referralConfig w \<Longrightarrow> config_or k d w' = config_or k d w"
  by (simp add: config_or_def)

text \<open>A second completion finds the booking rewarded, or the discount marked and nothing pending.\<close>

definition mark_discount_used :: "booking \<Rightarrow> world \<Rightarrow> world" where
  "mark_discount_used b w =
     (case find_row (\<lambda>u. u_id u = the (b_userId b)) (users w) of
        None \<Rightarrow> w
      | Some u \<Rightarrow> (if u_referralDiscountUsed u then w
           else w\<lparr>users := snd (update_many (\<lambda>x. u_id x = the (b_userId b)) (\<lambda>x. x\<lparr>u_referralDiscountUsed := True\<rparr>) (users w))\<rparr>))"

abbreviation releasable_reward :: "booking \<Rightarrow> referral_reward \<Rightarrow> bool" where
  "releasable_reward b r \<equiv> rw_bookingId r = b_id b \<and> rw_status r = RW_PENDING \<and> rw_releaseCondition r = RC_COMPLETED"

lemma complete_referral_unfold:
  "complete_referral env b n w =
     (if find_row (\<lambda>r. rw_bookingId r = b_id b \<and> rw_status r = RW_RELEASED) (rewards w) \<noteq> None
         \<or> referral_expired (re_now env) n (find_row (\<lambda>u. u_id u = the (b_userId b)) (users w)) then w
      else case find_row (releasable_reward b) (rewards (mark_discount_used b w)) of
             None \<Rightarrow> mark_discount_used b w | Some pending \<Rightarrow> release_reward env b pending (mark_discount_used b w))"
proof (cases "find_row (\<lambda>u. u_id u = the (b_userId b)) (users w)")
  case None
  then show ?thesis by (simp add: complete_referral_def mark_discount_used_def Let_def cong: if_cong option.case_cong)
next
  case (Some u)
  then show ?thesis
    by (cases "u_referralDiscountUsed u")
       (simp_all add: complete_referral_def mark_discount_used_def Let_def cong: if_cong option.case_cong)
qed

lemma mark_discount_tables [simp]:
  "rewards (mark_discount_used b w) = rewards w" "bookings (mark_discount_used b w) = bookings w"
  "referralConfig (mark_discount_used b w) = referralConfig w"
  by (simp_all add: mark_discount_used_def split: option.splits)

lemma mark_discount_twice [simp]: "mark_discount_used b (mark_discount_used b w) = mark_discount_used b w"
proof (cases "find_row (\<lambda>u. u_id u = the (b_userId b)) (users w)")
  case None
  then show ?thesis by (simp add: mark_discount_used_def)
next
  case (Some u)
  then show ?thesis
    by (cases "u_referralDiscountUsed u") (simp_all add: mark_discount_used_def find_row_update_key)
qed

lemma referral_expired_later: "referral_expired now n u \<Longrightarrow> now \<le> now' \<Longrightarrow> referral_expired now' n u"
proof -
  assume "now \<le> now'"
  then have "(now - t) div days_ms 1 \<le> (now' - t) div days_ms 1" for t by (simp add: zdiv_mono1)
  then have le: "rat_of_int ((now - t) div days_ms 1) \<le> rat_of_int ((now' - t) div days_ms 1)" for t by (simp only: of_int_le_iff)
  assume "referral_expired now n u"
  then show "referral_expired now' n u"
    using order_less_le_trans [OF _ le] by (auto simp: referral_expired_def split: option.splits)
qed

section \<open>Properties\<close>

text \<open>
  Property C29: the referrer statistics stay exact.  Creating a pending reward, releasing a
  reservation, reversing the rewards of a cancelled booking, reserving a discount and completing a
  referral all keep, for every referrer, the pending and granted totals equal to the sums of its
  pending and released rewards and the referral count equal to their number; in particular the
  clamping at zero never has an effect.
\<close>

theorem referral_statistics_stay_exact:
  assumes "rewards_accounted w" and "unique_by rw_id (rewards w)"
  shows "rewards_accounted (create_referral_reward_if_eligible newId i el userId w)
   \<and> rewards_accounted (snd (release_referral_reservation now i w))
   \<and> rewards_accounted (snd (reverse_pending_referral_rewards now i reason w))
   \<and> rewards_accounted (snd (verify_and_reserve_referral_discount_in_transaction now u el w))
   \<and> rewards_accounted (process_referral_completion_for_booking env i w)"
  using assms create_reward_accounted release_reservation_accounted reverse_accounted verify_and_reserve_accounted
    process_referral_accounted by blast

definition demo_referral_world :: world where
  "demo_referral_world = demo_world\<lparr>
     bookings := [demo_booking\<lparr>b_referralStatus := REF_APPLIED, b_referralReferrerUserId := Some ''o1''\<rparr>],
     rewards := [\<lparr>rw_id = ''r1'', rw_referrerUserId = ''o1'', rw_refereeUserId = ''u1'', rw_bookingId = ''b1'', rw_amount = 10000,
       rw_status = RW_PENDING, rw_releaseCondition = RC_COMPLETED, rw_reason = None, rw_processedAt = None\<rparr>],
     referralStats := [\<lparr>rs_userId = ''o1'', rs_totalReferrals = 1, rs_totalRewardsGranted = 0, rs_totalRewardsPending = 10000,
       rs_lastReferralAt = None\<rparr>]\<rparr>"

definition demo_referral_env :: "time \<Rightarrow> referral_env" where
  "demo_referral_env t = \<lparr>re_now = t, re_config = demo_config\<rparr>"

lemma demo_referral_accounted: "rewards_accounted demo_referral_world"
  by (auto simp: rewards_accounted_def demo_referral_world_def stats_of_def find_row_def reward_count_def reward_total_def)

theorem referral_statistics_stay_exact_witness:
  "rewards_accounted (process_referral_completion_for_booking (demo_referral_env 5) ''b1'' demo_referral_world)"
  using referral_statistics_stay_exact [OF demo_referral_accounted] by (simp add: demo_referral_world_def)

text \<open>
  Property C30: completing a referral is idempotent.  A second completion of the same booking, at
  any later instant, changes nothing: no reward is released twice and no statistics row is counted
  twice.
\<close>

theorem referral_completed_once:
  assumes "unique_by rw_id (rewards w)" and "re_now env \<le> re_now env'"
  shows "process_referral_completion_for_booking env' i (process_referral_completion_for_booking env i w)
       = process_referral_completion_for_booking env i w"
proof -
  let ?p = "process_referral_completion_for_booking"
  define n where "n = js_to_number (the (config_or ''REFERRAL_EXPIRY_DAYS'' (Some (CNum 0)) w))"
  show ?thesis
  proof (cases "?p env i w = w \<and> ?p env' i w = w")
    case True
    then show ?thesis by simp
  next
    case False
    then obtain b where b: "find_row (\<lambda>b. b_id b = i \<and> b_deletedAt b = None) (bookings w) = Some b"
        and run: "\<And>env. ?p env i w = complete_referral env b n w"
      unfolding process_referral_completion_for_booking_def Let_def n_def
      by (auto split: if_splits option.splits)
    have again: "?p env' i v = complete_referral env' b n v"
      if "bookings v = bookings w" "referralConfig v = referralConfig w" for v
      using False b run that config_or_cong [OF that(2)]
      by (auto simp: process_referral_completion_for_booking_def Let_def n_def split: if_splits)
    let ?P = "\<lambda>b. b_id b = i \<and> b_deletedAt b = None"
    show ?thesis
    proof (cases "find_row (\<lambda>r. rw_bookingId r = b_id b \<and> rw_status r = RW_RELEASED) (rewards w) \<noteq> None
         \<or> referral_expired (re_now env) n (find_row (\<lambda>u. u_id u = the (b_userId b)) (users w))")
      case True
      then have "complete_referral env b n w = w" "complete_referral env' b n w = w"
        using referral_expired_later [OF _ assms(2)] by (auto simp: complete_referral_unfold)
      then show ?thesis by (simp add: run)
    next
      case live: False
      show ?thesis
      proof (cases "find_row (releasable_reward b) (rewards w)")
        case None
        then have "complete_referral env b n w = mark_discount_used b w" using live by (simp add: complete_referral_unfold)
        moreover have "complete_referral env' b n (mark_discount_used b w) = mark_discount_used b w"
          using None by (simp add: complete_referral_unfold)
        ultimately show ?thesis using again [of "mark_discount_used b w"] by (simp add: run)
      next
        case (Some r)
        let ?v = "release_reward env b r (mark_discount_used b w)"
        have "complete_referral env b n w = ?v" using live Some by (simp add: complete_referral_unfold)
        moreover have "bookings ?v = snd (update_many (\<lambda>x. b_id x = b_id b)
             (\<lambda>x. x\<lparr>b_referralStatus := REF_REWARDED, b_updatedAt := re_now env\<rparr>) (bookings w))"
          using release_reward_tables(3) [of "mark_discount_used b w" r env b] assms(1) find_row_Some [OF Some] by simp
        then have "find_row ?P (bookings ?v) = Some (b\<lparr>b_referralStatus := REF_REWARDED, b_updatedAt := re_now env\<rparr>)"
          using b by (simp add: find_row_bookings_referral)
        then have "?p env' i ?v = ?v"
          by (simp add: process_referral_completion_for_booking_def Let_def)
        ultimately show ?thesis by (simp add: run)
      qed
    qed
  qed
qed

theorem referral_completed_once_witness:
  "let w = process_referral_completion_for_booking (demo_referral_env 5) ''b1'' demo_referral_world
   in process_referral_completion_for_booking (demo_referral_env 9) ''b1'' w = w"
  using referral_completed_once [of demo_referral_world "demo_referral_env 5" "demo_referral_env 9" "''b1''"]
  by (simp add: demo_referral_world_def demo_referral_env_def)

section \<open>Rewards on payment\<close>

lemma paid_condition_frozen_update:
  assumes "\<And>r. P r \<Longrightarrow> rw_releaseCondition (f r) = rw_releaseCondition r \<and> rw_id (f r) = rw_id r"
    and "\<And>r. P r \<Longrightarrow> rw_releaseCondition r = RC_PAID \<Longrightarrow> rw_status (f r) \<noteq> RW_RELEASED"
    and "r' \<in> set (snd (update_many P f t))" "rw_releaseCondition r' = RC_PAID" "rw_status r' = RW_RELEASED"
  shows "r' \<in> set t"
proof -
  obtain r where r: "r \<in> set t" "r' = (if P r then f r else r)" using assms(3) by (rule update_many_rowE)
  show ?thesis
  proof (cases "P r")
    case True
    with r have "r' = f r" by simp
    with True assms(1) [OF True] assms(2) [OF True] assms(4,5) show ?thesis by simp
  next
    case False
    with r show ?thesis by simp
  qed
qed

lemma release_reward_paid:
  assumes "r' \<in> set (rewards (release_reward env b p w))" "rw_releaseCondition r' = RC_PAID" "rw_status r' = RW_RELEASED"
  shows "r' \<in> set (rewards w)"
proof -
  let ?P = "\<lambda>r. rw_id r = rw_id p \<and> rw_status r = RW_PENDING \<and> rw_releaseCondition r = RC_COMPLETED"
  let ?f = "\<lambda>r. r\<lparr>rw_status := RW_RELEASED, rw_processedAt := Some (re_now env)\<rparr>"
  have "rewards (release_reward env b p w) = rewards w \<or> rewards (release_reward env b p w) = snd (update_many ?P ?f (rewards w))"
    by (simp add: release_reward_def Let_def case_prod_beta)
  then show ?thesis
  proof
    assume "rewards (release_reward env b p w) = snd (update_many ?P ?f (rewards w))"
    then have "r' \<in> set (snd (update_many ?P ?f (rewards w)))" using assms(1) by simp
    then show ?thesis using assms(2,3) by (rule paid_condition_frozen_update [rotated 2]) simp_all
  qed (use assms in simp)
qed

lemma complete_referral_paid:
  assumes "r' \<in> set (rewards (complete_referral env b n w))" "rw_releaseCondition r' = RC_PAID" "rw_status r' = RW_RELEASED"
  shows "r' \<in> set (rewards w)"
proof -
  consider "rewards (complete_referral env b n w) = rewards w"
    | p where "complete_referral env b n w = release_reward env b p (mark_discount_used b w)"
  proof (cases "complete_referral env b n w = w \<or> complete_referral env b n w = mark_discount_used b w")
    case True
    then have "rewards (complete_referral env b n w) = rewards w" by (elim disjE) simp_all
    then show ?thesis by (rule that(1))
  next
    case False
    then obtain p where "find_row (releasable_reward b) (rewards (mark_discount_used b w)) = Some p"
      and "complete_referral env b n w = release_reward env b p (mark_discount_used b w)"
      by (cases "find_row (releasable_reward b) (rewards (mark_discount_used b w))")
         (simp_all add: complete_referral_unfold split: if_split_asm)
    then show ?thesis by (intro that(2))
  qed
  then show ?thesis
  proof cases
    case 1
    then show ?thesis using assms(1) by simp
  next
    case 2
    then show ?thesis using release_reward_paid [of r' env b p "mark_discount_used b w"] assms by simp
  qed
qed

lemma process_referral_paid:
  assumes "r' \<in> set (rewards (process_referral_completion_for_booking env i w))" "rw_releaseCondition r' = RC_PAID" "rw_status r' = RW_RELEASED"
  shows "r' \<in> set (rewards w)"
proof -
  consider "process_referral_completion_for_booking env i w = w"
    | b n where "process_referral_completion_for_booking env i w = complete_referral env b n w"
  proof (cases "process_referral_completion_for_booking env i w = w")
    case True
    then show ?thesis by (rule that(1))
  next
    case False
    then show ?thesis using that(2)
      unfolding process_referral_completion_for_booking_def Let_def
      by (auto split: if_split_asm option.split_asm)
  qed
  then show ?thesis
  proof cases
    case 1
    then show ?thesis using assms(1) by simp
  next
    case 2
    show ?thesis using assms unfolding 2 by (rule complete_referral_paid)
  qed
qed

lemma reverse_paid:
  assumes "r' \<in> set (rewards (snd (reverse_pending_referral_rewards now i reason w)))" "rw_releaseCondition r' = RC_PAID" "rw_status r' = RW_RELEASED"
  shows "r' \<in> set (rewards w)"
proof -
  have "r' \<in> set (snd (update_many (\<lambda>r. rw_bookingId r = i \<and> rw_status r = RW_PENDING)
       (\<lambda>r. r\<lparr>rw_status := RW_REVERSED, rw_processedAt := Some now, rw_reason := Some reason\<rparr>) (rewards w)))"
    using assms(1) by (simp add: reverse_pending_referral_rewards_def Let_def)
  then show ?thesis using assms(2,3) by (rule paid_condition_frozen_update [rotated 2]) simp_all
qed

text \<open>
  Property C31: with the release condition set to PAID, which the settings allow, a booking's reward
  is created with that condition and no operation ever releases it: neither completing the referral
  nor releasing or reversing a reservation makes a reward with that condition released.
\<close>

theorem paid_condition_never_released:
  assumes "config_or ''REFERRAL_RELEASE_CONDITION'' None w = Some (CStr ''PAID'')"
  shows "(\<forall>r \<in> set (rewards (create_referral_reward_if_eligible newId i el userId w)) - set (rewards w).
            rw_releaseCondition r = RC_PAID \<and> rw_status r = RW_PENDING)
    \<and> (\<forall>v r. r \<in> set (rewards (process_referral_completion_for_booking env j v)) \<union> set (rewards (snd (reverse_pending_referral_rewards now j reason v)))
          \<and> rw_releaseCondition r = RC_PAID \<and> rw_status r = RW_RELEASED \<longrightarrow> r \<in> set (rewards v))"
proof (rule conjI)
  show "\<forall>r \<in> set (rewards (create_referral_reward_if_eligible newId i el userId w)) - set (rewards w).
      rw_releaseCondition r = RC_PAID \<and> rw_status r = RW_PENDING"
    using assms by (auto simp: create_referral_reward_if_eligible_def Let_def parse_release_condition_config_def)
  show "\<forall>v r. r \<in> set (rewards (process_referral_completion_for_booking env j v)) \<union> set (rewards (snd (reverse_pending_referral_rewards now j reason v)))
      \<and> rw_releaseCondition r = RC_PAID \<and> rw_status r = RW_RELEASED \<longrightarrow> r \<in> set (rewards v)"
    by (metis Un_iff process_referral_paid reverse_paid)
qed

definition demo_paid_world :: world where
  "demo_paid_world = demo_world\<lparr>referralConfig :=
     [(''REFERRAL_RELEASE_CONDITION'', CStr ''PAID''), (''REFERRAL_REWARD_AMOUNT'', CNum 5)]\<rparr>"

definition demo_eligibility :: referral_eligibility where
  "demo_eligibility = \<lparr>el_eligible = True, el_referrerUserId = Some ''o1'', el_discountAmount = 1\<rparr>"

lemma demo_paid_condition: "config_or ''REFERRAL_RELEASE_CONDITION'' None demo_paid_world = Some (CStr ''PAID'')"
  by (simp add: config_or_def demo_paid_world_def)

theorem paid_condition_never_released_witness:
  "set (rewards (create_referral_reward_if_eligible ''r2'' ''b1'' demo_eligibility (Some ''u1'') demo_paid_world))
     - set (rewards demo_paid_world) \<subseteq> {r. rw_releaseCondition r = RC_PAID \<and> rw_status r = RW_PENDING}"
  using paid_condition_never_released [OF demo_paid_condition, THEN conjunct1] by blast

end
