(* ===== verification/BookingWindows.thy ===== *)
theory BookingWindows
  imports Schema JsDate
begin

text \<open>
  The exclusion constraint of the database on the windows of a car's bookings (the migration
  enforce_two_hour_booking_buffer) with the statuses that hold a car (modules/booking/booking.const.ts).
  A statement that would break it fails, and the transaction it belongs to leaves no trace.
\<close>

section \<open>The constraint\<close>

definition booking_buffer :: time where
  "booking_buffer = hours_ms 2"

definition blocking_status :: "booking_status \<Rightarrow> bool" where
  "blocking_status s \<longleftrightarrow> s \<in> {B_PENDING, B_CONFIRMED, B_ACTIVE}"

definition holds_car :: "booking \<Rightarrow> bool" where
  "holds_car b \<longleftrightarrow> b_deletedAt b = None \<and> blocking_status (b_status b)"

text \<open>The ranges of two rows, each from its start to two hours after its end, meet.\<close>

definition windows_clash :: "booking \<Rightarrow> booking \<Rightarrow> bool" where
  "windows_clash a b \<longleftrightarrow> holds_car a \<and> holds_car b \<and> b_carId a = b_carId b
     \<and> b_startDate a < b_endDate b + booking_buffer \<and> b_startDate b < b_endDate a + booking_buffer"

text \<open>No two rows clash: what the constraint enforces on the table.\<close>

fun windows_disjoint :: "booking list \<Rightarrow> bool" where
  "windows_disjoint [] \<longleftrightarrow> True"
| "windows_disjoint (b # bs) \<longleftrightarrow> list_all (\<lambda>x. \<not> windows_clash b x) bs \<and> windows_disjoint bs"

section \<open>What keeps it\<close>

lemma windows_clash_sym: "windows_clash a b \<longleftrightarrow> windows_clash b a"
  by (auto simp: windows_clash_def)

lemma windows_disjoint_append:
  "windows_disjoint (xs @ ys) \<longleftrightarrow> windows_disjoint xs \<and> windows_disjoint ys \<and> (\<forall>x \<in> set xs. \<forall>y \<in> set ys. \<not> windows_clash x y)"
  by (induction xs) (auto simp: list_all_iff)

lemma windows_disjoint_iff:
  assumes "unique_by b_id bs"
  shows "windows_disjoint bs \<longleftrightarrow> (\<forall>a \<in> set bs. \<forall>b \<in> set bs. b_id a \<noteq> b_id b \<longrightarrow> \<not> windows_clash a b)"
  using assms
proof (induction bs)
  case (Cons b bs)
  then have "b_id x \<noteq> b_id b" if "x \<in> set bs" for x
    using that by (metis distinct.simps(2) image_eqI list.simps(9) list.set_map)
  then show ?case using Cons by (auto simp: list_all_iff windows_clash_sym)
qed simp

text \<open>Rewriting rows so that none holds its car longer than before cannot create a clash.\<close>

definition window_shrinks :: "booking \<Rightarrow> booking \<Rightarrow> bool" where
  "window_shrinks b b' \<longleftrightarrow> b_id b' = b_id b \<and> (holds_car b' \<longrightarrow> holds_car b \<and> b_carId b' = b_carId b
     \<and> b_startDate b \<le> b_startDate b' \<and> b_endDate b' \<le> b_endDate b)"

lemma window_shrinks_clash:
  "window_shrinks a a' \<Longrightarrow> window_shrinks b b' \<Longrightarrow> windows_clash a' b' \<Longrightarrow> windows_clash a b"
  by (auto simp: window_shrinks_def windows_clash_def)

lemma windows_disjoint_shrink:
  "list_all2 window_shrinks bs bs' \<Longrightarrow> windows_disjoint bs \<Longrightarrow> windows_disjoint bs'"
proof (induction rule: list_all2_induct)
  case (Cons b bs b' bs')
  have "\<not> windows_clash b' x'" if "x' \<in> set bs'" for x'
  proof -
    from Cons.hyps(2) that have "\<exists>x \<in> set bs. window_shrinks x x'" by (induction rule: list_all2_induct) auto
    then obtain x where "x \<in> set bs" "window_shrinks x x'" by blast
    then show ?thesis using Cons.hyps(1) Cons.prems window_shrinks_clash by (auto simp: list_all_iff)
  qed
  then show ?case using Cons by (simp add: list_all_iff)
qed simp

text \<open>The constraint reads only the windows of the rows.\<close>

definition booking_window :: "booking \<Rightarrow> bool \<times> ident \<times> time \<times> time" where
  "booking_window b = (holds_car b, b_carId b, b_startDate b, b_endDate b)"

lemma windows_clash_cong:
  "booking_window x = booking_window x' \<Longrightarrow> booking_window y = booking_window y' \<Longrightarrow> windows_clash x y = windows_clash x' y'"
  by (simp add: booking_window_def windows_clash_def)

lemma windows_disjoint_cong:
  assumes "map booking_window bs = map booking_window bs'"
  shows "windows_disjoint bs = windows_disjoint bs'"
proof -
  have "list_all2 (\<lambda>x y. booking_window x = booking_window y) bs bs'"
    using assms by (simp add: list_all2_conv_all_nth list_eq_iff_nth_eq)
  then show ?thesis
  proof (induction rule: list_all2_induct)
    case (Cons b bs b' cs)
    have "list_all2 (\<lambda>x y. windows_clash b x = windows_clash b' y) bs cs"
      using Cons.hyps(2) by (rule list_all2_mono) (rule windows_clash_cong [OF Cons.hyps(1)])
    then have "list_all (\<lambda>x. \<not> windows_clash b x) bs = list_all (\<lambda>x. \<not> windows_clash b' x) cs"
      by (induction rule: list_all2_induct) auto
    then show ?case using Cons.IH by simp
  qed simp
qed

end
