(* ===== verification/BookingPayments.thy ===== *)
theory BookingPayments
  imports Referrals Flutterwave BookingWindows
begin

text \<open>
  How a booking or an extension gets paid (modules payment and booking): opening a payment session,
  the verified charge that records a payment and confirms what it paid for, the reconciliation of
  payments whose confirmation was lost, and the expiry of unpaid reservations.
\<close>

section \<open>What a call runs with\<close>

text \<open>
  The clock, the notification settings, the identifier a new payment row gets for its reference,
  the provider's two verification endpoints, and whether the flight alert queue and the event
  emitter accept what is handed to them.
\<close>

record charge_env =
  ce_now :: time
  ce_config :: notif_config
  ce_paymentId :: "string \<Rightarrow> ident"
  ce_verify :: "string \<Rightarrow> verification fw_response http_result"
  ce_findByReference :: "string \<Rightarrow> verification fw_response http_result"
  ce_flightQueueUp :: bool
  ce_emitterReady :: bool

datatype charge_error = ChargeProvider flutterwave_error | ChargeUniqueViolation | ChargeRecordMissing | ChargeWindowTaken

definition booking_payment_session_duration :: time where
  "booking_payment_session_duration = minutes_ms 10"

definition money_tolerance :: rat where
  "money_tolerance = 1 / 100"

section \<open>Confirming a booking\<close>

definition update_car_status_to_booked :: "ident \<Rightarrow> world \<Rightarrow> world" where
  "update_car_status_to_booked carId w =
     w\<lparr>cars := snd (update_many (\<lambda>c. c_id c = carId) (\<lambda>c. c\<lparr>c_status := BOOKED\<rparr>) (cars w))\<rparr>"

definition queue_paid_booking_flight_alert :: "charge_env \<Rightarrow> booking \<Rightarrow> world \<Rightarrow> world" where
  "queue_paid_booking_flight_alert env b w =
     (if b_type b \<noteq> AIRPORT_PICKUP \<or> \<not> truthy (b_flightId b) then w
      else case find_row (\<lambda>f. Some (fl_id f) = b_flightId b) (flights w) of
        None \<Rightarrow> w
      | Some f \<Rightarrow>
          (case fl_scheduledDeparture f of
             None \<Rightarrow> w
           | Some departure \<Rightarrow>
               (if \<not> ce_flightQueueUp env then w
                else w\<lparr>flightAlertJobs := snd (create_skip fj_jobId
                   [\<lparr>fj_jobId = ''flight-alert-'' @ fl_id f, fj_flightId = fl_id f,
                     fj_flightNumber = fl_flightNumber f, fj_departureTime = departure\<rparr>] (flightAlertJobs w))\<rparr>)))"

definition earliest_leg_start :: "leg list \<Rightarrow> time option" where
  "earliest_leg_start ls =
     foldl (\<lambda>earliest l. case earliest of None \<Rightarrow> Some (l_legStartTime l)
              | Some t \<Rightarrow> if l_legStartTime l < t then Some (l_legStartTime l) else Some t) None ls"

definition emit_booking_confirmed_event :: "charge_env \<Rightarrow> booking \<Rightarrow> world \<Rightarrow> world" where
  "emit_booking_confirmed_event env b w =
     (if b_type b \<noteq> AIRPORT_PICKUP then w
      else case earliest_leg_start (filter (\<lambda>l. l_bookingId l = b_id b) (legs w)) of
        None \<Rightarrow> w
      | Some activationAt \<Rightarrow>
          (if ce_emitterReady env then w\<lparr>activationEvents := activationEvents w @ [(b_id b, activationAt)]\<rparr> else w))"

text \<open>
  The transaction: PENDING becomes CONFIRMED and PAID, a reserved referral discount becomes
  applied, and the confirmation notifications are written.  None: nothing was confirmed.
\<close>

definition apply_reserved_discount :: "time \<Rightarrow> booking \<Rightarrow> world \<Rightarrow> (charge_error + booking) \<times> world" where
  "apply_reserved_discount now b w =
     (if b_referralStatus b = REF_RESERVED \<and> truthy (b_userId b) \<and> truthy (b_referralReferrerUserId b)
      then if find_row (\<lambda>u. u_id u = the (b_userId b)) (users w) = None then (Inl ChargeRecordMissing, w)
           else (Inr (b\<lparr>b_referralStatus := REF_APPLIED\<rparr>),
                 w\<lparr>users := snd (update_many (\<lambda>u. u_id u = the (b_userId b)) (\<lambda>u. u\<lparr>u_referralDiscountUsed := True\<rparr>) (users w)),
                   bookings := snd (update_many (\<lambda>x. b_id x = b_id b)
                     (\<lambda>x. x\<lparr>b_referralStatus := REF_APPLIED, b_updatedAt := now\<rparr>) (bookings w))\<rparr>)
      else (Inr b, w))"

definition confirm_booking_transaction ::
  "charge_env \<Rightarrow> ident \<Rightarrow> world \<Rightarrow> (charge_error + booking option) \<times> world" where
  "confirm_booking_transaction env bookingId w =
     (case find_row (\<lambda>b. b_id b = bookingId) (bookings w) of
        None \<Rightarrow> (Inr None, w)
      | Some b0 \<Rightarrow>
          (if find_row (\<lambda>c. c_id c = b_carId b0) (cars w) = None \<or> b_status b0 \<noteq> B_PENDING then (Inr None, w)
           else
             let (n, t) = update_many (\<lambda>b. b_id b = bookingId \<and> b_status b = B_PENDING)
                   (\<lambda>b. b\<lparr>b_status := B_CONFIRMED, b_paymentStatus := PAID, b_updatedAt := ce_now env\<rparr>) (bookings w);
                 w1 = w\<lparr>bookings := t\<rparr>
             in if n = 0 then (Inr None, w)
                else case find_row (\<lambda>b. b_id b = bookingId) t of
                  None \<Rightarrow> (Inr None, w1)
                | Some b \<Rightarrow>
                    (case apply_reserved_discount (ce_now env) b w1 of
                       (Inl e, _) \<Rightarrow> (Inl e, w)
                     | (Inr confirmed, w2) \<Rightarrow>
                         (case view_booking w1 b of
                            None \<Rightarrow> (Inl ChargeRecordMissing, w)
                          | Some v \<Rightarrow>
                              (Inr (Some confirmed),
                               snd (create_notifications (ce_now env) NE_BOOKING_LIFECYCLE
                                 (booking_confirmed_events (ce_config env) (ce_now env) (v\<lparr>bv_booking := confirmed\<rparr>)) w2))))))"

definition confirm_booking_from_payment ::
  "charge_env \<Rightarrow> payment \<Rightarrow> world \<Rightarrow> (charge_error + bool) \<times> world" where
  "confirm_booking_from_payment env p w =
     (if \<not> truthy (p_bookingId p) then (Inr False, w)
      else case confirm_booking_transaction env (the (p_bookingId p)) w of
        (Inl e, w') \<Rightarrow> (Inl e, w')
      | (Inr None, w') \<Rightarrow> (Inr False, w')
      | (Inr (Some b), w') \<Rightarrow>
          (Inr True, emit_booking_confirmed_event env b
             (queue_paid_booking_flight_alert env b (update_car_status_to_booked (b_carId b) w'))))"

section \<open>Confirming an extension\<close>

text \<open>
  The leg of an extension and the booking of a leg are required relations: a row without them
  does not exist, and the call fails as the client does on an inconsistent result.  Moving the end
  of the booking is refused by the constraint on the windows of a car where another booking follows.
\<close>

definition extend_booking_window :: "time \<Rightarrow> extension \<Rightarrow> leg \<Rightarrow> world \<Rightarrow> world" where
  "extend_booking_window now e l w =
     w\<lparr>legs := snd (update_many (\<lambda>x. l_id x = e_bookingLegId e \<and> l_legEndTime x < e_extensionEndTime e)
                     (\<lambda>x. x\<lparr>l_legEndTime := e_extensionEndTime e\<rparr>) (legs w)),
       bookings := snd (update_many (\<lambda>b. b_id b = l_bookingId l \<and> b_endDate b < e_extensionEndTime e)
                     (\<lambda>b. b\<lparr>b_endDate := e_extensionEndTime e, b_updatedAt := now\<rparr>) (bookings w))\<rparr>"

definition confirm_extension_from_payment ::
  "charge_env \<Rightarrow> payment \<Rightarrow> world \<Rightarrow> (charge_error + bool) \<times> world" where
  "confirm_extension_from_payment env p w =
     (if \<not> truthy (p_extensionId p) then (Inr False, w)
      else
        let (n, t) = update_many (\<lambda>e. e_id e = the (p_extensionId p) \<and> e_status e = ''PENDING'')
              (\<lambda>e. e\<lparr>e_paymentId := Some (p_id p), e_paymentStatus := PAID, e_status := ''ACTIVE''\<rparr>) (extensions w);
            w1 = w\<lparr>extensions := t\<rparr>
        in case find_row (\<lambda>e. e_id e = the (p_extensionId p)) t of
             None \<Rightarrow> (Inr False, w1)
           | Some e \<Rightarrow>
               (if n = 0 \<and> e_status e \<noteq> ''ACTIVE'' then (Inr False, w1)
                else case find_row (\<lambda>l. l_id l = e_bookingLegId e) (legs w) of
                  None \<Rightarrow> (Inl ChargeRecordMissing, w)
                | Some l \<Rightarrow>
                    (case find_row (\<lambda>b. b_id b = l_bookingId l) (bookings w) of
                       None \<Rightarrow> (Inl ChargeRecordMissing, w)
                     | Some b \<Rightarrow>
                         (case view_booking w b of
                            None \<Rightarrow> (Inl ChargeRecordMissing, w)
                          | Some v \<Rightarrow>
                              (let b' = (if b_endDate b < e_extensionEndTime e then b\<lparr>b_endDate := e_extensionEndTime e\<rparr> else b);
                                   w2 = extend_booking_window (ce_now env) e l w1
                               in if \<not> windows_disjoint (bookings w2) then (Inl ChargeWindowTaken, w)
                                  else (Inr True,
                                    snd (create_notifications (ce_now env) NE_BOOKING_LIFECYCLE
                                      (booking_extension_confirmed_events (ce_config env) (v\<lparr>bv_booking := b'\<rparr>) l e) w2)))))))"

section \<open>A verified charge\<close>

definition get_matching_verification_data ::
  "verification fw_response \<Rightarrow> string \<Rightarrow> rat option \<Rightarrow> verification option" where
  "get_matching_verification_data verification txRef transactionId =
     (if fr_status verification \<noteq> ''success'' then None
      else case fr_data verification of
        None \<Rightarrow> None
      | Some d \<Rightarrow> if vf_tx_ref d \<noteq> txRef then None
                  else if Some (of_nat (vf_id d)) \<noteq> transactionId then None else Some d)"

definition validate_verification :: "verification fw_response \<Rightarrow> charge_data \<Rightarrow> verification option" where
  "validate_verification verification data =
     (case get_matching_verification_data verification (cg_tx_ref data) (Some (of_nat (cg_id data))) of
        None \<Rightarrow> None
      | Some d \<Rightarrow> if vf_charged_amount d \<noteq> cg_charged_amount data then None
                  else if js_upper (vf_currency d) \<noteq> js_upper (cg_currency data) then None else Some d)"

definition matches_expected_amount_and_currency :: "payment \<Rightarrow> verification \<Rightarrow> bool" where
  "matches_expected_amount_and_currency p d =
     (let charged = (case p_amountCharged p of Some a \<Rightarrow> a | None \<Rightarrow> vf_charged_amount d);
          persistedCurrency = js_trim (p_currency p);
          expectedCurrency = js_upper (js_trim (if persistedCurrency = [] then vf_currency d else persistedCurrency));
          verifiedCurrency = js_upper (js_trim (vf_currency d))
      in if money_tolerance < \<bar>charged - p_amountExpected p\<bar> then False
         else expectedCurrency \<noteq> [] \<and> expectedCurrency = verifiedCurrency)"

definition charge_payload :: "charge_data \<Rightarrow> (string \<times> json_value) list" where
  "charge_payload data =
     [(''id'', JNum (of_nat (cg_id data))), (''tx_ref'', JStr (cg_tx_ref data)), (''flw_ref'', JStr (cg_flw_ref data)),
      (''amount'', JNum (cg_amount data)), (''charged_amount'', JNum (cg_charged_amount data)),
      (''currency'', JStr (cg_currency data)), (''status'', JStr (cg_status data)),
      (''payment_type'', JStr (cg_payment_type data)), (''created_at'', JStr (cg_created_at data))]"

text \<open>The row the upsert creates; the update of the upsert is empty.\<close>

definition charge_payment_row ::
  "charge_env \<Rightarrow> charge_data \<Rightarrow> attempt_status \<Rightarrow> ident option \<Rightarrow> ident option \<Rightarrow> rat \<Rightarrow> payment" where
  "charge_payment_row env data status bookingId extensionId amountExpected =
     \<lparr>p_id = ce_paymentId env (cg_tx_ref data), p_bookingId = bookingId, p_extensionId = extensionId,
      p_txRef = cg_tx_ref data, p_flutterwaveTransactionId = Some (nat_digits (cg_id data)),
      p_amountExpected = amountExpected, p_amountCharged = Some (cg_charged_amount data),
      p_currency = cg_currency data, p_status = status, p_paymentMethod = Some (cg_payment_type data),
      p_flutterwaveReference = Some (cg_flw_ref data), p_confirmedAt = Some (ce_now env),
      p_refundIdempotencyKey = None, p_refundProviderId = None, p_refundProviderStatus = None,
      p_refundRequestedAmount = None, p_refundRequestedAt = None, p_refundLastCheckedAt = None,
      p_refundReconciliationAttempts = 0, p_refundVerificationFailures = 0, p_refundManualReviewNotifiedAt = None,
      p_webhookPayload = charge_payload data\<rparr>"

definition upsert_charge_payment :: "payment \<Rightarrow> world \<Rightarrow> (charge_error + payment) \<times> world" where
  "upsert_charge_payment row w =
     (case find_row (\<lambda>p. p_txRef p = p_txRef row) (payments w) of
        Some p \<Rightarrow> (Inr p, w)
      | None \<Rightarrow>
          (if p_flutterwaveTransactionId row \<in> p_flutterwaveTransactionId ` set (payments w)
            \<or> p_flutterwaveReference row \<in> p_flutterwaveReference ` set (payments w)
           then (Inl ChargeUniqueViolation, w)
           else (Inr row, w\<lparr>payments := payments w @ [row]\<rparr>)))"

definition find_or_create_payment ::
  "charge_env \<Rightarrow> charge_data \<Rightarrow> attempt_status \<Rightarrow> world \<Rightarrow> (charge_error + payment option) \<times> world" where
  "find_or_create_payment env data status w =
     (let txRef = cg_tx_ref data;
          expected = (\<lambda>total. if total = 0 then cg_amount data else total);
          put = (\<lambda>bookingId extensionId amountExpected.
            case upsert_charge_payment (charge_payment_row env data status bookingId extensionId amountExpected) w of
              (Inl e, w') \<Rightarrow> (Inl e, w') | (Inr p, w') \<Rightarrow> (Inr (Some p), w'))
      in case (find_row (\<lambda>b. b_paymentIntent b = Some txRef) (bookings w),
               find_row (\<lambda>e. e_paymentIntent e = Some txRef) (extensions w)) of
           (Some b, Some e) \<Rightarrow> (Inr None, w)
         | (Some b, None) \<Rightarrow> put (Some (b_id b)) None (expected (b_totalAmount b))
         | (None, Some e) \<Rightarrow> put None (Some (e_id e)) (expected (e_totalAmount e))
         | (None, None) \<Rightarrow> (Inr None, w))"

definition confirm_charge_payment ::
  "charge_env \<Rightarrow> verification \<Rightarrow> payment \<Rightarrow> world \<Rightarrow> (charge_error + unit) \<times> world" where
  "confirm_charge_payment env d p w =
     (let done = (\<lambda>r. case r of (Inl e, w') \<Rightarrow> (Inl e, w') | (Inr (ok :: bool), w') \<Rightarrow> (Inr (), w')) in
      if p_status p \<noteq> PA_SUCCESSFUL
      then (Inr (), if truthy (p_bookingId p) then snd (release_referral_reservation (ce_now env) (the (p_bookingId p)) w) else w)
      else if \<not> matches_expected_amount_and_currency p d then (Inr (), w)
      else if (p_bookingId p \<noteq> None) = (p_extensionId p \<noteq> None) then (Inr (), w)
      else if p_bookingId p \<noteq> None then done (confirm_booking_from_payment env p w)
      else done (confirm_extension_from_payment env p w))"

definition finalize_verified_charge ::
  "charge_env \<Rightarrow> charge_data \<Rightarrow> verification \<Rightarrow> world \<Rightarrow> (charge_error + unit) \<times> world" where
  "finalize_verified_charge env data d w =
     (let normalizedStatus = js_lower (js_trim (vf_status d)) in
      if normalizedStatus \<notin> {''successful'', ''failed'', ''cancelled''} then (Inr (), w)
      else case find_or_create_payment env data
                  (if normalizedStatus = ''successful'' then PA_SUCCESSFUL else PA_FAILED) w of
             (Inl e, w') \<Rightarrow> (Inl e, w')
           | (Inr None, w') \<Rightarrow> (Inr (), w')
           | (Inr (Some p), w') \<Rightarrow> confirm_charge_payment env d p w')"

definition process_verified_charge :: "charge_env \<Rightarrow> charge_data \<Rightarrow> world \<Rightarrow> (charge_error + unit) \<times> world" where
  "process_verified_charge env data w =
     (case verify_transaction (ce_verify env) (nat_digits (cg_id data)) of
        Inl e \<Rightarrow> (Inl (ChargeProvider e), w)
      | Inr verification \<Rightarrow>
          (case validate_verification verification data of
             None \<Rightarrow> (Inr (), w)
           | Some d \<Rightarrow> finalize_verified_charge env data d w))"

text \<open>The handler of the charge.completed webhook logs an error and throws it again.\<close>

definition handle_charge_completed :: "charge_env \<Rightarrow> charge_data \<Rightarrow> world \<Rightarrow> (charge_error + unit) \<times> world" where
  "handle_charge_completed env data w =
     (case process_verified_charge env data w of (Inl e, w') \<Rightarrow> (Inl e, w') | (Inr _, w') \<Rightarrow> (Inr (), w'))"

definition charge_data_of :: "verification \<Rightarrow> charge_data" where
  "charge_data_of d =
     \<lparr>cg_id = vf_id d, cg_tx_ref = vf_tx_ref d, cg_flw_ref = vf_flw_ref d, cg_amount = vf_amount d,
      cg_charged_amount = vf_charged_amount d, cg_currency = vf_currency d, cg_status = vf_status d,
      cg_payment_type = (case vf_payment_type d of Some t \<Rightarrow> t | None \<Rightarrow> ''unknown''), cg_created_at = vf_created_at d\<rparr>"

definition confirm_by_transaction_id ::
  "charge_env \<Rightarrow> string \<Rightarrow> string \<Rightarrow> world \<Rightarrow> (charge_error + unit) \<times> world" where
  "confirm_by_transaction_id env txRef transactionId w =
     (case verify_transaction (ce_verify env) transactionId of
        Inl e \<Rightarrow> (Inl (ChargeProvider e), w)
      | Inr verification \<Rightarrow>
          (case get_matching_verification_data verification txRef (js_number transactionId) of
             None \<Rightarrow> (Inr (), w)
           | Some d \<Rightarrow> finalize_verified_charge env (charge_data_of d) d w))"

section \<open>Reconciling successful payments\<close>

definition stranded_payment :: "time \<Rightarrow> world \<Rightarrow> payment \<Rightarrow> bool" where
  "stranded_payment confirmedBefore w p \<longleftrightarrow>
     p_status p = PA_SUCCESSFUL
   \<and> (case p_confirmedAt p of None \<Rightarrow> False | Some t \<Rightarrow> t \<le> confirmedBefore)
   \<and> ((p_bookingId p \<noteq> None \<and> p_extensionId p = None
        \<and> find_row (\<lambda>b. Some (b_id b) = p_bookingId p \<and> b_status b = B_PENDING \<and> b_paymentStatus b = UNPAID
             \<and> b_deletedAt b = None) (bookings w) \<noteq> None)
      \<or> (p_bookingId p = None \<and> p_extensionId p \<noteq> None
        \<and> find_row (\<lambda>e. Some (e_id e) = p_extensionId p \<and> e_status e = ''PENDING'' \<and> e_paymentStatus e = UNPAID
             \<and> find_row (\<lambda>l. l_id l = e_bookingLegId e
                  \<and> find_row (\<lambda>b. b_id b = l_bookingId l \<and> b_deletedAt b = None) (bookings w) \<noteq> None) (legs w) \<noteq> None)
             (extensions w) \<noteq> None))"

definition is_eligible_for_confirmation :: "payment \<Rightarrow> bool" where
  "is_eligible_for_confirmation p =
     (case p_amountCharged p of
        None \<Rightarrow> False
      | Some a \<Rightarrow> \<bar>a - p_amountExpected p\<bar> \<le> money_tolerance \<and> js_upper (js_trim (p_currency p)) = ''NGN'')"

definition reconcile_payment :: "charge_env \<Rightarrow> payment \<Rightarrow> world \<Rightarrow> bool \<times> world" where
  "reconcile_payment env p w =
     (if \<not> is_eligible_for_confirmation p then (False, w)
      else case (if truthy (p_bookingId p) then confirm_booking_from_payment env p w else confirm_extension_from_payment env p w) of
        (Inl e, w') \<Rightarrow> (False, w')
      | (Inr ok, w') \<Rightarrow> (ok, w'))"

definition reconcile_pending_payments :: "charge_env \<Rightarrow> world \<Rightarrow> nat \<times> world" where
  "reconcile_pending_payments env w =
     fold (\<lambda>p (n, w). case reconcile_payment env p w of (ok, w') \<Rightarrow> (if ok then Suc n else n, w'))
       (find_many (stranded_payment (ce_now env - minutes_ms 5) w) (\<lambda>p. the (p_confirmedAt p)) 50 (payments w)) (0, w)"

section \<open>Expired reservations\<close>

definition session_expired :: "time \<Rightarrow> booking \<Rightarrow> bool" where
  "session_expired now b \<longleftrightarrow>
     (case b_paymentSessionExpiresAt b of
        Some t \<Rightarrow> t \<le> now
      | None \<Rightarrow> b_createdAt b \<le> now - booking_payment_session_duration)"

definition cancel_expired_reservation :: "time \<Rightarrow> ident \<Rightarrow> world \<Rightarrow> bool \<times> world" where
  "cancel_expired_reservation now bookingId w =
     (case find_row (\<lambda>b. b_id b = bookingId) (bookings w) of
        None \<Rightarrow> (False, w)
      | Some b \<Rightarrow>
          (if find_row (\<lambda>c. c_id c = b_carId b) (cars w) = None then (False, w)
           else if b_status b \<noteq> B_PENDING \<or> b_paymentStatus b \<noteq> UNPAID \<or> \<not> session_expired now b then (False, w)
           else if 0 < length (filter (\<lambda>p. p_bookingId p = Some bookingId \<and> p_status p = PA_SUCCESSFUL) (payments w))
           then (False, w)
           else
             let w1 = snd (release_referral_reservation now bookingId w);
                 (n, t) = update_many
                   (\<lambda>b. b_id b = bookingId \<and> b_status b = B_PENDING \<and> b_paymentStatus b = UNPAID \<and> session_expired now b)
                   (\<lambda>b. b\<lparr>b_status := B_CANCELLED, b_cancelledAt := Some now,
                          b_cancellationReason := Some ''Payment session expired'', b_referralCreditsReserved := 0,
                          b_referralCreditsUsed := 0, b_updatedAt := now\<rparr>) (bookings w1)
             in (n = 1, w1\<lparr>bookings := t\<rparr>)))"

text \<open>The first reference at which the provider knows a transaction.\<close>

fun find_transaction ::
  "(string \<Rightarrow> verification fw_response http_result) \<Rightarrow> string list \<Rightarrow> flutterwave_error + verification option" where
  "find_transaction get [] = Inr None"
| "find_transaction get (r # rs) =
     (case find_transaction_by_reference get r of
        Inl e \<Rightarrow> Inl e | Inr (Some d) \<Rightarrow> Inr (Some d) | Inr None \<Rightarrow> find_transaction get rs)"

definition payment_references :: "booking \<Rightarrow> string list" where
  "payment_references b =
     (if truthy (b_paymentIntent b) then [the (b_paymentIntent b)] else [b_id b, ''booking_'' @ b_id b])"

definition reconcile_reservation :: "charge_env \<Rightarrow> booking \<Rightarrow> world \<Rightarrow> bool \<times> world" where
  "reconcile_reservation env b w =
     (case find_transaction (ce_findByReference env) (payment_references b) of
        Inl e \<Rightarrow> (False, w)
      | Inr None \<Rightarrow> cancel_expired_reservation (ce_now env) (b_id b) w
      | Inr (Some d) \<Rightarrow>
          (if js_lower (js_trim (vf_status d)) = ''successful''
           then case handle_charge_completed env (charge_data_of d) w of (Inl e, w') \<Rightarrow> (False, w') | (Inr _, w') \<Rightarrow> (True, w')
           else if js_lower (js_trim (vf_status d)) \<in> {''cancelled'', ''failed''}
           then cancel_expired_reservation (ce_now env) (b_id b) w
           else (False, w)))"

definition expired_reservation :: "time \<Rightarrow> booking \<Rightarrow> bool" where
  "expired_reservation now b \<longleftrightarrow> b_status b = B_PENDING \<and> b_paymentStatus b = UNPAID \<and> session_expired now b"

definition reconcile_expired_reservation :: "charge_env \<Rightarrow> ident \<Rightarrow> world \<Rightarrow> bool \<times> world" where
  "reconcile_expired_reservation env bookingId w =
     (case find_row (\<lambda>b. b_id b = bookingId \<and> expired_reservation (ce_now env) b) (bookings w) of
        None \<Rightarrow> (False, w)
      | Some b \<Rightarrow> reconcile_reservation env b w)"

text \<open>Ascending by the end of the session, reservations without one last, at most fifty.\<close>

definition expired_reservation_batch :: "time \<Rightarrow> booking list \<Rightarrow> booking list" where
  "expired_reservation_batch now bs =
     (let expired = filter (expired_reservation now) bs in
      take 50 (sort_key (\<lambda>b. the (b_paymentSessionExpiresAt b)) (filter (\<lambda>b. b_paymentSessionExpiresAt b \<noteq> None) expired)
               @ filter (\<lambda>b. b_paymentSessionExpiresAt b = None) expired))"

definition reconcile_expired_reservation_batch :: "charge_env \<Rightarrow> world \<Rightarrow> nat \<times> world" where
  "reconcile_expired_reservation_batch env w =
     fold (\<lambda>b (n, w). case reconcile_reservation env b w of (ok, w') \<Rightarrow> (if ok then Suc n else n, w'))
       (expired_reservation_batch (ce_now env) (bookings w)) (0, w)"

section \<open>Opening a payment session\<close>

datatype payable_type = PayBooking | PayExtension

datatype payment_init_error =
    PaymentBookingNotFound ident
  | PaymentExtensionNotFound ident
  | PaymentEntityAccessForbidden payable_type ident
  | PaymentEntityNotPayable payable_type ident string
  | PaymentEntityAlreadyPaid payable_type ident
  | PaymentAmountMismatch rat rat
  | PaymentProviderFailed flutterwave_error

record initialize_payment_dto =
  it_type :: payable_type
  it_entityId :: ident
  it_amount :: rat
  it_callbackUrl :: string

record user_info =
  ui_id :: ident
  ui_email :: string
  ui_name :: "string option"

fun booking_status_text :: "booking_status \<Rightarrow> string" where
  "booking_status_text B_PENDING = ''pending''" | "booking_status_text B_CONFIRMED = ''confirmed''"
| "booking_status_text B_ACTIVE = ''active''" | "booking_status_text B_COMPLETED = ''completed''"
| "booking_status_text B_CANCELLED = ''cancelled''" | "booking_status_text B_REJECTED = ''rejected''"

fun payment_status_text :: "payment_status \<Rightarrow> string" where
  "payment_status_text UNPAID = ''unpaid''" | "payment_status_text PAID = ''paid''"
| "payment_status_text REFUNDED = ''refunded''" | "payment_status_text PARTIALLY_REFUNDED = ''partially_refunded''"
| "payment_status_text REFUND_PROCESSING = ''refund_processing''" | "payment_status_text REFUND_FAILED = ''refund_failed''"

definition validate_booking_for_payment :: "time \<Rightarrow> ident \<Rightarrow> ident \<Rightarrow> world \<Rightarrow> payment_init_error + rat" where
  "validate_booking_for_payment now entityId userId w =
     (case find_row (\<lambda>b. b_id b = entityId) (bookings w) of
        None \<Rightarrow> Inl (PaymentBookingNotFound entityId)
      | Some b \<Rightarrow>
          if b_userId b \<noteq> Some userId then Inl (PaymentEntityAccessForbidden PayBooking entityId)
          else if b_status b \<in> {B_CANCELLED, B_REJECTED}
          then Inl (PaymentEntityNotPayable PayBooking entityId (''status is '' @ booking_status_text (b_status b)))
          else if b_paymentStatus b = PAID then Inl (PaymentEntityAlreadyPaid PayBooking entityId)
          else if b_paymentStatus b \<noteq> UNPAID
          then Inl (PaymentEntityNotPayable PayBooking entityId (''payment status is '' @ payment_status_text (b_paymentStatus b)))
          else if (case b_paymentSessionExpiresAt b of None \<Rightarrow> False | Some t \<Rightarrow> t \<le> now)
          then Inl (PaymentEntityNotPayable PayBooking entityId ''payment session has expired'')
          else if truthy (b_paymentIntent b)
          then Inl (PaymentEntityNotPayable PayBooking entityId ''payment session is already initialized'')
          else Inr (b_totalAmount b))"

definition validate_extension_for_payment :: "ident \<Rightarrow> ident \<Rightarrow> world \<Rightarrow> payment_init_error + rat" where
  "validate_extension_for_payment entityId userId w =
     (case find_row (\<lambda>e. e_id e = entityId) (extensions w) of
        None \<Rightarrow> Inl (PaymentExtensionNotFound entityId)
      | Some e \<Rightarrow>
          (case Option.bind (find_row (\<lambda>l. l_id l = e_bookingLegId e) (legs w))
                  (\<lambda>l. find_row (\<lambda>b. b_id b = l_bookingId l) (bookings w)) of
             None \<Rightarrow> Inl (PaymentExtensionNotFound entityId)
           | Some b \<Rightarrow>
               if b_userId b \<noteq> Some userId then Inl (PaymentEntityAccessForbidden PayExtension entityId)
               else if b_status b \<in> {B_CANCELLED, B_REJECTED}
               then Inl (PaymentEntityNotPayable PayExtension entityId (''parent booking is '' @ booking_status_text (b_status b)))
               else if e_status e \<in> {''CANCELLED'', ''REJECTED''}
               then Inl (PaymentEntityNotPayable PayExtension entityId (''status is '' @ js_lower (e_status e)))
               else if e_paymentStatus e = PAID then Inl (PaymentEntityAlreadyPaid PayExtension entityId)
               else if e_paymentStatus e \<noteq> UNPAID
               then Inl (PaymentEntityNotPayable PayExtension entityId (''payment status is '' @ payment_status_text (e_paymentStatus e)))
               else Inr (e_totalAmount e)))"

definition claimable_session :: "ident \<Rightarrow> booking \<Rightarrow> bool" where
  "claimable_session bookingId b \<longleftrightarrow>
     b_id b = bookingId \<and> b_status b \<notin> {B_CANCELLED, B_REJECTED} \<and> b_paymentStatus b = UNPAID
   \<and> b_paymentIntent b = None \<and> b_paymentSessionExpiresAt b = None"

definition claim_booking_payment_session ::
  "time \<Rightarrow> ident \<Rightarrow> string \<Rightarrow> world \<Rightarrow> (payment_init_error + unit) \<times> world" where
  "claim_booking_payment_session now bookingId paymentReference w =
     (let (n, t) = update_many (claimable_session bookingId)
            (\<lambda>b. b\<lparr>b_paymentIntent := Some paymentReference,
                   b_paymentSessionExpiresAt := Some (now + booking_payment_session_duration), b_updatedAt := now\<rparr>) (bookings w)
      in if n = 0 then (Inl (PaymentEntityNotPayable PayBooking bookingId ''payment session is already initialized''), w)
         else (Inr (), w\<lparr>bookings := t\<rparr>))"

definition payment_reference_of :: "initialize_payment_dto \<Rightarrow> string" where
  "payment_reference_of dto =
     (case it_type dto of PayBooking \<Rightarrow> ''booking'' | PayExtension \<Rightarrow> ''extension'') @ ''_'' @ it_entityId dto"

definition intent_options_of :: "initialize_payment_dto \<Rightarrow> user_info \<Rightarrow> rat \<Rightarrow> intent_options" where
  "intent_options_of dto u serverAmount =
     \<lparr>io_amount = serverAmount, io_customerEmail = ui_email u,
      io_customerName = (if truthy (ui_name u) then ui_name u else None), io_customerPhone = None,
      io_metadata = [(''type'', case it_type dto of PayBooking \<Rightarrow> ''booking'' | PayExtension \<Rightarrow> ''extension''),
                     (''entityId'', it_entityId dto), (''userId'', ui_id u)],
      io_idempotencyKey = Some (payment_reference_of dto), io_callbackUrl = it_callbackUrl dto,
      io_transactionType = (case it_type dto of PayBooking \<Rightarrow> Booking_creation | PayExtension \<Rightarrow> Booking_extension),
      io_sessionDurationMinutes = (case it_type dto of PayBooking \<Rightarrow> Some 10 | PayExtension \<Rightarrow> None)\<rparr>"

definition initialize_payment ::
  "time \<Rightarrow> (intent_payload \<Rightarrow> string fw_response http_result) \<Rightarrow> string \<Rightarrow> initialize_payment_dto \<Rightarrow> user_info \<Rightarrow> world \<Rightarrow>
   (payment_init_error + (string \<times> string)) \<times> world" where
  "initialize_payment now post uuid dto u w =
     (case (case it_type dto of
              PayBooking \<Rightarrow> validate_booking_for_payment now (it_entityId dto) (ui_id u) w
            | PayExtension \<Rightarrow> validate_extension_for_payment (it_entityId dto) (ui_id u) w) of
        Inl e \<Rightarrow> (Inl e, w)
      | Inr serverAmount \<Rightarrow>
          if it_amount dto \<noteq> serverAmount then (Inl (PaymentAmountMismatch serverAmount (it_amount dto)), w)
          else case (if it_type dto = PayBooking
                     then claim_booking_payment_session now (it_entityId dto) (payment_reference_of dto) w else (Inr (), w)) of
            (Inl e, w') \<Rightarrow> (Inl e, w')
          | (Inr _, w') \<Rightarrow>
              (case create_payment_intent post uuid (intent_options_of dto u serverAmount) of
                 Inl e \<Rightarrow> (Inl (PaymentProviderFailed e), w')
               | Inr link \<Rightarrow> (Inr link, w')))"

section \<open>The reservation machine\<close>

text \<open>What payment does to a booking: a pending one is paid and confirmed, or its reservation expires.\<close>

inductive pay_step :: "booking_status \<times> payment_status \<Rightarrow> booking_status \<times> payment_status \<Rightarrow> bool" where
  ps_paid: "pay_step (B_PENDING, ps) (B_CONFIRMED, PAID)"
| ps_expired: "pay_step (B_PENDING, UNPAID) (B_CANCELLED, UNPAID)"

inductive_cases pay_stepE: "pay_step s s'"
inductive_simps pay_step_simps [simp]: "pay_step (st, ps) s'"

definition booking_state :: "booking \<Rightarrow> booking_status \<times> payment_status" where
  "booking_state b = (b_status b, b_paymentStatus b)"

definition bookings_refine :: "world \<Rightarrow> world \<Rightarrow> bool" where
  "bookings_refine w w' \<longleftrightarrow>
     list_all2 (\<lambda>b b'. b_id b' = b_id b \<and> pay_step\<^sup>*\<^sup>* (booking_state b) (booking_state b')) (bookings w) (bookings w')"

lemma refine_refl [simp]: "bookings w' = bookings w \<Longrightarrow> bookings_refine w w'"
  by (simp add: bookings_refine_def list.rel_refl)

lemma refine_trans: "bookings_refine w w' \<Longrightarrow> bookings_refine w' w'' \<Longrightarrow> bookings_refine w w''"
  unfolding bookings_refine_def
  by (rule list_all2_trans [where ?bs = "bookings w'"]) (auto intro: rtranclp_trans)

lemma refine_update:
  assumes "bookings w' = snd (update_many P f (bookings w))"
    and "\<And>b. P b \<Longrightarrow> b_id (f b) = b_id b \<and> (booking_state (f b) = booking_state b \<or> pay_step (booking_state b) (booking_state (f b)))"
  shows "bookings_refine w w'"
proof -
  have "b_id (if P b then f b else b) = b_id b \<and> pay_step\<^sup>*\<^sup>* (booking_state b) (booking_state (if P b then f b else b))" for b
    using assms(2) [of b] by (cases "P b") auto
  then show ?thesis by (simp add: bookings_refine_def assms(1) update_many_def list_all2_conv_all_nth)
qed

lemma refine_map:
  assumes "bookings w' = map f (bookings w)"
    and "\<And>b. b \<in> set (bookings w) \<Longrightarrow> b_id (f b) = b_id b \<and> pay_step\<^sup>*\<^sup>* (booking_state b) (booking_state (f b))"
  shows "bookings_refine w w'"
  using assms(2) by (simp add: bookings_refine_def assms(1) list_all2_conv_all_nth)

lemma refine_unique: "bookings_refine w w' \<Longrightarrow> map b_id (bookings w') = map b_id (bookings w)"
  by (auto simp: bookings_refine_def list_all2_conv_all_nth intro: nth_equalityI)

lemma refine_fold:
  assumes "\<And>x w. unique_by b_id (bookings w) \<Longrightarrow> bookings_refine w (snd (f x w))" and "unique_by b_id (bookings w)"
  shows "bookings_refine w (snd (fold (\<lambda>x (n, w). case f x w of (ok, w') \<Rightarrow> (if ok then Suc n else n, w')) xs (k, w)))"
  using assms(2)
proof (induction xs arbitrary: k w)
  case (Cons x xs)
  have step: "bookings_refine w (snd (f x w))" using assms(1) Cons.prems .
  have "unique_by b_id (bookings (snd (f x w)))" using refine_unique [OF step] Cons.prems by simp
  then show ?case using refine_trans [OF step Cons.IH] by (simp add: case_prod_beta)
qed simp

text \<open>What the operations leave alone.\<close>

lemma after_confirm_frame [simp]:
  "bookings (emit_booking_confirmed_event env b w) = bookings w" "payments (emit_booking_confirmed_event env b w) = payments w"
  "extensions (emit_booking_confirmed_event env b w) = extensions w"
  "bookings (queue_paid_booking_flight_alert env b w) = bookings w" "payments (queue_paid_booking_flight_alert env b w) = payments w"
  "extensions (queue_paid_booking_flight_alert env b w) = extensions w"
  "bookings (update_car_status_to_booked c w) = bookings w" "payments (update_car_status_to_booked c w) = payments w"
  "extensions (update_car_status_to_booked c w) = extensions w"
  "cars (emit_booking_confirmed_event env b w) = cars w" "cars (queue_paid_booking_flight_alert env b w) = cars w"
  by (simp_all add: emit_booking_confirmed_event_def queue_paid_booking_flight_alert_def update_car_status_to_booked_def split: option.splits)

lemma reverse_rewards_frame [simp]:
  "bookings (snd (reverse_pending_referral_rewards now i reason w)) = bookings w"
  "payments (snd (reverse_pending_referral_rewards now i reason w)) = payments w"
  "extensions (snd (reverse_pending_referral_rewards now i reason w)) = extensions w"
  "users (snd (reverse_pending_referral_rewards now i reason w)) = users w"
  "cars (snd (reverse_pending_referral_rewards now i reason w)) = cars w"
  by (simp_all add: reverse_pending_referral_rewards_def Let_def)

lemma release_reservation_frame [simp]:
  "payments (snd (release_referral_reservation now i w)) = payments w"
  "extensions (snd (release_referral_reservation now i w)) = extensions w"
  "users (snd (release_referral_reservation now i w)) = users w"
  "cars (snd (release_referral_reservation now i w)) = cars w"
  by (simp_all add: release_referral_reservation_def case_prod_beta Let_def)

lemma release_reservation_bookings:
  "bookings (snd (release_referral_reservation now i w)) =
     snd (update_many (\<lambda>b. b_id b = i \<and> releasable_reservation b)
       (\<lambda>b. b\<lparr>b_referralStatus := REF_REVERSED, b_referralDiscountAmount := 0, b_referralReferrerUserId := None, b_updatedAt := now\<rparr>) (bookings w))"
  using update_many_zero [of "\<lambda>b. b_id b = i \<and> releasable_reservation b" _ "bookings w"]
  by (simp add: release_referral_reservation_def case_prod_beta Let_def)

lemma release_reservation_refine: "bookings_refine w (snd (release_referral_reservation now i w))"
  by (rule refine_update [OF release_reservation_bookings]) (simp add: booking_state_def)

section \<open>What a confirmation does\<close>

text \<open>The row of a booking after its confirmation.\<close>

definition confirmed_row :: "time \<Rightarrow> booking \<Rightarrow> booking" where
  "confirmed_row now b =
     b\<lparr>b_status := B_CONFIRMED, b_paymentStatus := PAID, b_updatedAt := now,
       b_referralStatus := (if b_referralStatus b = REF_RESERVED \<and> truthy (b_userId b) \<and> truthy (b_referralReferrerUserId b)
                            then REF_APPLIED else b_referralStatus b)\<rparr>"

text \<open>When a booking can be confirmed: it waits for payment, its car exists, and so does the user whose discount is applied.\<close>

definition confirmable :: "world \<Rightarrow> booking \<Rightarrow> bool" where
  "confirmable w b \<longleftrightarrow> b_status b = B_PENDING \<and> find_row (\<lambda>c. c_id c = b_carId b) (cars w) \<noteq> None
   \<and> (b_referralStatus b = REF_RESERVED \<and> truthy (b_userId b) \<and> truthy (b_referralReferrerUserId b)
      \<longrightarrow> find_row (\<lambda>u. u_id u = the (b_userId b)) (users w) \<noteq> None)"

lemma confirmed_row_simps [simp]:
  "b_id (confirmed_row now b) = b_id b" "b_status (confirmed_row now b) = B_CONFIRMED"
  "b_paymentStatus (confirmed_row now b) = PAID" "b_paymentIntent (confirmed_row now b) = b_paymentIntent b"
  "b_carId (confirmed_row now b) = b_carId b" "b_type (confirmed_row now b) = b_type b" "b_flightId (confirmed_row now b) = b_flightId b"
  by (simp_all add: confirmed_row_def)

lemma find_row_map_at:
  assumes "unique_by key t" "e \<in> set t" "key e' = key e"
  shows "find_row (\<lambda>r. key r = key e) (map (\<lambda>r. if key r = key e then e' else r) t) = Some e'"
  using assms by (induction t) (auto simp: find_row_def)

lemma confirm_transaction_fails:
  assumes "\<not> (\<exists>b \<in> set (bookings w). b_id b = i \<and> confirmable w b)" and "unique_by b_id (bookings w)"
  shows "snd (confirm_booking_transaction env i w) = w" and "\<And>c. fst (confirm_booking_transaction env i w) \<noteq> Inr (Some c)"
proof -
  have "snd (confirm_booking_transaction env i w) = w \<and> (\<forall>c. fst (confirm_booking_transaction env i w) \<noteq> Inr (Some c))"
  proof (cases "find_row (\<lambda>b. b_id b = i) (bookings w)")
    case None
    then show ?thesis by (simp add: confirm_booking_transaction_def)
  next
    case (Some b)
    then have b: "b \<in> set (bookings w)" "b_id b = i" by (auto dest: find_row_Some)
    show ?thesis
    proof (cases "find_row (\<lambda>c. c_id c = b_carId b) (cars w) = None \<or> b_status b \<noteq> B_PENDING")
      case True
      then show ?thesis by (auto simp: confirm_booking_transaction_def Some)
    next
      case False
      let ?f = "\<lambda>b. b\<lparr>b_status := B_CONFIRMED, b_paymentStatus := PAID, b_updatedAt := ce_now env\<rparr>"
      have um: "update_many (\<lambda>b. b_id b = i \<and> b_status b = B_PENDING) ?f (bookings w) = (1, map (\<lambda>r. if b_id r = i then ?f b else r) (bookings w))"
        using update_many_at [where key = b_id and e = b and P = "\<lambda>b. b_status b = B_PENDING" and f = ?f, OF assms(2) b(1)] False b(2) by simp
      have fr: "find_row (\<lambda>b. b_id b = i) (map (\<lambda>r. if b_id r = i then ?f b else r) (bookings w)) = Some (?f b)"
        using find_row_map_at [OF assms(2) b(1), of "?f b"] b(2) by simp
      from False assms(1) b have "b_referralStatus b = REF_RESERVED \<and> truthy (b_userId b) \<and> truthy (b_referralReferrerUserId b)"
        "find_row (\<lambda>u. u_id u = the (b_userId b)) (users w) = None" by (auto simp: confirmable_def)
      then show ?thesis using False
        by (simp add: confirm_booking_transaction_def Some um fr apply_reserved_discount_def)
    qed
  qed
  then show "snd (confirm_booking_transaction env i w) = w" and "\<And>c. fst (confirm_booking_transaction env i w) \<noteq> Inr (Some c)" by auto
qed

lemma confirm_transaction_works:
  assumes u: "unique_by b_id (bookings w)" and b: "b \<in> set (bookings w)" and c: "confirmable w b"
  obtains v w' where "view_booking (w\<lparr>bookings := bookings w'\<rparr>) (confirmed_row (ce_now env) b) = Some v"
    and "fst (confirm_booking_transaction env (b_id b) w) = Inr (Some (confirmed_row (ce_now env) b))"
    and "bookings w' = map (\<lambda>r. if b_id r = b_id b then confirmed_row (ce_now env) b else r) (bookings w)"
    and "snd (confirm_booking_transaction env (b_id b) w) =
      snd (create_notifications (ce_now env) NE_BOOKING_LIFECYCLE (booking_confirmed_events (ce_config env) (ce_now env) v) w')"
    and "payments w' = payments w" and "extensions w' = extensions w" and "cars w' = cars w" and "notifEvents w' = notifEvents w"
proof -
  let ?now = "ce_now env"
  let ?f = "\<lambda>b. b\<lparr>b_status := B_CONFIRMED, b_paymentStatus := PAID, b_updatedAt := ?now\<rparr>"
  let ?t = "map (\<lambda>r. if b_id r = b_id b then ?f b else r) (bookings w)"
  let ?w1 = "w\<lparr>bookings := ?t\<rparr>"
  let ?c = "confirmed_row ?now b"
  have pend: "b_status b = B_PENDING" using c by (simp add: confirmable_def)
  have fb: "find_row (\<lambda>r. b_id r = b_id b) (bookings w) = Some b" using find_row_unique [OF u b] .
  have um: "update_many (\<lambda>r. b_id r = b_id b \<and> b_status r = B_PENDING) ?f (bookings w) = (1, ?t)"
    using update_many_at [where key = b_id and e = b and P = "\<lambda>b. b_status b = B_PENDING" and f = ?f, OF u b] pend by simp
  have fr: "find_row (\<lambda>r. b_id r = b_id b) ?t = Some (?f b)" using find_row_map_at [OF u b, of "?f b"] by simp
  obtain car where car: "find_row (\<lambda>c. c_id c = b_carId b) (cars w) = Some car" using c by (auto simp: confirmable_def)
  obtain w2 where w2: "apply_reserved_discount ?now (?f b) ?w1 = (Inr ?c, w2)"
      "bookings w2 = map (\<lambda>r. if b_id r = b_id b then ?c else r) (bookings w)"
      "payments w2 = payments w" "extensions w2 = extensions w" "cars w2 = cars w" "notifEvents w2 = notifEvents w"
  proof (cases "b_referralStatus b = REF_RESERVED \<and> truthy (b_userId b) \<and> truthy (b_referralReferrerUserId b)")
    case True
    with c show ?thesis
      by (intro that [of "snd (apply_reserved_discount ?now (?f b) ?w1)"])
         (auto simp: apply_reserved_discount_def confirmable_def confirmed_row_def update_many_def)
  next
    case False
    then show ?thesis
      by (intro that [of ?w1]) (auto simp: apply_reserved_discount_def confirmed_row_def)
  qed
  obtain v where v1: "view_booking ?w1 (?f b) = Some v" using car by (simp add: view_booking_def Let_def)
  have v2: "view_booking (w\<lparr>bookings := bookings w2\<rparr>) ?c = Some (v\<lparr>bv_booking := ?c\<rparr>)"
    using car v1 by (auto simp: view_booking_def Let_def confirmed_row_def)
  show ?thesis
    by (rule that [OF v2])
       (use pend car v1 in \<open>simp_all add: confirm_booking_transaction_def fb um fr w2\<close>)
qed

lemma confirm_booking_cases:
  assumes u: "unique_by b_id (bookings w)"
  obtains "snd (confirm_booking_from_payment env p w) = w" and "fst (confirm_booking_from_payment env p w) \<noteq> Inr True"
    and "\<not> (\<exists>b \<in> set (bookings w). truthy (p_bookingId p) \<and> p_bookingId p = Some (b_id b) \<and> confirmable w b)"
  | b where "b \<in> set (bookings w)" and "p_bookingId p = Some (b_id b)" and "truthy (p_bookingId p)" and "confirmable w b"
    and "fst (confirm_booking_from_payment env p w) = Inr True"
    and "bookings (snd (confirm_booking_from_payment env p w))
       = map (\<lambda>r. if b_id r = b_id b then confirmed_row (ce_now env) b else r) (bookings w)"
    and "payments (snd (confirm_booking_from_payment env p w)) = payments w"
    and "extensions (snd (confirm_booking_from_payment env p w)) = extensions w"
    and "cars (snd (confirm_booking_from_payment env p w)) =
      map (\<lambda>c. if c_id c = b_carId b then c\<lparr>c_status := BOOKED\<rparr> else c) (cars w)"
proof (cases "\<exists>b \<in> set (bookings w). truthy (p_bookingId p) \<and> p_bookingId p = Some (b_id b) \<and> confirmable w b")
  case False
  then have F: "truthy (p_bookingId p) \<Longrightarrow> \<not> (\<exists>b \<in> set (bookings w). b_id b = the (p_bookingId p) \<and> confirmable w b)"
    by (auto elim!: truthyE)
  have "snd (confirm_booking_from_payment env p w) = w \<and> fst (confirm_booking_from_payment env p w) \<noteq> Inr True"
  proof (cases "truthy (p_bookingId p)")
    case True
    obtain r where r: "confirm_booking_transaction env (the (p_bookingId p)) w = (r, w)" "\<And>c. r \<noteq> Inr (Some c)"
      using confirm_transaction_fails [OF F [OF True] u, of env] by (metis prod.collapse)
    then show ?thesis using True by (auto simp: confirm_booking_from_payment_def split: sum.split option.split)
  qed (simp add: confirm_booking_from_payment_def)
  then show ?thesis using that(1) False by blast
next
  case True
  then obtain b where b: "b \<in> set (bookings w)" "p_bookingId p = Some (b_id b)" "truthy (p_bookingId p)" "confirmable w b"
    by blast
  show ?thesis
  proof (rule confirm_transaction_works [OF u b(1) b(4), of env])
    fix v w' assume w': "fst (confirm_booking_transaction env (b_id b) w) = Inr (Some (confirmed_row (ce_now env) b))"
      "bookings w' = map (\<lambda>r. if b_id r = b_id b then confirmed_row (ce_now env) b else r) (bookings w)"
      "snd (confirm_booking_transaction env (b_id b) w) =
        snd (create_notifications (ce_now env) NE_BOOKING_LIFECYCLE (booking_confirmed_events (ce_config env) (ce_now env) v) w')"
      "payments w' = payments w" "extensions w' = extensions w" "cars w' = cars w"
    show ?thesis
      by (rule that(2) [OF b])
         (use b w' in \<open>simp_all add: confirm_booking_from_payment_def case_prod_beta update_car_status_to_booked_def update_many_def\<close>)
  qed
qed

lemma confirm_booking_refine:
  assumes "unique_by b_id (bookings w)"
  shows "bookings_refine w (snd (confirm_booking_from_payment env p w))"
  using assms
proof (cases rule: confirm_booking_cases [of w env p])
  case (2 b)
  then have state: "pay_step (booking_state b) (B_CONFIRMED, PAID)" by (simp add: confirmable_def booking_state_def)
  show ?thesis
  proof (rule refine_map [OF 2(6)])
    fix r assume "r \<in> set (bookings w)"
    then have "b_id r = b_id b \<Longrightarrow> r = b" using unique_by_same [OF assms _ 2(1)] by blast
    with state show "b_id (if b_id r = b_id b then confirmed_row (ce_now env) b else r) = b_id r
        \<and> pay_step\<^sup>*\<^sup>* (booking_state r) (booking_state (if b_id r = b_id b then confirmed_row (ce_now env) b else r))"
      by (auto simp: booking_state_def)
  qed
qed (simp add: assms)

lemma extend_window_frame [simp]:
  "payments (extend_booking_window now e l w) = payments w" "extensions (extend_booking_window now e l w) = extensions w"
  "cars (extend_booking_window now e l w) = cars w" "users (extend_booking_window now e l w) = users w"
  "inboxRows (extend_booking_window now e l w) = inboxRows w" "notifEvents (extend_booking_window now e l w) = notifEvents w"
  by (simp_all add: extend_booking_window_def)

lemma extend_window_states [simp]:
  "map booking_state (bookings (extend_booking_window now e l w)) = map booking_state (bookings w)"
  "map b_id (bookings (extend_booking_window now e l w)) = map b_id (bookings w)"
  by (simp_all add: extend_booking_window_def update_many_def booking_state_def)

lemma refine_same_states:
  "map booking_state (bookings w') = map booking_state (bookings w) \<Longrightarrow> map b_id (bookings w') = map b_id (bookings w) \<Longrightarrow> bookings_refine w w'"
  by (auto simp: bookings_refine_def list_all2_conv_all_nth list_eq_iff_nth_eq)

lemma confirm_extension_frame:
  "map booking_state (bookings (snd (confirm_extension_from_payment env p w))) = map booking_state (bookings w)"
  "map b_id (bookings (snd (confirm_extension_from_payment env p w))) = map b_id (bookings w)"
  "payments (snd (confirm_extension_from_payment env p w)) = payments w"
  by (auto simp: confirm_extension_from_payment_def case_prod_beta Let_def split: option.split)

lemma confirm_extension_refine: "bookings_refine w (snd (confirm_extension_from_payment env p w))"
  by (rule refine_same_states) (simp_all add: confirm_extension_frame)

lemma upsert_frame [simp]:
  "bookings (snd (upsert_charge_payment row w)) = bookings w" "extensions (snd (upsert_charge_payment row w)) = extensions w"
  "legs (snd (upsert_charge_payment row w)) = legs w" "cars (snd (upsert_charge_payment row w)) = cars w"
  "users (snd (upsert_charge_payment row w)) = users w"
  by (simp_all add: upsert_charge_payment_def split: option.splits)

lemma find_or_create_frame [simp]:
  "bookings (snd (find_or_create_payment env data st w)) = bookings w" "extensions (snd (find_or_create_payment env data st w)) = extensions w"
  "legs (snd (find_or_create_payment env data st w)) = legs w" "cars (snd (find_or_create_payment env data st w)) = cars w"
  "users (snd (find_or_create_payment env data st w)) = users w"
  using upsert_frame by (simp_all add: find_or_create_payment_def Let_def case_prod_beta split: option.split sum.split)

lemma confirm_charge_refine:
  "unique_by b_id (bookings w) \<Longrightarrow> bookings_refine w (snd (confirm_charge_payment env d p w))"
  using confirm_booking_refine confirm_extension_refine release_reservation_refine
  by (auto simp: confirm_charge_payment_def case_prod_beta Let_def split: sum.split)

lemma finalize_charge_refine:
  assumes "unique_by b_id (bookings w)" shows "bookings_refine w (snd (finalize_verified_charge env data d w))"
proof -
  have fc: "bookings_refine w (snd (confirm_charge_payment env d p (snd (find_or_create_payment env data st w))))" for p st
    using refine_trans [OF refine_refl confirm_charge_refine] assms by simp
  show ?thesis
    using fc by (auto simp: finalize_verified_charge_def Let_def case_prod_beta split: sum.split option.split)
qed

lemma handle_charge_process: "handle_charge_completed env data w = process_verified_charge env data w"
  by (simp add: handle_charge_completed_def split: prod.split sum.split)

lemma handle_charge_refine:
  "unique_by b_id (bookings w) \<Longrightarrow> bookings_refine w (snd (handle_charge_completed env data w))"
  by (auto simp: handle_charge_process process_verified_charge_def finalize_charge_refine split: sum.split option.split)

lemma confirm_by_id_refine:
  "unique_by b_id (bookings w) \<Longrightarrow> bookings_refine w (snd (confirm_by_transaction_id env txRef i w))"
  by (auto simp: confirm_by_transaction_id_def finalize_charge_refine split: sum.split option.split)

lemma reconcile_payment_refine:
  "unique_by b_id (bookings w) \<Longrightarrow> bookings_refine w (snd (reconcile_payment env p w))"
  using confirm_booking_refine confirm_extension_refine
  by (auto simp: reconcile_payment_def case_prod_beta split: sum.split)

lemma cancel_expired_refine: "bookings_refine w (snd (cancel_expired_reservation now i w))"
proof -
  let ?w1 = "snd (release_referral_reservation now i w)"
  let ?P = "\<lambda>b. b_id b = i \<and> b_status b = B_PENDING \<and> b_paymentStatus b = UNPAID \<and> session_expired now b"
  have "bookings_refine ?w1 (?w1\<lparr>bookings := snd (update_many ?P f (bookings ?w1))\<rparr>)"
    if "\<And>b. b_id (f b) = b_id b \<and> b_status (f b) = B_CANCELLED \<and> b_paymentStatus (f b) = b_paymentStatus b" for f
    by (rule refine_update [where P = ?P and f = f]) (use that in \<open>auto simp: booking_state_def\<close>)
  from refine_trans [OF release_reservation_refine this] show ?thesis
    by (simp add: cancel_expired_reservation_def case_prod_beta Let_def split: option.split)
qed

lemma reconcile_reservation_refine:
  "unique_by b_id (bookings w) \<Longrightarrow> bookings_refine w (snd (reconcile_reservation env b w))"
  using handle_charge_refine cancel_expired_refine
  by (auto simp: reconcile_reservation_def case_prod_beta split: sum.split option.split)

lemma reconcile_expired_refine:
  "unique_by b_id (bookings w) \<Longrightarrow> bookings_refine w (snd (reconcile_expired_reservation env i w))"
  by (simp add: reconcile_expired_reservation_def reconcile_reservation_refine split: option.split)

lemma reconcile_batch_refine:
  "unique_by b_id (bookings w) \<Longrightarrow> bookings_refine w (snd (reconcile_expired_reservation_batch env w))"
  unfolding reconcile_expired_reservation_batch_def by (intro refine_fold reconcile_reservation_refine)

lemma reconcile_pending_refine:
  "unique_by b_id (bookings w) \<Longrightarrow> bookings_refine w (snd (reconcile_pending_payments env w))"
  unfolding reconcile_pending_payments_def by (intro refine_fold reconcile_payment_refine)

lemma claim_session_refine: "bookings_refine w (snd (claim_booking_payment_session now i r w))"
proof -
  have "bookings_refine w (w\<lparr>bookings := snd (update_many (claimable_session i) f (bookings w))\<rparr>)"
    if "\<And>b. b_id (f b) = b_id b \<and> booking_state (f b) = booking_state b" for f
    by (rule refine_update [where f = f]) (use that in auto)
  then show ?thesis by (auto simp: claim_booking_payment_session_def case_prod_beta Let_def booking_state_def)
qed

lemma initialize_payment_refine: "bookings_refine w (snd (initialize_payment now post uuid dto u w))"
  using claim_session_refine by (auto simp: initialize_payment_def case_prod_beta split: sum.split)

section \<open>What a charge can change\<close>

lemma same_states_row:
  assumes "unique_by b_id (bookings w)" "map b_id (bookings w') = map b_id (bookings w)"
    "map booking_state (bookings w') = map booking_state (bookings w)"
    "b \<in> set (bookings w)" "b' \<in> set (bookings w')" "b_id b' = b_id b"
  shows "booking_state b' = booking_state b"
proof -
  obtain i where i: "i < length (bookings w')" "b' = bookings w' ! i" using assms(5) by (auto simp: in_set_conv_nth)
  have len: "length (bookings w') = length (bookings w)" using arg_cong [OF assms(2), of length] by simp
  have "b_id (bookings w ! i) = b_id b" using i len assms(2,6) by (metis nth_map)
  then have "bookings w ! i = b" using unique_by_same [OF assms(1) _ assms(4)] i(1) len by simp
  then show ?thesis using i len assms(3) by (metis nth_map)
qed

lemma release_reservation_states:
  "map b_id (bookings (snd (release_referral_reservation now i w))) = map b_id (bookings w)"
  "map booking_state (bookings (snd (release_referral_reservation now i w))) = map booking_state (bookings w)"
  unfolding release_reservation_bookings by (simp_all add: key_update_many booking_state_def)

lemma upsert_row:
  "fst (upsert_charge_payment row w) = Inr p \<Longrightarrow>
   p \<in> set (payments (snd (upsert_charge_payment row w))) \<and> p_txRef p = p_txRef row"
  by (auto simp: upsert_charge_payment_def dest: find_row_Some split: option.splits if_splits)

lemma charge_payment_row_simps [simp]:
  "p_txRef (charge_payment_row env data st i e a) = cg_tx_ref data"
  "p_status (charge_payment_row env data st i e a) = st"
  "p_bookingId (charge_payment_row env data st i e a) = i" "p_extensionId (charge_payment_row env data st i e a) = e"
  "p_amountExpected (charge_payment_row env data st i e a) = a"
  by (simp_all add: charge_payment_row_def)

lemma find_or_create_row:
  assumes "fst (find_or_create_payment env data st w) = Inr (Some p)"
  shows "p \<in> set (payments (snd (find_or_create_payment env data st w))) \<and> p_txRef p = cg_tx_ref data"
proof -
  obtain i e a where r: "find_or_create_payment env data st w =
      (case upsert_charge_payment (charge_payment_row env data st i e a) w of
         (Inl e, w') \<Rightarrow> (Inl e, w') | (Inr p, w') \<Rightarrow> (Inr (Some p), w'))"
    using assms by (auto simp: find_or_create_payment_def Let_def split: option.splits)
  obtain x w1 where u: "upsert_charge_payment (charge_payment_row env data st i e a) w = (x, w1)" by (cases "upsert_charge_payment (charge_payment_row env data st i e a) w")
  from assms have "x = Inr p" by (auto simp: r u split: sum.splits)
  with upsert_row [of "charge_payment_row env data st i e a" w p] show ?thesis by (simp add: r u)
qed

lemma confirm_charge_payments [simp]:
  assumes "unique_by b_id (bookings w)"
  shows "payments (snd (confirm_charge_payment env d p w)) = payments w"
proof -
  have "payments (snd (confirm_booking_from_payment env p w)) = payments w"
    by (cases rule: confirm_booking_cases [OF assms, of env p]) simp_all
  then show ?thesis
    by (simp add: confirm_charge_payment_def case_prod_beta Let_def confirm_extension_frame split: sum.split)
qed

lemma confirm_charge_changes:
  assumes u: "unique_by b_id (bookings w)"
    and "b \<in> set (bookings w)" "b' \<in> set (bookings (snd (confirm_charge_payment env d p w)))" "b_id b' = b_id b"
    and ch: "booking_state b' \<noteq> booking_state b"
  shows "b_status b = B_PENDING \<and> booking_state b' = (B_CONFIRMED, PAID)
    \<and> p_bookingId p = Some (b_id b) \<and> p_status p = PA_SUCCESSFUL \<and> matches_expected_amount_and_currency p d"
proof -
  let ?w = "snd (confirm_charge_payment env d p w)"
  have no: "\<not> (map b_id (bookings ?w) = map b_id (bookings w) \<and> map booking_state (bookings ?w) = map booking_state (bookings w))"
    using same_states_row [OF u _ _ assms(2-4)] ch by blast
  have st: "p_status p = PA_SUCCESSFUL" "matches_expected_amount_and_currency p d"
    using no by (auto simp: confirm_charge_payment_def Let_def release_reservation_states split: if_splits)
  have bk: "?w = snd (confirm_booking_from_payment env p w)"
    using no st by (auto simp: confirm_charge_payment_def case_prod_beta Let_def confirm_extension_frame split: if_splits sum.splits)
  show ?thesis
  proof (cases rule: confirm_booking_cases [OF u, of env p])
    case 1
    then show ?thesis using no bk by simp
  next
    case (2 c)
    then obtain r where r: "r \<in> set (bookings w)" "b' = (if b_id r = b_id c then confirmed_row (ce_now env) c else r)"
      using assms(3) by (auto simp: bk)
    have "r = b" if "b_id r = b_id b" using unique_by_same [OF u r(1) assms(2)] that .
    then have "b_id b = b_id c" using r assms(4) ch by (auto split: if_splits)
    moreover from this have "b = c" using unique_by_same [OF u assms(2) 2(1)] by simp
    ultimately show ?thesis using 2 r assms(4) st by (auto simp: booking_state_def confirmable_def split: if_splits)
  qed
qed

lemma finalize_charge_changes:
  assumes u: "unique_by b_id (bookings w)"
    and "b \<in> set (bookings w)" "b' \<in> set (bookings (snd (finalize_verified_charge env data d w)))" "b_id b' = b_id b"
    and ch: "booking_state b' \<noteq> booking_state b"
  obtains p where "p \<in> set (payments (snd (finalize_verified_charge env data d w)))" "p_txRef p = cg_tx_ref data"
    "b_status b = B_PENDING" "booking_state b' = (B_CONFIRMED, PAID)" "p_bookingId p = Some (b_id b)"
    "p_status p = PA_SUCCESSFUL" "matches_expected_amount_and_currency p d"
proof -
  define st where "st = (if js_lower (js_trim (vf_status d)) = ''successful'' then PA_SUCCESSFUL else PA_FAILED)"
  let ?f = "find_or_create_payment env data st w"
  have "b' = b" if "bookings (snd (finalize_verified_charge env data d w)) = bookings w"
    using unique_by_same [OF u _ assms(2)] assms(3,4) that by simp
  then have ne: "bookings (snd (finalize_verified_charge env data d w)) \<noteq> bookings w" using ch by blast
  obtain p where p: "fst ?f = Inr (Some p)" and w': "snd (finalize_verified_charge env data d w) = snd (confirm_charge_payment env d p (snd ?f))"
    using ne by (auto simp: finalize_verified_charge_def Let_def st_def case_prod_beta split: if_splits sum.splits option.splits)
  have u1: "unique_by b_id (bookings (snd ?f))" using u by simp
  show ?thesis
    using confirm_charge_changes [OF u1 _ _ assms(4) ch, of env d p] assms(2,3) find_or_create_row [OF p] that [of p]
    by (simp add: w' u)
qed

section \<open>Properties of charges\<close>

text \<open>A verified answer for a charge webhook, and a payment reference that is still free.\<close>

definition verified_charge :: "charge_env \<Rightarrow> charge_data \<Rightarrow> verification \<Rightarrow> bool" where
  "verified_charge env data d \<longleftrightarrow>
     (\<exists>response. ce_verify env (nat_digits (cg_id data)) = HttpOk response \<and> fr_status response = ''success'' \<and> fr_data response = Some d)
   \<and> vf_id d = cg_id data \<and> vf_tx_ref d = cg_tx_ref data \<and> vf_charged_amount d = cg_charged_amount data
   \<and> js_upper (vf_currency d) = js_upper (cg_currency data)"

definition fresh_charge :: "charge_data \<Rightarrow> world \<Rightarrow> bool" where
  "fresh_charge data w \<longleftrightarrow> (\<forall>p \<in> set (payments w). p_txRef p \<noteq> cg_tx_ref data
     \<and> p_flutterwaveTransactionId p \<noteq> Some (nat_digits (cg_id data)) \<and> p_flutterwaveReference p \<noteq> Some (cg_flw_ref data))"

lemma process_verified:
  "verified_charge env data d \<Longrightarrow> process_verified_charge env data w = finalize_verified_charge env data d w"
  by (auto simp: verified_charge_def process_verified_charge_def verify_transaction_def validate_verification_def
      get_matching_verification_data_def)

lemma process_unverified:
  assumes "snd (process_verified_charge env data w) \<noteq> w"
  obtains d where "verified_charge env data d" "process_verified_charge env data w = finalize_verified_charge env data d w"
  using assms that
  by (auto simp: verified_charge_def process_verified_charge_def verify_transaction_def validate_verification_def
      get_matching_verification_data_def split: http_result.splits option.splits if_splits)

lemma create_fresh_payment:
  assumes "find_row (\<lambda>b. b_paymentIntent b = Some (cg_tx_ref data)) (bookings w) = Some b"
    and "find_row (\<lambda>e. e_paymentIntent e = Some (cg_tx_ref data)) (extensions w) = None"
    and "fresh_charge data w" and "b_totalAmount b \<noteq> 0"
  shows "find_or_create_payment env data st w =
    (Inr (Some (charge_payment_row env data st (Some (b_id b)) None (b_totalAmount b))),
     w\<lparr>payments := payments w @ [charge_payment_row env data st (Some (b_id b)) None (b_totalAmount b)]\<rparr>)"
proof -
  let ?row = "charge_payment_row env data st (Some (b_id b)) None (b_totalAmount b)"
  have "find_row (\<lambda>p. p_txRef p = cg_tx_ref data) (payments w) = None"
    using assms(3) by (auto simp: find_row_None fresh_charge_def)
  moreover have "p_flutterwaveTransactionId ?row \<notin> p_flutterwaveTransactionId ` set (payments w)"
    "p_flutterwaveReference ?row \<notin> p_flutterwaveReference ` set (payments w)"
    using assms(3) by (auto simp: charge_payment_row_def fresh_charge_def)
  ultimately have "upsert_charge_payment ?row w = (Inr ?row, w\<lparr>payments := payments w @ [?row]\<rparr>)"
    by (simp add: upsert_charge_payment_def)
  then show ?thesis using assms(1,2,4) by (simp add: find_or_create_payment_def Let_def)
qed

lemma successful_charge_result:
  assumes "unique_by b_id (bookings w)" and "confirmable w b" and "b_id b \<noteq> []"
    and intent: "find_row (\<lambda>b. b_paymentIntent b = Some (cg_tx_ref data)) (bookings w) = Some b"
    and noext: "find_row (\<lambda>e. e_paymentIntent e = Some (cg_tx_ref data)) (extensions w) = None"
    and "fresh_charge data w" and "b_totalAmount b \<noteq> 0"
    and ver: "verified_charge env data d" "js_lower (js_trim (vf_status d)) = ''successful''"
    and amount: "\<bar>cg_charged_amount data - b_totalAmount b\<bar> \<le> 1 / 100"
    and currency: "js_trim (cg_currency data) \<noteq> []" "js_upper (js_trim (cg_currency data)) = js_upper (js_trim (vf_currency d))"
    and res: "handle_charge_completed env data w = (r, w')"
  shows "r = Inr () \<and> bookings w' = map (\<lambda>x. if b_id x = b_id b then confirmed_row (ce_now env) b else x) (bookings w)
    \<and> cars w' = map (\<lambda>c. if c_id c = b_carId b then c\<lparr>c_status := BOOKED\<rparr> else c) (cars w)
    \<and> (\<exists>p. payments w' = payments w @ [p] \<and> p_status p = PA_SUCCESSFUL \<and> p_bookingId p = Some (b_id b)
         \<and> p_amountExpected p = b_totalAmount b \<and> p_amountCharged p = Some (cg_charged_amount data))"
proof -
  let ?p = "charge_payment_row env data PA_SUCCESSFUL (Some (b_id b)) None (b_totalAmount b)"
  let ?w1 = "w\<lparr>payments := payments w @ [?p]\<rparr>"
  have b: "b \<in> set (bookings w)" using find_row_Some [OF intent] by blast
  have nonempty: "js_upper (js_trim (cg_currency data)) \<noteq> []" using currency(1) by (simp add: js_upper_def)
  have m: "matches_expected_amount_and_currency ?p d"
    using amount currency nonempty
    by (simp add: matches_expected_amount_and_currency_def charge_payment_row_def money_tolerance_def Let_def js_trim_twice)
  have step: "(r, w') = confirm_charge_payment env d ?p ?w1"
    using create_fresh_payment [OF intent noext assms(6,7), of env PA_SUCCESSFUL] ver(2)
    by (simp add: res [symmetric] handle_charge_process process_verified [OF ver(1)] finalize_verified_charge_def Let_def)
  have u1: "unique_by b_id (bookings ?w1)" using assms(1) by simp
  have conf1: "confirmable ?w1 c \<longleftrightarrow> confirmable w c" for c by (simp add: confirmable_def)
  show ?thesis
  proof (cases rule: confirm_booking_cases [OF u1, of env ?p])
    case 1
    then show ?thesis using b assms(2,3) by (auto simp: conf1 truthy_def)
  next
    case (2 c)
    have "c = b" using unique_by_same [OF assms(1) _ b] 2(1,2) by simp
    then show ?thesis using 2 step m
      by (cases "confirm_booking_from_payment env ?p ?w1") (simp add: confirm_charge_payment_def charge_payment_row_def)
  qed
qed

definition demo_pending :: booking where
  "demo_pending = demo_booking\<lparr>b_status := B_PENDING, b_paymentStatus := UNPAID, b_paymentIntent := Some ''tx9'',
     b_paymentSessionExpiresAt := Some 600\<rparr>"

definition demo_pending_world :: world where
  "demo_pending_world = demo_world\<lparr>bookings := [demo_pending]\<rparr>"

definition demo_verification :: verification where
  "demo_verification = \<lparr>vf_id = 7, vf_tx_ref = ''tx9'', vf_flw_ref = ''F'', vf_status = ''successful'', vf_charged_amount = 1000,
     vf_amount = 1000, vf_currency = ''NGN'', vf_payment_type = Some ''card'', vf_created_at = ''t''\<rparr>"

definition demo_charge :: charge_data where
  "demo_charge = charge_data_of demo_verification"

definition demo_charge_env :: charge_env where
  "demo_charge_env = \<lparr>ce_now = 5, ce_config = demo_config, ce_paymentId = (\<lambda>r. ''p-'' @ r),
     ce_verify = (\<lambda>_. HttpOk \<lparr>fr_status = ''success'', fr_message = [], fr_data = Some demo_verification\<rparr>),
     ce_findByReference = (\<lambda>_. HttpOk \<lparr>fr_status = ''success'', fr_message = [], fr_data = Some demo_verification\<rparr>),
     ce_flightQueueUp = True, ce_emitterReady = True\<rparr>"

lemma demo_charge_verified: "verified_charge demo_charge_env demo_charge demo_verification"
  by (simp add: verified_charge_def demo_charge_env_def demo_charge_def charge_data_of_def demo_verification_def)

lemma demo_pending_simps [simp]:
  "bookings demo_pending_world = [demo_pending]" "cars demo_pending_world = [demo_car]"
  "payments demo_pending_world = []" "extensions demo_pending_world = []"
  "b_id demo_pending = ''b1''" "b_paymentIntent demo_pending = Some ''tx9''" "b_totalAmount demo_pending = 1000"
  "b_status demo_pending = B_PENDING" "b_paymentStatus demo_pending = UNPAID" "b_carId demo_pending = c_id demo_car"
  "cg_tx_ref demo_charge = ''tx9''" "cg_charged_amount demo_charge = 1000" "cg_currency demo_charge = ''NGN''"
  by (simp_all add: demo_pending_world_def demo_pending_def demo_world_def demo_booking_def demo_car_def empty_world_def
      demo_charge_def charge_data_of_def demo_verification_def)

lemma demo_confirmable: "confirmable demo_pending_world demo_pending"
  by (simp add: confirmable_def find_row_def) (simp add: demo_pending_def demo_booking_def)

text \<open>
  Property C5: a verified successful charge confirms the booking that waits for it.  When the
  charged amount is the booking's total up to a hundredth and the currencies agree, the handler
  records a successful payment, the booking becomes confirmed and paid and no other booking
  changes, and its car becomes booked.
\<close>

theorem successful_charge_confirms_booking:
  assumes "unique_by b_id (bookings w)" and "confirmable w b" and "b_id b \<noteq> []"
    and intent: "find_row (\<lambda>b. b_paymentIntent b = Some (cg_tx_ref data)) (bookings w) = Some b"
    and noext: "find_row (\<lambda>e. e_paymentIntent e = Some (cg_tx_ref data)) (extensions w) = None"
    and "fresh_charge data w" and "b_totalAmount b \<noteq> 0"
    and ver: "verified_charge env data d" "js_lower (js_trim (vf_status d)) = ''successful''"
    and amount: "\<bar>cg_charged_amount data - b_totalAmount b\<bar> \<le> 1 / 100"
    and currency: "js_trim (cg_currency data) \<noteq> []" "js_upper (js_trim (cg_currency data)) = js_upper (js_trim (vf_currency d))"
    and res: "handle_charge_completed env data w = (r, w')"
  shows "r = Inr () \<and> bookings w' = map (\<lambda>x. if b_id x = b_id b then confirmed_row (ce_now env) b else x) (bookings w)
    \<and> cars w' = map (\<lambda>c. if c_id c = b_carId b then c\<lparr>c_status := BOOKED\<rparr> else c) (cars w)
    \<and> (\<exists>p. payments w' = payments w @ [p] \<and> p_status p = PA_SUCCESSFUL \<and> p_bookingId p = Some (b_id b)
         \<and> p_amountExpected p = b_totalAmount b \<and> p_amountCharged p = Some (cg_charged_amount data))"
  using successful_charge_result [OF assms] .

theorem successful_charge_confirms_booking_witness:
  "bookings (snd (handle_charge_completed demo_charge_env demo_charge demo_pending_world))
   = [confirmed_row (ce_now demo_charge_env) demo_pending]"
  using successful_charge_confirms_booking [OF _ demo_confirmable _ _ _ _ _ demo_charge_verified _ _ _ _ prod.collapse [symmetric]]
  by (simp add: find_row_def fresh_charge_def demo_verification_def js_trim_def js_lower_def lower_char_def is_ws_def)



text \<open>
  Property C4: every operation on payments moves bookings only along the reservation machine.
  Whatever the provider answers, opening a session, handling a charge, confirming by transaction,
  reconciling a successful payment and expiring a reservation neither create nor delete bookings,
  and change the status and payment status of each only from pending to confirmed and paid, or
  from pending and unpaid to cancelled.
\<close>

theorem payment_operations_refine_reservations:
  assumes "unique_by b_id (bookings w)"
  shows "bookings_refine w (snd (handle_charge_completed env data w))
    \<and> bookings_refine w (snd (confirm_by_transaction_id env txRef i w))
    \<and> bookings_refine w (snd (reconcile_pending_payments env w))
    \<and> bookings_refine w (snd (reconcile_expired_reservation env i w))
    \<and> bookings_refine w (snd (reconcile_expired_reservation_batch env w))
    \<and> bookings_refine w (snd (cancel_expired_reservation now i w))
    \<and> bookings_refine w (snd (initialize_payment now post uuid dto u w))"
  by (intro conjI handle_charge_refine confirm_by_id_refine reconcile_pending_refine reconcile_expired_refine
      reconcile_batch_refine cancel_expired_refine initialize_payment_refine assms)

theorem payment_operations_refine_reservations_witness:
  "bookings_refine demo_pending_world (snd (reconcile_expired_reservation_batch demo_charge_env demo_pending_world))"
  using payment_operations_refine_reservations [of demo_pending_world] by simp

end
