(* ===== verification/PaymentDelivery.thy ===== *)
theory PaymentDelivery
  imports BookingPayments
begin

text \<open>
  The behaviour of the booking payments over repeated deliveries: charge webhooks delivered
  again, sessions opened again, reservations that run out, and the payment attempts that the
  handlers cannot record.  All operations are those of BookingPayments.
\<close>

section \<open>Redelivered webhooks\<close>

text \<open>Events that write under the same keys: only the first delivery of them is seen.\<close>

definition same_keys :: "handler_event list \<Rightarrow> handler_event list \<Rightarrow> bool" where
  "same_keys = list_all2 (\<lambda>a b. he_dedupeKey a = he_dedupeKey b
     \<and> (he_jobData a = None \<longleftrightarrow> he_jobData b = None) \<and> (he_inbox a = None \<longleftrightarrow> he_inbox b = None))"

lemma notifications_same_keys:
  assumes "same_keys evs evs'"
    and keys: "notifEvents w = notifEvents (snd (create_notifications now et evs v))" "inboxRows w = inboxRows (snd (create_notifications now et evs v))"
  shows "snd (create_notifications now' et evs' w) = w"
proof -
  have "\<forall>ev \<in> set evs'. (he_jobData ev \<noteq> None \<longrightarrow> he_dedupeKey ev \<in> ne_dedupeKey ` set (notifEvents w))
                \<and> (he_inbox ev \<noteq> None \<longrightarrow> he_dedupeKey ev \<in> in_dedupeKey ` set (inboxRows w))"
  proof
    fix ev assume "ev \<in> set evs'"
    then obtain i where i: "i < length evs'" "ev = evs' ! i" by (auto simp: in_set_conv_nth)
    then have "evs ! i \<in> set evs" "he_dedupeKey (evs ! i) = he_dedupeKey ev"
      "he_jobData (evs ! i) = None \<longleftrightarrow> he_jobData ev = None" "he_inbox (evs ! i) = None \<longleftrightarrow> he_inbox ev = None"
      using assms(1) by (auto simp: same_keys_def list_all2_conv_all_nth)
    then show "(he_jobData ev \<noteq> None \<longrightarrow> he_dedupeKey ev \<in> ne_dedupeKey ` set (notifEvents w))
                \<and> (he_inbox ev \<noteq> None \<longrightarrow> he_dedupeKey ev \<in> in_dedupeKey ` set (inboxRows w))"
      unfolding keys create_notifications_snd fold_write_keys by (auto simp: image_iff)
  qed
  then show ?thesis unfolding create_notifications_snd by (rule fold_write_known)
qed

lemma extension_events_same_keys:
  assumes "bv_user v' = bv_user v" "b_userId (bv_booking v') = b_userId (bv_booking v)"
    "b_guestUser (bv_booking v') = b_guestUser (bv_booking v)"
  shows "same_keys (booking_extension_confirmed_events nc v l e) (booking_extension_confirmed_events nc' v' l' e)"
proof -
  have "get_customer_details v' = get_customer_details v" "customer_user_id v' = customer_user_id v"
    using assms by (simp_all add: get_customer_details_def customer_user_id_def cong: option.case_cong)
  then show ?thesis using assms
    by (simp add: booking_extension_confirmed_events_def build_booking_extension_confirmed_job_def customer_channels_def
        customer_and_owner_events_def customer_inbox_def same_keys_def Let_def)
qed

lemma release_reservation_twice:
  "snd (release_referral_reservation now' i (snd (release_referral_reservation now i w))) = snd (release_referral_reservation now i w)"
proof -
  let ?w = "snd (release_referral_reservation now i w)"
  have "update_many (\<lambda>b. b_id b = i \<and> releasable_reservation b) f (bookings ?w) = (0, bookings ?w)" for f
    unfolding release_reservation_bookings
    by (rule update_many_none) (auto elim!: update_many_rowE simp: releasable_reservation_def split: if_splits)
  then show ?thesis by (simp add: release_referral_reservation_def [of now' i ?w])
qed

lemma upsert_again:
  "fst (upsert_charge_payment row w) = Inr p \<Longrightarrow>
   find_row (\<lambda>q. p_txRef q = p_txRef row) (payments (snd (upsert_charge_payment row w))) = Some p"
  by (auto simp: upsert_charge_payment_def find_row_append split: option.splits if_splits)

lemma find_or_create_again:
  assumes p: "fst (find_or_create_payment env data st w) = Inr (Some p)"
    and "payments w' = payments (snd (find_or_create_payment env data st w))"
    and "map b_paymentIntent (bookings w') = map b_paymentIntent (bookings w)"
    and "map e_paymentIntent (extensions w') = map e_paymentIntent (extensions w)"
  shows "find_or_create_payment env' data st w' = (Inr (Some p), w')"
proof -
  have some_iff: "(find_row (\<lambda>r. f r = k) t' = None) = (find_row (\<lambda>r. f r = k) t = None)" if "map f t' = map f t"
    for f :: "'r \<Rightarrow> 'k" and k t t'
    unfolding find_row_None using that by (metis (no_types, lifting) image_eqI image_iff list.set_map)
  note same = some_iff [OF assms(3), of "Some (cg_tx_ref data)"] some_iff [OF assms(4), of "Some (cg_tx_ref data)"]
  obtain i e a where "find_or_create_payment env data st w =
      (case upsert_charge_payment (charge_payment_row env data st i e a) w of
         (Inl e, w') \<Rightarrow> (Inl e, w') | (Inr p, w') \<Rightarrow> (Inr (Some p), w'))"
    using p by (auto simp: find_or_create_payment_def Let_def split: option.splits)
  then have "find_row (\<lambda>q. p_txRef q = cg_tx_ref data) (payments w') = Some p"
    using p assms(2) upsert_again [of "charge_payment_row env data st i e a" w p]
    by (cases "upsert_charge_payment (charge_payment_row env data st i e a) w") (auto split: sum.splits)
  then have "upsert_charge_payment (charge_payment_row env' data st i' e' a') w' = (Inr p, w')" for i' e' a'
    by (simp add: upsert_charge_payment_def)
  then show ?thesis using p same
    by (auto simp: find_or_create_payment_def Let_def split: option.splits)
qed

lemma find_or_create_not:
  assumes "\<not> (\<exists>p. fst (find_or_create_payment env data st w) = Inr (Some p))"
  shows "snd (find_or_create_payment env' data st w) = w" and "\<not> (\<exists>p. fst (find_or_create_payment env' data st w) = Inr (Some p))"
proof -
  have "find_or_create_payment env' data st w \<in> {(Inr None, w), (Inl ChargeUniqueViolation, w)}" for env'
  proof (cases "find_row (\<lambda>b. b_paymentIntent b = Some (cg_tx_ref data)) (bookings w)")
    case None
    then show ?thesis using assms
      by (cases "find_row (\<lambda>e. e_paymentIntent e = Some (cg_tx_ref data)) (extensions w)")
         (auto simp: find_or_create_payment_def upsert_charge_payment_def charge_payment_row_def Let_def split: option.splits if_splits)
  next
    case (Some b)
    then show ?thesis using assms
      by (cases "find_row (\<lambda>e. e_paymentIntent e = Some (cg_tx_ref data)) (extensions w)")
         (auto simp: find_or_create_payment_def upsert_charge_payment_def charge_payment_row_def Let_def split: option.splits if_splits)
  qed
  then have c: "find_or_create_payment env' data st w \<in> {(Inr None, w), (Inl ChargeUniqueViolation, w)}" .
  from c show "snd (find_or_create_payment env' data st w) = w" by auto
  from c show "\<not> (\<exists>p. fst (find_or_create_payment env' data st w) = Inr (Some p))" by auto
qed

section \<open>A confirmation repeated\<close>

lemma confirm_booking_twice:
  assumes u: "unique_by b_id (bookings w)"
  shows "snd (confirm_booking_from_payment env' p (snd (confirm_booking_from_payment env p w)))
       = snd (confirm_booking_from_payment env p w)"
proof (cases rule: confirm_booking_cases [OF u, of env p])
  case 1
  then show ?thesis by (cases rule: confirm_booking_cases [OF u, of env' p]) auto
next
  case (2 c)
  let ?w = "snd (confirm_booking_from_payment env p w)"
  have u': "unique_by b_id (bookings ?w)" using refine_unique [OF confirm_booking_refine [OF u]] u by simp
  have "\<not> confirmable ?w b" if "b \<in> set (bookings ?w)" "p_bookingId p = Some (b_id b)" for b
    using that 2(2) by (auto simp: 2(6) confirmable_def split: if_splits)
  then show ?thesis by (cases rule: confirm_booking_cases [OF u', of env' p]) auto
qed

text \<open>What a confirmed extension leaves: the rows a second confirmation finds.\<close>

lemma update_many_again:
  assumes "\<And>x. P x \<Longrightarrow> \<not> P (f x)"
  shows "snd (update_many P g (snd (update_many P f t))) = snd (update_many P f t)"
  using assms by (induction t) (auto simp: update_many_def)

definition activated :: "payment \<Rightarrow> extension list \<Rightarrow> extension list" where
  "activated p t = snd (update_many (\<lambda>e. e_id e = the (p_extensionId p) \<and> e_status e = ''PENDING'')
     (\<lambda>e. e\<lparr>e_paymentId := Some (p_id p), e_paymentStatus := PAID, e_status := ''ACTIVE''\<rparr>) t)"

text \<open>The rows a confirmation of an extension works on: the extension as activated, its leg, the booking and its view.\<close>

definition extension_rows :: "payment \<Rightarrow> world \<Rightarrow> extension \<Rightarrow> leg \<Rightarrow> booking \<Rightarrow> booking_view \<Rightarrow> bool" where
  "extension_rows p w e l b v \<longleftrightarrow> truthy (p_extensionId p)
   \<and> find_row (\<lambda>e. e_id e = the (p_extensionId p)) (activated p (extensions w)) = Some e \<and> e_status e = ''ACTIVE''
   \<and> find_row (\<lambda>l. l_id l = e_bookingLegId e) (legs w) = Some l
   \<and> find_row (\<lambda>b. b_id b = l_bookingId l) (bookings w) = Some b \<and> view_booking w b = Some v
   \<and> windows_disjoint (bookings (extend_booking_window 0 e l w))"

definition window_moved :: "extension \<Rightarrow> booking \<Rightarrow> booking" where
  "window_moved e b = (if b_endDate b < e_extensionEndTime e then b\<lparr>b_endDate := e_extensionEndTime e\<rparr> else b)"

lemma activated_row:
  assumes "unique_by e_id t" "find_row (\<lambda>e. e_id e = i) (activated p t) = Some e" "the (p_extensionId p) = i"
    and "\<exists>x \<in> set t. e_id x = i \<and> e_status x = ''PENDING''"
  shows "e_status e = ''ACTIVE''"
proof -
  obtain x where x: "x \<in> set t" "e_id x = i" "e_status x = ''PENDING''" using assms(4) by blast
  obtain y where y: "find_row (\<lambda>e. e_id e = i) t = Some y" "e = (if e_id y = i \<and> e_status y = ''PENDING''
      then y\<lparr>e_paymentId := Some (p_id p), e_paymentStatus := PAID, e_status := ''ACTIVE''\<rparr> else y)"
    using assms(2,3) by (auto simp: activated_def find_row_update_keep)
  have "y = x" using unique_by_same [OF assms(1) _ x(1), of y] find_row_Some [OF y(1)] x(2) by simp
  then show ?thesis using y(2) x by simp
qed

lemma activated_none: "length (filter (\<lambda>e. e_id e = i \<and> e_status e = ''PENDING'') t) = 0 \<Longrightarrow> the (p_extensionId p) = i \<Longrightarrow> activated p t = t"
  using update_many_zero [of "\<lambda>e. e_id e = i \<and> e_status e = ''PENDING''" _ t] by (simp add: activated_def fst_update_many)

lemma extended_windows:
  "windows_disjoint (bookings (extend_booking_window now e l (w\<lparr>extensions := t\<rparr>))) = windows_disjoint (bookings (extend_booking_window 0 e l w))"
  by (rule windows_disjoint_cong) (simp add: extend_booking_window_def update_many_def booking_window_def holds_car_def)

lemma confirm_extension_rows:
  assumes "extension_rows p w e l b v"
  shows "confirm_extension_from_payment env p w =
    (Inr True, snd (create_notifications (ce_now env) NE_BOOKING_LIFECYCLE
        (booking_extension_confirmed_events (ce_config env) (v\<lparr>bv_booking := window_moved e b\<rparr>) l e)
        (extend_booking_window (ce_now env) e l (w\<lparr>extensions := activated p (extensions w)\<rparr>))))"
  using assms by (simp add: extension_rows_def confirm_extension_from_payment_def activated_def case_prod_beta window_moved_def extended_windows)

lemma confirm_extension_else:
  assumes u: "unique_by e_id (extensions w)" and no: "\<not> (\<exists>e l b v. extension_rows p w e l b v)"
  shows "snd (confirm_extension_from_payment env p w) = w"
proof (cases "truthy (p_extensionId p)")
  case True
  let ?i = "the (p_extensionId p)"
  let ?n = "length (filter (\<lambda>e. e_id e = ?i \<and> e_status e = ''PENDING'') (extensions w))"
  have zero: "?n = 0 \<Longrightarrow> activated p (extensions w) = extensions w" by (rule activated_none) simp_all
  have active: "?n \<noteq> 0 \<Longrightarrow> find_row (\<lambda>e. e_id e = ?i) (activated p (extensions w)) = Some e \<Longrightarrow> e_status e = ''ACTIVE''" for e
    using activated_row [OF u, of ?i p e] by (auto simp: filter_empty_conv)
  have none: "find_row (\<lambda>e. e_id e = ?i) (activated p (extensions w)) = None \<Longrightarrow> ?n = 0"
    by (auto simp: activated_def find_row_update_keep find_row_None filter_empty_conv)
  show ?thesis
  proof (cases "find_row (\<lambda>e. e_id e = ?i) (activated p (extensions w))")
    case None
    then show ?thesis using zero none True
      by (simp add: confirm_extension_from_payment_def case_prod_beta activated_def fst_update_many)
  next
    case (Some e)
    show ?thesis
    proof (cases "e_status e = ''ACTIVE''")
      case False
      then have "?n = 0" using active [OF _ Some] by blast
      then show ?thesis using zero False Some True
        by (simp add: confirm_extension_from_payment_def case_prod_beta activated_def fst_update_many)
    next
      case act: True
      have "find_row (\<lambda>l. l_id l = e_bookingLegId e) (legs w) = None \<or> (\<exists>l. find_row (\<lambda>l. l_id l = e_bookingLegId e) (legs w) = Some l
          \<and> (find_row (\<lambda>b. b_id b = l_bookingId l) (bookings w) = None
            \<or> (\<exists>b. find_row (\<lambda>b. b_id b = l_bookingId l) (bookings w) = Some b \<and> view_booking w b = None)
            \<or> (\<exists>b v. find_row (\<lambda>b. b_id b = l_bookingId l) (bookings w) = Some b \<and> view_booking w b = Some v
                \<and> \<not> windows_disjoint (bookings (extend_booking_window 0 e l w)))))"
        using no True Some act unfolding extension_rows_def by (metis option.exhaust)
      then show ?thesis using Some True act
        by (auto simp: confirm_extension_from_payment_def case_prod_beta activated_def extended_windows)
    qed
  qed
qed (simp add: confirm_extension_from_payment_def)

lemma activated_twice: "activated p (activated p t) = activated p t"
  unfolding activated_def by (rule update_many_again) auto

lemma extend_window_rows:
  "find_row (\<lambda>x. l_id x = i) (legs (extend_booking_window now e l w)) =
     map_option (\<lambda>x. if l_id x = e_bookingLegId e \<and> l_legEndTime x < e_extensionEndTime e then x\<lparr>l_legEndTime := e_extensionEndTime e\<rparr> else x)
       (find_row (\<lambda>x. l_id x = i) (legs w))"
  "find_row (\<lambda>x. b_id x = j) (bookings (extend_booking_window now e l w)) =
     map_option (\<lambda>b. if b_id b = l_bookingId l \<and> b_endDate b < e_extensionEndTime e
         then b\<lparr>b_endDate := e_extensionEndTime e, b_updatedAt := now\<rparr> else b) (find_row (\<lambda>x. b_id x = j) (bookings w))"
  by (simp_all add: extend_booking_window_def find_row_update_keep)

lemma extend_window_again:
  assumes "legs w' = legs (extend_booking_window now e l w)" "bookings w' = bookings (extend_booking_window now e l w)"
    "l_bookingId l' = l_bookingId l"
  shows "extend_booking_window now' e l' w' = w'"
proof -
  let ?P = "\<lambda>x. l_id x = e_bookingLegId e \<and> l_legEndTime x < e_extensionEndTime e"
  let ?Q = "\<lambda>b. b_id b = l_bookingId l \<and> b_endDate b < e_extensionEndTime e"
  have "legs w' = snd (update_many ?P (\<lambda>x. x\<lparr>l_legEndTime := e_extensionEndTime e\<rparr>) (legs w))"
    "bookings w' = snd (update_many ?Q (\<lambda>b. b\<lparr>b_endDate := e_extensionEndTime e, b_updatedAt := now\<rparr>) (bookings w))"
    using assms(1,2) by (simp_all add: extend_booking_window_def)
  then have "snd (update_many ?P f (legs w')) = legs w'" "snd (update_many ?Q g (bookings w')) = bookings w'" for f g
    by (simp_all add: update_many_again)
  then show ?thesis by (simp add: extend_booking_window_def assms(3))
qed

lemma confirm_extension_twice:
  assumes u: "unique_by e_id (extensions w)"
  shows "snd (confirm_extension_from_payment env' p (snd (confirm_extension_from_payment env p w)))
       = snd (confirm_extension_from_payment env p w)"
proof (cases "\<exists>e l b v. extension_rows p w e l b v")
  case False
  then show ?thesis using confirm_extension_else [OF u] by simp
next
  case True
  then obtain e l b v where rows: "extension_rows p w e l b v" by blast
  let ?E = "extend_booking_window (ce_now env) e l (w\<lparr>extensions := activated p (extensions w)\<rparr>)"
  let ?evs = "booking_extension_confirmed_events (ce_config env) (v\<lparr>bv_booking := window_moved e b\<rparr>) l e"
  let ?w = "snd (confirm_extension_from_payment env p w)"
  have w: "?w = snd (create_notifications (ce_now env) NE_BOOKING_LIFECYCLE ?evs ?E)"
    by (simp add: confirm_extension_rows [OF rows])
  have tabs: "legs ?w = legs ?E" "bookings ?w = bookings ?E" "extensions ?w = activated p (extensions w)" "users ?w = users w" "cars ?w = cars w"
    by (simp_all add: w)
  obtain l' where l': "find_row (\<lambda>l. l_id l = e_bookingLegId e) (legs ?w) = Some l'" "l_bookingId l' = l_bookingId l"
    using rows by (auto simp: tabs extend_window_rows extension_rows_def)
  obtain b' where b': "find_row (\<lambda>b. b_id b = l_bookingId l) (bookings ?w) = Some b'"
      "b_userId b' = b_userId b" "b_guestUser b' = b_guestUser b" "b_carId b' = b_carId b" "b_chauffeurId b' = b_chauffeurId b"
    using rows by (auto simp: tabs extend_window_rows extension_rows_def)
  have v': "view_booking ?w b' = Some (v\<lparr>bv_booking := b'\<rparr>)"
    using rows b' by (auto simp: extension_rows_def view_booking_def tabs Let_def split: option.splits)
  have disjoint: "windows_disjoint (bookings (extend_booking_window 0 e l' ?w))"
    using rows extend_window_again [OF tabs(1,2) l'(2), of 0] by (simp add: tabs(2) extended_windows extension_rows_def)
  have rows': "extension_rows p ?w e l' b' (v\<lparr>bv_booking := b'\<rparr>)"
    using rows l' b' v' disjoint by (simp add: extension_rows_def tabs activated_twice)
  have same: "extend_booking_window (ce_now env') e l' (?w\<lparr>extensions := activated p (extensions ?w)\<rparr>) = ?w"
  proof -
    have "activated p (extensions ?w) = extensions ?w" by (simp add: tabs activated_twice)
    then have "?w\<lparr>extensions := activated p (extensions ?w)\<rparr> = ?w" by (simp only:) simp
    then show ?thesis using extend_window_again [OF tabs(1,2) l'(2)] by simp
  qed
  have "same_keys ?evs (booking_extension_confirmed_events (ce_config env') (v\<lparr>bv_booking := window_moved e b'\<rparr>) l' e)"
    by (rule extension_events_same_keys) (use b' in \<open>simp_all add: window_moved_def\<close>)
  then have "snd (create_notifications (ce_now env') NE_BOOKING_LIFECYCLE
      (booking_extension_confirmed_events (ce_config env') (v\<lparr>bv_booking := window_moved e b'\<rparr>) l' e) ?w) = ?w"
    by (rule notifications_same_keys) (simp_all only: w)
  moreover have "confirm_extension_from_payment env' p ?w = (Inr True, snd (create_notifications (ce_now env') NE_BOOKING_LIFECYCLE
      (booking_extension_confirmed_events (ce_config env') (v\<lparr>bv_booking := window_moved e b'\<rparr>) l' e) ?w))"
    using confirm_extension_rows [OF rows', of env'] unfolding same by simp
  ultimately show ?thesis by simp
qed

lemma confirm_charge_snd:
  "snd (confirm_charge_payment env d p w) =
     (if p_status p \<noteq> PA_SUCCESSFUL
      then if truthy (p_bookingId p) then snd (release_referral_reservation (ce_now env) (the (p_bookingId p)) w) else w
      else if \<not> matches_expected_amount_and_currency p d \<or> (p_bookingId p \<noteq> None) = (p_extensionId p \<noteq> None) then w
      else if p_bookingId p \<noteq> None then snd (confirm_booking_from_payment env p w)
      else snd (confirm_extension_from_payment env p w))"
proof -
  have "snd (case r of (Inl e, w') \<Rightarrow> (Inl e, w') | (Inr (ok :: bool), w') \<Rightarrow> (Inr (), w')) = snd r"
    for r :: "(charge_error + bool) \<times> world" by (simp split: prod.split sum.split)
  then show ?thesis unfolding confirm_charge_payment_def Let_def by simp
qed

lemma confirm_charge_twice:
  assumes "unique_by b_id (bookings w)" "unique_by e_id (extensions w)"
  shows "snd (confirm_charge_payment env' d p (snd (confirm_charge_payment env d p w))) = snd (confirm_charge_payment env d p w)"
  using confirm_booking_twice [OF assms(1), of env' p env] confirm_extension_twice [OF assms(2), of env' p env]
  by (simp add: confirm_charge_snd release_reservation_twice)

lemma confirm_charge_intents:
  assumes "unique_by b_id (bookings w)"
  shows "map b_paymentIntent (bookings (snd (confirm_charge_payment env d p w))) = map b_paymentIntent (bookings w)"
    and "map e_paymentIntent (extensions (snd (confirm_charge_payment env d p w))) = map e_paymentIntent (extensions w)"
proof -
  have bk: "map b_paymentIntent (bookings (snd (confirm_booking_from_payment env p w))) = map b_paymentIntent (bookings w)
      \<and> extensions (snd (confirm_booking_from_payment env p w)) = extensions w"
  proof (cases rule: confirm_booking_cases [OF assms, of env p])
    case (2 c)
    have "r = c" if "r \<in> set (bookings w)" "b_id r = b_id c" for r using unique_by_same [OF assms that(1) 2(1)] that(2) .
    then show ?thesis by (auto simp: 2)
  qed simp
  have ex: "map b_paymentIntent (bookings (snd (confirm_extension_from_payment env p w))) = map b_paymentIntent (bookings w)
      \<and> map e_paymentIntent (extensions (snd (confirm_extension_from_payment env p w))) = map e_paymentIntent (extensions w)"
    by (auto simp: confirm_extension_from_payment_def case_prod_beta Let_def extend_booking_window_def key_update_many split: option.split)
  have rl: "map b_paymentIntent (bookings (snd (release_referral_reservation now i w))) = map b_paymentIntent (bookings w)" for now i
    unfolding release_reservation_bookings by (simp add: key_update_many)
  show "map b_paymentIntent (bookings (snd (confirm_charge_payment env d p w))) = map b_paymentIntent (bookings w)"
    "map e_paymentIntent (extensions (snd (confirm_charge_payment env d p w))) = map e_paymentIntent (extensions w)"
    using bk ex rl by (simp_all add: confirm_charge_snd)
qed

lemma finalize_charge_twice:
  assumes u: "unique_by b_id (bookings w)" "unique_by e_id (extensions w)"
  shows "snd (finalize_verified_charge env' data d (snd (finalize_verified_charge env data d w))) = snd (finalize_verified_charge env data d w)"
proof -
  let ?s = "js_lower (js_trim (vf_status d))"
  define st where "st = (if ?s = ''successful'' then PA_SUCCESSFUL else PA_FAILED)"
  have run: "snd (finalize_verified_charge env data d w) =
      (if ?s \<notin> {''successful'', ''failed'', ''cancelled''} then w
       else case fst (find_or_create_payment env data st w) of
              Inr (Some p) \<Rightarrow> snd (confirm_charge_payment env d p (snd (find_or_create_payment env data st w)))
            | _ \<Rightarrow> snd (find_or_create_payment env data st w))" for env w
    unfolding finalize_verified_charge_def Let_def st_def by (simp add: case_prod_beta split: sum.split option.split)
  show ?thesis
  proof (cases "?s \<in> {''successful'', ''failed'', ''cancelled''} \<and> (\<exists>p. fst (find_or_create_payment env data st w) = Inr (Some p))")
    case False
    have "snd (finalize_verified_charge e data d w) = w" if "e = env \<or> e = env'" for e
    proof (cases "?s \<in> {''successful'', ''failed'', ''cancelled''}")
      case True
      then have "\<not> (\<exists>p. fst (find_or_create_payment env data st w) = Inr (Some p))" using False by blast
      from find_or_create_not [OF this, of e] show ?thesis using True
        by (auto simp: run split: sum.splits option.splits)
    next
      case out: False
      show ?thesis unfolding run using out by simp
    qed
    then show ?thesis by simp
  next
    case True
    then obtain p where p: "fst (find_or_create_payment env data st w) = Inr (Some p)" by blast
    let ?w1 = "snd (find_or_create_payment env data st w)"
    let ?w2 = "snd (confirm_charge_payment env d p ?w1)"
    have u1: "unique_by b_id (bookings ?w1)" "unique_by e_id (extensions ?w1)" using u by simp_all
    have w2: "snd (finalize_verified_charge env data d w) = ?w2" unfolding run using True p by simp
    have "find_or_create_payment env' data st ?w2 = (Inr (Some p), ?w2)"
      by (rule find_or_create_again [OF p]) (simp_all add: u confirm_charge_intents)
    then have "snd (finalize_verified_charge env' data d ?w2) = snd (confirm_charge_payment env' d p ?w2)" unfolding run using True by simp
    then show ?thesis using confirm_charge_twice [OF u1] by (simp add: w2)
  qed
qed

text \<open>
  Property C6: a redelivered charge webhook changes nothing.  Handling the same charge again, at
  any later instant and whatever the identifiers drawn, as long as the provider verifies it the
  same way, leaves every table, queue and outbox as the first delivery left it: no second payment
  row, no second confirmation, window extension, released discount or notification.
\<close>

theorem charge_redelivery_changes_nothing:
  assumes "unique_by b_id (bookings w)" and "unique_by e_id (extensions w)" and "ce_verify env' = ce_verify env"
  shows "snd (handle_charge_completed env' data (snd (handle_charge_completed env data w))) = snd (handle_charge_completed env data w)"
proof (cases "snd (process_verified_charge env data w) = w")
  case False
  then obtain d where d: "verified_charge env data d" "process_verified_charge env data w = finalize_verified_charge env data d w"
    by (rule process_unverified)
  have "verified_charge env' data d" using d(1) by (simp add: verified_charge_def assms(3))
  then show ?thesis using finalize_charge_twice [OF assms(1,2), of env' data d env]
    by (simp add: handle_charge_process d(2) process_verified)
next
  case True
  show ?thesis
  proof (cases "\<exists>d. verified_charge env data d")
    case False
    have "verified_charge env' data d = verified_charge env data d" for d by (simp add: verified_charge_def assms(3))
    with False have no: "\<not> (\<exists>d. verified_charge env' data d)" by simp
    have "snd (process_verified_charge env' data v) = v" for v
    proof (rule ccontr)
      assume "snd (process_verified_charge env' data v) \<noteq> v"
      then obtain d where "verified_charge env' data d" by (rule process_unverified)
      then show False using no by blast
    qed
    then show ?thesis using True by (simp add: handle_charge_process)
  next
    case ex: True
    then obtain d where d: "verified_charge env data d" by blast
    have "verified_charge env' data d" using d by (simp add: verified_charge_def assms(3))
    then show ?thesis using finalize_charge_twice [OF assms(1,2), of env' data d env] True
      by (simp add: handle_charge_process process_verified [OF d] process_verified)
  qed
qed

theorem charge_redelivery_changes_nothing_witness:
  "snd (handle_charge_completed (demo_charge_env\<lparr>ce_now := 99\<rparr>) demo_charge (snd (handle_charge_completed demo_charge_env demo_charge demo_pending_world)))
   = snd (handle_charge_completed demo_charge_env demo_charge demo_pending_world)"
  by (rule charge_redelivery_changes_nothing) (simp_all add: demo_charge_env_def)

text \<open>
  Property C9: once a failed attempt is recorded under a reference, no later charge with that
  reference confirms anything.  The payment row is never updated by a further charge, so a
  successful charge of the same checkout session leaves the payment failed and every booking in
  its state; reconciling the expired reservation still reports success, and the reservation stays.
\<close>

theorem failed_attempt_blocks_later_success:
  assumes "unique_by b_id (bookings w)"
    and "find_row (\<lambda>p. p_txRef p = cg_tx_ref data) (payments w) = Some p" and "p_status p = PA_FAILED"
  shows "payments (snd (handle_charge_completed env data w)) = payments w
    \<and> map booking_state (bookings (snd (handle_charge_completed env data w))) = map booking_state (bookings w)
    \<and> (\<forall>b d. find_transaction (ce_findByReference env) (payment_references b) = Inr (Some d)
         \<and> js_lower (js_trim (vf_status d)) = ''successful'' \<and> data = charge_data_of d \<and> verified_charge env data d
         \<longrightarrow> fst (reconcile_reservation env b w) \<and> map booking_state (bookings (snd (reconcile_reservation env b w))) = map booking_state (bookings w))"
proof -
  have row: "find_or_create_payment env data st w \<in> {(Inr None, w), (Inr (Some p), w)}" for st
    using assms(2) by (auto simp: find_or_create_payment_def upsert_charge_payment_def Let_def split: option.split)
  have fin: "payments (snd (finalize_verified_charge env data d w)) = payments w
    \<and> map booking_state (bookings (snd (finalize_verified_charge env data d w))) = map booking_state (bookings w)
    \<and> fst (finalize_verified_charge env data d w) = Inr ()" for d
    using row [of "if js_lower (js_trim (vf_status d)) = ''successful'' then PA_SUCCESSFUL else PA_FAILED"] assms(3)
    by (auto simp: finalize_verified_charge_def Let_def confirm_charge_payment_def release_reservation_states)
  have kept: "payments (snd (handle_charge_completed env data w)) = payments w
    \<and> map booking_state (bookings (snd (handle_charge_completed env data w))) = map booking_state (bookings w)"
    using fin by (simp add: handle_charge_process process_verified_charge_def split: sum.split option.split)
  moreover have "fst (handle_charge_completed env data w) = Inr ()" if "verified_charge env data d" for d
    using fin by (simp add: handle_charge_process process_verified [OF that])
  ultimately show ?thesis by (auto simp: reconcile_reservation_def split: prod.split sum.split)
qed

theorem failed_attempt_blocks_later_success_witness:
  "b_status (hd (bookings (snd (handle_charge_completed demo_charge_env demo_charge
      (demo_pending_world\<lparr>payments := [demo_payment\<lparr>p_txRef := ''tx9'', p_status := PA_FAILED\<rparr>]\<rparr>))))) = B_PENDING"
proof -
  let ?w = "demo_pending_world\<lparr>payments := [demo_payment\<lparr>p_txRef := ''tx9'', p_status := PA_FAILED\<rparr>]\<rparr>"
  have "map booking_state (bookings (snd (handle_charge_completed demo_charge_env demo_charge ?w))) = map booking_state (bookings ?w)"
    using failed_attempt_blocks_later_success [of ?w demo_charge "demo_payment\<lparr>p_txRef := ''tx9'', p_status := PA_FAILED\<rparr>" demo_charge_env]
    by (simp add: find_row_def)
  then show ?thesis by (auto simp: booking_state_def)
qed

text \<open>
  Property C10: a checkout opened for an extension through the payment endpoint is never recorded.
  Opening it stores nothing, and its reference, extension_ followed by the extension's id, is not
  one the extension service gives an extension (ext- followed by the booking and a random id), so
  the charge of that checkout, successful or not, changes nothing.
\<close>

theorem extension_checkout_never_recorded:
  assumes "initialize_payment now post uuid dto u w = (Inr (ref, link), w')" and "it_type dto = PayExtension"
    and "\<forall>e \<in> set (extensions w). \<exists>k. e_paymentIntent e = Some (''ext-'' @ k)"
    and "\<forall>b \<in> set (bookings w). b_paymentIntent b \<noteq> Some (''extension_'' @ it_entityId dto)"
    and "cg_tx_ref data = ref"
  shows "w' = w \<and> ref = ''extension_'' @ it_entityId dto \<and> snd (handle_charge_completed env data w') = w"
proof -
  have w': "w' = w" and "ref = ip_tx_ref (intent_payload_of uuid (intent_options_of dto u (it_amount dto)))"
    using assms(1,2)
    by (auto simp: initialize_payment_def create_payment_intent_def Let_def split: sum.splits if_splits http_result.splits)
  then have ref: "ref = ''extension_'' @ it_entityId dto"
    by (simp add: intent_payload_of_def intent_options_of_def payment_reference_of_def assms(2) str_or_def Let_def)
  have "find_row (\<lambda>e. e_paymentIntent e = Some ref) (extensions w) = None"
    "find_row (\<lambda>b. b_paymentIntent b = Some ref) (bookings w) = None"
    using assms(3,4) by (force simp: find_row_None ref)+
  then have "find_or_create_payment env data st w = (Inr None, w)" for st
    by (simp add: find_or_create_payment_def Let_def assms(5))
  then have "snd (finalize_verified_charge env data d w) = w" for d
    by (simp add: finalize_verified_charge_def Let_def)
  then show ?thesis
    by (simp add: w' ref handle_charge_process process_verified_charge_def split: sum.split option.split)
qed

definition demo_extension :: extension where
  "demo_extension = \<lparr>e_id = ''e1'', e_bookingLegId = ''l1'', e_paymentStatus = UNPAID, e_status = ''PENDING'', e_extensionEndTime = 3000,
     e_totalAmount = 50, e_paymentIntent = Some ''ext-b1-u'', e_paymentId = None, e_extensionStartTime = 2000, e_extendedDurationHours = 1,
     e_netTotal = None, e_fleetOwnerPayoutAmountNet = None, e_prices = no_prices\<rparr>"

definition demo_extension_world :: world where
  "demo_extension_world = demo_world\<lparr>extensions := [demo_extension],
     legs := [\<lparr>l_id = ''l1'', l_bookingId = ''b1'', l_legStartTime = 1000, l_legEndTime = 2000, l_legDate = 0,
       l_totalDailyPrice = 0, l_itemsNetValueForLeg = 0, l_platformCommissionRateOnLeg = None,
       l_platformCommissionAmountOnLeg = None, l_fleetOwnerEarningForLeg = 0\<rparr>]\<rparr>"

theorem extension_checkout_never_recorded_witness:
  "snd (handle_charge_completed demo_charge_env (demo_charge\<lparr>cg_tx_ref := ''extension_e1''\<rparr>) demo_extension_world) = demo_extension_world"
proof -
  have "\<exists>link. initialize_payment 5 (\<lambda>_. HttpOk \<lparr>fr_status = ''success'', fr_message = [], fr_data = Some ''url''\<rparr>) ''u''
      \<lparr>it_type = PayExtension, it_entityId = ''e1'', it_amount = 50, it_callbackUrl = ''cb''\<rparr>
      \<lparr>ui_id = ''u1'', ui_email = ''e'', ui_name = None\<rparr> demo_extension_world = (Inr (''extension_e1'', link), demo_extension_world)"
    by (simp add: initialize_payment_def validate_extension_for_payment_def demo_extension_world_def demo_extension_def demo_defs
        find_row_def create_payment_intent_def intent_payload_of_def intent_options_of_def payment_reference_of_def str_or_def Let_def)
  then obtain link where "initialize_payment 5 (\<lambda>_. HttpOk \<lparr>fr_status = ''success'', fr_message = [], fr_data = Some ''url''\<rparr>) ''u''
      \<lparr>it_type = PayExtension, it_entityId = ''e1'', it_amount = 50, it_callbackUrl = ''cb''\<rparr>
      \<lparr>ui_id = ''u1'', ui_email = ''e'', ui_name = None\<rparr> demo_extension_world = (Inr (''extension_e1'', link), demo_extension_world)" ..
  from extension_checkout_never_recorded [OF this] show ?thesis
    by (simp add: demo_extension_world_def demo_extension_def demo_world_def demo_booking_def empty_world_def)
qed

text \<open>The row of a reservation after its expiry.\<close>

definition expired_row :: "time \<Rightarrow> booking \<Rightarrow> booking" where
  "expired_row now b =
     (if b_referralStatus b = REF_RESERVED
      then b\<lparr>b_referralStatus := REF_REVERSED, b_referralDiscountAmount := 0, b_referralReferrerUserId := None\<rparr> else b)
     \<lparr>b_status := B_CANCELLED, b_cancelledAt := Some now, b_cancellationReason := Some ''Payment session expired'',
      b_referralCreditsReserved := 0, b_referralCreditsUsed := 0, b_updatedAt := now\<rparr>"

text \<open>
  Property C7: an expired reservation is cancelled exactly when nothing was paid.  Cancellation
  happens if and only if the booking's car exists, the booking is pending and unpaid, its session
  has run out (or, without a session, its ten minutes since creation) and it has no successful
  payment; then the row is cancelled with its referral discount and credits given back and no
  other booking or payment changes.  Otherwise nothing changes at all.
\<close>

theorem expired_reservation_cancelled_iff_unpaid:
  assumes u: "unique_by b_id (bookings w)" and b: "b \<in> set (bookings w)"
    and res: "cancel_expired_reservation now (b_id b) w = (r, w')"
  shows "(r \<longleftrightarrow> find_row (\<lambda>c. c_id c = b_carId b) (cars w) \<noteq> None \<and> b_status b = B_PENDING \<and> b_paymentStatus b = UNPAID
             \<and> session_expired now b \<and> \<not> (\<exists>p \<in> set (payments w). p_bookingId p = Some (b_id b) \<and> p_status p = PA_SUCCESSFUL))
    \<and> (if r then bookings w' = map (\<lambda>x. if b_id x = b_id b then expired_row now b else x) (bookings w) \<and> payments w' = payments w
       else w' = w)"
proof -
  have fb: "find_row (\<lambda>x. b_id x = b_id b) (bookings w) = Some b" using find_row_unique [OF u b] .
  define paid where "paid \<longleftrightarrow> (\<exists>p \<in> set (payments w). p_bookingId p = Some (b_id b) \<and> p_status p = PA_SUCCESSFUL)"
  have none: "(0 < length (filter (\<lambda>p. p_bookingId p = Some (b_id b) \<and> p_status p = PA_SUCCESSFUL) (payments w))) = paid"
    by (auto simp: filter_empty_conv paid_def)
  let ?c = "find_row (\<lambda>c. c_id c = b_carId b) (cars w) \<noteq> None \<and> b_status b = B_PENDING \<and> b_paymentStatus b = UNPAID
             \<and> session_expired now b \<and> \<not> paid"
  show ?thesis unfolding paid_def [symmetric]
  proof (cases ?c)
    case False
    then have "cancel_expired_reservation now (b_id b) w = (False, w)"
      unfolding cancel_expired_reservation_def fb option.case none by (simp only: if_splits(1) de_Morgan_conj) metis
    then show "(r \<longleftrightarrow> ?c) \<and> (if r then bookings w' = map (\<lambda>x. if b_id x = b_id b then expired_row now b else x) (bookings w) \<and> payments w' = payments w else w' = w)"
      using res False by auto
  next
    case True
    let ?rel = "\<lambda>x. x\<lparr>b_referralStatus := REF_REVERSED, b_referralDiscountAmount := 0, b_referralReferrerUserId := None, b_updatedAt := now\<rparr>"
    let ?b = "if releasable_reservation b then ?rel b else b"
    let ?can = "\<lambda>b. b\<lparr>b_status := B_CANCELLED, b_cancelledAt := Some now,
                          b_cancellationReason := Some ''Payment session expired'', b_referralCreditsReserved := 0,
                          b_referralCreditsUsed := 0, b_updatedAt := now\<rparr>"
    let ?Q = "\<lambda>b. b_status b = B_PENDING \<and> b_paymentStatus b = UNPAID \<and> session_expired now b"
    let ?t = "map (\<lambda>x. if b_id x = b_id b then ?b else x) (bookings w)"
    have t: "bookings (snd (release_referral_reservation now (b_id b) w)) = ?t"
      unfolding release_reservation_bookings snd_update_many
    proof (rule map_cong [OF refl])
      fix x assume "x \<in> set (bookings w)"
      then have "b_id x = b_id b \<Longrightarrow> x = b" using unique_by_same [OF u _ b] by blast
      then show "(if b_id x = b_id b \<and> releasable_reservation x then ?rel x else x) = (if b_id x = b_id b then ?b else x)" by auto
    qed
    have "map b_id ?t = map b_id (bookings w)" using refine_unique [OF release_reservation_refine] by (simp only: flip: t)
    then have "unique_by b_id ?t" using u by (simp only:)
    moreover have ids: "b_id ?b = b_id b" by simp
    moreover have "?b \<in> set ?t" using b by (auto simp: image_iff)
    moreover have "?Q ?b" using True by (cases "releasable_reservation b") (auto simp: session_expired_def split: option.splits)
    ultimately have "update_many (\<lambda>x. b_id x = b_id ?b \<and> ?Q x) ?can ?t = (1, map (\<lambda>x. if b_id x = b_id ?b then ?can ?b else x) ?t)"
      by (intro update_many_at [where key = b_id and P = ?Q])
    moreover have "?can ?b = expired_row now b" using True by (auto simp: expired_row_def releasable_reservation_def)
    ultimately have um: "update_many (\<lambda>x. b_id x = b_id b \<and> ?Q x) ?can ?t = (1, map (\<lambda>x. if b_id x = b_id b then expired_row now b else x) (bookings w))"
      unfolding ids by (simp only:) (auto simp: ids)
    show "(r \<longleftrightarrow> ?c) \<and> (if r then bookings w' = map (\<lambda>x. if b_id x = b_id b then expired_row now b else x) (bookings w) \<and> payments w' = payments w else w' = w)"
      using res True none by (auto simp: cancel_expired_reservation_def fb t um release_reservation_frame)
  qed
qed

theorem expired_reservation_cancelled_iff_unpaid_witness:
  "bookings (snd (cancel_expired_reservation 900 ''b1'' demo_pending_world)) = [expired_row 900 demo_pending]"
proof -
  have "session_expired 900 demo_pending" by (simp add: session_expired_def demo_pending_def)
  then show ?thesis
    using expired_reservation_cancelled_iff_unpaid [of demo_pending_world demo_pending 900, OF _ _ prod.collapse [symmetric]]
    by (auto simp: find_row_def split: if_splits)
qed

text \<open>
  Property C8: a booking's payment session is opened once.  When opening a payment claims the
  session of a booking, whatever the provider then answers, the row carries the deterministic
  reference of the booking and a ten-minute expiry, and every further attempt to open a payment
  for that booking, by anyone and at any time, is refused and changes nothing.
\<close>

theorem payment_session_opened_once:
  assumes u: "unique_by b_id (bookings w)" and ty: "it_type dto = PayBooking" "it_type dto' = PayBooking" "it_entityId dto' = it_entityId dto"
    and res: "initialize_payment now post uuid dto user w = (r, w')" and claimed: "w' \<noteq> w"
  shows "(\<exists>b' \<in> set (bookings w'). b_id b' = it_entityId dto \<and> b_paymentIntent b' = Some (''booking_'' @ it_entityId dto)
            \<and> b_paymentSessionExpiresAt b' = Some (now + booking_payment_session_duration))
    \<and> (\<exists>e. initialize_payment now' post' uuid' dto' user' w' = (Inl e, w'))"
proof -
  let ?i = "it_entityId dto"
  let ?f = "\<lambda>b. b\<lparr>b_paymentIntent := Some (payment_reference_of dto),
                   b_paymentSessionExpiresAt := Some (now + booking_payment_session_duration), b_updatedAt := now\<rparr>"
  have w': "w' = w\<lparr>bookings := snd (update_many (claimable_session ?i) ?f (bookings w))\<rparr>"
    and pos: "fst (update_many (claimable_session ?i) ?f (bookings w)) \<noteq> 0"
    using res claimed ty
    by (auto simp: initialize_payment_def claim_booking_payment_session_def case_prod_beta Let_def split: sum.splits if_splits)
  obtain b where b: "b \<in> set (bookings w)" "claimable_session ?i b"
    using pos update_many_pos [of "claimable_session ?i" ?f "bookings w"] by (auto simp del: update_many_pos)
  have ids: "map b_id (bookings w') = map b_id (bookings w)" by (simp add: w' key_update_many)
  have b': "?f b \<in> set (bookings w')" "b_id (?f b) = ?i" using b by (auto simp: w' set_update_many claimable_session_def)
  have "find_row (\<lambda>x. b_id x = ?i) (bookings w') = Some (?f b)"
    using find_row_unique [of b_id "bookings w'" "?f b"] b' u ids by simp
  moreover have "payment_reference_of dto = ''booking_'' @ ?i" by (simp add: payment_reference_of_def ty)
  ultimately have "\<exists>e. validate_booking_for_payment now' ?i (ui_id user') w' = Inl e"
    by (simp add: validate_booking_for_payment_def)
  then have "\<exists>e. initialize_payment now' post' uuid' dto' user' w' = (Inl e, w')"
    by (auto simp: initialize_payment_def ty)
  then show ?thesis using b' by (auto simp: payment_reference_of_def ty intro!: bexI [of _ "?f b"])
qed

theorem payment_session_opened_once_witness:
  "\<exists>e. initialize_payment 9 (\<lambda>_. HttpNoResponse) ''v'' \<lparr>it_type = PayBooking, it_entityId = ''b1'', it_amount = 1000, it_callbackUrl = ''cb''\<rparr>
      \<lparr>ui_id = ''u1'', ui_email = ''e'', ui_name = None\<rparr>
      (snd (initialize_payment 5 (\<lambda>_. HttpNoResponse) ''u'' \<lparr>it_type = PayBooking, it_entityId = ''b1'', it_amount = 1000, it_callbackUrl = ''cb''\<rparr>
        \<lparr>ui_id = ''u1'', ui_email = ''e'', ui_name = None\<rparr> (demo_world\<lparr>bookings := [demo_booking\<lparr>b_status := B_PENDING, b_paymentStatus := UNPAID\<rparr>]\<rparr>)))
    = (Inl e, snd (initialize_payment 5 (\<lambda>_. HttpNoResponse) ''u'' \<lparr>it_type = PayBooking, it_entityId = ''b1'', it_amount = 1000, it_callbackUrl = ''cb''\<rparr>
        \<lparr>ui_id = ''u1'', ui_email = ''e'', ui_name = None\<rparr> (demo_world\<lparr>bookings := [demo_booking\<lparr>b_status := B_PENDING, b_paymentStatus := UNPAID\<rparr>]\<rparr>)))"
proof -
  let ?b = "demo_booking\<lparr>b_status := B_PENDING, b_paymentStatus := UNPAID\<rparr>"
  let ?w = "demo_world\<lparr>bookings := [?b]\<rparr>"
  let ?dto = "\<lparr>it_type = PayBooking, it_entityId = ''b1'', it_amount = 1000, it_callbackUrl = ''cb''\<rparr>"
  let ?u = "\<lparr>ui_id = ''u1'', ui_email = ''e'', ui_name = None\<rparr>"
  have "b_paymentIntent (hd (bookings (snd (initialize_payment 5 (\<lambda>_. HttpNoResponse) ''u'' ?dto ?u ?w)))) = Some ''booking_b1''"
    by (simp add: initialize_payment_def validate_booking_for_payment_def claim_booking_payment_session_def claimable_session_def
        find_row_def demo_booking_def update_many_def payment_reference_of_def case_prod_beta split: sum.split)
  then have "snd (initialize_payment 5 (\<lambda>_. HttpNoResponse) ''u'' ?dto ?u ?w) \<noteq> ?w" by (auto simp: demo_booking_def)
  from payment_session_opened_once [OF _ _ _ _ prod.collapse [symmetric] this] show ?thesis by simp
qed

end
