(* ===== verification/BookingLegs.thy ===== *)
theory BookingLegs
  imports JsDate JsNumber Schema
begin

text \<open>
  The time window of a booking request (shared/booking-time-window.helper.ts), the number of legs
  a booking takes (modules/booking/booking.helper.ts) and the legs themselves
  (modules/booking/booking-leg.service.ts).  Native Date methods read the zone of the process, at
  the offset off; UTCDate values and the UTC getters read UTC.  The functions of date-fns are the
  fields of a parameter; what is used of their documentation is the locale date_fns_lib.
\<close>

section \<open>The date library\<close>

text \<open>
  They act on UTCDate values, except that calendar days are counted and compared in the zone of
  the process.
\<close>

record date_fns =
  df_setHours :: "time \<Rightarrow> int \<Rightarrow> time"
  df_setMinutes :: "time \<Rightarrow> int \<Rightarrow> time"
  df_setSeconds :: "time \<Rightarrow> int \<Rightarrow> time"
  df_addDays :: "time \<Rightarrow> int \<Rightarrow> time"
  df_eachDayOfInterval :: "time \<Rightarrow> time \<Rightarrow> time list"
  df_addHours :: "time \<Rightarrow> int \<Rightarrow> time"
  df_startOfDay :: "time \<Rightarrow> time"
  df_differenceInHours :: "time \<Rightarrow> time \<Rightarrow> int"
  df_differenceInCalendarDays :: "time \<Rightarrow> time \<Rightarrow> int"
  df_isSameDay :: "time \<Rightarrow> time \<Rightarrow> bool"

text \<open>The midnights, in UTC, from the day of s to the day of e.\<close>

definition utc_days :: "time \<Rightarrow> time \<Rightarrow> time list" where
  "utc_days s e = map (\<lambda>i. (s div day_ms + int i) * day_ms) [0..<Suc (nat (e div day_ms - s div day_ms))]"

locale date_fns_lib =
  fixes F :: date_fns and off :: int
  assumes setHours: "0 \<le> h \<Longrightarrow> h < 24 \<Longrightarrow> df_setHours F t h = t div day_ms * day_ms + h * 3600000 + t mod 3600000"
    and setMinutes: "0 \<le> m \<Longrightarrow> m < 60 \<Longrightarrow> df_setMinutes F t m = t div 3600000 * 3600000 + m * 60000 + t mod 60000"
    and setSeconds: "0 \<le> s \<Longrightarrow> s < 60 \<Longrightarrow> df_setSeconds F t s = t div 60000 * 60000 + s * 1000 + t mod 1000"
    and addDays: "df_addDays F t n = t + n * day_ms"
    and eachDay: "s \<le> e \<Longrightarrow> df_eachDayOfInterval F s e = utc_days s e"
    and addHours: "df_addHours F t n = t + n * 3600000"
    and startOfDay: "df_startOfDay F t = t div day_ms * day_ms"
    and differenceInHours: "df_differenceInHours F l r = (if r \<le> l then (l - r) div 3600000 else - ((r - l) div 3600000))"
    and calendarDays: "df_differenceInCalendarDays F l r = local_day off l - local_day off r"
    and isSameDay: "df_isSameDay F l r \<longleftrightarrow> local_day off l = local_day off r"

text \<open>An implementation of the interface on the instants themselves.\<close>

definition utc_fns :: "int \<Rightarrow> date_fns" where
  "utc_fns off =
     \<lparr>df_setHours = \<lambda>t h. t div day_ms * day_ms + h * 3600000 + t mod 3600000,
      df_setMinutes = \<lambda>t m. t div 3600000 * 3600000 + m * 60000 + t mod 60000,
      df_setSeconds = \<lambda>t s. t div 60000 * 60000 + s * 1000 + t mod 1000,
      df_addDays = \<lambda>t n. t + n * day_ms, df_eachDayOfInterval = utc_days,
      df_addHours = \<lambda>t n. t + n * 3600000, df_startOfDay = \<lambda>t. t div day_ms * day_ms,
      df_differenceInHours = \<lambda>l r. if r \<le> l then (l - r) div 3600000 else - ((r - l) div 3600000),
      df_differenceInCalendarDays = \<lambda>l r. local_day off l - local_day off r,
      df_isSameDay = \<lambda>l r. local_day off l = local_day off r\<rparr>"

interpretation utc: date_fns_lib "utc_fns off" off for off
  by unfold_locales (simp_all add: utc_fns_def)

section \<open>Clock times\<close>

text \<open>
  The parts of a clock time: the leading digits, two digits after a colon, the white space and
  what is left in capitals, over which the regular expressions of the program are conditions.
\<close>

definition scan_clock :: "string \<Rightarrow> string \<times> string option \<times> string \<times> string" where
  "scan_clock s =
     (let hs = takeWhile is_digit s; r = dropWhile is_digit s;
          (ms, r') = (case r of
              c # a # b # u \<Rightarrow> (if c = CHR '':'' \<and> is_digit a \<and> is_digit b then (Some [a, b], u) else (None, r))
            | _ \<Rightarrow> (None, r))
      in (hs, ms, takeWhile is_ws r', js_upper (dropWhile is_ws r')))"

definition clock_number :: "string \<Rightarrow> int" where
  "clock_number s = int (radix_value 10 s)"

definition clock_24 :: "int \<Rightarrow> bool \<Rightarrow> int" where
  "clock_24 h pm = (if pm \<and> h \<noteq> 12 then h + 12 else if \<not> pm \<and> h = 12 then 0 else h)"

text \<open>The expression ^(\d{1,2})(?::(\d{2}))?\s*(AM|PM)$ without regard to case.\<close>

definition match_time12 :: "string \<Rightarrow> (int \<times> int) option" where
  "match_time12 s =
     (let (hs, ms, ws, p) = scan_clock s in
      if length hs \<in> {1, 2} \<and> (p = ''AM'' \<or> p = ''PM'')
      then Some (clock_24 (clock_number hs) (p = ''PM''), case ms of None \<Rightarrow> 0 | Some m \<Rightarrow> clock_number m)
      else None)"

text \<open>The expression ^(\d{1,2}):(\d{2})$.\<close>

definition match_time24 :: "string \<Rightarrow> (int \<times> int) option" where
  "match_time24 s =
     (let (hs, ms, ws, p) = scan_clock s in
      case ms of None \<Rightarrow> None
      | Some m \<Rightarrow> (if length hs \<in> {1, 2} \<and> ws = [] \<and> p = [] then Some (clock_number hs, clock_number m) else None))"

text \<open>A pickup time that does not match throws a TypeError in the leg service: None.\<close>

definition parse_pickup_time :: "string \<Rightarrow> (int \<times> int) option" where
  "parse_pickup_time s = match_time12 (js_trim s)"

section \<open>The booking window\<close>

definition get_default_pickup_time :: "booking_type \<Rightarrow> string" where
  "get_default_pickup_time t = (case t of DAY \<Rightarrow> ''7:00 AM'' | FULL_DAY \<Rightarrow> ''6:00 AM'' | _ \<Rightarrow> ''9:00 AM'')"

definition parse_and_apply_pickup_time :: "int \<Rightarrow> time \<Rightarrow> string \<Rightarrow> time" where
  "parse_and_apply_pickup_time off d s =
     (case match_time24 s of
        Some (h, m) \<Rightarrow> set_hours off d h m
      | None \<Rightarrow> (case match_time12 s of Some (h, m) \<Rightarrow> set_hours off d h m | None \<Rightarrow> d))"

definition normalize_booking_time_window ::
  "date_fns \<Rightarrow> int \<Rightarrow> booking_type \<Rightarrow> time \<Rightarrow> time \<Rightarrow> string option \<Rightarrow> time \<times> time" where
  "normalize_booking_time_window F off bt startDate endDate pickup =
     (let pickupTime = (case pickup of Some p \<Rightarrow> p | None \<Rightarrow> get_default_pickup_time bt) in
      case bt of
        AIRPORT_PICKUP \<Rightarrow> (startDate, endDate)
      | NIGHT \<Rightarrow>
          (let s = set_hours off startDate 23 0; e = set_hours off endDate 5 0
           in (s, if e \<le> s then add_days e 1 else e))
      | FULL_DAY \<Rightarrow>
          (let s = parse_and_apply_pickup_time off startDate pickupTime;
               daySpan = max 1 (df_differenceInCalendarDays F endDate startDate)
           in (s, df_addHours F s (24 * daySpan)))
      | DAY \<Rightarrow>
          (let s = parse_and_apply_pickup_time off startDate pickupTime
           in (s, set_hours off endDate (local_hours off s + 12) (local_minutes off s))))"

section \<open>Counting legs\<close>

definition get_effective_end_date :: "time \<Rightarrow> time \<Rightarrow> time" where
  "get_effective_end_date endDate startDate =
     (if endDate mod day_ms = 0
      then (let adjusted = endDate - 1 in if adjusted < startDate then startDate else adjusted)
      else endDate)"

definition get_day_leg_dates :: "date_fns \<Rightarrow> time \<Rightarrow> time \<Rightarrow> time list" where
  "get_day_leg_dates F startDate endDate = df_eachDayOfInterval F startDate (get_effective_end_date endDate startDate)"

definition calculate_day_leg_count :: "date_fns \<Rightarrow> time \<Rightarrow> time \<Rightarrow> int" where
  "calculate_day_leg_count F startDate endDate = int (length (get_day_leg_dates F startDate endDate))"

definition calculate_night_leg_count :: "time \<Rightarrow> time \<Rightarrow> int" where
  "calculate_night_leg_count startDate endDate =
     (let totalHours = rat_of_int (get_effective_end_date endDate startDate - startDate) / (1000 * 60 * 60)
      in max 1 \<lceil>totalHours / 24\<rceil>)"

definition calculate_full_day_leg_count :: "time \<Rightarrow> time \<Rightarrow> time \<Rightarrow> int" where
  "calculate_full_day_leg_count startDate endDate baseStartTime =
     (let totalMs = get_effective_end_date endDate startDate - baseStartTime;
          totalHours = rat_of_int totalMs / (1000 * 60 * 60)
      in max 1 \<lceil>totalHours / 24\<rceil>)"

definition calculate_leg_count :: "date_fns \<Rightarrow> booking_type \<Rightarrow> time \<Rightarrow> time \<Rightarrow> int" where
  "calculate_leg_count F bt startDate endDate =
     (case bt of
        AIRPORT_PICKUP \<Rightarrow> 1
      | DAY \<Rightarrow> calculate_day_leg_count F startDate endDate
      | NIGHT \<Rightarrow> calculate_night_leg_count startDate endDate
      | FULL_DAY \<Rightarrow> calculate_full_day_leg_count startDate endDate startDate)"

section \<open>Generating legs\<close>

datatype leg_generation_input =
    DayLegInput time time string
  | NightLegInput time time
  | FullDayLegInput time time string
  | AirportPickupLegInput time time "time option" "rat option"

record generated_leg =
  gl_legDate :: time
  gl_legStartTime :: time
  gl_legEndTime :: time

definition build_leg_generation_input ::
  "booking_type \<Rightarrow> time \<Rightarrow> time \<Rightarrow> string \<Rightarrow> time option \<Rightarrow> rat option \<Rightarrow> leg_generation_input" where
  "build_leg_generation_input bt startDate endDate pickupTime flightArrivalTime driveTimeMinutes =
     (case bt of
        DAY \<Rightarrow> DayLegInput startDate endDate pickupTime
      | NIGHT \<Rightarrow> NightLegInput startDate endDate
      | FULL_DAY \<Rightarrow> FullDayLegInput startDate endDate pickupTime
      | AIRPORT_PICKUP \<Rightarrow> AirportPickupLegInput startDate endDate flightArrivalTime driveTimeMinutes)"

text \<open>setSeconds(setMinutes(setHours(d, h), m), 0).\<close>

definition at_clock :: "date_fns \<Rightarrow> time \<Rightarrow> int \<Rightarrow> int \<Rightarrow> time" where
  "at_clock F d h m = df_setSeconds F (df_setMinutes F (df_setHours F d h) m) 0"

definition generate_day_legs :: "date_fns \<Rightarrow> time \<Rightarrow> time \<Rightarrow> string \<Rightarrow> generated_leg list option" where
  "generate_day_legs F startDate endDate pickupTime =
     (case parse_pickup_time pickupTime of
        None \<Rightarrow> None
      | Some (hours, minutes) \<Rightarrow>
          Some (map (\<lambda>day. let s = at_clock F day hours minutes in
                        \<lparr>gl_legDate = day, gl_legStartTime = s, gl_legEndTime = df_addHours F s 12\<rparr>)
                 (get_day_leg_dates F startDate endDate)))"

definition generate_night_legs :: "date_fns \<Rightarrow> time \<Rightarrow> time \<Rightarrow> generated_leg list" where
  "generate_night_legs F startDate endDate =
     map (\<lambda>i. let nightDate = df_addDays F startDate (int i) in
              \<lparr>gl_legDate = nightDate, gl_legStartTime = at_clock F nightDate 23 0,
               gl_legEndTime = at_clock F (df_addDays F nightDate 1) 5 0\<rparr>)
       [0..<nat (calculate_night_leg_count startDate endDate)]"

definition generate_full_day_legs :: "date_fns \<Rightarrow> time \<Rightarrow> time \<Rightarrow> string \<Rightarrow> generated_leg list option" where
  "generate_full_day_legs F startDate endDate pickupTime =
     (case parse_pickup_time pickupTime of
        None \<Rightarrow> None
      | Some (hours, minutes) \<Rightarrow>
          (let base = at_clock F startDate hours minutes in
           Some (map (\<lambda>i. let s = df_addHours F base (int i * 24) in
                         \<lparr>gl_legDate = s, gl_legStartTime = s, gl_legEndTime = df_addHours F s 24\<rparr>)
                  [0..<nat (calculate_full_day_leg_count startDate endDate base)])))"

text \<open>new Date truncates a fractional instant; instants after the epoch are rounded down.\<close>

definition generate_airport_pickup_legs :: "time \<Rightarrow> time option \<Rightarrow> rat option \<Rightarrow> generated_leg list" where
  "generate_airport_pickup_legs startDate flightArrivalTime driveTimeMinutes =
     (let baseTime = (case flightArrivalTime of Some t \<Rightarrow> t | None \<Rightarrow> startDate);
          s = baseTime + 40 * 60 * 1000;
          drive = (case driveTimeMinutes of Some d \<Rightarrow> d | None \<Rightarrow> 120);
          buffered = drive * (12 / 10) * 60 * 1000
      in [\<lparr>gl_legDate = startDate, gl_legStartTime = s, gl_legEndTime = \<lfloor>rat_of_int s + buffered\<rfloor>\<rparr>])"

definition generate_legs :: "date_fns \<Rightarrow> leg_generation_input \<Rightarrow> generated_leg list option" where
  "generate_legs F inp =
     (case inp of
        DayLegInput s e p \<Rightarrow> generate_day_legs F s e p
      | NightLegInput s e \<Rightarrow> Some (generate_night_legs F s e)
      | FullDayLegInput s e p \<Rightarrow> generate_full_day_legs F s e p
      | AirportPickupLegInput s e f d \<Rightarrow> Some (generate_airport_pickup_legs s f d))"

section \<open>The instants of the legs\<close>

lemma ceiling_days: "\<lceil>rat_of_int ms / (1000 * 60 * 60) / 24\<rceil> = - ((- ms) div day_ms)"
proof -
  have "rat_of_int ms / (1000 * 60 * 60) / 24 = rat_of_int ms / rat_of_int day_ms" by simp
  then show ?thesis by (simp only: ceiling_divide_eq_div)
qed

lemma clock_bounds: "match_time12 s = Some (h, m) \<Longrightarrow> 0 \<le> h \<and> 0 \<le> m"
  by (auto simp: match_time12_def scan_clock_def clock_24_def clock_number_def Let_def split: if_splits option.splits list.splits)

lemma effective_end_bounds:
  assumes "s \<le> e" shows "s \<le> get_effective_end_date e s" and "get_effective_end_date e s \<le> e"
  using assms by (auto simp: get_effective_end_date_def Let_def)

lemma effective_end_day: "s < e \<Longrightarrow> get_effective_end_date e s div day_ms = (e - 1) div day_ms"
proof -
  assume "s < e"
  then have "get_effective_end_date e s = (if e mod day_ms = 0 then e - 1 else e)"
    by (auto simp: get_effective_end_date_def Let_def)
  moreover have "e div day_ms = (e - 1) div day_ms" if "e mod day_ms \<noteq> 0"
  proof -
    have "0 \<le> e mod day_ms - 1" "e mod day_ms - 1 < day_ms" using that pos_mod_bound [of day_ms e] pos_mod_sign [of day_ms e] by linarith+
    then have "(e div day_ms * day_ms + (e mod day_ms - 1)) div day_ms = e div day_ms" by simp
    moreover have "e div day_ms * day_ms + (e mod day_ms - 1) = e - 1" using div_mult_mod_eq [of e day_ms] by linarith
    ultimately show ?thesis by (simp only:)
  qed
  ultimately show ?thesis by simp
qed

text \<open>What a generated leg lasts; of an airport pickup, the buffered drive.\<close>

fun leg_duration :: "leg_generation_input \<Rightarrow> time" where
  "leg_duration (DayLegInput s e p) = hours_ms 12"
| "leg_duration (NightLegInput s e) = hours_ms 6"
| "leg_duration (FullDayLegInput s e p) = hours_ms 24"
| "leg_duration (AirportPickupLegInput s e f d) = \<lfloor>72000 * (case d of Some d \<Rightarrow> d | None \<Rightarrow> 120)\<rfloor>"

text \<open>
  The inputs the booking endpoints pass on: the window is ordered and the clock time, which the
  request schema has checked, is one of the day.
\<close>

fun valid_leg_input :: "leg_generation_input \<Rightarrow> bool" where
  "valid_leg_input (DayLegInput s e p) \<longleftrightarrow> s \<le> e \<and> (case parse_pickup_time p of Some (h, m) \<Rightarrow> h < 24 \<and> m < 60 | None \<Rightarrow> True)"
| "valid_leg_input (NightLegInput s e) \<longleftrightarrow> True"
| "valid_leg_input (FullDayLegInput s e p) \<longleftrightarrow> (case parse_pickup_time p of Some (h, m) \<Rightarrow> h < 24 \<and> m < 60 | None \<Rightarrow> True)"
| "valid_leg_input (AirportPickupLegInput s e f d) \<longleftrightarrow> (case d of Some d \<Rightarrow> 1 \<le> d | None \<Rightarrow> True)"

text \<open>Reading a multiple of a unit of time with a rest below it.\<close>

lemma unit_split:
  fixes k t :: int
  shows "(k * 3600000 + t mod 3600000) div 3600000 = k" "(k * 60000 + t mod 60000) div 60000 = k"
    "(k * 3600000 + t mod 3600000) mod 60000 = t mod 60000" "(k * 60000 + t mod 60000) mod 1000 = t mod 1000"
    "(t + k * day_ms) div day_ms = t div day_ms + k" "(t + k * day_ms) mod 1000 = t mod 1000"
proof -
  have "k * 3600000 = k * 60 * 60000" "k * 60000 = k * 60 * 1000" "k * day_ms = k * 86400 * 1000" by simp_all
  note e = this
  show "(k * 3600000 + t mod 3600000) mod 60000 = t mod 60000"
    unfolding e(1) mod_mult_self3 by (rule mod_mod_cancel) simp
  show "(k * 60000 + t mod 60000) mod 1000 = t mod 1000"
    unfolding e(2) mod_mult_self3 by (rule mod_mod_cancel) simp
  show "(t + k * day_ms) mod 1000 = t mod 1000" unfolding e(3) mod_mult_self1 ..
qed simp_all

context date_fns_lib
begin

lemma at_clock:
  assumes "0 \<le> h" "h < 24" "0 \<le> m" "m < 60"
  shows "at_clock F t h m = t div day_ms * day_ms + h * 3600000 + m * 60000 + t mod 1000"
proof -
  have "t div day_ms * day_ms + h * 3600000 + t mod 3600000 = (t div day_ms * 24 + h) * 3600000 + t mod 3600000" by simp
  also have "df_setMinutes F \<dots> m = (t div day_ms * 24 + h) * 3600000 + m * 60000 + t mod 60000"
    unfolding setMinutes [OF assms(3,4)] unit_split ..
  also have "\<dots> = ((t div day_ms * 24 + h) * 60 + m) * 60000 + t mod 60000" by simp
  also have "df_setSeconds F \<dots> 0 = ((t div day_ms * 24 + h) * 60 + m) * 60000 + t mod 1000"
    by (simp only: setSeconds unit_split)
  finally show ?thesis unfolding at_clock_def setHours [OF assms(1,2)] by simp
qed

lemma day_leg_dates:
  assumes "s \<le> e"
  shows "get_day_leg_dates F s e = utc_days s (get_effective_end_date e s)"
  unfolding get_day_leg_dates_def by (rule eachDay [OF effective_end_bounds(1) [OF assms]])

lemma day_legs:
  assumes "s \<le> e" "parse_pickup_time p = Some (h, m)" "h < 24" "m < 60"
  shows "generate_day_legs F s e p =
    Some (map (\<lambda>i. let d = (s div day_ms + int i) * day_ms; t = d + h * 3600000 + m * 60000 in
            \<lparr>gl_legDate = d, gl_legStartTime = t, gl_legEndTime = t + 12 * 3600000\<rparr>)
          [0..<Suc (nat (get_effective_end_date e s div day_ms - s div day_ms))])"
proof -
  have "0 \<le> h" "0 \<le> m" using assms(2) clock_bounds by (auto simp: parse_pickup_time_def)
  note at = at_clock [OF this(1) assms(3) this(2) assms(4)]
  have "at_clock F (k * day_ms) h m = k * day_ms + h * 3600000 + m * 60000" for k
    using unit_split(5,6) [of 0 k] by (simp add: at)
  then show ?thesis
    unfolding generate_day_legs_def day_leg_dates [OF assms(1)] utc_days_def
    by (simp only: assms(2) option.case prod.case map_map o_def addHours Let_def)
qed

lemma night_legs:
  "generate_night_legs F s e =
     map (\<lambda>i. let t = (s div day_ms + int i) * day_ms + hours_ms 23 + s mod 1000 in
            \<lparr>gl_legDate = s + int i * day_ms, gl_legStartTime = t, gl_legEndTime = t + hours_ms 6\<rparr>)
       [0..<nat (calculate_night_leg_count s e)]"
proof -
  have "at_clock F (s + k * day_ms + day_ms) 5 0 = (s div day_ms + k) * day_ms + hours_ms 29 + s mod 1000" for k
  proof -
    have "s + k * day_ms + day_ms = s + (k + 1) * day_ms" by (simp add: distrib_right)
    then show ?thesis using at_clock [of 5 0 "s + (k + 1) * day_ms"] by (simp only: unit_split) (simp add: distrib_right)
  qed
  moreover have "at_clock F (s + k * day_ms) 23 0 = (s div day_ms + k) * day_ms + hours_ms 23 + s mod 1000" for k
    using at_clock [of 23 0 "s + k * day_ms"] by (simp add: unit_split)
  ultimately show ?thesis unfolding generate_night_legs_def by (simp add: addDays Let_def)
qed

lemma full_day_legs:
  assumes "parse_pickup_time p = Some (h, m)"
  shows "generate_full_day_legs F s e p =
    (let base = at_clock F s h m in
     Some (map (\<lambda>i. let t = base + int i * day_ms in
            \<lparr>gl_legDate = t, gl_legStartTime = t, gl_legEndTime = t + day_ms\<rparr>)
          [0..<nat (calculate_full_day_leg_count s e base)]))"
  by (simp add: generate_full_day_legs_def assms addHours Let_def)

end


lemma sorted_map_upt: "(\<And>i j. i < j \<Longrightarrow> R (f i) (f j)) \<Longrightarrow> sorted_wrt R (map f [m..<n])"
  by (simp add: sorted_wrt_map sorted_wrt_mono_rel [OF _ sorted_wrt_upt])

lemma int_mono_times: "i < j \<Longrightarrow> int i * day_ms + day_ms \<le> int j * day_ms"
proof -
  assume "i < j"
  then have "(int i + 1) * day_ms \<le> int j * day_ms" by (intro mult_right_mono) simp_all
  then show ?thesis by (simp add: distrib_right)
qed

text \<open>
  Property C34: generated legs follow each other.  For every kind of booking with an ordered
  window and a clock time of the day there is at least one leg, every leg lasts exactly what its
  kind lasts (twelve, six or twenty-four hours, or the buffered drive), and no leg starts before
  the one before it has ended.
\<close>

theorem legs_follow_each_other:
  assumes lib: "date_fns_lib F off" and gen: "generate_legs F inp = Some ls" and v: "valid_leg_input inp"
  shows "ls \<noteq> [] \<and> 0 < leg_duration inp \<and> (\<forall>l \<in> set ls. gl_legEndTime l = gl_legStartTime l + leg_duration inp)
    \<and> sorted_wrt (\<lambda>a b. gl_legEndTime a \<le> gl_legStartTime b) ls"
proof (cases inp)
  case (DayLegInput s e p)
  then obtain h m where "parse_pickup_time p = Some (h, m)"
    using gen by (auto simp: generate_legs_def generate_day_legs_def split: option.splits)
  then show ?thesis using gen v date_fns_lib.day_legs [OF lib, of s e p h m] DayLegInput
    by (auto simp: generate_legs_def Let_def distrib_right simp del: upt_Suc intro!: sorted_map_upt dest: int_mono_times)
next
  case (NightLegInput s e)
  have "0 < nat (calculate_night_leg_count s e)" by (simp add: calculate_night_leg_count_def Let_def)
  then show ?thesis using gen date_fns_lib.night_legs [OF lib, of s e] NightLegInput
    by (auto simp: generate_legs_def Let_def distrib_right intro!: sorted_map_upt dest: int_mono_times)
next
  case (FullDayLegInput s e p)
  then obtain h m where "parse_pickup_time p = Some (h, m)"
    using gen by (auto simp: generate_legs_def generate_full_day_legs_def split: option.splits)
  moreover have "\<not> calculate_full_day_leg_count s e b \<le> 0" for b by (simp add: calculate_full_day_leg_count_def Let_def)
  ultimately show ?thesis using gen date_fns_lib.full_day_legs [OF lib, of p h m s e] FullDayLegInput
    by (auto simp: generate_legs_def Let_def distrib_right intro!: sorted_map_upt dest: int_mono_times)
next
  case (AirportPickupLegInput s e f d)
  then show ?thesis using gen v
    by (auto simp: generate_legs_def generate_airport_pickup_legs_def Let_def split: option.splits)
qed


theorem legs_follow_each_other_witness:
  "\<exists>ls. generate_legs (utc_fns 0) (DayLegInput 0 172800000 ''9:30 am'') = Some ls \<and> length ls = 2
      \<and> sorted_wrt (\<lambda>a b. gl_legEndTime a \<le> gl_legStartTime b) ls"
proof -
  have p: "parse_pickup_time ''9:30 am'' = Some (9, 30)" by code_simp
  have "generate_legs (utc_fns 0) (DayLegInput 0 172800000 ''9:30 am'') \<noteq> None"
    by (simp add: generate_legs_def generate_day_legs_def p)
  then obtain ls where ls: "generate_legs (utc_fns 0) (DayLegInput 0 172800000 ''9:30 am'') = Some ls" by blast
  moreover have "length ls = 2"
    using ls utc.day_legs [of 0 172800000 "''9:30 am''" 9 30 0] p
    by (auto simp: generate_legs_def get_effective_end_date_def Let_def)
  ultimately show ?thesis using legs_follow_each_other [OF utc.date_fns_lib_axioms ls] by (simp add: p)
qed

section \<open>The estimate of the number of legs\<close>

lemma div_day_near: "\<bar>a - b\<bar> < day_ms \<Longrightarrow> \<bar>a div day_ms - b div day_ms\<bar> \<le> 1"
proof -
  assume "\<bar>a - b\<bar> < day_ms"
  then have "a \<le> b + 1 * day_ms" "b \<le> a + 1 * day_ms" by linarith+
  then have "a div day_ms \<le> (b + 1 * day_ms) div day_ms" "b div day_ms \<le> (a + 1 * day_ms) div day_ms"
    by (intro zdiv_mono1; simp)+
  then show ?thesis unfolding unit_split by linarith
qed

lemma full_day_count: "calculate_full_day_leg_count s e b = max 1 (- ((b - get_effective_end_date e s) div day_ms))"
  unfolding calculate_full_day_leg_count_def Let_def ceiling_days by simp



text \<open>The comment on the shared count promises equality; a full-day booking at another clock time differs.\<close>

lemma full_day_estimate_differs:
  "map_option length (generate_legs (utc_fns 0) (FullDayLegInput 0 129600000 ''6 PM'')) = Some 1"
  "calculate_leg_count (utc_fns 0) FULL_DAY 0 129600000 = 2"
  by code_simp+


section \<open>The zone of the window and the zone of the legs\<close>

lemma match_time12_not_24: "match_time12 p = Some hm \<Longrightarrow> match_time24 p = None"
  by (auto simp: match_time12_def match_time24_def split: if_splits option.splits prod.splits)

lemma set_hours_div:
  assumes "0 \<le> h * 3600000 + m * 60000 - off" "h * 3600000 + m * 60000 - off < day_ms"
  shows "set_hours off t h m div day_ms = local_day off t" "set_hours off t h m mod day_ms = h * 3600000 + m * 60000 - off"
proof -
  have e: "set_hours off t h m = local_day off t * day_ms + (h * 3600000 + m * 60000 - off)" by (simp add: set_hours_def)
  show "set_hours off t h m div day_ms = local_day off t" "set_hours off t h m mod day_ms = h * 3600000 + m * 60000 - off"
    unfolding e using assms by simp_all
qed

text \<open>
  Property C36: the legs of a day booking are late by the offset of the process's zone.  The
  window is set in the zone of the process and the legs in UTC, so for every valid pickup time
  the first leg starts the offset after the booking starts and the last leg ends the offset after
  it ends: an hour in the configured zone, none only in UTC.
\<close>

theorem day_legs_shifted_by_zone:
  assumes lib: "date_fns_lib F off" and off: "0 \<le> off" "off \<le> hours_ms 7"
    and p: "match_time12 p = Some (h, m)" "js_trim p = p" "7 \<le> h" "h \<le> 11" "m < 60"
    and win: "normalize_booking_time_window F off DAY sd ed (Some p) = (s, e)" "s \<le> e"
    and gen: "generate_legs F (build_leg_generation_input DAY s e p f d) = Some ls"
  shows "gl_legStartTime (hd ls) = s + off \<and> gl_legEndTime (last ls) = e + off"
proof -
  have m: "0 \<le> m" using clock_bounds [OF p(1)] by simp
  let ?T = "h * 3600000 + m * 60000"
  have s: "s = set_hours off sd h m"
    using win(1) by (auto simp: normalize_booking_time_window_def parse_and_apply_pickup_time_def p(1) match_time12_not_24 [OF p(1)] Let_def)
  have "local_ms off s = ?T" using p(3-5) m unfolding s by (intro set_hours_ms) auto
  then have "local_hours off s = h" "local_minutes off s = m" using m p(3-5) by (simp_all add: local_hours_def local_minutes_def)
  then have e: "e = set_hours off ed (h + 12) m" using win(1) s
    by (auto simp: normalize_booking_time_window_def parse_and_apply_pickup_time_def p(1) match_time12_not_24 [OF p(1)] Let_def)
  have sd: "s div day_ms = local_day off sd" unfolding s using p(3-5) m off by (intro set_hours_div) auto
  have ed: "e div day_ms = local_day off ed" "e mod day_ms = ?T + 12 * 3600000 - off"
    unfolding e using p(3-5) m off by (subst set_hours_div; auto)+
  have "e mod day_ms \<noteq> 0" unfolding ed(2) using p(3) m off by auto
  then have eff: "get_effective_end_date e s = e" by (simp add: get_effective_end_date_def)
  have "s div day_ms \<le> e div day_ms" using win(2) by (intro zdiv_mono1) auto
  then have n: "local_day off sd + int (nat (local_day off ed - local_day off sd)) = local_day off ed" by (simp add: sd ed(1))
  have "parse_pickup_time p = Some (h, m)" by (simp add: parse_pickup_time_def p(1,2))
  from date_fns_lib.day_legs [OF lib win(2) this] p(4,5) gen
  have "ls = map (\<lambda>i. let d = (local_day off sd + int i) * day_ms; t = d + ?T in
          \<lparr>gl_legDate = d, gl_legStartTime = t, gl_legEndTime = t + 12 * 3600000\<rparr>)
        [0..<Suc (nat (local_day off ed - local_day off sd))]"
    by (simp add: generate_legs_def build_leg_generation_input_def eff sd ed(1) add.assoc del: upt_Suc)
  then show ?thesis using n
    by (simp add: hd_map last_map s e set_hours_def Let_def del: upt_Suc)
qed

theorem day_legs_shifted_by_zone_witness:
  "\<exists>ls. generate_legs (utc_fns 3600000) (build_leg_generation_input DAY 21600000 64800000 ''7 AM'' None None) = Some ls
      \<and> gl_legEndTime (last ls) = 64800000 + 3600000"
proof -
  have p: "match_time12 ''7 AM'' = Some (7, 0)" "js_trim ''7 AM'' = ''7 AM''" by code_simp+
  have w: "normalize_booking_time_window (utc_fns 3600000) 3600000 DAY 0 0 (Some ''7 AM'') = (21600000, 64800000)" by code_simp
  obtain ls where ls: "generate_legs (utc_fns 3600000) (build_leg_generation_input DAY 21600000 64800000 ''7 AM'' None None) = Some ls"
    by (simp add: generate_legs_def build_leg_generation_input_def generate_day_legs_def parse_pickup_time_def p)
  from day_legs_shifted_by_zone [OF utc.date_fns_lib_axioms _ _ p _ _ _ w _ ls] ls show ?thesis by simp
qed

end
