(* ===== verification/PlatformRates.thy ===== *)
theory PlatformRates
  imports Schema Claims "HOL-Library.Product_Lexorder"
begin

text \<open>
  The rates of the platform: the cached reader (modules/rates/rates.service.ts), the operations
  of the administrator (rates-admin.service.ts) and the window queries (rates.helper.ts).  Tables
  whose rows are in force during a window share a contract, the locale window_table: a row is
  inserted only when the query for conflicts finds none.
\<close>

section \<open>Windows\<close>

definition is_rate_active :: "time \<Rightarrow> time option \<Rightarrow> time \<Rightarrow> bool" where
  "is_rate_active effectiveSince effectiveUntil inst \<longleftrightarrow>
     effectiveSince \<le> inst \<and> (case effectiveUntil of None \<Rightarrow> True | Some u \<Rightarrow> inst < u)"

text \<open>9999-12-31, the bound of an open window in the overlap query.\<close>

definition far_future :: time where
  "far_future = 253402214400000"

definition overlap_window_where :: "time \<Rightarrow> time option \<Rightarrow> time \<Rightarrow> time option \<Rightarrow> bool" where
  "overlap_window_where effectiveSince effectiveUntil rowSince rowUntil \<longleftrightarrow>
     rowSince < (case effectiveUntil of Some u \<Rightarrow> u | None \<Rightarrow> far_future)
     \<and> (case rowUntil of None \<Rightarrow> True | Some u \<Rightarrow> effectiveSince < u)"

text \<open>At every instant at most one row of a kind is in force.\<close>

definition one_live :: "('r \<Rightarrow> 'k) \<Rightarrow> (time \<Rightarrow> 'r \<Rightarrow> bool) \<Rightarrow> 'r list \<Rightarrow> bool" where
  "one_live kind live t \<longleftrightarrow> (\<forall>inst k. length (filter (\<lambda>r. kind r = k \<and> live inst r) t) \<le> 1)"

locale window_table =
  fixes kind :: "'r \<Rightarrow> 'k" and live :: "time \<Rightarrow> 'r \<Rightarrow> bool"
    and conflict :: "'r \<Rightarrow> 'r \<Rightarrow> bool" and bounded :: "'r \<Rightarrow> bool"
  assumes conflict_found: "bounded r \<Longrightarrow> kind n = kind r \<Longrightarrow> live inst n \<Longrightarrow> live inst r \<Longrightarrow> conflict n r"
begin

lemma one_live_insert:
  assumes "one_live kind live t" "list_all bounded t" "\<not> (\<exists>r \<in> set t. conflict n r)"
  shows "one_live kind live (t @ [n])"
  unfolding one_live_def
proof (intro allI)
  fix inst k
  show "length (filter (\<lambda>r. kind r = k \<and> live inst r) (t @ [n])) \<le> 1"
  proof (cases "kind n = k \<and> live inst n")
    case True
    then have "filter (\<lambda>r. kind r = k \<and> live inst r) t = []"
      using assms(2,3) conflict_found by (auto simp: filter_empty_conv list_all_iff)
    then show ?thesis by simp
  next
    case False
    then show ?thesis using assms(1) by (auto simp: one_live_def)
  qed
qed

lemma one_live_shrink:
  assumes "one_live kind live t" "\<And>r. kind (f r) = kind r" "\<And>inst r. r \<in> set t \<Longrightarrow> live inst (f r) \<Longrightarrow> live inst r"
  shows "one_live kind live (map f t)"
  unfolding one_live_def
proof (intro allI)
  fix inst k
  have "length (filter (\<lambda>r. kind r = k \<and> live inst r) (map f t)) \<le> length (filter (\<lambda>r. kind r = k \<and> live inst r) t)"
    using assms(2,3) by (induction t) auto
  also have "\<dots> \<le> 1" using assms(1) by (simp add: one_live_def)
  finally show "length (filter (\<lambda>r. kind r = k \<and> live inst r) (map f t)) \<le> 1" .
qed

lemma one_live_same:
  assumes "one_live kind live t" "r \<in> set t" "s \<in> set t" "kind r = kind s" "live inst r" "live inst s"
  shows "r = s"
proof -
  let ?F = "filter (\<lambda>x. kind x = kind s \<and> live inst x) t"
  have "r \<in> set ?F" "s \<in> set ?F" using assms by auto
  moreover have "length ?F \<le> 1" using assms(1) by (simp add: one_live_def)
  ultimately show ?thesis by (cases ?F) auto
qed

text \<open>Whatever the order of the query, the first row in force is the row in force.\<close>

lemma find_live:
  assumes "one_live kind live t" "r \<in> set t" "live inst r"
  shows "find_row (\<lambda>x. kind x = kind r) (sort_key key (filter (live inst) t)) = Some r"
proof -
  have "find_row (\<lambda>x. kind x = kind r) (sort_key key (filter (live inst) t)) \<noteq> None"
    using assms(2,3) by (auto simp: find_row_None)
  then obtain s where "find_row (\<lambda>x. kind x = kind r) (sort_key key (filter (live inst) t)) = Some s" by blast
  moreover from find_row_Some [OF this] have "s = r" using assms by (auto intro: one_live_same)
  ultimately show ?thesis by simp
qed

end

section \<open>Reading the rates\<close>

text \<open>The enum order of the fee types, by which the administrator's listing sorts.\<close>

instantiation platform_fee_type :: linorder
begin

definition less_eq_platform_fee_type :: "platform_fee_type \<Rightarrow> platform_fee_type \<Rightarrow> bool" where
  "less_eq_platform_fee_type a b \<longleftrightarrow> a = PLATFORM_SERVICE_FEE \<or> b = FLEET_OWNER_COMMISSION"

definition less_platform_fee_type :: "platform_fee_type \<Rightarrow> platform_fee_type \<Rightarrow> bool" where
  "less_platform_fee_type a b \<longleftrightarrow> a = PLATFORM_SERVICE_FEE \<and> b = FLEET_OWNER_COMMISSION"

instance
proof
  fix a b c :: platform_fee_type
  show "(a < b) = (a \<le> b \<and> \<not> b \<le> a)" "a \<le> a" "a \<le> b \<or> b \<le> a"
    by (cases a; cases b; simp add: less_eq_platform_fee_type_def less_platform_fee_type_def)+
  show "a \<le> b \<Longrightarrow> b \<le> c \<Longrightarrow> a \<le> c" "a \<le> b \<Longrightarrow> b \<le> a \<Longrightarrow> a = b"
    by (cases a; cases b; simp add: less_eq_platform_fee_type_def)+
qed

end

definition fee_live :: "time \<Rightarrow> platform_fee_rate \<Rightarrow> bool" where
  "fee_live inst r \<longleftrightarrow> is_rate_active (pf_effectiveSince r) (pf_effectiveUntil r) inst"

definition tax_live :: "time \<Rightarrow> tax_rate \<Rightarrow> bool" where
  "tax_live inst r \<longleftrightarrow> is_rate_active (tx_effectiveSince r) (tx_effectiveUntil r) inst"

definition addon_live :: "time \<Rightarrow> addon_rate \<Rightarrow> bool" where
  "addon_live inst r \<longleftrightarrow> is_rate_active (ar_effectiveSince r) (ar_effectiveUntil r) inst"

definition cache_ttl :: time where
  "cache_ttl = minutes_ms 5"

text \<open>The three queries and the checks of their results; the errors are the messages thrown.\<close>

definition fetch_rates :: "time \<Rightarrow> world \<Rightarrow> string + platform_rates" where
  "fetch_rates inst w =
     (let platformRates = sort_key (\<lambda>r. - pf_effectiveSince r) (filter (fee_live inst) (platformFeeRates w));
          vatRate = find_row (\<lambda>r. True) (sort_key (\<lambda>r. - tx_effectiveSince r) (filter (tax_live inst) (taxRates w)));
          security = find_row (\<lambda>r. ar_addonType r = SECURITY_DETAIL)
                       (sort_key (\<lambda>r. - ar_effectiveSince r) (filter (addon_live inst) (addonRates w)))
      in case find_row (\<lambda>r. pf_feeType r = PLATFORM_SERVICE_FEE) platformRates of
           None \<Rightarrow> Inl ''No active platform service fee rate found''
         | Some fee \<Rightarrow>
             (case find_row (\<lambda>r. pf_feeType r = FLEET_OWNER_COMMISSION) platformRates of
                None \<Rightarrow> Inl ''No active fleet owner commission rate found''
              | Some commission \<Rightarrow>
                  (case vatRate of
                     None \<Rightarrow> Inl ''No active VAT rate found''
                   | Some vat \<Rightarrow>
                       (case security of
                          None \<Rightarrow> Inl ''No active security detail rate found''
                        | Some sec \<Rightarrow>
                            Inr \<lparr>r_platformCustomerServiceFeeRatePercent = pf_ratePercent fee,
                                 r_platformFleetOwnerCommissionRatePercent = pf_ratePercent commission,
                                 r_vatRatePercent = tx_ratePercent vat,
                                 r_securityDetailRate = ar_rateAmount sec\<rparr>))))"

text \<open>A read inside a transaction neither uses nor fills the cache.\<close>

definition get_rates :: "time \<Rightarrow> bool \<Rightarrow> world \<Rightarrow> (string + platform_rates) \<times> world" where
  "get_rates now tx w =
     (case ratesCache w of
        (Some d, timestamp) \<Rightarrow>
          (if \<not> tx \<and> now - timestamp < cache_ttl then (Inr d, w)
           else (case fetch_rates now w of
                   Inl e \<Rightarrow> (Inl e, w)
                 | Inr r \<Rightarrow> (Inr r, if tx then w else w\<lparr>ratesCache := (Some r, now)\<rparr>)))
      | (None, _) \<Rightarrow>
          (case fetch_rates now w of
             Inl e \<Rightarrow> (Inl e, w)
           | Inr r \<Rightarrow> (Inr r, if tx then w else w\<lparr>ratesCache := (Some r, now)\<rparr>)))"

definition clear_cache :: "world \<Rightarrow> world" where
  "clear_cache w = w\<lparr>ratesCache := (None, 0)\<rparr>"

section \<open>The administrator's operations\<close>

datatype rates_exception =
    RateDateOverlap string
  | RateCreateFailed
  | RateUpdateFailed
  | RateNotFound
  | RateAlreadyEnded
  | RateNotYetActive

definition fee_conflict :: "platform_fee_rate \<Rightarrow> platform_fee_rate \<Rightarrow> bool" where
  "fee_conflict n r \<longleftrightarrow> pf_feeType r = pf_feeType n
     \<and> overlap_window_where (pf_effectiveSince n) (pf_effectiveUntil n) (pf_effectiveSince r) (pf_effectiveUntil r)"

definition tax_conflict :: "tax_rate \<Rightarrow> tax_rate \<Rightarrow> bool" where
  "tax_conflict n r \<longleftrightarrow>
     overlap_window_where (tx_effectiveSince n) (tx_effectiveUntil n) (tx_effectiveSince r) (tx_effectiveUntil r)"

definition addon_conflict :: "addon_rate \<Rightarrow> addon_rate \<Rightarrow> bool" where
  "addon_conflict n r \<longleftrightarrow> ar_addonType r = ar_addonType n
     \<and> overlap_window_where (ar_effectiveSince n) (ar_effectiveUntil n) (ar_effectiveSince r) (ar_effectiveUntil r)"

definition fee_type_name :: "platform_fee_type \<Rightarrow> string" where
  "fee_type_name t = (case t of PLATFORM_SERVICE_FEE \<Rightarrow> ''PLATFORM_SERVICE_FEE'' | FLEET_OWNER_COMMISSION \<Rightarrow> ''FLEET_OWNER_COMMISSION'')"

text \<open>
  The row n is the data of the request with the identifier drawn for it.  Two rates of a kind may
  not begin at the same instant; violating that unique index is the creation error.
\<close>

definition create_platform_fee_rate :: "platform_fee_rate \<Rightarrow> world \<Rightarrow> (rates_exception + platform_fee_rate) \<times> world" where
  "create_platform_fee_rate n w =
     (if find_row (fee_conflict n) (platformFeeRates w) \<noteq> None
      then (Inl (RateDateOverlap (''A '' @ fee_type_name (pf_feeType n) @ '' rate already exists that overlaps with this date range'')), w)
      else (case create_unique (\<lambda>r. (pf_feeType r, pf_effectiveSince r)) n (platformFeeRates w) of
              None \<Rightarrow> (Inl RateCreateFailed, w)
            | Some t \<Rightarrow> (Inr n, clear_cache (w\<lparr>platformFeeRates := t\<rparr>))))"

definition create_vat_rate :: "tax_rate \<Rightarrow> world \<Rightarrow> (rates_exception + tax_rate) \<times> world" where
  "create_vat_rate n w =
     (if find_row (tax_conflict n) (taxRates w) \<noteq> None
      then (Inl (RateDateOverlap ''A VAT rate already exists that overlaps with this date range''), w)
      else (case create_unique tx_effectiveSince n (taxRates w) of
              None \<Rightarrow> (Inl RateCreateFailed, w)
            | Some t \<Rightarrow> (Inr n, clear_cache (w\<lparr>taxRates := t\<rparr>))))"

definition create_addon_rate :: "addon_rate \<Rightarrow> world \<Rightarrow> (rates_exception + addon_rate) \<times> world" where
  "create_addon_rate n w =
     (if find_row (addon_conflict n) (addonRates w) \<noteq> None
      then (Inl (RateDateOverlap ''A SECURITY_DETAIL addon rate already exists that overlaps with this date range''), w)
      else (case create_unique (\<lambda>r. (ar_addonType r, ar_effectiveSince r)) n (addonRates w) of
              None \<Rightarrow> (Inl RateCreateFailed, w)
            | Some t \<Rightarrow> (Inr n, clear_cache (w\<lparr>addonRates := t\<rparr>))))"

definition end_addon_rate :: "time \<Rightarrow> ident \<Rightarrow> world \<Rightarrow> (rates_exception + addon_rate) \<times> world" where
  "end_addon_rate now addonRateId w =
     (case find_row (\<lambda>r. ar_id r = addonRateId) (addonRates w) of
        None \<Rightarrow> (Inl RateNotFound, w)
      | Some existing \<Rightarrow>
          (if ar_effectiveUntil existing \<noteq> None then (Inl RateAlreadyEnded, w)
           else if now < ar_effectiveSince existing then (Inl RateNotYetActive, w)
           else (Inr (existing\<lparr>ar_effectiveUntil := Some now\<rparr>),
                 clear_cache (w\<lparr>addonRates := snd (update_many (\<lambda>r. ar_id r = addonRateId)
                                   (\<lambda>r. r\<lparr>ar_effectiveUntil := Some now\<rparr>) (addonRates w))\<rparr>))))"

text \<open>The listing: every row with whether it is in force.\<close>

definition get_all_rates ::
  "time \<Rightarrow> world \<Rightarrow> (platform_fee_rate \<times> bool) list \<times> (tax_rate \<times> bool) list \<times> (addon_rate \<times> bool) list" where
  "get_all_rates now w =
     (map (\<lambda>r. (r, fee_live now r)) (sort_key (\<lambda>r. (pf_feeType r, - pf_effectiveSince r)) (platformFeeRates w)),
      map (\<lambda>r. (r, tax_live now r)) (sort_key (\<lambda>r. - tx_effectiveSince r) (taxRates w)),
      map (\<lambda>r. (r, addon_live now r)) (sort_key (\<lambda>r. - ar_effectiveSince r) (addonRates w)))"

section \<open>The three tables are window tables\<close>

lemma overlap_of_common:
  "rowSince < far_future \<Longrightarrow> is_rate_active s u inst \<Longrightarrow> is_rate_active rowSince rowUntil inst \<Longrightarrow>
   overlap_window_where s u rowSince rowUntil"
  by (auto simp: is_rate_active_def overlap_window_where_def split: option.splits)

interpretation fees: window_table pf_feeType fee_live fee_conflict "\<lambda>r. pf_effectiveSince r < far_future"
  by unfold_locales (auto simp: fee_live_def fee_conflict_def intro: overlap_of_common)

interpretation taxes: window_table "\<lambda>r. ()" tax_live tax_conflict "\<lambda>r. tx_effectiveSince r < far_future"
  by unfold_locales (auto simp: tax_live_def tax_conflict_def intro: overlap_of_common)

interpretation addons: window_table ar_addonType addon_live addon_conflict "\<lambda>r. ar_effectiveSince r < far_future"
  by unfold_locales (auto simp: addon_live_def addon_conflict_def intro: overlap_of_common)

section \<open>Runs of the rates services\<close>

text \<open>The state is the last instant and the world; readers and the administrator take turns.\<close>

inductive rates_step :: "time \<times> world \<Rightarrow> time \<times> world \<Rightarrow> bool" where
  read: "t \<le> now \<Longrightarrow> rates_step (t, w) (now, snd (get_rates now tx w))"
| create_fee: "t \<le> now \<Longrightarrow> pf_effectiveSince n < far_future \<Longrightarrow>
    rates_step (t, w) (now, snd (create_platform_fee_rate n w))"
| create_vat: "t \<le> now \<Longrightarrow> tx_effectiveSince n < far_future \<Longrightarrow> rates_step (t, w) (now, snd (create_vat_rate n w))"
| create_addon: "t \<le> now \<Longrightarrow> ar_effectiveSince n < far_future \<Longrightarrow> ar_id n \<notin> ar_id ` set (addonRates w) \<Longrightarrow>
    rates_step (t, w) (now, snd (create_addon_rate n w))"
| end_addon: "t \<le> now \<Longrightarrow> rates_step (t, w) (now, snd (end_addon_rate now i w))"

definition rates_tables_ok :: "world \<Rightarrow> bool" where
  "rates_tables_ok w \<longleftrightarrow>
     one_live pf_feeType fee_live (platformFeeRates w) \<and> list_all (\<lambda>r. pf_effectiveSince r < far_future) (platformFeeRates w)
   \<and> one_live (\<lambda>r. ()) tax_live (taxRates w) \<and> list_all (\<lambda>r. tx_effectiveSince r < far_future) (taxRates w)
   \<and> one_live ar_addonType addon_live (addonRates w) \<and> list_all (\<lambda>r. ar_effectiveSince r < far_future) (addonRates w)
   \<and> unique_by ar_id (addonRates w)"

definition cache_ok :: "time \<Rightarrow> world \<Rightarrow> bool" where
  "cache_ok t w \<longleftrightarrow> (case ratesCache w of (None, _) \<Rightarrow> True | (Some d, ts) \<Rightarrow> ts \<le> t \<and> fetch_rates ts w = Inr d)"

lemma fetch_rates_cache [simp]: "fetch_rates inst (w\<lparr>ratesCache := c\<rparr>) = fetch_rates inst w"
  by (simp add: fetch_rates_def)

lemma cache_ok_cleared [simp]: "cache_ok t (clear_cache w)"
  by (simp add: cache_ok_def clear_cache_def)

lemma cache_ok_later: "cache_ok t w \<Longrightarrow> t \<le> now \<Longrightarrow> cache_ok now w"
  by (auto simp: cache_ok_def split: option.splits prod.splits)

lemma get_rates_cache_ok: "cache_ok t w \<Longrightarrow> t \<le> now \<Longrightarrow> cache_ok now (snd (get_rates now tx w))"
  by (auto simp: get_rates_def cache_ok_def split: option.splits prod.splits sum.splits)

lemma get_rates_tables [simp]:
  "platformFeeRates (snd (get_rates now tx w)) = platformFeeRates w"
  "taxRates (snd (get_rates now tx w)) = taxRates w"
  "addonRates (snd (get_rates now tx w)) = addonRates w"
  by (auto simp: get_rates_def split: option.splits prod.splits sum.splits)

lemma create_fee_ok:
  assumes "rates_tables_ok w" "cache_ok t w" "pf_effectiveSince n < far_future"
  shows "rates_tables_ok (snd (create_platform_fee_rate n w)) \<and> cache_ok t (snd (create_platform_fee_rate n w))"
proof (cases "find_row (fee_conflict n) (platformFeeRates w)")
  case None
  then show ?thesis using assms fees.one_live_insert [of "platformFeeRates w" n]
    by (auto simp: create_platform_fee_rate_def rates_tables_ok_def clear_cache_def find_row_None cache_ok_def
        dest: create_unique_Some split: option.splits)
qed (use assms in \<open>simp add: create_platform_fee_rate_def\<close>)

lemma create_vat_ok:
  assumes "rates_tables_ok w" "cache_ok t w" "tx_effectiveSince n < far_future"
  shows "rates_tables_ok (snd (create_vat_rate n w)) \<and> cache_ok t (snd (create_vat_rate n w))"
proof (cases "find_row (tax_conflict n) (taxRates w)")
  case None
  then show ?thesis using assms taxes.one_live_insert [of "taxRates w" n]
    by (auto simp: create_vat_rate_def rates_tables_ok_def clear_cache_def find_row_None cache_ok_def
        dest: create_unique_Some split: option.splits)
qed (use assms in \<open>simp add: create_vat_rate_def\<close>)

lemma create_addon_ok:
  assumes "rates_tables_ok w" "cache_ok t w" "ar_effectiveSince n < far_future" "ar_id n \<notin> ar_id ` set (addonRates w)"
  shows "rates_tables_ok (snd (create_addon_rate n w)) \<and> cache_ok t (snd (create_addon_rate n w))"
proof (cases "find_row (addon_conflict n) (addonRates w)")
  case None
  then show ?thesis using assms addons.one_live_insert [of "addonRates w" n]
    by (auto simp: create_addon_rate_def rates_tables_ok_def clear_cache_def find_row_None cache_ok_def
        dest: create_unique_Some split: option.splits)
qed (use assms in \<open>simp add: create_addon_rate_def\<close>)

lemma end_addon_ok:
  assumes "rates_tables_ok w" "cache_ok t w"
  shows "rates_tables_ok (snd (end_addon_rate now i w)) \<and> cache_ok t (snd (end_addon_rate now i w))"
proof (cases "snd (end_addon_rate now i w) = w")
  case False
  let ?f = "\<lambda>r. if ar_id r = i then r\<lparr>ar_effectiveUntil := Some now\<rparr> else r"
  obtain e where e: "find_row (\<lambda>r. ar_id r = i) (addonRates w) = Some e" "ar_effectiveUntil e = None"
    and w': "snd (end_addon_rate now i w) = clear_cache (w\<lparr>addonRates := map ?f (addonRates w)\<rparr>)"
    using False by (auto simp: end_addon_rate_def snd_update_many split: option.splits if_splits)
  have same: "r = e" if "r \<in> set (addonRates w)" "ar_id r = i" for r
    using find_row_Some [OF e(1)] that assms(1) by (auto simp: rates_tables_ok_def intro: unique_by_same)
  have "one_live ar_addonType addon_live (map ?f (addonRates w))"
  proof (rule addons.one_live_shrink)
    show "one_live ar_addonType addon_live (addonRates w)" using assms(1) by (simp add: rates_tables_ok_def)
    show "addon_live inst r" if "r \<in> set (addonRates w)" "addon_live inst (?f r)" for inst r
      using that same e(2) by (auto simp: addon_live_def is_rate_active_def split: if_splits)
  qed simp
  moreover have "map ar_id (map ?f (addonRates w)) = map ar_id (addonRates w)" by simp
  then have "unique_by ar_id (map ?f (addonRates w))" using assms(1) by (simp only: rates_tables_ok_def)
  moreover have "list_all (\<lambda>r. ar_effectiveSince r < far_future) (map ?f (addonRates w))"
    using assms(1) by (auto simp: rates_tables_ok_def list_all_iff)
  moreover define u where "u = map ?f (addonRates w)"
  ultimately show ?thesis using assms(1) unfolding w' u_def [symmetric] by (simp add: rates_tables_ok_def clear_cache_def cache_ok_def)
qed (use assms in simp)

lemma rates_step_ok:
  "rates_step s s' \<Longrightarrow> rates_tables_ok (snd s) \<Longrightarrow> cache_ok (fst s) (snd s) \<Longrightarrow>
   rates_tables_ok (snd s') \<and> cache_ok (fst s') (snd s') \<and> fst s \<le> fst s'"
proof (induction rule: rates_step.induct)
  case (read t now w tx)
  then show ?case using get_rates_cache_ok by (auto simp: rates_tables_ok_def)
qed (auto dest: cache_ok_later create_fee_ok create_vat_ok create_addon_ok end_addon_ok)

lemma rates_run_ok:
  "rates_step\<^sup>*\<^sup>* s s' \<Longrightarrow> rates_tables_ok (snd s) \<Longrightarrow> cache_ok (fst s) (snd s) \<Longrightarrow>
   rates_tables_ok (snd s') \<and> cache_ok (fst s') (snd s')"
  by (induction rule: rtranclp_induct) (auto dest: rates_step_ok)

text \<open>
  Property C37: at every instant at most one rate of a kind is in force.  Whatever rates the
  administrator creates and ends, between any reads, the table of platform fees has at most one
  rate per type in force at any instant, past or future, the VAT table at most one, and the table
  of add-ons at most one per add-on.
\<close>

theorem one_rate_in_force:
  assumes run: "rates_step\<^sup>*\<^sup>* (t0, empty_world) (t, w)"
  shows "length (filter (\<lambda>r. pf_feeType r = ft \<and> fee_live inst r) (platformFeeRates w)) \<le> 1
    \<and> length (filter (tax_live inst) (taxRates w)) \<le> 1
    \<and> length (filter (\<lambda>r. ar_addonType r = a \<and> addon_live inst r) (addonRates w)) \<le> 1"
proof -
  have "rates_tables_ok w"
    using rates_run_ok [OF run] by (simp add: rates_tables_ok_def one_live_def empty_world_def cache_ok_def)
  then show ?thesis by (simp add: rates_tables_ok_def one_live_def)
qed

text \<open>
  Property C38: the rates a booking is priced with are never more than five minutes old.  In any
  run of readers and administrator, what the reader returns is what the tables, as they are now,
  give at some instant of the last five minutes; a read inside a transaction gives the present.
\<close>

theorem rates_less_than_five_minutes_old:
  assumes run: "rates_step\<^sup>*\<^sup>* (t0, empty_world) (t, w)" and now: "t \<le> now" and get: "fst (get_rates now tx w) = Inr r"
  shows "\<exists>inst. now - minutes_ms 5 < inst \<and> inst \<le> now \<and> fetch_rates inst w = Inr r \<and> (tx \<longrightarrow> inst = now)"
proof -
  have ok: "cache_ok t w"
    using rates_run_ok [OF run] by (simp add: rates_tables_ok_def one_live_def empty_world_def cache_ok_def)
  show ?thesis
  proof (cases "\<exists>d ts. ratesCache w = (Some d, ts) \<and> \<not> tx \<and> now - ts < cache_ttl")
    case True
    then obtain d ts where c: "ratesCache w = (Some d, ts)" "\<not> tx" "now - ts < cache_ttl" by blast
    then show ?thesis using get ok now
      by (intro exI [of _ ts]) (auto simp: get_rates_def cache_ok_def cache_ttl_def)
  next
    case False
    then have "fetch_rates now w = Inr r"
      using get by (auto simp: get_rates_def split: option.splits prod.splits sum.splits if_splits)
    then show ?thesis by (intro exI [of _ now]) simp
  qed
qed

text \<open>A table with one rate of each kind.\<close>

definition demo_fee :: "platform_fee_type \<Rightarrow> rat \<Rightarrow> platform_fee_rate" where
  "demo_fee ft p = \<lparr>pf_id = fee_type_name ft, pf_feeType = ft, pf_ratePercent = p, pf_effectiveSince = 0, pf_effectiveUntil = None\<rparr>"

definition demo_vat :: tax_rate where
  "demo_vat = \<lparr>tx_id = ''v'', tx_ratePercent = 15 / 2, tx_effectiveSince = 0, tx_effectiveUntil = None\<rparr>"

definition demo_addon :: addon_rate where
  "demo_addon = \<lparr>ar_id = ''a'', ar_addonType = SECURITY_DETAIL, ar_rateAmount = 300, ar_effectiveSince = 0, ar_effectiveUntil = None\<rparr>"

definition demo_rates_world :: world where
  "demo_rates_world = empty_world\<lparr>platformFeeRates := [demo_fee PLATFORM_SERVICE_FEE 10, demo_fee FLEET_OWNER_COMMISSION 5],
     taxRates := [demo_vat], addonRates := [demo_addon]\<rparr>"

definition demo_rates :: platform_rates where
  "demo_rates = \<lparr>r_platformCustomerServiceFeeRatePercent = 10, r_platformFleetOwnerCommissionRatePercent = 5,
     r_vatRatePercent = 15 / 2, r_securityDetailRate = 300\<rparr>"

lemma demo_rates_fetched: "0 \<le> inst \<Longrightarrow> fetch_rates inst demo_rates_world = Inr demo_rates"
  by (simp add: fetch_rates_def demo_rates_world_def demo_fee_def demo_vat_def demo_addon_def demo_rates_def
      fee_live_def tax_live_def addon_live_def is_rate_active_def find_row_def)

lemma demo_rates_run: "rates_step\<^sup>*\<^sup>* (0, empty_world) (3, demo_rates_world)"
proof -
  let ?w1 = "empty_world\<lparr>platformFeeRates := [demo_fee PLATFORM_SERVICE_FEE 10]\<rparr>"
  let ?w2 = "?w1\<lparr>platformFeeRates := [demo_fee PLATFORM_SERVICE_FEE 10, demo_fee FLEET_OWNER_COMMISSION 5]\<rparr>"
  let ?w3 = "?w2\<lparr>taxRates := [demo_vat]\<rparr>"
  have "snd (create_platform_fee_rate (demo_fee PLATFORM_SERVICE_FEE 10) empty_world) = ?w1"
    "snd (create_platform_fee_rate (demo_fee FLEET_OWNER_COMMISSION 5) ?w1) = ?w2"
    "snd (create_vat_rate demo_vat ?w2) = ?w3" "snd (create_addon_rate demo_addon ?w3) = demo_rates_world"
    by (simp_all add: create_platform_fee_rate_def create_vat_rate_def create_addon_rate_def find_row_def create_unique_def
        clear_cache_def empty_world_def demo_fee_def fee_conflict_def demo_rates_world_def)
  moreover have "rates_step (0, empty_world) (0, snd (create_platform_fee_rate (demo_fee PLATFORM_SERVICE_FEE 10) empty_world))"
    by (rule rates_step.create_fee) (simp_all add: demo_fee_def far_future_def)
  moreover have "rates_step (0, ?w1) (1, snd (create_platform_fee_rate (demo_fee FLEET_OWNER_COMMISSION 5) ?w1))"
    by (rule rates_step.create_fee) (simp_all add: demo_fee_def far_future_def)
  moreover have "rates_step (1, ?w2) (2, snd (create_vat_rate demo_vat ?w2))"
    by (rule rates_step.create_vat) (simp_all add: demo_vat_def far_future_def)
  moreover have "rates_step (2, ?w3) (3, snd (create_addon_rate demo_addon ?w3))"
    by (rule rates_step.create_addon) (simp_all add: demo_addon_def far_future_def empty_world_def)
  ultimately show ?thesis by (auto intro: rtranclp.rtrancl_into_rtrancl)
qed

theorem one_rate_in_force_witness:
  "length (filter (tax_live 100) (taxRates demo_rates_world)) \<le> 1 \<and> tax_live 100 demo_vat"
  using one_rate_in_force [OF demo_rates_run, of undefined 100] by (simp add: demo_vat_def tax_live_def is_rate_active_def)

theorem rates_less_than_five_minutes_old_witness:
  "\<exists>inst. 200 - minutes_ms 5 < inst \<and> inst \<le> 200 \<and> fetch_rates inst demo_rates_world = Inr demo_rates"
proof -
  have "fst (get_rates 200 False demo_rates_world) = Inr demo_rates"
    using demo_rates_fetched [of 200] by (simp add: get_rates_def) (simp add: demo_rates_world_def empty_world_def)
  from rates_less_than_five_minutes_old [OF demo_rates_run _ this] show ?thesis by auto
qed

end
