(* ===== verification/Promotions.thy ===== *)
theory Promotions
  imports PlatformRates JsDate JsNumber
begin

text \<open>
  The promotions of fleet owners (modules/promotion/promotion.service.ts): the calendar window of
  a promotion, its creation and deactivation, the queries for the promotions of a car, and the
  choice of the best one with its discount.  fromZonedTime of date-fns-tz is a parameter: the
  instant of a local date and time in a zone, None for an invalid date.
\<close>

section \<open>Calendar windows\<close>

text \<open>The day number of a proleptic Gregorian date; months and days may overflow as in Date.UTC.\<close>

definition days_from_civil :: "int \<Rightarrow> int \<Rightarrow> int \<Rightarrow> int" where
  "days_from_civil y0 m0 d =
     (let y1 = y0 + (m0 - 1) div 12; m = (m0 - 1) mod 12 + 1;
          y = (if m \<le> 2 then y1 - 1 else y1);
          era = y div 400; yoe = y mod 400;
          doy = (153 * (if 2 < m then m - 3 else m + 9) + 2) div 5;
          doe = yoe * 365 + yoe div 4 - yoe div 100 + doy
      in era * 146097 + doe - 719468 + d - 1)"

definition split_date :: "string \<Rightarrow> string \<times> string \<times> string" where
  "split_date s = (take 4 s, take 2 (drop 5 s), drop 8 s)"

text \<open>The pattern of a calendar date: four digits, two and two, joined by dashes.\<close>

definition is_calendar_date :: "string \<Rightarrow> bool" where
  "is_calendar_date s \<longleftrightarrow> length s = 10 \<and> s ! 4 = CHR ''-'' \<and> s ! 7 = CHR ''-''
     \<and> (let (y, m, d) = split_date s in list_all is_digit y \<and> list_all is_digit m \<and> list_all is_digit d)"

text \<open>Date.UTC reads the years 0 to 99 as 1900 to 1999; the year is printed without padding.\<close>

definition add_one_calendar_day :: "string \<Rightarrow> string" where
  "add_one_calendar_day s =
     (let (ys, ms, ds) = split_date s;
          year = int (radix_value 10 ys);
          full = (if year \<le> 99 then 1900 + year else year);
          (y, m, d) = civil_from_days (days_from_civil full (int (radix_value 10 ms)) (int (radix_value 10 ds)) + 1)
      in nat_digits (nat y) @ ''-'' @ pad 2 m @ ''-'' @ pad 2 d)"

datatype promotion_exception =
    PromotionValidation string
  | PromotionNotFound
  | PromotionCarNotFound
  | PromotionOverlap
  | PromotionCreateFailed

definition to_promotion_window_exclusive ::
  "(string \<Rightarrow> string \<Rightarrow> time option) \<Rightarrow> string \<Rightarrow> string \<Rightarrow> string \<Rightarrow> promotion_exception + time option \<times> time option" where
  "to_promotion_window_exclusive fromZonedTime tz startDate endDateInclusive =
     (if \<not> is_calendar_date startDate then Inl (PromotionValidation ''Start date must be in YYYY-MM-DD format'')
      else if \<not> is_calendar_date endDateInclusive then Inl (PromotionValidation ''End date must be in YYYY-MM-DD format'')
      else (let s = fromZonedTime (startDate @ ''T00:00:00'') tz;
                e = fromZonedTime (add_one_calendar_day endDateInclusive @ ''T00:00:00'') tz
            in case (s, e) of
                 (Some a, Some b) \<Rightarrow> (if b \<le> a then Inl (PromotionValidation ''End date must be after start date'') else Inr (s, e))
               | _ \<Rightarrow> Inr (s, e)))"

section \<open>Creating and deactivating\<close>

text \<open>The conditions activeAtWhere, overlapWhere and scopeForCar of the queries.\<close>

definition active_at_where :: "time \<Rightarrow> promotion \<Rightarrow> bool" where
  "active_at_where referenceDate p \<longleftrightarrow> pm_isActive p \<and> pm_startDate p \<le> referenceDate \<and> referenceDate < pm_endDate p"

definition overlap_where :: "time \<Rightarrow> time \<Rightarrow> promotion \<Rightarrow> bool" where
  "overlap_where intervalStart intervalEndExclusive p \<longleftrightarrow>
     pm_isActive p \<and> pm_startDate p < intervalEndExclusive \<and> intervalStart < pm_endDate p"

definition scope_for_car :: "ident \<Rightarrow> promotion \<Rightarrow> bool" where
  "scope_for_car carId p \<longleftrightarrow> pm_carId p = Some carId \<or> pm_carId p = None"

record create_promotion_input =
  cp_ownerId :: ident
  cp_carId :: "ident option"
  cp_name :: "string option"
  cp_discountValue :: rat
  cp_startDate :: string
  cp_endDate :: string

definition promotion_conflict :: "promotion \<Rightarrow> promotion \<Rightarrow> bool" where
  "promotion_conflict n p \<longleftrightarrow> pm_ownerId p = pm_ownerId n \<and> overlap_where (pm_startDate n) (pm_endDate n) p \<and> pm_carId p = pm_carId n"

definition create_promotion ::
  "(string \<Rightarrow> string \<Rightarrow> time option) \<Rightarrow> string \<Rightarrow> time \<Rightarrow> ident \<Rightarrow> create_promotion_input \<Rightarrow> world
     \<Rightarrow> (promotion_exception + promotion) \<times> world" where
  "create_promotion fromZonedTime tz now newId d w =
     (case to_promotion_window_exclusive fromZonedTime tz (cp_startDate d) (cp_endDate d) of
        Inl e \<Rightarrow> (Inl e, w)
      | Inr window \<Rightarrow>
          (if cp_discountValue d < 1 then (Inl (PromotionValidation ''Discount must be at least 1%''), w)
           else if 50 < cp_discountValue d then (Inl (PromotionValidation ''Discount cannot exceed 50%''), w)
           else (case window of
                   (Some s, Some e) \<Rightarrow>
                     (let p = \<lparr>pm_id = newId, pm_ownerId = cp_ownerId d, pm_carId = cp_carId d, pm_name = cp_name d,
                               pm_discountValue = cp_discountValue d, pm_startDate = s, pm_endDate = e,
                               pm_isActive = True, pm_createdAt = now\<rparr>
                      in if (case cp_carId d of None \<Rightarrow> False
                             | Some c \<Rightarrow> find_row (\<lambda>x. c_id x = c \<and> c_ownerId x = cp_ownerId d) (cars w) = None)
                         then (Inl PromotionCarNotFound, w)
                         else if find_row (promotion_conflict p) (promotions w) \<noteq> None then (Inl PromotionOverlap, w)
                         else (Inr p, w\<lparr>promotions := promotions w @ [p]\<rparr>))
                 | _ \<Rightarrow> (Inl PromotionCreateFailed, w))))"

definition deactivate_promotion :: "ident \<Rightarrow> ident \<Rightarrow> world \<Rightarrow> (promotion_exception + promotion) \<times> world" where
  "deactivate_promotion promotionId ownerId w =
     (case find_row (\<lambda>p. pm_id p = promotionId \<and> pm_ownerId p = ownerId) (promotions w) of
        None \<Rightarrow> (Inl PromotionNotFound, w)
      | Some p \<Rightarrow> (Inr (p\<lparr>pm_isActive := False\<rparr>),
                   w\<lparr>promotions := snd (update_many (\<lambda>p. pm_id p = promotionId) (\<lambda>p. p\<lparr>pm_isActive := False\<rparr>) (promotions w))\<rparr>))"

section \<open>The promotions of a car\<close>

definition newest_first :: "promotion list \<Rightarrow> promotion list" where
  "newest_first = sort_key (\<lambda>p. - pm_createdAt p)"

definition get_overlapping_promotions_for_car :: "ident \<Rightarrow> ident \<Rightarrow> time \<Rightarrow> time \<Rightarrow> world \<Rightarrow> promotion list" where
  "get_overlapping_promotions_for_car carId ownerId intervalStart intervalEndExclusive w =
     (if intervalEndExclusive \<le> intervalStart then []
      else newest_first (filter (\<lambda>p. pm_ownerId p = ownerId \<and> overlap_where intervalStart intervalEndExclusive p
                                     \<and> scope_for_car carId p) (promotions w)))"

definition intervals_overlap :: "time \<Rightarrow> time \<Rightarrow> time \<Rightarrow> time \<Rightarrow> bool" where
  "intervals_overlap startA endAExclusive startB endBExclusive \<longleftrightarrow> startA < endBExclusive \<and> startB < endAExclusive"

definition get_selection_candidates :: "promotion list \<Rightarrow> ident \<Rightarrow> promotion list" where
  "get_selection_candidates ps carId =
     (let carSpecific = filter (\<lambda>p. pm_carId p = Some carId) ps
      in if carSpecific \<noteq> [] then carSpecific else filter (\<lambda>p. pm_carId p = None) ps)"

definition compute_discount_amount :: "promotion \<Rightarrow> int \<Rightarrow> rat" where
  "compute_discount_amount p baseAmount = of_int baseAmount * pm_discountValue p / 100"

definition better_promotion :: "int \<Rightarrow> promotion \<Rightarrow> promotion \<Rightarrow> promotion" where
  "better_promotion baseAmount best current =
     (if compute_discount_amount best baseAmount < compute_discount_amount current baseAmount then current
      else if compute_discount_amount current baseAmount = compute_discount_amount best baseAmount
              \<and> pm_createdAt best < pm_createdAt current then current
      else best)"

definition choose_best_promotion :: "promotion list \<Rightarrow> int option \<Rightarrow> promotion option" where
  "choose_best_promotion candidates baseAmount =
     (case candidates of
        [] \<Rightarrow> None
      | c # cs \<Rightarrow> (case (cs, baseAmount) of
                     ([], _) \<Rightarrow> Some c
                   | (_, None) \<Rightarrow> Some c
                   | (_, Some b) \<Rightarrow> Some (foldl (better_promotion b) c cs)))"

definition resolve_best_promotion_for_interval ::
  "promotion list \<Rightarrow> ident \<Rightarrow> time \<Rightarrow> time \<Rightarrow> int option \<Rightarrow> promotion option" where
  "resolve_best_promotion_for_interval ps carId intervalStart intervalEndExclusive baseAmount =
     (let eligible = filter (\<lambda>p. intervals_overlap (pm_startDate p) (pm_endDate p) intervalStart intervalEndExclusive) ps
      in choose_best_promotion (get_selection_candidates eligible carId) baseAmount)"

definition apply_promotion_discount :: "int \<Rightarrow> promotion \<Rightarrow> rat" where
  "apply_promotion_discount originalRate p =
     max 1 (of_int originalRate - of_int originalRate * pm_discountValue p / 100)"

definition get_active_promotion_for_car :: "ident \<Rightarrow> ident \<Rightarrow> time \<Rightarrow> int option \<Rightarrow> world \<Rightarrow> promotion option" where
  "get_active_promotion_for_car carId ownerId referenceDate baseAmount w =
     (let ps = newest_first (filter (\<lambda>p. pm_ownerId p = ownerId \<and> active_at_where referenceDate p \<and> scope_for_car carId p) (promotions w))
      in if ps = [] then None else choose_best_promotion (get_selection_candidates ps carId) baseAmount)"

text \<open>The batch lookup: owner and scope to the promotion that wins, the scope fleet for no car.\<close>

definition incoming_beats_existing :: "promotion \<Rightarrow> promotion \<Rightarrow> bool" where
  "incoming_beats_existing existing incoming \<longleftrightarrow>
     (if pm_discountValue existing < pm_discountValue incoming then True
      else if pm_discountValue incoming < pm_discountValue existing then False
      else pm_createdAt existing < pm_createdAt incoming)"

definition scope_key :: "promotion \<Rightarrow> string" where
  "scope_key p = (case pm_carId p of Some c \<Rightarrow> c | None \<Rightarrow> ''fleet'')"

definition lookup_step :: "promotion \<Rightarrow> (ident \<times> string \<Rightarrow> promotion option) \<Rightarrow> ident \<times> string \<Rightarrow> promotion option" where
  "lookup_step p lookup =
     (case lookup (pm_ownerId p, scope_key p) of
        None \<Rightarrow> lookup((pm_ownerId p, scope_key p) \<mapsto> p)
      | Some existing \<Rightarrow> (if incoming_beats_existing existing p then lookup((pm_ownerId p, scope_key p) \<mapsto> p) else lookup))"

definition build_owner_scope_promotion_lookup :: "promotion list \<Rightarrow> ident \<times> string \<Rightarrow> promotion option" where
  "build_owner_scope_promotion_lookup ps = fold lookup_step ps Map.empty"

definition get_active_promotions_for_cars :: "(ident \<times> ident) list \<Rightarrow> time \<Rightarrow> world \<Rightarrow> ident \<Rightarrow> promotion option" where
  "get_active_promotions_for_cars carRefs referenceDate w =
     (if carRefs = [] then Map.empty
      else (let ps = newest_first (filter (\<lambda>p. pm_ownerId p \<in> set (map snd carRefs) \<and> active_at_where referenceDate p
                        \<and> (case pm_carId p of None \<Rightarrow> True | Some c \<Rightarrow> c \<in> set (map fst carRefs))) (promotions w));
                lookup = build_owner_scope_promotion_lookup ps
            in fold (\<lambda>(carId, ownerId) result.
                 (case lookup (ownerId, carId) of
                    Some p \<Rightarrow> result(carId \<mapsto> p)
                  | None \<Rightarrow> (case lookup (ownerId, ''fleet'') of Some p \<Rightarrow> result(carId \<mapsto> p) | None \<Rightarrow> result)))
               carRefs Map.empty))"

text \<open>The promotions are a window table of their owners' scopes, so long as they are active.\<close>

interpretation promos: window_table "\<lambda>p. (pm_ownerId p, pm_carId p)" active_at_where promotion_conflict "\<lambda>p. True"
  by unfold_locales (auto simp: active_at_where_def promotion_conflict_def overlap_where_def)

lemma january_ends: "add_one_calendar_day ''2026-01-31'' = ''2026-02-01''"
proof -
  have s: "split_date ''2026-01-31'' = (''2026'', ''01'', ''31'')" by (simp add: split_date_def)
  have r: "radix_value 10 ''2026'' = 2026" "radix_value 10 ''01'' = 1" "radix_value 10 ''31'' = 31"
    by (simp_all add: radix_value_def digit_value_def)
  have "civil_from_days (days_from_civil 2026 1 31 + 1) = (2026, 2, 1)"
    "nat_digits 2026 @ ''-'' @ pad 2 2 @ ''-'' @ pad 2 1 = ''2026-02-01''" by code_simp+
  then show ?thesis unfolding add_one_calendar_day_def s prod.case r Let_def by simp
qed

section \<open>Runs of the owner's operations\<close>

inductive promotion_step :: "world \<Rightarrow> world \<Rightarrow> bool" where
  create: "newId \<notin> pm_id ` set (promotions w) \<Longrightarrow> promotion_step w (snd (create_promotion fromZonedTime tz now newId d w))"
| deactivate: "promotion_step w (snd (deactivate_promotion i owner w))"

definition promotion_scope :: "promotion \<Rightarrow> ident \<times> ident option" where
  "promotion_scope p = (pm_ownerId p, pm_carId p)"

lemma one_live_promotion_step:
  assumes "promotion_step w w'" "one_live (\<lambda>p. (pm_ownerId p, pm_carId p)) active_at_where (promotions w)"
  shows "one_live (\<lambda>p. (pm_ownerId p, pm_carId p)) active_at_where (promotions w')"
  using assms
proof cases
  case (create newId fromZonedTime tz now d)
  then show ?thesis using assms(2) promos.one_live_insert [of "promotions w"]
    by (auto simp: create_promotion_def Let_def find_row_None list_all_iff split: sum.splits option.splits if_splits)
next
  case (deactivate i owner)
  let ?f = "\<lambda>p. if pm_id p = i then p\<lparr>pm_isActive := False\<rparr> else p"
  have "one_live (\<lambda>p. (pm_ownerId p, pm_carId p)) active_at_where (map ?f (promotions w))"
    by (rule promos.one_live_shrink [OF assms(2)]) (simp_all add: active_at_where_def split: if_splits)
  then show ?thesis using deactivate assms(2) by (simp add: deactivate_promotion_def snd_update_many split: option.split)
qed

text \<open>
  Property C39: An owner's fleet and each car have at most one promotion in force at any instant.
  Whatever promotions an owner creates and deactivates, and in whatever order, no instant has two
  active promotions of the same owner for the same car, or for the whole fleet.
\<close>

theorem one_promotion_per_scope:
  assumes "promotion_step\<^sup>*\<^sup>* empty_world w"
  shows "length (filter (\<lambda>p. promotion_scope p = s \<and> active_at_where inst p) (promotions w)) \<le> 1"
proof -
  have "one_live (\<lambda>p. (pm_ownerId p, pm_carId p)) active_at_where (promotions w)"
    using assms
  proof (induction rule: rtranclp_induct)
    case base
    show ?case by (simp add: one_live_def empty_world_def)
  next
    case (step v w)
    then show ?case by (blast intro: one_live_promotion_step)
  qed
  then show ?thesis unfolding one_live_def promotion_scope_def by blast
qed

definition demo_zone :: "string \<Rightarrow> string \<Rightarrow> time option" where
  "demo_zone s tz = Some (if s = ''2026-01-01T00:00:00'' then 0 else days_ms 31)"

definition demo_promotion_input :: create_promotion_input where
  "demo_promotion_input = \<lparr>cp_ownerId = ''o1'', cp_carId = None, cp_name = None, cp_discountValue = 20,
     cp_startDate = ''2026-01-01'', cp_endDate = ''2026-01-31''\<rparr>"

definition demo_promotion :: promotion where
  "demo_promotion = \<lparr>pm_id = ''pr1'', pm_ownerId = ''o1'', pm_carId = None, pm_name = None, pm_discountValue = 20,
     pm_startDate = 0, pm_endDate = days_ms 31, pm_isActive = True, pm_createdAt = 5\<rparr>"

lemma demo_promotion_created:
  "snd (create_promotion demo_zone ''Africa/Lagos'' 5 ''pr1'' demo_promotion_input empty_world) = empty_world\<lparr>promotions := [demo_promotion]\<rparr>"
proof -
  have "is_calendar_date ''2026-01-01''" "is_calendar_date ''2026-01-31''" by code_simp+
  then show ?thesis
    by (simp add: january_ends create_promotion_def to_promotion_window_exclusive_def demo_promotion_input_def demo_zone_def
        demo_promotion_def empty_world_def find_row_def Let_def)
qed

theorem one_promotion_per_scope_witness:
  "length (filter (\<lambda>p. promotion_scope p = (''o1'', None) \<and> active_at_where 7 p)
     (promotions (snd (create_promotion demo_zone ''Africa/Lagos'' 5 ''pr1'' demo_promotion_input empty_world)))) \<le> 1
   \<and> active_at_where 7 demo_promotion"
proof -
  have "promotion_step\<^sup>*\<^sup>* empty_world (snd (create_promotion demo_zone ''Africa/Lagos'' 5 ''pr1'' demo_promotion_input empty_world))"
    by (intro r_into_rtranclp promotion_step.create) (simp add: empty_world_def)
  from one_promotion_per_scope [OF this] show ?thesis by (simp add: active_at_where_def demo_promotion_def)
qed

section \<open>The choice of a promotion\<close>

lemma better_promotion_max:
  "compute_discount_amount p b \<le> compute_discount_amount (better_promotion b p q) b"
  "compute_discount_amount q b \<le> compute_discount_amount (better_promotion b p q) b"
  by (simp_all add: better_promotion_def)

lemma foldl_better_promotion:
  "foldl (better_promotion b) c cs \<in> set (c # cs)
   \<and> (\<forall>q \<in> set (c # cs). compute_discount_amount q b \<le> compute_discount_amount (foldl (better_promotion b) c cs) b)"
proof (induction cs arbitrary: c)
  case (Cons q cs)
  have "better_promotion b c q = c \<or> better_promotion b c q = q" by (simp add: better_promotion_def)
  moreover have "compute_discount_amount x b \<le> compute_discount_amount (foldl (better_promotion b) c (q # cs)) b"
    if "x \<in> set (c # q # cs)" for x
  proof -
    have "compute_discount_amount (better_promotion b c q) b \<le> compute_discount_amount (foldl (better_promotion b) c (q # cs)) b"
      using Cons.IH [of "better_promotion b c q"] by simp
    moreover have "compute_discount_amount x b \<le> compute_discount_amount (better_promotion b c q) b" if "x \<notin> set cs"
      using that \<open>x \<in> set (c # q # cs)\<close> better_promotion_max(1) [of c b q] better_promotion_max(2) [of q b c] by auto
    moreover have "compute_discount_amount x b \<le> compute_discount_amount (foldl (better_promotion b) c (q # cs)) b" if "x \<in> set cs"
      using Cons.IH [of "better_promotion b c q"] that by simp
    ultimately show ?thesis by (meson order_trans)
  qed
  ultimately show ?case using Cons.IH [of "better_promotion b c q"] by auto
qed simp

lemma choose_best_promotion_spec:
  assumes "choose_best_promotion cs (Some b) = Some p"
  shows "p \<in> set cs \<and> (\<forall>q \<in> set cs. compute_discount_amount q b \<le> compute_discount_amount p b)"
  using assms foldl_better_promotion [of b "hd cs" "tl cs"]
  by (auto simp: choose_best_promotion_def split: list.splits)

lemma choose_best_promotion_None: "choose_best_promotion cs b = None \<longleftrightarrow> cs = []"
  by (auto simp: choose_best_promotion_def split: list.splits option.splits)

text \<open>
  A leg is charged with the best promotion that overlaps it.  The promotion resolved
  for a leg overlaps the leg and is for its car, or for the fleet when no promotion of the car
  overlaps; no other promotion of that scope overlapping the leg takes more off its rate, and none
  is resolved only when none of the car or fleet overlaps.  The rate charged is at least 1, and no
  promotion of the same scope would have charged less.
\<close>

theorem best_overlapping_promotion_resolved:
  assumes "resolve_best_promotion_for_interval ps carId s e (Some rate) = r"
    and "elig = {p \<in> set ps. pm_startDate p < e \<and> s < pm_endDate p}"
    and "scope = (if \<exists>p \<in> elig. pm_carId p = Some carId then Some carId else None)"
  shows "case r of
      None \<Rightarrow> {p \<in> elig. pm_carId p = scope} = {}
    | Some p \<Rightarrow> p \<in> elig \<and> pm_carId p = scope \<and> 1 \<le> apply_promotion_discount rate p
        \<and> (\<forall>q \<in> elig. pm_carId q = scope \<longrightarrow> apply_promotion_discount rate p \<le> apply_promotion_discount rate q)"
proof -
  let ?E = "filter (\<lambda>p. intervals_overlap (pm_startDate p) (pm_endDate p) s e) ps"
  have E: "set ?E = elig" by (auto simp: assms(2) intervals_overlap_def)
  have cands: "set (get_selection_candidates ?E carId) = {p \<in> elig. pm_carId p = scope}"
    unfolding assms(3) E [symmetric] by (auto simp: get_selection_candidates_def Let_def filter_empty_conv)
  have r: "r = choose_best_promotion (get_selection_candidates ?E carId) (Some rate)"
    using assms(1) by (simp add: resolve_best_promotion_for_interval_def)
  show ?thesis
  proof (cases r)
    case None
    then have "get_selection_candidates ?E carId = []" using r choose_best_promotion_None by metis
    then have "{p \<in> elig. pm_carId p = scope} = {}" using cands by simp
    then show ?thesis unfolding None by simp
  next
    case (Some p)
    have "p \<in> elig \<and> pm_carId p = scope \<and> (\<forall>q \<in> elig. pm_carId q = scope \<longrightarrow> compute_discount_amount q rate \<le> compute_discount_amount p rate)"
      using choose_best_promotion_spec [OF r [symmetric, unfolded Some]] cands by auto
    then show ?thesis using Some by (auto simp: apply_promotion_discount_def compute_discount_amount_def intro: max.mono)
  qed
qed

theorem best_overlapping_promotion_resolved_witness:
  "resolve_best_promotion_for_interval [demo_promotion, demo_promotion\<lparr>pm_discountValue := 30\<rparr>] ''c1'' 0 10 (Some 1000)
     = Some (demo_promotion\<lparr>pm_discountValue := 30\<rparr>)
   \<and> apply_promotion_discount 1000 (demo_promotion\<lparr>pm_discountValue := 30\<rparr>) = 700"
  using best_overlapping_promotion_resolved [OF refl refl refl,
      where ps = "[demo_promotion, demo_promotion\<lparr>pm_discountValue := 30\<rparr>]" and carId = "''c1''" and s = 0 and e = 10 and rate = 1000]
  by (simp add: resolve_best_promotion_for_interval_def intervals_overlap_def demo_promotion_def get_selection_candidates_def
      choose_best_promotion_def better_promotion_def compute_discount_amount_def apply_promotion_discount_def)

section \<open>The batch lookup\<close>

fun best_of :: "promotion list \<Rightarrow> promotion option" where
  "best_of [] = None"
| "best_of (p # ps) = Some (foldl (\<lambda>e q. if incoming_beats_existing e q then q else e) p ps)"

lemma best_of_snoc:
  "best_of (ps @ [q]) = Some (case best_of ps of None \<Rightarrow> q | Some e \<Rightarrow> if incoming_beats_existing e q then q else e)"
  by (cases ps) auto

lemma lookup_is_best:
  "build_owner_scope_promotion_lookup ps (o', k) = best_of (filter (\<lambda>p. pm_ownerId p = o' \<and> scope_key p = k) ps)"
proof (induction ps rule: rev_induct)
  case (snoc p ps)
  have "build_owner_scope_promotion_lookup (ps @ [p]) = lookup_step p (build_owner_scope_promotion_lookup ps)"
    by (simp add: build_owner_scope_promotion_lookup_def)
  then show ?case using snoc
    by (cases "pm_ownerId p = o' \<and> scope_key p = k") (auto simp: lookup_step_def best_of_snoc split: option.splits)
qed (simp add: build_owner_scope_promotion_lookup_def)

lemma better_is_beats: "0 < b \<Longrightarrow> better_promotion b e q = (if incoming_beats_existing e q then q else e)"
proof -
  assume b: "0 < b"
  have "compute_discount_amount e b < compute_discount_amount q b \<longleftrightarrow> pm_discountValue e < pm_discountValue q"
    "compute_discount_amount q b = compute_discount_amount e b \<longleftrightarrow> pm_discountValue q = pm_discountValue e"
    using b by (auto simp: compute_discount_amount_def divide_less_cancel)
  then show ?thesis by (auto simp: better_promotion_def incoming_beats_existing_def)
qed

lemma choose_is_best: "0 < b \<Longrightarrow> choose_best_promotion cs (Some b) = best_of cs"
proof -
  assume "0 < b"
  then have "better_promotion b = (\<lambda>e q. if incoming_beats_existing e q then q else e)" by (intro ext better_is_beats)
  then show ?thesis by (cases cs) (auto simp: choose_best_promotion_def split: list.splits)
qed

lemma fold_map_updates:
  assumes "distinct (map fst cs)" "(c, ow) \<in> set cs"
  shows "fold (\<lambda>(i, j) m. case f i j of Some p \<Rightarrow> m(i \<mapsto> p) | None \<Rightarrow> m) cs m c = (case f c ow of Some p \<Rightarrow> Some p | None \<Rightarrow> m c)"
proof -
  have other: "fold (\<lambda>(i, j) m. case f i j of Some p \<Rightarrow> m(i \<mapsto> p) | None \<Rightarrow> m) cs m c = m c" if "c \<notin> fst ` set cs" for cs m
    using that by (induction cs arbitrary: m) (auto split: option.splits)
  show ?thesis using assms
  proof (induction cs arbitrary: m)
    case (Cons x cs)
    show ?case
    proof (cases "x = (c, ow)")
      case True
      then have "c \<notin> fst ` set cs" using Cons.prems(1) by auto
      then show ?thesis using True other by (simp split: option.split)
    next
      case False
      then have "fst x \<noteq> c" using Cons.prems by (cases x) (force simp: rev_image_eqI)
      then show ?thesis using Cons False by (cases x) (auto split: option.split)
    qed
  qed simp
qed

text \<open>
  Property C40: the batch lookup of active promotions agrees with the lookup car by car.  For
  distinct cars with their owners, none of them called fleet, the promotion the batch assigns to a
  car is the one the single lookup chooses for any positive base amount; a car has none in the
  batch exactly when the single lookup finds none.
\<close>

theorem batch_lookup_agrees:
  assumes d: "distinct (map fst carRefs)" and fleet: "''fleet'' \<notin> fst ` set carRefs"
    and car: "(carId, ownerId) \<in> set carRefs" and b: "0 < b"
  shows "get_active_promotions_for_cars carRefs t w carId = get_active_promotion_for_car carId ownerId t (Some b) w"
proof -
  let ?A = "\<lambda>k. newest_first (filter (\<lambda>p. pm_ownerId p = ownerId \<and> active_at_where t p \<and> pm_carId p = k) (promotions w))"
  let ?ps = "newest_first (filter (\<lambda>p. pm_ownerId p \<in> set (map snd carRefs) \<and> active_at_where t p
               \<and> (case pm_carId p of None \<Rightarrow> True | Some c \<Rightarrow> c \<in> set (map fst carRefs))) (promotions w))"
  let ?l = "build_owner_scope_promotion_lookup ?ps"
  have mem: "ownerId \<in> set (map snd carRefs)" "carId \<in> set (map fst carRefs)" "carId \<noteq> ''fleet''"
    using car fleet by (auto simp: rev_image_eqI)
  have own: "filter (\<lambda>p. pm_ownerId p = ownerId \<and> scope_key p = carId) ?ps = ?A (Some carId)"
    unfolding newest_first_def filter_sort filter_filter
    by (rule arg_cong [of _ _ "sort_key _"], rule filter_cong) (use mem in \<open>auto simp: scope_key_def split: option.splits\<close>)
  have flt: "filter (\<lambda>p. pm_ownerId p = ownerId \<and> scope_key p = ''fleet'') ?ps = ?A None"
    unfolding newest_first_def filter_sort filter_filter
    by (rule arg_cong [of _ _ "sort_key _"], rule filter_cong)
      (use mem fleet in \<open>auto simp: scope_key_def image_iff split: option.splits\<close>)
  let ?f = "\<lambda>c ow. case ?l (ow, c) of Some p \<Rightarrow> Some p | None \<Rightarrow> ?l (ow, ''fleet'')"
  have batch: "get_active_promotions_for_cars carRefs t w carId = ?f carId ownerId"
  proof -
    have "carRefs \<noteq> []" using car by auto
    moreover have "(\<lambda>(i, j) m. case ?l (j, i) of Some p \<Rightarrow> m(i \<mapsto> p) | None \<Rightarrow> (case ?l (j, ''fleet'') of Some p \<Rightarrow> m(i \<mapsto> p) | None \<Rightarrow> m))
        = (\<lambda>(i, j) m. case ?f i j of Some p \<Rightarrow> m(i \<mapsto> p) | None \<Rightarrow> m)"
      by (intro ext) (auto split: option.splits)
    ultimately show ?thesis
      unfolding get_active_promotions_for_cars_def Let_def using fold_map_updates [OF d car, of ?f Map.empty]
      by (simp split: option.splits)
  qed
  have single: "get_active_promotion_for_car carId ownerId t (Some b) w
      = (if ?A (Some carId) \<noteq> [] then best_of (?A (Some carId)) else best_of (?A None))"
  proof -
    let ?S = "filter (\<lambda>p. pm_ownerId p = ownerId \<and> active_at_where t p \<and> scope_for_car carId p) (promotions w)"
    have "filter (\<lambda>p. pm_carId p = Some carId) (newest_first ?S) = ?A (Some carId)"
      "filter (\<lambda>p. pm_carId p = None) (newest_first ?S) = ?A None"
      unfolding newest_first_def filter_sort filter_filter
      by (rule arg_cong [of _ _ "sort_key _"], rule filter_cong; auto simp: scope_for_car_def)+
    then show ?thesis
      by (auto simp: get_active_promotion_for_car_def get_selection_candidates_def Let_def choose_is_best [OF b])
  qed
  show ?thesis unfolding batch single lookup_is_best own flt by (cases "?A (Some carId)") auto
qed

theorem batch_lookup_agrees_witness:
  "get_active_promotions_for_cars [(''c1'', ''o1'')] 7 (empty_world\<lparr>promotions := [demo_promotion]\<rparr>) ''c1''
   = get_active_promotion_for_car ''c1'' ''o1'' 7 (Some 1000) (empty_world\<lparr>promotions := [demo_promotion]\<rparr>)"
  by (rule batch_lookup_agrees) simp_all

end
