(* ===== verification/BookingPricing.thy ===== *)
theory BookingPricing
  imports BookingLegs Promotions Referrals
begin

text \<open>
  The price of a booking: the financial breakdown (modules/booking/booking-calculation.service.ts)
  and its preview (booking-pricing-preview.service.ts), over the rates, the promotions and the
  referral programme.
\<close>

definition booking_type_name :: "booking_type \<Rightarrow> string" where
  "booking_type_name t = (case t of DAY \<Rightarrow> ''DAY'' | NIGHT \<Rightarrow> ''NIGHT'' | FULL_DAY \<Rightarrow> ''FULL_DAY'' | AIRPORT_PICKUP \<Rightarrow> ''AIRPORT_PICKUP'')"

section \<open>The breakdown\<close>

record leg_price_promotion =
  lpp_id :: ident
  lpp_name :: "string option"
  lpp_discountValue :: rat
  lpp_startDate :: time
  lpp_endDate :: time

record leg_price =
  lp_legDate :: time
  lp_price :: rat
  lp_basePrice :: rat
  lp_promotion :: "leg_price_promotion option"

record calculation_input =
  ci_bookingType :: booking_type
  ci_legs :: "generated_leg list"
  ci_car :: car
  ci_includeSecurityDetail :: bool
  ci_requiresFullTank :: bool
  ci_userCreditsBalance :: rat
  ci_creditsToUse :: rat
  ci_referralDiscountAmount :: rat

record booking_financials =
  bf_legPrices :: "leg_price list"
  bf_numberOfLegs :: nat
  bf_netTotal :: rat
  bf_compareAtNetTotal :: rat
  bf_appliedPromotion :: "promotion option"
  bf_securityDetailCost :: rat
  bf_fuelUpgradeCost :: rat
  bf_netTotalWithAddons :: rat
  bf_platformFeeBase :: rat
  bf_platformCustomerServiceFeeRatePercent :: rat
  bf_platformCustomerServiceFeeAmount :: rat
  bf_subtotalBeforeDiscounts :: rat
  bf_referralDiscountAmount :: rat
  bf_creditsUsed :: rat
  bf_subtotalAfterDiscounts :: rat
  bf_vatRatePercent :: rat
  bf_vatAmount :: rat
  bf_totalAmount :: rat
  bf_platformFleetOwnerCommissionRatePercent :: rat
  bf_platformFleetOwnerCommissionAmount :: rat
  bf_fleetOwnerPayoutAmountNet :: rat

definition minimum_payable_subtotal :: rat where
  "minimum_payable_subtotal = 1"

definition max_legs_for_fuel_upgrade :: nat where
  "max_legs_for_fuel_upgrade = 2"

definition get_rate_for_booking_type :: "booking_type \<Rightarrow> car \<Rightarrow> int" where
  "get_rate_for_booking_type t c =
     (case t of DAY \<Rightarrow> c_dayRate c | NIGHT \<Rightarrow> c_nightRate c | FULL_DAY \<Rightarrow> c_fullDayRate c | AIRPORT_PICKUP \<Rightarrow> c_airportPickupRate c)"

definition get_booking_window :: "generated_leg list \<Rightarrow> time \<times> time" where
  "get_booking_window ls =
     (let l0 = hd ls in
      fold (\<lambda>l (s, e). (if gl_legStartTime l < s then gl_legStartTime l else s, if e < gl_legEndTime l then gl_legEndTime l else e))
        ls (gl_legStartTime l0, gl_legEndTime l0))"

definition load_overlapping_promotions :: "car \<Rightarrow> generated_leg list \<Rightarrow> world \<Rightarrow> promotion list" where
  "load_overlapping_promotions c ls w =
     (if c_id c = [] \<or> c_ownerId c = [] \<or> ls = [] then []
      else let (s, e) = get_booking_window ls in
        if e \<le> s then [] else get_overlapping_promotions_for_car (c_id c) (c_ownerId c) s e w)"

definition calculate_leg_price :: "booking_type \<Rightarrow> car \<Rightarrow> promotion list \<Rightarrow> generated_leg \<Rightarrow> leg_price" where
  "calculate_leg_price t c ps l =
     (let rate = get_rate_for_booking_type t c;
          legPromotion = (if ps = [] \<or> c_id c = [] then None
                          else resolve_best_promotion_for_interval ps (c_id c) (gl_legStartTime l) (gl_legEndTime l) (Some rate))
      in case legPromotion of
           None \<Rightarrow> \<lparr>lp_legDate = gl_legDate l, lp_price = of_int rate, lp_basePrice = of_int rate, lp_promotion = None\<rparr>
         | Some p \<Rightarrow> \<lparr>lp_legDate = gl_legDate l, lp_price = apply_promotion_discount rate p, lp_basePrice = of_int rate,
             lp_promotion = Some \<lparr>lpp_id = pm_id p, lpp_name = pm_name p, lpp_discountValue = pm_discountValue p,
                                  lpp_startDate = pm_startDate p, lpp_endDate = pm_endDate p\<rparr>\<rparr>)"

fun first_promotion :: "leg_price list \<Rightarrow> promotion list \<Rightarrow> promotion option" where
  "first_promotion [] ps = None"
| "first_promotion (l # ls) ps =
     (case lp_promotion l of
        None \<Rightarrow> first_promotion ls ps
      | Some q \<Rightarrow> (case find_row (\<lambda>p. pm_id p = lpp_id q) ps of Some p \<Rightarrow> Some p | None \<Rightarrow> first_promotion ls ps))"

definition calculate_fuel_upgrade_cost :: "car \<Rightarrow> bool \<Rightarrow> nat \<Rightarrow> rat" where
  "calculate_fuel_upgrade_cost c requiresFullTank n =
     (case c_fuelUpgradeRate c of
        None \<Rightarrow> 0
      | Some r \<Rightarrow> (if \<not> c_pricingIncludesFuel c \<and> requiresFullTank \<and> 0 < n \<and> n \<le> max_legs_for_fuel_upgrade \<and> 0 < r
                   then of_int r else 0))"

definition apply_discount :: "rat \<Rightarrow> rat \<Rightarrow> rat" where
  "apply_discount discount available =
     (if discount \<le> 0 then 0 else min discount (max 0 (available - minimum_payable_subtotal)))"

definition calculate_effective_credits :: "rat \<Rightarrow> rat \<Rightarrow> rat \<Rightarrow> rat" where
  "calculate_effective_credits creditsToUse userBalance remaining =
     (if creditsToUse \<le> 0 \<or> userBalance \<le> 0 then 0
      else min (min creditsToUse userBalance) (max 0 (remaining - minimum_payable_subtotal)))"

definition booking_financials_of :: "platform_rates \<Rightarrow> promotion list \<Rightarrow> calculation_input \<Rightarrow> booking_financials" where
  "booking_financials_of rates ps i =
     (let c = ci_car i; n = length (ci_legs i);
          legPrices = map (calculate_leg_price (ci_bookingType i) c ps) (ci_legs i);
          netTotal = sum_list (map lp_price legPrices);
          security = (if ci_includeSecurityDetail i then r_securityDetailRate rates * of_nat n else 0);
          fuel = calculate_fuel_upgrade_cost c (ci_requiresFullTank i) n;
          withAddons = netTotal + security + fuel;
          feeBase = netTotal + fuel;
          fee = feeBase * r_platformCustomerServiceFeeRatePercent rates / 100;
          beforeDiscounts = withAddons + fee;
          referral = apply_discount (ci_referralDiscountAmount i) beforeDiscounts;
          afterReferral = beforeDiscounts - referral;
          credits = calculate_effective_credits (ci_creditsToUse i) (ci_userCreditsBalance i) afterReferral;
          after = afterReferral - credits;
          vat = after * r_vatRatePercent rates / 100;
          commission = netTotal * r_platformFleetOwnerCommissionRatePercent rates / 100
      in \<lparr>bf_legPrices = legPrices, bf_numberOfLegs = n, bf_netTotal = netTotal,
          bf_compareAtNetTotal = sum_list (map lp_basePrice legPrices),
          bf_appliedPromotion = first_promotion legPrices ps,
          bf_securityDetailCost = security, bf_fuelUpgradeCost = fuel, bf_netTotalWithAddons = withAddons,
          bf_platformFeeBase = feeBase,
          bf_platformCustomerServiceFeeRatePercent = r_platformCustomerServiceFeeRatePercent rates,
          bf_platformCustomerServiceFeeAmount = fee, bf_subtotalBeforeDiscounts = beforeDiscounts,
          bf_referralDiscountAmount = referral, bf_creditsUsed = credits, bf_subtotalAfterDiscounts = after,
          bf_vatRatePercent = r_vatRatePercent rates, bf_vatAmount = vat, bf_totalAmount = after + vat,
          bf_platformFleetOwnerCommissionRatePercent = r_platformFleetOwnerCommissionRatePercent rates,
          bf_platformFleetOwnerCommissionAmount = commission,
          bf_fleetOwnerPayoutAmountNet = netTotal + security - commission\<rparr>)"

text \<open>The rates error is the message thrown; a failed promotion query would count as no promotion.\<close>

definition calculate_booking_cost :: "time \<Rightarrow> bool \<Rightarrow> calculation_input \<Rightarrow> world \<Rightarrow> (string + booking_financials) \<times> world" where
  "calculate_booking_cost now tx i w =
     (case get_rates now tx w of
        (Inl e, w') \<Rightarrow> (Inl e, w')
      | (Inr rates, w') \<Rightarrow> (Inr (booking_financials_of rates (load_overlapping_promotions (ci_car i) (ci_legs i) w') i), w'))"

section \<open>The preview\<close>

datatype segment_kind = PROMO | STANDARD

record preview_segment =
  ps_kind :: segment_kind
  ps_units :: nat
  ps_unitPrice :: rat
  ps_total :: rat
  ps_compareAtUnitPrice :: "rat option"
  ps_label :: "string option"
  ps_promotion :: "leg_price_promotion option"

datatype discount_coverage = COV_NONE | COV_PARTIAL | COV_FULL

record pricing_preview =
  pv_numberOfLegs :: nat
  pv_discountCoverage :: discount_coverage
  pv_segments :: "preview_segment list"
  pv_baseTotal :: rat
  pv_compareAtBaseTotal :: rat
  pv_securityDetailCost :: rat
  pv_fuelUpgradeCost :: rat
  pv_platformFeeRatePercent :: rat
  pv_platformFeeAmount :: rat
  pv_compareAtPlatformFeeAmount :: rat
  pv_subtotalBeforeDiscounts :: rat
  pv_compareAtSubtotalBeforeDiscounts :: rat
  pv_referralDiscountAmount :: rat
  pv_creditsUsed :: rat
  pv_subtotalAfterDiscounts :: rat
  pv_vatRatePercent :: rat
  pv_vatAmount :: rat
  pv_compareAtVatAmount :: rat
  pv_totalAmount :: rat
  pv_compareAtTotalAmount :: rat
  pv_savingsAmount :: rat

definition compute_coverage :: "leg_price list \<Rightarrow> discount_coverage" where
  "compute_coverage ls =
     (if ls = [] then COV_NONE
      else let discounted = length (filter (\<lambda>l. lp_promotion l \<noteq> None) ls) in
        if discounted = 0 then COV_NONE else if discounted = length ls then COV_FULL else COV_PARTIAL)"

text \<open>
  The key of a segment: the promotion and both prices, or the base price of an undiscounted leg.
  The entries of the Map are listed in the order of their first leg; num renders a number.
\<close>

definition segment_key :: "leg_price \<Rightarrow> ident option \<times> rat \<times> rat" where
  "segment_key l = (case lp_promotion l of Some p \<Rightarrow> (Some (lpp_id p), lp_basePrice l, lp_price l) | None \<Rightarrow> (None, lp_basePrice l, 0))"

definition new_segment :: "(rat \<Rightarrow> string) \<Rightarrow> leg_price \<Rightarrow> preview_segment" where
  "new_segment num l =
     \<lparr>ps_kind = (if lp_promotion l = None then STANDARD else PROMO), ps_units = 1, ps_unitPrice = lp_price l, ps_total = lp_price l,
      ps_compareAtUnitPrice = (if lp_promotion l = None then None else Some (lp_basePrice l)),
      ps_label = map_option (\<lambda>p. case lpp_name p of Some s \<Rightarrow> js_trim s | None \<Rightarrow> num (lpp_discountValue p) @ ''% OFF'') (lp_promotion l),
      ps_promotion = lp_promotion l\<rparr>"

fun add_to_segments ::
  "(rat \<Rightarrow> string) \<Rightarrow> leg_price \<Rightarrow> ((ident option \<times> rat \<times> rat) \<times> preview_segment) list
     \<Rightarrow> ((ident option \<times> rat \<times> rat) \<times> preview_segment) list" where
  "add_to_segments num l [] = [(segment_key l, new_segment num l)]"
| "add_to_segments num l ((k, s) # rest) =
     (if k = segment_key l then (k, s\<lparr>ps_units := ps_units s + 1, ps_total := ps_total s + lp_price l\<rparr>) # rest
      else (k, s) # add_to_segments num l rest)"

definition build_segments :: "(rat \<Rightarrow> string) \<Rightarrow> leg_price list \<Rightarrow> preview_segment list" where
  "build_segments num ls =
     (let values = map snd (fold (add_to_segments num) ls [])
      in filter (\<lambda>s. ps_kind s = PROMO) values @ filter (\<lambda>s. ps_kind s \<noteq> PROMO) values)"

definition map_financials :: "(rat \<Rightarrow> string) \<Rightarrow> booking_financials \<Rightarrow> pricing_preview" where
  "map_financials num f =
     (let cmpFee = (bf_compareAtNetTotal f + bf_fuelUpgradeCost f) * bf_platformCustomerServiceFeeRatePercent f / 100;
          cmpBefore = bf_compareAtNetTotal f + bf_securityDetailCost f + bf_fuelUpgradeCost f + cmpFee;
          cmpVat = cmpBefore * bf_vatRatePercent f / 100;
          cmpTotal = cmpBefore + cmpVat
      in \<lparr>pv_numberOfLegs = bf_numberOfLegs f, pv_discountCoverage = compute_coverage (bf_legPrices f),
          pv_segments = build_segments num (bf_legPrices f), pv_baseTotal = bf_netTotal f,
          pv_compareAtBaseTotal = bf_compareAtNetTotal f, pv_securityDetailCost = bf_securityDetailCost f,
          pv_fuelUpgradeCost = bf_fuelUpgradeCost f,
          pv_platformFeeRatePercent = bf_platformCustomerServiceFeeRatePercent f,
          pv_platformFeeAmount = bf_platformCustomerServiceFeeAmount f, pv_compareAtPlatformFeeAmount = cmpFee,
          pv_subtotalBeforeDiscounts = bf_subtotalBeforeDiscounts f, pv_compareAtSubtotalBeforeDiscounts = cmpBefore,
          pv_referralDiscountAmount = bf_referralDiscountAmount f, pv_creditsUsed = bf_creditsUsed f,
          pv_subtotalAfterDiscounts = bf_subtotalAfterDiscounts f, pv_vatRatePercent = bf_vatRatePercent f,
          pv_vatAmount = bf_vatAmount f, pv_compareAtVatAmount = cmpVat, pv_totalAmount = bf_totalAmount f,
          pv_compareAtTotalAmount = cmpTotal, pv_savingsAmount = max 0 (cmpTotal - bf_totalAmount f)\<rparr>)"

record preview_input =
  pi_carId :: ident
  pi_bookingType :: booking_type
  pi_startDate :: time
  pi_endDate :: time
  pi_pickupTime :: string
  pi_includeSecurityDetail :: bool
  pi_requiresFullTank :: bool
  pi_useCredits :: rat

datatype booking_exception =
    BookingValidation "(string \<times> string) list"
  | CarNotFound ident
  | CarNotAvailable ident string
  | BookingPriceChanged rat booking_financials
  | BookingCreationFailed string
  | BookingRequestInProgress
  | IdempotencyKeyReused
  | ReferralDiscountGone
  | PaymentIntentFailed
  | BookingPaymentSyncFailed
  | BookingNotFound
  | BookingStatusNotModifiable string
  | BookingOutsideModificationWindow time
  | BookingCancellationFailed
  | BookingUpdateFailed
  | BookingUpdateNotAllowed string
  | BookingChauffeurNotFound
  | FlightAwareError string
  | UnexpectedError string

definition validate_credits_require_authentication :: "rat \<Rightarrow> ident option \<Rightarrow> booking_exception option" where
  "validate_credits_require_authentication useCredits sessionUser =
     (if sessionUser = None \<and> 0 < useCredits then Some (BookingValidation [(''useCredits'', ''Sign in to apply referral credits'')]) else None)"

definition fetch_car_with_pricing :: "ident \<Rightarrow> world \<Rightarrow> booking_exception + car" where
  "fetch_car_with_pricing carId w =
     (case find_row (\<lambda>c. c_id c = carId) (cars w) of None \<Rightarrow> Inl (CarNotFound carId) | Some c \<Rightarrow> Inr c)"

text \<open>
  The two calculations of a price: first without referral, then, when the user has a discount or
  credits for that subtotal, with them.
\<close>

definition price_with_referral ::
  "time \<Rightarrow> calculation_input \<Rightarrow> ident option \<Rightarrow> rat \<Rightarrow> world \<Rightarrow> (string + referral_eligibility \<times> booking_financials) \<times> world" where
  "price_with_referral now i sessionUser useCredits w =
     (case calculate_booking_cost now False i w of
        (Inl e, w') \<Rightarrow> (Inl e, w')
      | (Inr base, w') \<Rightarrow>
          (let el = check_referral_eligibility_for_pricing now sessionUser (bf_subtotalBeforeDiscounts base) (booking_type_name (ci_bookingType i)) w';
               balance = get_referral_credit_balance_for_pricing sessionUser useCredits w'
           in if 0 < el_discountAmount el \<or> 0 < balance
              then (case calculate_booking_cost now False (i\<lparr>ci_userCreditsBalance := balance, ci_creditsToUse := useCredits,
                                                            ci_referralDiscountAmount := el_discountAmount el\<rparr>) w' of
                      (Inl e, w'') \<Rightarrow> (Inl e, w'')
                    | (Inr f, w'') \<Rightarrow> (Inr (el, f), w''))
              else (Inr (el, base), w')))"

definition preview ::
  "date_fns \<Rightarrow> int \<Rightarrow> (rat \<Rightarrow> string) \<Rightarrow> time \<Rightarrow> preview_input \<Rightarrow> ident option \<Rightarrow> world
     \<Rightarrow> (booking_exception + pricing_preview) \<times> world" where
  "preview F off num now i sessionUser w =
     (case validate_credits_require_authentication (pi_useCredits i) sessionUser of
        Some e \<Rightarrow> (Inl e, w)
      | None \<Rightarrow>
          (let (s, e) = normalize_booking_time_window F off (pi_bookingType i) (pi_startDate i) (pi_endDate i) (Some (pi_pickupTime i))
           in case fetch_car_with_pricing (pi_carId i) w of
                Inl x \<Rightarrow> (Inl x, w)
              | Inr c \<Rightarrow>
                  (case generate_legs F (build_leg_generation_input (pi_bookingType i) s e (pi_pickupTime i) None None) of
                     None \<Rightarrow> (Inl (UnexpectedError ''TypeError''), w)
                   | Some ls \<Rightarrow>
                       (case price_with_referral now
                               \<lparr>ci_bookingType = pi_bookingType i, ci_legs = ls, ci_car = c,
                                ci_includeSecurityDetail = pi_includeSecurityDetail i,
                                ci_requiresFullTank = pi_requiresFullTank i, ci_userCreditsBalance = 0, ci_creditsToUse = 0,
                                ci_referralDiscountAmount = 0\<rparr> sessionUser (pi_useCredits i) w of
                          (Inl m, w') \<Rightarrow> (Inl (UnexpectedError m), w')
                        | (Inr (el, f), w') \<Rightarrow> (Inr (map_financials num f), w')))))"

section \<open>Bounds of the breakdown\<close>

lemma resolved_in:
  "resolve_best_promotion_for_interval ps k s e (Some b) = Some p \<Longrightarrow> p \<in> set ps"
  by (auto simp: resolve_best_promotion_for_interval_def get_selection_candidates_def Let_def split: if_splits
      dest!: choose_best_promotion_spec)

lemma leg_price_bounds:
  assumes "1 \<le> get_rate_for_booking_type t c" "\<forall>p \<in> set ps. 0 \<le> pm_discountValue p"
  shows "1 \<le> lp_price (calculate_leg_price t c ps l) \<and> lp_price (calculate_leg_price t c ps l) \<le> lp_basePrice (calculate_leg_price t c ps l)"
proof -
  let ?r = "rat_of_int (get_rate_for_booking_type t c)"
  have r: "1 \<le> ?r" using assms(1) by simp
  have disc: "apply_promotion_discount (get_rate_for_booking_type t c) p \<le> ?r" if "p \<in> set ps" for p
  proof -
    have "0 \<le> ?r * pm_discountValue p / 100" using that assms(2) r by simp
    then show ?thesis using r by (simp add: apply_promotion_discount_def)
  qed
  show ?thesis using r disc
    by (auto simp: calculate_leg_price_def Let_def dest!: resolved_in split: option.split)
      (simp_all add: apply_promotion_discount_def)
qed


lemma apply_discount_bounds:
  "0 \<le> apply_discount d a" "apply_discount d a \<le> max 0 d" "1 \<le> a \<Longrightarrow> 1 \<le> a - apply_discount d a"
  by (auto simp: apply_discount_def minimum_payable_subtotal_def min_def max_def)

lemma effective_credits_bounds:
  "0 \<le> calculate_effective_credits u b a" "calculate_effective_credits u b a \<le> max 0 (min u b)"
  "1 \<le> a \<Longrightarrow> 1 \<le> a - calculate_effective_credits u b a"
  by (auto simp: calculate_effective_credits_def minimum_payable_subtotal_def min_def max_def)

text \<open>The rates and the car of a price: percentages and amounts that are not negative, a daily rate of at least one.\<close>

definition sane_pricing :: "platform_rates \<Rightarrow> promotion list \<Rightarrow> calculation_input \<Rightarrow> bool" where
  "sane_pricing rates ps i \<longleftrightarrow>
     0 \<le> r_platformCustomerServiceFeeRatePercent rates \<and> 0 \<le> r_vatRatePercent rates \<and> 0 \<le> r_securityDetailRate rates
   \<and> 0 \<le> r_platformFleetOwnerCommissionRatePercent rates \<and> r_platformFleetOwnerCommissionRatePercent rates \<le> 100
   \<and> 1 \<le> get_rate_for_booking_type (ci_bookingType i) (ci_car i) \<and> list_all (\<lambda>p. 0 \<le> pm_discountValue p) ps \<and> ci_legs i \<noteq> []"

lemma net_total_bounds:
  assumes "sane_pricing rates ps i"
  shows "rat_of_nat (length (ci_legs i)) \<le> bf_netTotal (booking_financials_of rates ps i)
    \<and> bf_netTotal (booking_financials_of rates ps i) \<le> bf_compareAtNetTotal (booking_financials_of rates ps i)"
proof -
  let ?P = "map (calculate_leg_price (ci_bookingType i) (ci_car i) ps) (ci_legs i)"
  have b: "1 \<le> lp_price q \<and> lp_price q \<le> lp_basePrice q" if "q \<in> set ?P" for q
    using that assms leg_price_bounds by (auto simp: sane_pricing_def list_all_iff)
  have "rat_of_nat (length qs) \<le> sum_list (map lp_price qs) \<and> sum_list (map lp_price qs) \<le> sum_list (map lp_basePrice qs)"
    if "\<And>q. q \<in> set qs \<Longrightarrow> 1 \<le> lp_price q \<and> lp_price q \<le> lp_basePrice q" for qs
    using that
  proof (induction qs)
    case (Cons a qs)
    then show ?case using Cons.IH Cons.prems [of a] by fastforce
  qed simp
  from this [of ?P, OF b] show ?thesis by (simp add: booking_financials_of_def Let_def)
qed

text \<open>
  Property C32: what the customer pays is what the parties receive, and it is always payable.  The
  total is the owner's payout, the commission, the fuel, the service fee and the tax, less the
  discount and the credits; the discount and the credits are never negative and never more than
  asked for or owned; the subtotal after them is at least one, so the total is; and no promotion
  makes the legs dearer than without it.
\<close>

theorem price_breakdown_balances:
  assumes sane: "sane_pricing rates ps i" and f: "f = booking_financials_of rates ps i"
  shows "bf_totalAmount f = bf_fleetOwnerPayoutAmountNet f + bf_platformFleetOwnerCommissionAmount f + bf_fuelUpgradeCost f
           + bf_platformCustomerServiceFeeAmount f + bf_vatAmount f - bf_referralDiscountAmount f - bf_creditsUsed f
    \<and> 0 \<le> bf_referralDiscountAmount f \<and> bf_referralDiscountAmount f \<le> max 0 (ci_referralDiscountAmount i)
    \<and> 0 \<le> bf_creditsUsed f \<and> bf_creditsUsed f \<le> max 0 (min (ci_creditsToUse i) (ci_userCreditsBalance i))
    \<and> 1 \<le> bf_subtotalAfterDiscounts f \<and> bf_subtotalAfterDiscounts f \<le> bf_totalAmount f
    \<and> 0 \<le> bf_fleetOwnerPayoutAmountNet f \<and> bf_netTotal f \<le> bf_compareAtNetTotal f"
proof -
  have n: "1 \<le> rat_of_nat (length (ci_legs i))" using sane by (cases "ci_legs i") (auto simp: sane_pricing_def)
  have net: "1 \<le> bf_netTotal f" "bf_netTotal f \<le> bf_compareAtNetTotal f"
    using net_total_bounds [OF sane] n unfolding f by linarith+
  have sec: "0 \<le> bf_securityDetailCost f" "0 \<le> bf_fuelUpgradeCost f"
    using sane by (auto simp: f booking_financials_of_def Let_def sane_pricing_def calculate_fuel_upgrade_cost_def split: option.split)
  have fee: "0 \<le> bf_platformCustomerServiceFeeAmount f"
    using sane net(1) sec(2) by (simp add: f booking_financials_of_def Let_def sane_pricing_def)
  have before: "bf_subtotalBeforeDiscounts f = bf_netTotal f + bf_securityDetailCost f + bf_fuelUpgradeCost f + bf_platformCustomerServiceFeeAmount f"
    by (simp add: f booking_financials_of_def Let_def)
  then have "1 \<le> bf_subtotalBeforeDiscounts f" using net(1) sec fee by linarith
  moreover have ref: "bf_referralDiscountAmount f = apply_discount (ci_referralDiscountAmount i) (bf_subtotalBeforeDiscounts f)"
    by (simp add: f booking_financials_of_def Let_def)
  ultimately have "1 \<le> bf_subtotalBeforeDiscounts f - bf_referralDiscountAmount f" by (simp add: apply_discount_bounds(3))
  moreover have cred: "bf_creditsUsed f = calculate_effective_credits (ci_creditsToUse i) (ci_userCreditsBalance i)
      (bf_subtotalBeforeDiscounts f - bf_referralDiscountAmount f)"
    by (simp add: f booking_financials_of_def Let_def)
  moreover have after: "bf_subtotalAfterDiscounts f = bf_subtotalBeforeDiscounts f - bf_referralDiscountAmount f - bf_creditsUsed f"
    by (simp add: f booking_financials_of_def Let_def)
  ultimately have one: "1 \<le> bf_subtotalAfterDiscounts f" using effective_credits_bounds(3) by simp
  then have vat: "0 \<le> bf_vatAmount f" "bf_totalAmount f = bf_subtotalAfterDiscounts f + bf_vatAmount f"
    using sane by (simp_all add: f booking_financials_of_def Let_def sane_pricing_def)
  have pay: "bf_fleetOwnerPayoutAmountNet f = bf_netTotal f + bf_securityDetailCost f - bf_platformFleetOwnerCommissionAmount f"
    by (simp add: f booking_financials_of_def Let_def)
  have "bf_platformFleetOwnerCommissionAmount f = bf_netTotal f * r_platformFleetOwnerCommissionRatePercent rates / 100"
    by (simp add: f booking_financials_of_def Let_def)
  moreover have "bf_netTotal f * r_platformFleetOwnerCommissionRatePercent rates \<le> bf_netTotal f * 100"
    using sane net(1) by (intro mult_left_mono) (auto simp: sane_pricing_def)
  ultimately have "bf_platformFleetOwnerCommissionAmount f \<le> bf_netTotal f" by simp
  then have payout: "0 \<le> bf_fleetOwnerPayoutAmountNet f" using pay sec(1) by linarith
  have total: "bf_totalAmount f = bf_fleetOwnerPayoutAmountNet f + bf_platformFleetOwnerCommissionAmount f + bf_fuelUpgradeCost f
           + bf_platformCustomerServiceFeeAmount f + bf_vatAmount f - bf_referralDiscountAmount f - bf_creditsUsed f"
    using vat(2) pay after before by linarith
  have "bf_subtotalAfterDiscounts f \<le> bf_totalAmount f" using vat by linarith
  then show ?thesis
    using total payout one net(2) apply_discount_bounds(1,2) effective_credits_bounds(1,2) unfolding ref cred by blast
qed

definition demo_calculation :: calculation_input where
  "demo_calculation = \<lparr>ci_bookingType = DAY, ci_legs = [\<lparr>gl_legDate = 0, gl_legStartTime = 100, gl_legEndTime = 200\<rparr>],
     ci_car = demo_car, ci_includeSecurityDetail = True, ci_requiresFullTank = True, ci_userCreditsBalance = 500,
     ci_creditsToUse = 5000, ci_referralDiscountAmount = 9000\<rparr>"

theorem price_breakdown_balances_witness:
  "1 \<le> bf_totalAmount (booking_financials_of demo_rates [demo_promotion] demo_calculation)
   \<and> bf_creditsUsed (booking_financials_of demo_rates [demo_promotion] demo_calculation) \<le> 500"
proof -
  have "sane_pricing demo_rates [demo_promotion] demo_calculation"
    by (simp add: sane_pricing_def demo_rates_def demo_calculation_def demo_car_def demo_promotion_def get_rate_for_booking_type_def)
  moreover have "max 0 (min (ci_creditsToUse demo_calculation) (ci_userCreditsBalance demo_calculation)) = 500"
    by (simp add: demo_calculation_def)
  ultimately show ?thesis using price_breakdown_balances [of demo_rates "[demo_promotion]" demo_calculation, OF _ refl] by auto
qed

section \<open>The segments of the preview\<close>

lemma add_to_segments_sums:
  "sum_list (map (ps_total \<circ> snd) (add_to_segments num l ss)) = sum_list (map (ps_total \<circ> snd) ss) + lp_price l"
  "sum_list (map (ps_units \<circ> snd) (add_to_segments num l ss)) = sum_list (map (ps_units \<circ> snd) ss) + 1"
  by (induction num l ss rule: add_to_segments.induct) (auto simp: new_segment_def)

lemma fold_segments_sums:
  "sum_list (map (ps_total \<circ> snd) (fold (add_to_segments num) ls ss)) = sum_list (map (ps_total \<circ> snd) ss) + sum_list (map lp_price ls)"
  "sum_list (map (ps_units \<circ> snd) (fold (add_to_segments num) ls ss)) = sum_list (map (ps_units \<circ> snd) ss) + length ls"
  by (induction ls arbitrary: ss) (simp_all add: add_to_segments_sums add.assoc)

lemma sum_list_partition:
  "sum_list (map f (filter P xs)) + sum_list (map f (filter (\<lambda>x. \<not> P x) xs)) = (sum_list (map f xs) :: 'a :: comm_monoid_add)"
  by (induction xs) (auto simp: add_ac)


end
