(* ===== verification/BookingAvailability.thy ===== *)
theory BookingAvailability
  imports BookingPricing BookingPayments
begin

text \<open>
  What a booking must satisfy to be taken (modules/booking/booking-validation.service.ts): its
  dates, its car with the two-hour gap around the other bookings (shared/availability-buffer.helper.ts),
  a guest's address and the price the customer accepted; and the exclusion constraint of the
  database on the windows of a car's bookings (the migration enforce_two_hour_booking_buffer).
\<close>

section \<open>Dates\<close>

definition validate_date_order :: "time \<Rightarrow> time \<Rightarrow> (string \<times> string) list" where
  "validate_date_order s e = (if s < e then [] else [(''endDate'', ''End date must be after start date'')])"

definition validate_airport_pickup_advance_notice :: "time \<Rightarrow> time \<Rightarrow> (string \<times> string) list" where
  "validate_airport_pickup_advance_notice s now =
     (if now + hours_ms 1 \<le> s then [] else [(''startDate'', ''Airport pickup bookings require at least 1 hour advance notice'')])"

definition is_time_within_window :: "int \<Rightarrow> time \<Rightarrow> int \<Rightarrow> int \<Rightarrow> bool" where
  "is_time_within_window off d startHour endHour \<longleftrightarrow>
     (let m = local_hours off d * 60 + local_minutes off d in startHour * 60 \<le> m \<and> m \<le> endHour * 60)"

definition validate_booking_type_start_window :: "int \<Rightarrow> time \<Rightarrow> booking_type \<Rightarrow> (string \<times> string) list" where
  "validate_booking_type_start_window off s bt =
     (if bt = DAY \<and> \<not> is_time_within_window off s 7 11
      then [(''startDate'', ''DAY bookings must start between 7:00 AM and 11:00 AM'')] else [])
     @ (if bt = FULL_DAY \<and> \<not> is_time_within_window off s 6 23
        then [(''startDate'', ''FULL_DAY bookings must start between 6:00 AM and 11:00 PM'')] else [])"

definition is_after_same_day_cutoff :: "int \<Rightarrow> time \<Rightarrow> bool" where
  "is_after_same_day_cutoff off now \<longleftrightarrow> 11 < local_hours off now \<or> (local_hours off now = 11 \<and> local_ms off now mod 3600000 \<noteq> 0)"

definition validate_non_airport_dates :: "date_fns \<Rightarrow> int \<Rightarrow> time \<Rightarrow> booking_type \<Rightarrow> time \<Rightarrow> (string \<times> string) list" where
  "validate_non_airport_dates F off s bt now =
     (if s < now then [(''startDate'', ''Booking start time cannot be in the past'')] else [])
     @ validate_booking_type_start_window off s bt
     @ (if bt = DAY \<and> df_isSameDay F s now \<and> is_after_same_day_cutoff off now
        then [(''startDate'', ''Same-day DAY bookings cannot be made after 11 AM'')] else [])"

text \<open>None: the dates are valid.\<close>

definition validate_dates :: "date_fns \<Rightarrow> int \<Rightarrow> time \<Rightarrow> time \<Rightarrow> time \<Rightarrow> booking_type \<Rightarrow> booking_exception option" where
  "validate_dates F off now s e bt =
     (let errors = validate_date_order s e
        @ (if bt = AIRPORT_PICKUP then validate_airport_pickup_advance_notice s now else validate_non_airport_dates F off s bt now)
      in if errors = [] then None else Some (BookingValidation errors))"

section \<open>The car\<close>

definition build_buffered_booking_interval :: "time \<Rightarrow> time \<Rightarrow> time \<times> time" where
  "build_buffered_booking_interval s e = (s - booking_buffer, e + booking_buffer)"

text \<open>An excluded identifier that is empty excludes nothing.\<close>

definition conflicting_booking :: "ident \<Rightarrow> time \<Rightarrow> time \<Rightarrow> ident option \<Rightarrow> booking \<Rightarrow> bool" where
  "conflicting_booking carId s e exclude b \<longleftrightarrow>
     (let (bufferedStart, bufferedEnd) = build_buffered_booking_interval s e in
      b_carId b = carId \<and> b_deletedAt b = None \<and> blocking_status (b_status b)
      \<and> \<not> (truthy exclude \<and> Some (b_id b) = exclude) \<and> b_startDate b < bufferedEnd \<and> bufferedStart < b_endDate b)"

text \<open>The reason of CarNotAvailableException when none is given.\<close>

definition default_unavailable :: "ident \<Rightarrow> string" where
  "default_unavailable carId = ''Car '' @ carId @ '' is not available for the selected dates''"

definition check_car_availability :: "ident \<Rightarrow> time \<Rightarrow> time \<Rightarrow> ident option \<Rightarrow> world \<Rightarrow> booking_exception option" where
  "check_car_availability carId s e exclude w =
     (case find_row (\<lambda>c. c_id c = carId) (cars w) of
        None \<Rightarrow> Some (CarNotFound carId)
      | Some c \<Rightarrow>
          (if c_approvalStatus c \<noteq> AP_APPROVED then Some (CarNotAvailable carId ''This vehicle is not available for booking'')
           else if c_status c = HOLD then Some (CarNotAvailable carId ''This vehicle is temporarily unavailable'')
           else if c_status c = IN_SERVICE then Some (CarNotAvailable carId ''This vehicle is currently under maintenance'')
           else if filter (conflicting_booking carId s e exclude) (bookings w) \<noteq> []
           then Some (CarNotAvailable carId
             ''Car is not available for the selected dates. Please choose different dates or another vehicle.'')
           else None))"

section \<open>Guests and prices\<close>

definition validate_guest_email :: "string option \<Rightarrow> world \<Rightarrow> booking_exception option" where
  "validate_guest_email guestEmail w =
     (case guestEmail of
        None \<Rightarrow> None
      | Some e \<Rightarrow>
          (if find_row (\<lambda>u. u_email u = e) (users w) = None then None
           else Some (BookingValidation [(''guestEmail'', ''This email is already registered. Please log in to make a booking.'')])))"

definition price_tolerance :: rat where
  "price_tolerance = 1 / 100"

text \<open>The accepted total is a decimal literal the request schema has checked; None is a malformed one.\<close>

definition validate_expected_price :: "rat option \<Rightarrow> booking_financials \<Rightarrow> booking_exception option" where
  "validate_expected_price expectedTotal f =
     (case expectedTotal of
        None \<Rightarrow> Some (BookingValidation [(''expectedTotalAmount'', ''Invalid price format'')])
      | Some t \<Rightarrow> (if price_tolerance < \<bar>t - bf_totalAmount f\<bar> then Some (BookingPriceChanged t f) else None))"

definition validate_guest_requirements :: "bool \<Rightarrow> ident option \<Rightarrow> booking_exception option" where
  "validate_guest_requirements isGuest sessionUser =
     (if sessionUser = None \<and> \<not> isGuest
      then Some (BookingValidation
        [(''guestEmail'', ''Guest email is required for unauthenticated bookings''),
         (''guestName'', ''Guest name is required for unauthenticated bookings''),
         (''guestPhone'', ''Guest phone is required for unauthenticated bookings'')])
      else None)"

section \<open>The check is the constraint\<close>

lemma conflict_iff_clash:
  assumes "holds_car b" "b_carId b = carId" "b_startDate b = s" "b_endDate b = e"
  shows "conflicting_booking carId s e exclude x \<longleftrightarrow> windows_clash x b \<and> \<not> (truthy exclude \<and> Some (b_id x) = exclude)"
  using assms by (auto simp: conflicting_booking_def windows_clash_def holds_car_def build_buffered_booking_interval_def)

section \<open>The check against the constraint\<close>

definition bookable_car :: "world \<Rightarrow> ident \<Rightarrow> bool" where
  "bookable_car w i \<longleftrightarrow> (case find_row (\<lambda>c. c_id c = i) (cars w) of None \<Rightarrow> False
     | Some c \<Rightarrow> c_approvalStatus c = AP_APPROVED \<and> c_status c \<notin> {HOLD, IN_SERVICE})"

lemma check_iff:
  "check_car_availability i s e exclude w = None \<longleftrightarrow> bookable_car w i \<and> (\<forall>x \<in> set (bookings w). \<not> conflicting_booking i s e exclude x)"
  by (auto simp: check_car_availability_def bookable_car_def filter_empty_conv split: option.split)

lemma pairs_insert:
  assumes "\<And>x. P b x \<Longrightarrow> P x b" "\<forall>x \<in> R. \<forall>y \<in> R. key x \<noteq> key y \<longrightarrow> \<not> P x y" "\<forall>x \<in> R. key x \<noteq> key b"
  shows "(\<forall>x \<in> insert b R. \<forall>y \<in> insert b R. key x \<noteq> key y \<longrightarrow> \<not> P x y) \<longleftrightarrow> (\<forall>x \<in> R. \<not> P x b)"
  using assms by blast

definition window_of :: "booking \<Rightarrow> time \<Rightarrow> time \<Rightarrow> booking" where
  "window_of b s e = b\<lparr>b_startDate := s, b_endDate := e\<rparr>"

text \<open>
  Property C0: The availability check a booking passes is exactly the exclusion constraint of the
  database.  On a table that keeps the constraint, a new booking of a bookable car passes the check
  if and only if the table with it still keeps the constraint, and moving a booking to another
  window passes it, with the booking itself excluded, if and only if the table so updated does.
\<close>

theorem availability_check_is_constraint:
  assumes ok: "windows_disjoint (bookings w)" and car: "bookable_car w (b_carId b)" and holds: "holds_car b"
    and u: "unique_by b_id (bookings w)" and i: "b_id b \<noteq> []"
  shows "(check_car_availability (b_carId b) (b_startDate b) (b_endDate b) None w = None
           \<longleftrightarrow> windows_disjoint (bookings w @ [b]))
    \<and> (\<forall>s e. b \<in> set (bookings w) \<and> s < e \<longrightarrow>
         (check_car_availability (b_carId b) s e (Some (b_id b)) w = None
           \<longleftrightarrow> windows_disjoint (map (\<lambda>x. if b_id x = b_id b then window_of x s e else x) (bookings w))))"
proof (intro conjI allI impI)
  show "check_car_availability (b_carId b) (b_startDate b) (b_endDate b) None w = None \<longleftrightarrow> windows_disjoint (bookings w @ [b])"
    using conflict_iff_clash [OF holds refl refl refl, of None] ok car
    by (auto simp: check_iff windows_disjoint_append)
next
  fix s e :: time
  assume b: "b \<in> set (bookings w) \<and> s < e"
  let ?b = "window_of b s e" and ?t = "map (\<lambda>x. if b_id x = b_id b then window_of x s e else x) (bookings w)"
  have same: "x = b" if "x \<in> set (bookings w)" "b_id x = b_id b" for x using unique_by_same [OF u that(1) _ that(2)] b by blast
  have "unique_by b_id ?t" using u by (simp add: window_of_def o_def if_distrib cong: if_cong)
  then have "windows_disjoint ?t \<longleftrightarrow> (\<forall>x \<in> set ?t. \<forall>y \<in> set ?t. b_id x \<noteq> b_id y \<longrightarrow> \<not> windows_clash x y)"
    by (rule windows_disjoint_iff)
  also have "set ?t = insert ?b {x \<in> set (bookings w). b_id x \<noteq> b_id b}"
    using b by (auto dest: same)
  also have "(\<forall>x \<in> insert ?b {x \<in> set (bookings w). b_id x \<noteq> b_id b}. \<forall>y \<in> insert ?b {x \<in> set (bookings w). b_id x \<noteq> b_id b}.
        b_id x \<noteq> b_id y \<longrightarrow> \<not> windows_clash x y) \<longleftrightarrow> (\<forall>x \<in> {x \<in> set (bookings w). b_id x \<noteq> b_id b}. \<not> windows_clash x ?b)"
  proof (rule pairs_insert)
    show "windows_clash ?b x \<Longrightarrow> windows_clash x ?b" for x by (simp only: windows_clash_sym)
    show "\<forall>x \<in> {x \<in> set (bookings w). b_id x \<noteq> b_id b}. \<forall>y \<in> {x \<in> set (bookings w). b_id x \<noteq> b_id b}. b_id x \<noteq> b_id y \<longrightarrow> \<not> windows_clash x y"
      using ok windows_disjoint_iff [OF u] by blast
    show "\<forall>x \<in> {x \<in> set (bookings w). b_id x \<noteq> b_id b}. b_id x \<noteq> b_id ?b" by (simp add: window_of_def)
  qed
  also have "\<dots> \<longleftrightarrow> (\<forall>x \<in> set (bookings w). \<not> conflicting_booking (b_carId b) s e (Some (b_id b)) x)"
    using conflict_iff_clash [of ?b "b_carId b" s e "Some (b_id b)"] holds i
    by (auto simp: window_of_def holds_car_def truthy_def)
  finally show "check_car_availability (b_carId b) s e (Some (b_id b)) w = None \<longleftrightarrow> windows_disjoint ?t"
    using car by (simp add: check_iff)
qed

theorem availability_check_is_constraint_witness:
  "check_car_availability ''c1'' 108000000 144000000 (Some ''b1'') demo_world = None
     \<and> check_car_availability ''c1'' 7000 9000 None demo_world \<noteq> None"
proof -
  have b: "demo_booking \<in> set (bookings demo_world)" "unique_by b_id (bookings demo_world)" "windows_disjoint (bookings demo_world)"
    "bookable_car demo_world ''c1''" "holds_car demo_booking"
    by code_simp+
  have "check_car_availability ''c1'' 108000000 144000000 (Some ''b1'') demo_world = None
      \<longleftrightarrow> windows_disjoint (map (\<lambda>x. if b_id x = b_id demo_booking then window_of x 108000000 144000000 else x) (bookings demo_world))"
    using availability_check_is_constraint [of demo_world demo_booking] b by (simp add: demo_booking_def)
  moreover have "windows_disjoint (map (\<lambda>x. if b_id x = b_id demo_booking then window_of x 108000000 144000000 else x) (bookings demo_world))"
    by code_simp
  ultimately show ?thesis
    using availability_check_is_constraint [of demo_world "demo_booking\<lparr>b_startDate := 7000, b_endDate := 9000\<rparr>"] b
    by (simp add: demo_defs windows_clash_def holds_car_def blocking_status_def booking_buffer_def bookable_car_def find_row_def)
qed

end
