(* ===== verification/BookingChanges.thy ===== *)
theory BookingChanges
  imports BookingAvailability
begin

text \<open>
  What customers may change of a booking: the modification policy
  (modules/booking/booking-modification-policy.service.ts), cancelling
  (booking-cancellation.service.ts) and updating (booking-update.service.ts) with the notification
  of an update.  The clocks of the database and of the process are one; a transaction whose result
  the exclusion constraint refuses leaves no trace.
\<close>

section \<open>The modification policy\<close>

record modification_eligibility =
  me_canEdit :: bool
  me_canCancel :: bool
  me_modificationCutoffAt :: time
  me_policyHoursBeforeStart :: int

definition get_modification_cutoff_at :: "int \<Rightarrow> time \<Rightarrow> time" where
  "get_modification_cutoff_at cutoffHours startDate = startDate - hours_ms cutoffHours"

definition is_within_window :: "int \<Rightarrow> time \<Rightarrow> time \<Rightarrow> bool" where
  "is_within_window cutoffHours startDate now \<longleftrightarrow> now < get_modification_cutoff_at cutoffHours startDate"

definition is_editable_status :: "booking \<Rightarrow> bool" where
  "is_editable_status b \<longleftrightarrow> b_status b = B_CONFIRMED"

definition is_cancellable_status :: "booking \<Rightarrow> bool" where
  "is_cancellable_status b \<longleftrightarrow> b_status b = B_CONFIRMED \<and> b_paymentStatus b = PAID"

definition get_eligibility :: "int \<Rightarrow> booking \<Rightarrow> bool \<Rightarrow> time \<Rightarrow> modification_eligibility" where
  "get_eligibility cutoffHours b canAct now =
     (let open' = is_within_window cutoffHours (b_startDate b) now in
      \<lparr>me_canEdit = (canAct \<and> is_editable_status b \<and> open'), me_canCancel = (canAct \<and> is_cancellable_status b \<and> open'),
       me_modificationCutoffAt = get_modification_cutoff_at cutoffHours (b_startDate b),
       me_policyHoursBeforeStart = cutoffHours\<rparr>)"

definition assert_within_window :: "int \<Rightarrow> time \<Rightarrow> time \<Rightarrow> booking_exception option" where
  "assert_within_window cutoffHours startDate now =
     (if is_within_window cutoffHours startDate now then None
      else Some (BookingOutsideModificationWindow (get_modification_cutoff_at cutoffHours startDate)))"

definition assert_editable_status :: "booking \<Rightarrow> booking_exception option" where
  "assert_editable_status b =
     (if is_editable_status b then None else Some (BookingStatusNotModifiable ''Only confirmed bookings can be edited''))"

definition assert_can_edit :: "int \<Rightarrow> booking \<Rightarrow> time \<Rightarrow> booking_exception option" where
  "assert_can_edit cutoffHours b now =
     (case assert_editable_status b of Some e \<Rightarrow> Some e | None \<Rightarrow> assert_within_window cutoffHours (b_startDate b) now)"

definition assert_cancellable_status :: "booking \<Rightarrow> booking_exception option" where
  "assert_cancellable_status b =
     (if is_cancellable_status b then None
      else Some (BookingStatusNotModifiable ''Only paid confirmed bookings can be cancelled''))"

definition assert_can_cancel :: "int \<Rightarrow> booking \<Rightarrow> time \<Rightarrow> booking_exception option" where
  "assert_can_cancel cutoffHours b now =
     (case assert_cancellable_status b of Some e \<Rightarrow> Some e | None \<Rightarrow> assert_within_window cutoffHours (b_startDate b) now)"

section \<open>Cancelling\<close>

definition lock_cancellable_booking_state :: "ident \<Rightarrow> ident \<Rightarrow> time \<Rightarrow> booking \<Rightarrow> bool" where
  "lock_cancellable_booking_state bookingId userId startDate b \<longleftrightarrow>
     b_id b = bookingId \<and> b_userId b = Some userId \<and> b_status b = B_CONFIRMED \<and> b_paymentStatus b = PAID \<and> b_startDate b = startDate"

definition cancelled_booking :: "time \<Rightarrow> string \<Rightarrow> booking \<Rightarrow> booking" where
  "cancelled_booking now reason b =
     b\<lparr>b_status := B_CANCELLED, b_paymentStatus := REFUND_PROCESSING, b_cancelledAt := Some now,
       b_cancellationReason := Some reason, b_referralCreditsReserved := 0, b_referralCreditsUsed := 0, b_updatedAt := now\<rparr>"

text \<open>The one transaction of a cancellation; its notifications are written before it commits.\<close>

definition cancel_booking ::
  "notif_config \<Rightarrow> int \<Rightarrow> time \<Rightarrow> ident \<Rightarrow> ident \<Rightarrow> string \<Rightarrow> world
     \<Rightarrow> (booking_exception + booking \<times> modification_eligibility) \<times> world" where
  "cancel_booking nc cutoffHours now bookingId userId reason w =
     (case find_row (\<lambda>b. b_id b = bookingId) (bookings w) of
        None \<Rightarrow> (Inl BookingNotFound, w)
      | Some existing \<Rightarrow>
          (if b_id existing = [] \<or> b_userId existing \<noteq> Some userId then (Inl BookingNotFound, w)
           else (case assert_cancellable_status existing of
              Some e \<Rightarrow> (Inl e, w)
            | None \<Rightarrow>
                (if find_row (\<lambda>c. c_id c = b_carId existing) (cars w) = None then (Inl BookingNotFound, w)
                 else if find_row (lock_cancellable_booking_state bookingId userId (b_startDate existing)) (bookings w) = None
                 then (Inl (BookingStatusNotModifiable ''Booking state changed during cancellation. Please retry''), w)
                 else (case assert_can_cancel cutoffHours existing now of
                    Some e \<Rightarrow> (Inl e, w)
                  | None \<Rightarrow>
                      (let (n, t) = update_many (\<lambda>b. lock_cancellable_booking_state bookingId userId (b_startDate existing) b
                                        \<and> now < get_modification_cutoff_at cutoffHours (b_startDate existing))
                                      (cancelled_booking now reason) (bookings w)
                       in if n = 0 then (Inl (BookingStatusNotModifiable ''Booking state changed during cancellation. Please retry''), w)
                          else (case find_row (\<lambda>b. b_id b = bookingId) t of
                             None \<Rightarrow> (Inl BookingCancellationFailed, w)
                           | Some b \<Rightarrow>
                               (case view_booking w b of
                                  None \<Rightarrow> (Inl BookingCancellationFailed, w)
                                | Some v \<Rightarrow>
                                    (let w1 = snd (reverse_pending_referral_rewards now bookingId ''BOOKING_CANCELLED'' (w\<lparr>bookings := t\<rparr>));
                                         w2 = w1\<lparr>cars := snd (update_many (\<lambda>c. c_id c = b_carId existing)
                                                              (\<lambda>c. c\<lparr>c_status := AVAILABLE\<rparr>) (cars w1))\<rparr>
                                     in (Inr (b, get_eligibility cutoffHours b True now),
                                         snd (create_notifications now NE_BOOKING_LIFECYCLE
                                           (booking_cancellation_events nc now v) w2)))))))))))"

section \<open>The notification of an update\<close>

definition build_booking_updated_job :: "notif_config \<Rightarrow> booking_view \<Rightarrow> bool \<Rightarrow> job_data option" where
  "build_booking_updated_job nc v includePush =
     (let b = bv_booking v; channels = filter (\<lambda>c. includePush \<or> c \<noteq> PUSH) (customer_channels v);
          status = booking_status_text (b_status b)
      in if channels = [] then None
         else Some
           \<lparr>j_id = ''booking-updated-'' @ b_id b @ ''-'' @ iso_string (b_updatedAt b), j_type = ''booking-updated'',
            j_audience = Some AUD_CUSTOMER, j_channels = channels, j_bookingId = b_id b, j_airportCompletionLink = False,
            j_recipients = [(R_CLIENT, customer_recipient v)],
            j_pushPayload = Some (''Booking updated'', ''Your booking for '' @ car_name (bv_car v) @ '' has been updated.''),
            j_templateData = [(''templateKind'', ''bookingStatusChange'')] 
              @ filter (\<lambda>(k, _). k \<noteq> ''title'' \<and> k \<noteq> ''status'') (normalise_booking_details nc v)
              @ [(''title'', ''been updated''), (''status'', ''updated''), (''oldStatus'', status), (''newStatus'', status),
                 (''subject'', ''Booking Updated'')]\<rparr>)"

datatype booking_update_actor = ActorUser ident | ActorSystem

definition should_push_booking_update :: "booking_update_actor \<Rightarrow> ident option \<Rightarrow> bool" where
  "should_push_booking_update actor customerUserId =
     (case actor of ActorSystem \<Rightarrow> True | ActorUser u \<Rightarrow> Some u \<noteq> customerUserId)"

definition booking_updated_events :: "notif_config \<Rightarrow> booking_view \<Rightarrow> booking_update_actor \<Rightarrow> handler_event list" where
  "booking_updated_events nc v actor =
     (let b = bv_booking v; key = ''booking-updated:'' @ b_id b @ '':'' @ iso_string (b_updatedAt b) in
      customer_and_owner_events b (build_booking_updated_job nc v (should_push_booking_update actor (b_userId b)))
        (customer_inbox b ''Booking updated'' ''Your booking details have been updated.'' key) key ''BOOKING_UPDATED'' None [] [])"

section \<open>Updating\<close>

record update_booking_input =
  ub_pickupTime :: "string option"
  ub_pickupAddress :: "string option"
  ub_dropOffAddress :: "string option"
  ub_sameLocation :: "bool option"

text \<open>The expression ^(1[0-2]|[1-9])(?::([0-5]\d))?\s?(AM|PM)$ without regard to case, on the trimmed string.\<close>

definition match_pickup_update :: "string \<Rightarrow> (int \<times> int) option" where
  "match_pickup_update s =
     (let (hs, ms, ws, p) = scan_clock (js_trim s); h = clock_number hs in
      if hs \<noteq> [] \<and> hd hs \<noteq> CHR ''0'' \<and> length hs \<le> 2 \<and> 1 \<le> h \<and> h \<le> 12
         \<and> (case ms of None \<Rightarrow> True | Some m \<Rightarrow> clock_number m < 60) \<and> length ws \<le> 1 \<and> (p = ''AM'' \<or> p = ''PM'')
      then Some (clock_24 h (p = ''PM''), case ms of None \<Rightarrow> 0 | Some m \<Rightarrow> clock_number m)
      else None)"

definition resolve_updated_dates ::
  "int \<Rightarrow> booking \<Rightarrow> string option \<Rightarrow> booking_exception + (time \<times> time) option" where
  "resolve_updated_dates off current pickupTime =
     (if \<not> truthy pickupTime then Inr None
      else if b_type current \<notin> {DAY, FULL_DAY}
      then Inl (BookingValidation [(''pickupTime'', ''Pickup time can only be updated for DAY or FULL_DAY bookings'')])
      else case match_pickup_update (the pickupTime) of
        None \<Rightarrow> Inl (BookingValidation [(''pickupTime'', ''Invalid pickup time format. Expected H:MM AM/PM'')])
      | Some (hour, minute) \<Rightarrow>
          (let s = set_hours off (b_startDate current) hour minute;
               duration = (if b_type current = FULL_DAY then 24 else 12)
           in Inr (Some (s, set_hours off s (local_hours off s + duration) (local_minutes off s)))))"

definition resolve_target_return_location :: "update_booking_input \<Rightarrow> string \<Rightarrow> string \<Rightarrow> string option" where
  "resolve_target_return_location i effectivePickup currentReturn =
     (case ub_sameLocation i of
        Some True \<Rightarrow> Some effectivePickup
      | Some False \<Rightarrow> ub_dropOffAddress i
      | None \<Rightarrow> coalesce (ub_dropOffAddress i) (Some currentReturn))"

definition resolve_location_updates :: "booking \<Rightarrow> update_booking_input \<Rightarrow> string option \<times> string option" where
  "resolve_location_updates current i =
     (let newPickup = (if truthy (ub_pickupAddress i) \<and> ub_pickupAddress i \<noteq> Some (b_pickupLocation current)
                       then ub_pickupAddress i else None);
          effectivePickup = (case newPickup of Some p \<Rightarrow> p | None \<Rightarrow> b_pickupLocation current);
          target = resolve_target_return_location i effectivePickup (b_returnLocation current)
      in (newPickup, if truthy target \<and> target \<noteq> Some (b_returnLocation current) then target else None))"

definition lock_editable_booking_state :: "ident \<Rightarrow> ident \<Rightarrow> time \<Rightarrow> booking \<Rightarrow> bool" where
  "lock_editable_booking_state bookingId userId currentStartDate b \<longleftrightarrow>
     b_id b = bookingId \<and> b_userId b = Some userId \<and> b_status b = B_CONFIRMED \<and> b_startDate b = currentStartDate"

definition updated_booking :: "time \<Rightarrow> (time \<times> time) option \<Rightarrow> string option \<Rightarrow> string option \<Rightarrow> booking \<Rightarrow> booking" where
  "updated_booking now dates newPickup newReturn b =
     b\<lparr>b_updatedAt := now,
       b_startDate := (case dates of Some (s, e) \<Rightarrow> s | None \<Rightarrow> b_startDate b),
       b_endDate := (case dates of Some (s, e) \<Rightarrow> e | None \<Rightarrow> b_endDate b),
       b_pickupLocation := (case newPickup of Some p \<Rightarrow> p | None \<Rightarrow> b_pickupLocation b),
       b_returnLocation := (case newReturn of Some r \<Rightarrow> r | None \<Rightarrow> b_returnLocation b)\<rparr>"

text \<open>
  The checks of the transaction, in the order of the code, and then the update; the start whose
  cutoff the statement compares with the clock is the earlier of the old and the new one.
\<close>

definition update_booking_checks ::
  "int \<Rightarrow> time \<Rightarrow> booking \<Rightarrow> ident \<Rightarrow> (time \<times> time) option \<Rightarrow> world \<Rightarrow> booking_exception option" where
  "update_booking_checks cutoffHours now current userId dates w =
     (if dates \<noteq> None \<and> find_row (\<lambda>c. c_id c = b_carId current) (cars w) = None
      then Some (CarNotAvailable (b_carId current) (default_unavailable (b_carId current)))
      else if find_row (lock_editable_booking_state (b_id current) userId (b_startDate current)) (bookings w) = None
      then Some (BookingStatusNotModifiable ''Booking state changed during the update. Please retry'')
      else case assert_can_edit cutoffHours current now of
        Some e \<Rightarrow> Some e
      | None \<Rightarrow>
          (case dates of
             None \<Rightarrow> None
           | Some (s, e) \<Rightarrow>
               (case assert_within_window cutoffHours s now of
                  Some x \<Rightarrow> Some x
                | None \<Rightarrow> check_car_availability (b_carId current) s e (Some (b_id current)) w)))"

definition update_booking ::
  "date_fns \<Rightarrow> int \<Rightarrow> notif_config \<Rightarrow> int \<Rightarrow> time \<Rightarrow> ident \<Rightarrow> ident \<Rightarrow> update_booking_input \<Rightarrow> world
     \<Rightarrow> (booking_exception + booking \<times> modification_eligibility) \<times> world" where
  "update_booking F off nc cutoffHours now bookingId userId i w =
     (case find_row (\<lambda>b. b_id b = bookingId \<and> b_userId b = Some userId) (bookings w) of
        None \<Rightarrow> (Inl BookingNotFound, w)
      | Some current \<Rightarrow>
          (case assert_editable_status current of
             Some e \<Rightarrow> (Inl e, w)
           | None \<Rightarrow>
               (case resolve_updated_dates off current (ub_pickupTime i) of
                  Inl e \<Rightarrow> (Inl e, w)
                | Inr dates \<Rightarrow>
                    (let (newPickup, newReturn) = resolve_location_updates current i in
                     case (case dates of None \<Rightarrow> None | Some (s, e) \<Rightarrow> validate_dates F off now s e (b_type current)) of
                       Some e \<Rightarrow> (Inl e, w)
                     | None \<Rightarrow>
                         (if dates = None \<and> newPickup = None \<and> newReturn = None
                          then (case assert_can_edit cutoffHours current now of
                                  Some e \<Rightarrow> (Inl e, w)
                                | None \<Rightarrow> (Inr (current, get_eligibility cutoffHours current True now), w))
                          else (case update_booking_checks cutoffHours now current userId dates w of
                             Some e \<Rightarrow> (Inl e, w)
                           | None \<Rightarrow>
                               (let effectiveStart = (case dates of Some (s, e) \<Rightarrow> (if s < b_startDate current then s else b_startDate current)
                                                      | None \<Rightarrow> b_startDate current);
                                    (n, t) = update_many (\<lambda>b. lock_editable_booking_state bookingId userId (b_startDate current) b
                                                 \<and> now < get_modification_cutoff_at cutoffHours effectiveStart)
                                               (updated_booking now dates newPickup newReturn) (bookings w)
                                in if n = 0
                                   then (Inl (case assert_within_window cutoffHours effectiveStart now of Some e \<Rightarrow> e
                                              | None \<Rightarrow> BookingStatusNotModifiable ''Booking state changed during the update. Please retry''), w)
                                   else if \<not> windows_disjoint t then (Inl (CarNotAvailable (b_carId current) (default_unavailable (b_carId current))), w)
                                   else (case find_row (\<lambda>b. b_id b = bookingId) t of
                                      None \<Rightarrow> (Inl BookingUpdateFailed, w)
                                    | Some b \<Rightarrow>
                                        (case view_booking w b of
                                           None \<Rightarrow> (Inl BookingUpdateFailed, w)
                                         | Some v \<Rightarrow>
                                             (Inr (b, get_eligibility cutoffHours b True now),
                                              snd (create_notifications now NE_BOOKING_LIFECYCLE
                                                (booking_updated_events nc v (ActorUser userId)) (w\<lparr>bookings := t\<rparr>))))))))))))"

section \<open>What cancelling and updating do\<close>

definition cancellable :: "int \<Rightarrow> time \<Rightarrow> ident \<Rightarrow> world \<Rightarrow> booking \<Rightarrow> bool" where
  "cancellable h now u w b \<longleftrightarrow> b_userId b = Some u \<and> b_status b = B_CONFIRMED \<and> b_paymentStatus b = PAID
     \<and> now < b_startDate b - hours_ms h \<and> (\<exists>c \<in> set (cars w). c_id c = b_carId b)"

lemma cancelled_car [simp]: "b_carId (cancelled_booking now reason b) = b_carId b"
  by (simp add: cancelled_booking_def)

lemma reverse_frame [simp]:
  "bookings (snd (reverse_pending_referral_rewards now i r w)) = bookings w"
  "cars (snd (reverse_pending_referral_rewards now i r w)) = cars w"
  "users (snd (reverse_pending_referral_rewards now i r w)) = users w"
  by (simp_all add: reverse_pending_referral_rewards_def Let_def)

text \<open>
  Property C0: A customer's cancellation succeeds exactly for his own paid and confirmed booking
  of a car that exists, strictly before the cutoff.  It then cancels that row alone, marks its
  refund as processing and gives back its credits, and every car row of the booking becomes
  available whatever its status was; in every other case the world is unchanged.
\<close>

theorem cancellation_effect:
  assumes u: "unique_by b_id (bookings w)" and b: "find_row (\<lambda>x. b_id x = i) (bookings w) = Some b" and i: "i \<noteq> []"
  shows "let (r, w') = cancel_booking nc h now i uid reason w in
    if cancellable h now uid w b
    then r = Inr (cancelled_booking now reason b, get_eligibility h (cancelled_booking now reason b) True now)
       \<and> bookings w' = map (\<lambda>x. if b_id x = i then cancelled_booking now reason x else x) (bookings w)
       \<and> cars w' = map (\<lambda>c. if c_id c = b_carId b then c\<lparr>c_status := AVAILABLE\<rparr> else c) (cars w)
    else (\<exists>e. r = Inl e) \<and> w' = w"
proof (cases "cancellable h now uid w b")
  case False
  then show ?thesis using b
    by (auto simp: cancel_booking_def cancellable_def assert_cancellable_status_def is_cancellable_status_def find_row_None
        assert_can_cancel_def assert_within_window_def is_within_window_def get_modification_cutoff_at_def Let_def
        split: option.splits)
next
  case True
  let ?P = "lock_cancellable_booking_state i uid (b_startDate b)"
  let ?t = "map (\<lambda>x. if b_id x = i then cancelled_booking now reason x else x) (bookings w)"
  have bi: "b \<in> set (bookings w)" "b_id b = i" using find_row_Some [OF b] by auto
  have P: "?P x \<longleftrightarrow> b_id x = i" if "x \<in> set (bookings w)" for x
    using unique_by_same [OF u that bi(1)] bi(2) True
    by (auto simp: lock_cancellable_booking_state_def get_modification_cutoff_at_def cancellable_def)
  have upd: "update_many ?P (cancelled_booking now reason) (bookings w) = (length (filter ?P (bookings w)), ?t)"
    using P by (simp add: update_many_def cong: map_cong if_cong)
  have n: "length (filter ?P (bookings w)) \<noteq> 0" "find_row ?P (bookings w) \<noteq> None"
    using P [OF bi(1)] bi by (auto simp: filter_empty_conv find_row_None)
  have t: "find_row (\<lambda>x. b_id x = i) ?t = Some (cancelled_booking now reason b)"
    using find_row_update_keep [where k = b_id and u = i and P = "\<lambda>x. b_id x = i" and f = "cancelled_booking now reason" and t = "bookings w"] b bi
    by (simp add: snd_update_many cancelled_booking_def)
  obtain c where c: "find_row (\<lambda>c. c_id c = b_carId b) (cars w) = Some c"
    using True find_row_None [of "\<lambda>c. c_id c = b_carId b" "cars w"] by (cases "find_row (\<lambda>c. c_id c = b_carId b) (cars w)") (auto simp: cancellable_def)
  show ?thesis using True b c n t bi i
    by (simp add: cancel_booking_def cancellable_def assert_cancellable_status_def is_cancellable_status_def assert_can_cancel_def
        assert_within_window_def is_within_window_def get_modification_cutoff_at_def view_booking_def upd Let_def snd_update_many)
qed

definition demo_future :: booking where
  "demo_future = demo_booking\<lparr>b_status := B_CONFIRMED, b_startDate := 198000000, b_endDate := 414000000\<rparr>"

theorem cancellation_effect_witness:
  "let (r, w') = cancel_booking demo_config 12 1000 ''b1'' ''u1'' ''plans changed''
         (demo_world\<lparr>bookings := [demo_future], cars := [demo_car\<lparr>c_status := IN_SERVICE\<rparr>]\<rparr>)
   in map b_status (bookings w') = [B_CANCELLED] \<and> map c_status (cars w') = [AVAILABLE]"
proof -
  let ?w = "demo_world\<lparr>bookings := [demo_future], cars := [demo_car\<lparr>c_status := IN_SERVICE\<rparr>]\<rparr>"
  have "unique_by b_id (bookings ?w)" "find_row (\<lambda>x. b_id x = ''b1'') (bookings ?w) = Some demo_future" "cancellable 12 1000 ''u1'' ?w demo_future"
    by (simp_all add: demo_future_def demo_defs find_row_def cancellable_def)
  from cancellation_effect [OF this(1,2), of demo_config 12 1000 "''u1''" "''plans changed''"] this(3)
  show ?thesis by (simp add: demo_future_def demo_defs cancelled_booking_def case_prod_beta)
qed

section \<open>Moving the pickup time\<close>

lemma set_hours_then:
  assumes s: "s = set_hours off t h m" and h: "0 \<le> h" "h < 24" "0 \<le> m" "m < 60"
  shows "set_hours off s (local_hours off s + d) (local_minutes off s) = s + hours_ms d"
proof -
  have ms: "local_ms off s = h * 3600000 + m * 60000" and day: "local_day off s = local_day off t"
    using h by (simp_all add: s set_hours_ms set_hours_day)
  have "m * 60000 mod 3600000 = m * 60000" using h by (intro mod_pos_pos_trivial) simp_all
  then have "(h * 3600000 + m * 60000) div 3600000 = h" using unit_split(1) [of h "m * 60000"] by simp
  moreover have "h * 3600000 + m * 60000 = (m + h * 60) * 60000" by simp
  then have "(h * 3600000 + m * 60000) div 60000 mod 60 = m" using h by (simp only: nonzero_mult_div_cancel_right) simp
  ultimately have "local_hours off s = h" "local_minutes off s = m" by (simp_all add: local_hours_def local_minutes_def ms)
  then show ?thesis by (simp add: set_hours_def day) (simp add: s set_hours_def)
qed

lemma match_update_bounds:
  assumes "match_pickup_update p = Some (h, m)" shows "0 \<le> h" "h < 24" "0 \<le> m" "m < 60"
  using assms by (auto simp: match_pickup_update_def clock_24_def clock_number_def Let_def split: prod.splits option.splits if_splits)

definition update_length :: "booking \<Rightarrow> int" where
  "update_length b = (if b_type b = FULL_DAY then 24 else 12)"

lemma resolved_window:
  "resolve_updated_dates off b p = Inr (Some (s, e)) \<Longrightarrow> e = s + hours_ms (update_length b)"
  using match_update_bounds [of "the p"] set_hours_then [OF refl]
  by (auto simp: resolve_updated_dates_def update_length_def Let_def split: if_splits option.splits)

lemma resolved_truthy:
  "truthy p \<Longrightarrow> resolve_updated_dates off b p = Inr d \<Longrightarrow> \<exists>s e. d = Some (s, e)"
  by (auto simp: resolve_updated_dates_def Let_def split: if_splits option.splits)

text \<open>
  Property C0: A successful change of the pickup time makes the window of the booking twelve hours
  long, or twenty-four for a FULL_DAY booking, whatever its length was, and leaves its legs and its
  price alone: a booking of several days keeps the legs it was paid for and loses the car after
  the first of them.
\<close>

theorem pickup_update_resets_window:
  assumes r: "update_booking F off nc h now i uid inp w = (Inr (b', m), w')" and p: "truthy (ub_pickupTime inp)"
    and u: "unique_by b_id (bookings w)"
  shows "\<exists>b. find_row (\<lambda>x. b_id x = i \<and> b_userId x = Some uid) (bookings w) = Some b
    \<and> b_endDate b' = b_startDate b' + hours_ms (update_length b) \<and> b_totalAmount b' = b_totalAmount b
    \<and> find_row (\<lambda>x. b_id x = i) (bookings w') = Some b' \<and> legs w' = legs w"
proof -
  obtain b where b: "find_row (\<lambda>x. b_id x = i \<and> b_userId x = Some uid) (bookings w) = Some b"
    using r by (auto simp: update_booking_def split: option.splits)
  obtain d where d: "resolve_updated_dates off b (ub_pickupTime inp) = Inr d"
    using r b by (auto simp: update_booking_def split: option.splits sum.splits)
  obtain s e where se: "d = Some (s, e)" using resolved_truthy [OF p d] by blast
  let ?P = "\<lambda>x E. lock_editable_booking_state i uid (b_startDate b) x \<and> now < get_modification_cutoff_at h E"
  obtain E pk rt where t: "find_row (\<lambda>x. b_id x = i) (snd (update_many (\<lambda>x. ?P x E) (updated_booking now d pk rt) (bookings w))) = Some b'"
      "bookings w' = snd (update_many (\<lambda>x. ?P x E) (updated_booking now d pk rt) (bookings w))" "legs w' = legs w"
      "fst (update_many (\<lambda>x. ?P x E) (updated_booking now d pk rt) (bookings w)) \<noteq> 0"
    using r b d se by (auto simp: update_booking_def case_prod_beta Let_def split: option.splits if_splits)
  have bi: "b \<in> set (bookings w)" "b_id b = i" using find_row_Some [OF b] by auto
  have "find_row (\<lambda>x. b_id x = i) (bookings w) = Some b" using find_row_unique [OF u bi(1)] bi(2) by simp
  moreover have "?P b E"
    using t(4) unique_by_same [OF u _ bi(1)] bi(2)
    by (fastforce simp: fst_update_many filter_empty_conv lock_editable_booking_state_def)
  ultimately have "b' = updated_booking now d pk rt b"
    using t(1) find_row_update_keep [where k = b_id and u = i and P = "\<lambda>x. ?P x E" and f = "updated_booking now d pk rt" and t = "bookings w"]
    by (simp add: updated_booking_def)
  then show ?thesis using b t resolved_window [of off b "ub_pickupTime inp" s e] d se by (simp add: updated_booking_def)
qed

definition demo_update :: update_booking_input where
  "demo_update = \<lparr>ub_pickupTime = Some ''8 AM'', ub_pickupAddress = None, ub_dropOffAddress = None, ub_sameLocation = None\<rparr>"

theorem pickup_update_resets_window_witness:
  "\<exists>b' m w'. update_booking (utc_fns 0) 0 demo_config 12 1000 ''b1'' ''u1'' demo_update (demo_world\<lparr>bookings := [demo_future]\<rparr>) = (Inr (b', m), w')
     \<and> b_startDate b' = 201600000 \<and> b_endDate b' = 244800000 \<and> b_endDate demo_future = 414000000"
proof -
  let ?r = "update_booking (utc_fns 0) 0 demo_config 12 1000 ''b1'' ''u1'' demo_update (demo_world\<lparr>bookings := [demo_future]\<rparr>)"
  have "case fst ?r of Inl e \<Rightarrow> False | Inr (b, m) \<Rightarrow> b_startDate b = 201600000" by code_simp
  then obtain b' m w' where r: "?r = (Inr (b', m), w')" and s: "b_startDate b' = 201600000"
    by (cases ?r; cases "fst ?r") auto
  have "unique_by b_id (bookings (demo_world\<lparr>bookings := [demo_future]\<rparr>))" "truthy (ub_pickupTime demo_update)"
    by (simp_all add: demo_update_def)
  from pickup_update_resets_window [OF r this(2,1)] s r
  show ?thesis by (auto simp: find_row_def demo_future_def demo_booking_def update_length_def)
qed

end
