(* ===== verification/BookingCreation.thy ===== *)
theory BookingCreation
  imports BookingChanges
begin

text \<open>
  Creating a booking (modules/booking/booking-creation.service.ts) under an idempotency key
  (booking-creation-idempotency.service.ts): the claim of the key, the validation, the price, the
  transaction that takes the car (booking-persistence.service.ts) and the payment session.  Hashes,
  tokens, new identifiers, the flight search and the trip duration are the environment's.
\<close>

section \<open>Requests\<close>

datatype contact_source = WEB_GUEST_FORM | WHATSAPP_AGENT

record guest_info =
  gi_email :: string
  gi_name :: string
  gi_phone :: string

record create_booking_input =
  cb_carId :: ident
  cb_startDate :: time
  cb_endDate :: time
  cb_pickupAddress :: string
  cb_sameLocation :: bool
  cb_dropOffAddress :: string
  cb_callbackUrl :: "string option"
  cb_bookingType :: booking_type
  cb_pickupTime :: string
  cb_flightNumber :: "string option"
  cb_includeSecurityDetail :: bool
  cb_requiresFullTank :: bool
  cb_specialRequests :: "string option"
  cb_useCredits :: rat
  cb_expectedTotalAmount :: string
  cb_guest :: "guest_info option"

text \<open>A flight as the search returns it; an instant it cannot parse is None.\<close>

record found_flight =
  ff_flightId :: ident
  ff_flightNumber :: string
  ff_arrivalTime :: "time option"
  ff_scheduledDeparture :: "time option"
  ff_origin :: "string option"
  ff_originTimezone :: "string option"
  ff_destinationIATA :: "string option"

record flight_data =
  fd_flightId :: ident
  fd_flightNumber :: string
  fd_arrivalTime :: time
  fd_departureTime :: time
  fd_originCode :: "string option"
  fd_originTimezone :: "string option"
  fd_destinationIATA :: "string option"
  fd_driveTimeMinutes :: "rat option"

record customer_info =
  ct_email :: string
  ct_name :: "string option"
  ct_phoneNumber :: "string option"

record create_booking_response =
  cr_bookingId :: ident
  cr_txRef :: string
  cr_checkoutUrl :: string
  cr_totalAmount :: rat
  cr_bookingStatus :: booking_status
  cr_reservationExpiresAt :: time
  cr_paymentStatusToken :: "string option"

record creation_env =
  bc_now :: time
  bc_dates :: date_fns
  bc_off :: int
  bc_contactSource :: "contact_source option"
  bc_requestHash :: "create_booking_input \<Rightarrow> contact_source option \<Rightarrow> string"
  bc_emailHash :: "string \<Rightarrow> string"
  bc_searchFlight :: "string \<Rightarrow> time \<Rightarrow> booking_exception + found_flight"
  bc_tripMinutes :: "string \<Rightarrow> rat"
  bc_bookingId :: ident
  bc_claimId :: ident
  bc_rewardId :: ident
  bc_legId :: "nat \<Rightarrow> ident"
  bc_bookingReference :: string
  bc_post :: "intent_payload \<Rightarrow> string fw_response http_result"
  bc_uuid :: string
  bc_defaultCallback :: string
  bc_statusToken :: "ident \<Rightarrow> string"
  bc_tokenHash :: "string \<Rightarrow> string"

section \<open>The idempotency key\<close>

definition idempotency_lease :: time where
  "idempotency_lease = seconds_ms 60"

definition idempotency_retention :: time where
  "idempotency_retention = hours_ms 24"

definition max_claim_attempts :: nat where
  "max_claim_attempts = 3"

definition get_customer_scope :: "creation_env \<Rightarrow> create_booking_input \<Rightarrow> ident option \<Rightarrow> booking_exception + string" where
  "get_customer_scope env i sessionUser =
     (case sessionUser of
        Some u \<Rightarrow> Inr (''user:'' @ u)
      | None \<Rightarrow> (case cb_guest i of
                   None \<Rightarrow> Inl (BookingCreationFailed ''Guest email is required for idempotency.'')
                 | Some g \<Rightarrow> Inr (''guest:'' @ bc_emailHash env (js_lower (js_trim (gi_email g))))))"

datatype idempotency_claim = Claimed ident | Replay create_booking_response | Resume ident ident

definition parse_response :: "creation_env \<Rightarrow> stored_response option \<Rightarrow> booking_exception + create_booking_response" where
  "parse_response env v =
     (case v of
        Some (StoredResponse r) \<Rightarrow>
          Inr \<lparr>cr_bookingId = br_bookingId r, cr_txRef = br_txRef r, cr_checkoutUrl = br_checkoutUrl r,
               cr_totalAmount = br_totalAmount r, cr_bookingStatus = br_bookingStatus r,
               cr_reservationExpiresAt = br_reservationExpiresAt r,
               cr_paymentStatusToken = (if br_tokenRequired r then Some (bc_statusToken env (br_bookingId r)) else None)\<rparr>
      | _ \<Rightarrow> Inl (BookingCreationFailed ''Stored booking response is invalid.''))"

definition finalize_checkpointed_response ::
  "creation_env \<Rightarrow> ident \<Rightarrow> stored_response \<Rightarrow> world \<Rightarrow> (booking_exception + idempotency_claim) \<times> world" where
  "finalize_checkpointed_response env i response w =
     (let (n, t) = update_many (\<lambda>r. bi_id r = i \<and> bi_state r = IS_PROCESSING \<and> bi_bookingId r \<noteq> None)
            (\<lambda>r. r\<lparr>bi_state := IS_COMPLETED, bi_updatedAt := bc_now env\<rparr>) (idempotencyRows w)
      in if n = 1 then (map_sum id Replay (parse_response env (Some response)), w\<lparr>idempotencyRows := t\<rparr>)
         else (Inl BookingRequestInProgress, w\<lparr>idempotencyRows := t\<rparr>))"

definition new_claim :: "creation_env \<Rightarrow> string \<Rightarrow> string \<Rightarrow> string \<Rightarrow> booking_idempotency" where
  "new_claim env scope key requestHash =
     \<lparr>bi_id = bc_claimId env, bi_customerScope = scope, bi_idempotencyKey = key, bi_requestHash = requestHash,
      bi_state = IS_PROCESSING, bi_bookingId = None, bi_response = None, bi_updatedAt = bc_now env\<rparr>"

text \<open>
  The attempts left bound the recursion.  The row that made the insertion fail is read again; the
  row a stale claim left without a booking is deleted, and the claim is tried once more.
\<close>

fun claim_with_attempt ::
  "nat \<Rightarrow> creation_env \<Rightarrow> string \<Rightarrow> string \<Rightarrow> string \<Rightarrow> world \<Rightarrow> (booking_exception + idempotency_claim) \<times> world" where
  "claim_with_attempt 0 env scope key requestHash w = (Inl BookingRequestInProgress, w)"
| "claim_with_attempt (Suc left) env scope key requestHash w =
     (case create_unique (\<lambda>r. (bi_customerScope r, bi_idempotencyKey r)) (new_claim env scope key requestHash) (idempotencyRows w) of
        Some t \<Rightarrow> (Inr (Claimed (bc_claimId env)), w\<lparr>idempotencyRows := t\<rparr>)
      | None \<Rightarrow>
          (case find_row (\<lambda>r. bi_customerScope r = scope \<and> bi_idempotencyKey r = key) (idempotencyRows w) of
             None \<Rightarrow> claim_with_attempt left env scope key requestHash w
           | Some existing \<Rightarrow>
               (if bi_requestHash existing \<noteq> requestHash then (Inl IdempotencyKeyReused, w)
                else if bi_state existing = IS_COMPLETED then (map_sum id Replay (parse_response env (bi_response existing)), w)
                else if bi_response existing \<noteq> None then finalize_checkpointed_response env (bi_id existing) (the (bi_response existing)) w
                else if \<not> bi_updatedAt existing \<le> bc_now env - idempotency_lease then (Inl BookingRequestInProgress, w)
                else if truthy (bi_bookingId existing)
                then (let (n, t) = update_many (\<lambda>r. bi_id r = bi_id existing \<and> bi_state r = IS_PROCESSING \<and> bi_updatedAt r = bi_updatedAt existing)
                             (\<lambda>r. r\<lparr>bi_updatedAt := bc_now env\<rparr>) (idempotencyRows w)
                      in if n = 1 then (Inr (Resume (bi_id existing) (the (bi_bookingId existing))), w\<lparr>idempotencyRows := t\<rparr>)
                         else (Inl BookingRequestInProgress, w\<lparr>idempotencyRows := t\<rparr>))
                else (let stale = (\<lambda>r. bi_id r = bi_id existing \<and> bi_bookingId r = None \<and> bi_state r = IS_PROCESSING
                                    \<and> bi_updatedAt r = bi_updatedAt existing);
                          t = filter (\<lambda>r. \<not> stale r) (idempotencyRows w)
                      in if length (filter stale (idempotencyRows w)) = 1
                         then claim_with_attempt left env scope key requestHash (w\<lparr>idempotencyRows := t\<rparr>)
                         else (Inl BookingRequestInProgress, w\<lparr>idempotencyRows := t\<rparr>)))))"

definition claim_key ::
  "creation_env \<Rightarrow> string \<Rightarrow> string \<Rightarrow> string \<Rightarrow> world \<Rightarrow> (booking_exception + idempotency_claim) \<times> world" where
  "claim_key env scope key requestHash w = claim_with_attempt max_claim_attempts env scope key requestHash w"

definition attach_booking :: "time \<Rightarrow> ident \<Rightarrow> ident \<Rightarrow> world \<Rightarrow> booking_exception option \<times> world" where
  "attach_booking now i bookingId w =
     (let (n, t) = update_many (\<lambda>r. bi_id r = i \<and> bi_state r = IS_PROCESSING \<and> bi_bookingId r = None)
            (\<lambda>r. r\<lparr>bi_bookingId := Some bookingId, bi_updatedAt := now\<rparr>) (idempotencyRows w)
      in if n \<noteq> 1 then (Some (BookingCreationFailed ''Booking idempotency claim was lost.''), w) else (None, w\<lparr>idempotencyRows := t\<rparr>))"

text \<open>Inside its transaction; None: the checkpoint was lost, or the booking is gone, and nothing is written.\<close>

definition checkpoint_payment_result ::
  "time \<Rightarrow> ident \<Rightarrow> ident \<Rightarrow> string \<Rightarrow> time \<Rightarrow> string option \<Rightarrow> create_booking_response \<Rightarrow> world \<Rightarrow> world option" where
  "checkpoint_payment_result now i bookingId paymentIntentId reservationExpiresAt tokenHash r w =
     (let (nb, tb) = update_many (\<lambda>b. b_id b = bookingId)
            (\<lambda>b. b\<lparr>b_paymentIntent := Some paymentIntentId, b_paymentSessionExpiresAt := Some reservationExpiresAt,
                   b_paymentStatusTokenHash := tokenHash, b_updatedAt := now\<rparr>) (bookings w);
          stored = StoredResponse \<lparr>br_bookingId = cr_bookingId r, br_txRef = cr_txRef r, br_checkoutUrl = cr_checkoutUrl r,
                     br_totalAmount = cr_totalAmount r, br_bookingStatus = cr_bookingStatus r,
                     br_reservationExpiresAt = cr_reservationExpiresAt r, br_tokenRequired = truthy (cr_paymentStatusToken r)\<rparr>;
          (n, t) = update_many (\<lambda>x. bi_id x = i \<and> bi_bookingId x = Some bookingId \<and> bi_state x = IS_PROCESSING)
            (\<lambda>x. x\<lparr>bi_response := Some stored, bi_updatedAt := now\<rparr>) (idempotencyRows w)
      in if nb = 0 \<or> n \<noteq> 1 then None else Some (w\<lparr>bookings := tb, idempotencyRows := t\<rparr>))"

definition complete_claim :: "time \<Rightarrow> ident \<Rightarrow> world \<Rightarrow> bool \<times> world" where
  "complete_claim now i w =
     (let (n, t) = update_many (\<lambda>r. bi_id r = i \<and> bi_state r = IS_PROCESSING)
            (\<lambda>r. r\<lparr>bi_state := IS_COMPLETED, bi_updatedAt := now\<rparr>) (idempotencyRows w)
      in if n = 1 then (True, w\<lparr>idempotencyRows := t\<rparr>)
         else (case find_row (\<lambda>r. bi_id r = i) (idempotencyRows w) of
                 None \<Rightarrow> (False, w\<lparr>idempotencyRows := t\<rparr>)
               | Some r \<Rightarrow> (bi_state r = IS_COMPLETED \<and> bi_response r \<noteq> None, w\<lparr>idempotencyRows := t\<rparr>)))"

definition release_claim :: "ident \<Rightarrow> world \<Rightarrow> world" where
  "release_claim i w =
     w\<lparr>idempotencyRows := filter (\<lambda>r. \<not> (bi_id r = i \<and> bi_bookingId r = None \<and> bi_state r = IS_PROCESSING)) (idempotencyRows w)\<rparr>"

text \<open>The nightly clean-up: the rows it deletes, and the world without them.\<close>

definition expired_idempotency_row :: "time \<Rightarrow> world \<Rightarrow> booking_idempotency \<Rightarrow> bool" where
  "expired_idempotency_row now w r \<longleftrightarrow>
     bi_updatedAt r < now - idempotency_retention
   \<and> (bi_state r = IS_COMPLETED
      \<or> (bi_state r = IS_PROCESSING \<and> bi_bookingId r = None)
      \<or> (bi_state r = IS_PROCESSING \<and> bi_bookingId r \<noteq> None
         \<and> find_row (\<lambda>b. Some (b_id b) = bi_bookingId r \<and> b_status b \<in> {B_COMPLETED, B_CANCELLED, B_REJECTED}) (bookings w) \<noteq> None))"

definition cleanup_expired_records :: "time \<Rightarrow> world \<Rightarrow> nat \<times> world" where
  "cleanup_expired_records now w =
     (length (filter (expired_idempotency_row now w) (idempotencyRows w)),
      w\<lparr>idempotencyRows := filter (\<lambda>r. \<not> expired_idempotency_row now w r) (idempotencyRows w)\<rparr>)"

section \<open>The rows of a new booking\<close>

text \<open>Decimal columns of the database keep two digits, rounded half away from zero.\<close>

definition dec2 :: "rat \<Rightarrow> rat" where
  "dec2 x = (if 0 \<le> x then of_int \<lfloor>x * 100 + 1 / 2\<rfloor> / 100 else - of_int \<lfloor>- x * 100 + 1 / 2\<rfloor> / 100)"

definition create_flight_record_if_needed ::
  "create_booking_input \<Rightarrow> flight_data option \<Rightarrow> world \<Rightarrow> ident option \<times> world" where
  "create_flight_record_if_needed i fd w =
     (case fd of
        None \<Rightarrow> (None, w)
      | Some f \<Rightarrow>
          (if cb_bookingType i \<noteq> AIRPORT_PICKUP then (None, w)
           else let created = (if find_row (\<lambda>x. fl_id x = fd_flightId f) (flights w) = None
                    then flights w @ [\<lparr>fl_id = fd_flightId f, fl_flightNumber = js_upper (fd_flightNumber f),
                           fl_scheduledDeparture = Some (fd_departureTime f),
                           fl_originCode = the (coalesce (fd_originCode f) (Some ''UNKNOWN'')),
                           fl_originTimezone = fd_originTimezone f, fl_destinationCodeIATA = fd_destinationIATA f\<rparr>]
                    else flights w)
                in (Some (fd_flightId f),
                    w\<lparr>flights := snd (update_many (\<lambda>x. fl_id x = fd_flightId f \<and> fl_scheduledDeparture x = None)
                       (\<lambda>x. x\<lparr>fl_scheduledDeparture := Some (fd_departureTime f), fl_originTimezone := fd_originTimezone f\<rparr>) created)\<rparr>)))"

definition build_booking_data ::
  "creation_env \<Rightarrow> car \<Rightarrow> ident option \<Rightarrow> guest_user option \<Rightarrow> create_booking_input \<Rightarrow> booking_financials
     \<Rightarrow> referral_eligibility \<Rightarrow> ident option \<Rightarrow> booking" where
  "build_booking_data env c userId guestUser i f el flightRecordId =
     \<lparr>b_id = bc_bookingId env, b_bookingReference = bc_bookingReference env, b_type = cb_bookingType i,
      b_status = B_PENDING, b_paymentStatus = UNPAID, b_carId = c_id c, b_userId = userId, b_guestUser = guestUser,
      b_chauffeurId = None, b_startDate = cb_startDate i, b_endDate = cb_endDate i, b_pickupLocation = cb_pickupAddress i,
      b_returnLocation = (if \<not> cb_sameLocation i then cb_dropOffAddress i else cb_pickupAddress i),
      b_updatedAt = bc_now env, b_deletedAt = None, b_cancelledAt = None, b_cancellationReason = None,
      b_completedAt = None, b_completedByUserId = None, b_completionSource = None, b_completionTokenHash = None,
      b_completionTokenExpiresAt = None, b_airportScheduleConflictAt = None, b_paymentIntent = None,
      b_paymentSessionExpiresAt = Some (bc_now env + booking_payment_session_duration),
      b_totalAmount = dec2 (bf_totalAmount f), b_netTotal = Some (dec2 (bf_netTotal f)),
      b_fleetOwnerPayoutAmountNet = Some (dec2 (bf_fleetOwnerPayoutAmountNet f)), b_overallPayoutStatus = None,
      b_referralDiscountAmount = dec2 (el_discountAmount el),
      b_referralReferrerUserId = (if el_eligible el then el_referrerUserId el else None),
      b_referralStatus = (if el_eligible el then REF_RESERVED else REF_NONE),
      b_referralCreditsUsed = dec2 (bf_creditsUsed f), b_referralCreditsReserved = dec2 (bf_creditsUsed f),
      b_flightNumber = cb_flightNumber i, b_flightId = flightRecordId, b_createdAt = bc_now env,
      b_specialRequests = cb_specialRequests i, b_paymentStatusTokenHash = None,
      b_prices = \<lparr>pc_securityDetailCost = (if 0 < bf_securityDetailCost f then Some (dec2 (bf_securityDetailCost f)) else None),
        pc_fuelUpgradeCost = (if 0 < bf_fuelUpgradeCost f then Some (dec2 (bf_fuelUpgradeCost f)) else None),
        pc_platformCustomerServiceFeeRatePercent = Some (dec2 (bf_platformCustomerServiceFeeRatePercent f)),
        pc_platformCustomerServiceFeeAmount = Some (dec2 (bf_platformCustomerServiceFeeAmount f)),
        pc_subtotalBeforeVat = Some (dec2 (bf_subtotalAfterDiscounts f)), pc_vatRatePercent = Some (dec2 (bf_vatRatePercent f)),
        pc_vatAmount = Some (dec2 (bf_vatAmount f)),
        pc_platformFleetOwnerCommissionRatePercent = Some (dec2 (bf_platformFleetOwnerCommissionRatePercent f)),
        pc_platformFleetOwnerCommissionAmount = Some (dec2 (bf_platformFleetOwnerCommissionAmount f))\<rparr>\<rparr>"

text \<open>The counts are compared in the order of the code; legDate is a date column.\<close>

definition build_booking_legs_data ::
  "creation_env \<Rightarrow> generated_leg list \<Rightarrow> booking_financials \<Rightarrow> booking_exception + leg list" where
  "build_booking_legs_data env ls f =
     (if bf_numberOfLegs f = 0 then Inl (BookingCreationFailed ''Cannot create booking: number of legs must be greater than zero'')
      else if length ls \<noteq> length (bf_legPrices f) then Inl (BookingCreationFailed ''Cannot create booking: legs/legPrices mismatch'')
      else if bf_numberOfLegs f \<noteq> length ls
      then Inl (BookingCreationFailed ''Cannot create booking: financials.numberOfLegs does not match legs.length'')
      else let n = of_nat (bf_numberOfLegs f); commission = bf_platformFleetOwnerCommissionAmount f / n; net = bf_netTotal f / n in
        Inr (map (\<lambda>k. let l = ls ! k in
               \<lparr>l_id = bc_legId env k, l_bookingId = bc_bookingId env, l_legStartTime = gl_legStartTime l,
                l_legEndTime = gl_legEndTime l, l_legDate = gl_legDate l div day_ms * day_ms,
                l_totalDailyPrice = dec2 (lp_price (bf_legPrices f ! k)), l_itemsNetValueForLeg = dec2 net,
                l_platformCommissionRateOnLeg = Some (dec2 (bf_platformFleetOwnerCommissionRatePercent f)),
                l_platformCommissionAmountOnLeg = Some (dec2 commission), l_fleetOwnerEarningForLeg = dec2 (net - commission)\<rparr>)
             [0..<length ls]))"

text \<open>The insertion of a booking with its legs, which the constraints of the table may refuse.\<close>

definition create_booking_record ::
  "creation_env \<Rightarrow> car \<Rightarrow> ident option \<Rightarrow> guest_user option \<Rightarrow> create_booking_input \<Rightarrow> booking_financials
     \<Rightarrow> referral_eligibility \<Rightarrow> ident option \<Rightarrow> generated_leg list \<Rightarrow> world \<Rightarrow> (booking_exception + booking) \<times> world" where
  "create_booking_record env c userId guestUser i f el flightRecordId ls w =
     (case build_booking_legs_data env ls f of
        Inl e \<Rightarrow> (Inl e, w)
      | Inr rows \<Rightarrow>
          (let b = build_booking_data env c userId guestUser i f el flightRecordId in
           if \<not> b_startDate b < b_endDate b then (Inl (BookingCreationFailed []), w)
           else if \<not> windows_disjoint (bookings w @ [b]) then (Inl (CarNotAvailable (cb_carId i) (default_unavailable (cb_carId i))), w)
           else (Inr b, w\<lparr>bookings := bookings w @ [b], legs := legs w @ rows\<rparr>)))"

definition mark_booking_unpaid :: "time \<Rightarrow> ident \<Rightarrow> world \<Rightarrow> world" where
  "mark_booking_unpaid now bookingId w =
     w\<lparr>bookings := snd (update_many (\<lambda>b. b_id b = bookingId \<and> b_paymentStatus b \<noteq> PAID)
                          (\<lambda>b. b\<lparr>b_paymentStatus := UNPAID, b_updatedAt := now\<rparr>) (bookings w))\<rparr>"

section \<open>Creating the payment\<close>

definition get_customer_details_for :: "create_booking_input \<Rightarrow> ident option \<Rightarrow> world \<Rightarrow> booking_exception + customer_info" where
  "get_customer_details_for i sessionUser w =
     (case sessionUser of
        Some u \<Rightarrow>
          (case find_row (\<lambda>x. u_id x = u) (users w) of
             None \<Rightarrow> Inl (BookingCreationFailed ''User not found for session'')
           | Some x \<Rightarrow> Inr \<lparr>ct_email = u_email x, ct_name = u_name x, ct_phoneNumber = u_phoneNumber x\<rparr>)
      | None \<Rightarrow>
          (case cb_guest i of
             None \<Rightarrow> Inr \<lparr>ct_email = [], ct_name = None, ct_phoneNumber = None\<rparr>
           | Some g \<Rightarrow> Inr \<lparr>ct_email = gi_email g, ct_name = Some (gi_name g), ct_phoneNumber = Some (gi_phone g)\<rparr>))"

definition booking_intent_options :: "creation_env \<Rightarrow> booking \<Rightarrow> rat \<Rightarrow> customer_info \<Rightarrow> string option \<Rightarrow> intent_options" where
  "booking_intent_options env b totalAmount ct callbackUrl =
     \<lparr>io_amount = totalAmount, io_customerEmail = ct_email ct, io_customerName = ct_name ct, io_customerPhone = ct_phoneNumber ct,
      io_metadata = [(''bookingId'', b_id b), (''bookingReference'', b_bookingReference b), (''type'', ''booking_creation'')],
      io_idempotencyKey = Some (b_id b), io_callbackUrl = (case callbackUrl of Some u \<Rightarrow> u | None \<Rightarrow> bc_defaultCallback env),
      io_transactionType = Booking_creation, io_sessionDurationMinutes = Some 10\<rparr>"

definition create_payment_and_sync ::
  "creation_env \<Rightarrow> ident \<Rightarrow> booking \<Rightarrow> rat \<Rightarrow> customer_info \<Rightarrow> string option \<Rightarrow> bool \<Rightarrow> world
     \<Rightarrow> (booking_exception + create_booking_response) \<times> world" where
  "create_payment_and_sync env claimId b totalAmount ct callbackUrl isGuest w =
     (case create_payment_intent (bc_post env) (bc_uuid env) (booking_intent_options env b totalAmount ct callbackUrl) of
        Inl e \<Rightarrow> (Inl PaymentIntentFailed, mark_booking_unpaid (bc_now env) (b_id b) w)
      | Inr (txRef, link) \<Rightarrow>
          (let expires = bc_now env + booking_payment_session_duration;
               token = (if isGuest then Some (bc_statusToken env (b_id b)) else None);
               response = \<lparr>cr_bookingId = b_id b, cr_txRef = txRef, cr_checkoutUrl = link, cr_totalAmount = totalAmount,
                           cr_bookingStatus = b_status b, cr_reservationExpiresAt = expires, cr_paymentStatusToken = token\<rparr>
           in case checkpoint_payment_result (bc_now env) claimId (b_id b) txRef expires (map_option (bc_tokenHash env) token) response w of
                None \<Rightarrow> (Inl BookingPaymentSyncFailed, w)
              | Some w1 \<Rightarrow>
                  (case complete_claim (bc_now env) claimId w1 of
                     (True, w2) \<Rightarrow> (Inr response, w2)
                   | (False, w2) \<Rightarrow> (Inl BookingPaymentSyncFailed, w2))))"

definition resume_booking_payment ::
  "creation_env \<Rightarrow> ident \<Rightarrow> ident \<Rightarrow> create_booking_input \<Rightarrow> ident option \<Rightarrow> world
     \<Rightarrow> (booking_exception + create_booking_response) \<times> world" where
  "resume_booking_payment env claimId bookingId i sessionUser w =
     (case find_row (\<lambda>b. b_id b = bookingId) (bookings w) of
        None \<Rightarrow> (Inl (BookingCreationFailed ''Idempotent booking could not be recovered.''), w)
      | Some b \<Rightarrow>
          (if truthy (b_paymentIntent b) then (Inl BookingRequestInProgress, w)
           else (case get_customer_details_for i sessionUser w of
                   Inl e \<Rightarrow> (Inl e, w)
                 | Inr ct \<Rightarrow> create_payment_and_sync env claimId b (b_totalAmount b) ct (cb_callbackUrl i) (sessionUser = None) w)))"

section \<open>Creating the booking\<close>

definition validate_and_get_flight_data ::
  "creation_env \<Rightarrow> string \<Rightarrow> time \<Rightarrow> string \<Rightarrow> booking_exception + flight_data" where
  "validate_and_get_flight_data env flightNumber pickupDate dropOffAddress =
     (case bc_searchFlight env flightNumber pickupDate of
        Inl e \<Rightarrow> Inl e
      | Inr f \<Rightarrow>
          (case (ff_arrivalTime f, ff_scheduledDeparture f) of
             (Some a, Some d) \<Rightarrow>
               Inr \<lparr>fd_flightId = ff_flightId f, fd_flightNumber = ff_flightNumber f, fd_arrivalTime = a, fd_departureTime = d,
                    fd_originCode = ff_origin f, fd_originTimezone = ff_originTimezone f, fd_destinationIATA = ff_destinationIATA f,
                    fd_driveTimeMinutes = (if dropOffAddress = [] then None else Some (bc_tripMinutes env dropOffAddress))\<rparr>
           | _ \<Rightarrow> Inl (FlightAwareError ''FlightAware returned invalid flight timing data'')))"

definition resolve_preferred_notification_channel :: "contact_source option \<Rightarrow> string option \<Rightarrow> guest_channel" where
  "resolve_preferred_notification_channel source phone =
     (if source = Some WHATSAPP_AGENT then WHATSAPP_ONLY else if truthy phone then EMAIL_AND_WHATSAPP else EMAIL_ONLY)"

definition calculation_of :: "create_booking_input \<Rightarrow> car \<Rightarrow> generated_leg list \<Rightarrow> rat \<Rightarrow> rat \<Rightarrow> calculation_input" where
  "calculation_of i c ls referralDiscount balance =
     \<lparr>ci_bookingType = cb_bookingType i, ci_legs = ls, ci_car = c, ci_includeSecurityDetail = cb_includeSecurityDetail i,
      ci_requiresFullTank = cb_requiresFullTank i, ci_userCreditsBalance = balance, ci_creditsToUse = cb_useCredits i,
      ci_referralDiscountAmount = referralDiscount\<rparr>"

text \<open>
  The transaction that takes the car: everything is verified again under the lock of the car, the
  booking is inserted with its reward and the marker of its payment session, and the claim is bound
  to it.  An error leaves the world as it was.
\<close>

definition create_booking_transaction ::
  "creation_env \<Rightarrow> ident \<Rightarrow> create_booking_input \<Rightarrow> ident option \<Rightarrow> guest_user option \<Rightarrow> generated_leg list
     \<Rightarrow> flight_data option \<Rightarrow> referral_eligibility \<Rightarrow> world \<Rightarrow> (booking_exception + booking \<times> booking_financials) \<times> world" where
  "create_booking_transaction env claimId i sessionUser guestUser ls fd preliminary w =
     (if find_row (\<lambda>c. c_id c = cb_carId i) (cars w) = None
      then (Inl (BookingCreationFailed ''Car not found during booking creation.''), w)
      else case check_car_availability (cb_carId i) (cb_startDate i) (cb_endDate i) None w of
        Some e \<Rightarrow> (Inl e, w)
      | None \<Rightarrow>
          (case fetch_car_with_pricing (cb_carId i) w of
             Inl e \<Rightarrow> (Inl e, w)
           | Inr c \<Rightarrow>
               (case (case sessionUser of
                        None \<Rightarrow> (Inr preliminary, w)
                      | Some u \<Rightarrow> verify_and_reserve_referral_discount_in_transaction (bc_now env) u preliminary w) of
                  (Inl e, _) \<Rightarrow> (Inl ReferralDiscountGone, w)
                | (Inr el, w1) \<Rightarrow>
                    (let balance = (case sessionUser of None \<Rightarrow> 0
                           | Some u \<Rightarrow> verify_referral_credit_balance_in_transaction u (cb_useCredits i) w1)
                     in case calculate_booking_cost (bc_now env) True (calculation_of i c ls (el_discountAmount el) balance) w1 of
                          (Inl m, _) \<Rightarrow> (Inl (BookingCreationFailed []), w)
                        | (Inr f, w2) \<Rightarrow>
                            (case validate_expected_price (parse_decimal_literal (cb_expectedTotalAmount i)) f of
                               Some e \<Rightarrow> (Inl e, w)
                             | None \<Rightarrow>
                                 (let (flightRecordId, w3) = create_flight_record_if_needed i fd w2 in
                                  case create_booking_record env c sessionUser guestUser i f el flightRecordId ls w3 of
                                    (Inl e, _) \<Rightarrow> (Inl e, w)
                                  | (Inr b, w4) \<Rightarrow>
                                      (let w5 = create_referral_reward_if_eligible (bc_rewardId env) (b_id b) el sessionUser w4;
                                           w6 = w5\<lparr>bookings := snd (update_many (\<lambda>x. b_id x = b_id b)
                                                     (\<lambda>x. x\<lparr>b_paymentIntent := Some (b_id b), b_updatedAt := bc_now env\<rparr>) (bookings w5))\<rparr>
                                       in case attach_booking (bc_now env) claimId (b_id b) w6 of
                                            (Some e, _) \<Rightarrow> (Inl e, w)
                                          | (None, w7) \<Rightarrow> (Inr (b\<lparr>b_paymentIntent := Some (b_id b)\<rparr>, f), w7))))))))"

definition create_booking_with_payment ::
  "creation_env \<Rightarrow> ident \<Rightarrow> create_booking_input \<Rightarrow> ident option \<Rightarrow> generated_leg list \<Rightarrow> customer_info
     \<Rightarrow> flight_data option \<Rightarrow> referral_eligibility \<Rightarrow> world \<Rightarrow> (booking_exception + create_booking_response) \<times> world" where
  "create_booking_with_payment env claimId i sessionUser ls ct fd preliminary w =
     (let guestUser = (if sessionUser \<noteq> None then None
            else Some \<lparr>g_name = ct_name ct, g_email = Some (ct_email ct), g_phoneNumber = ct_phoneNumber ct,
                       g_preferredChannel = Some (resolve_preferred_notification_channel (bc_contactSource env) (ct_phoneNumber ct))\<rparr>)
      in case create_booking_transaction env claimId i sessionUser guestUser ls fd preliminary w of
           (Inl e, w') \<Rightarrow> (Inl e, w')
         | (Inr (b, f), w') \<Rightarrow>
             create_payment_and_sync env claimId b (bf_totalAmount f) ct (cb_callbackUrl i) (sessionUser = None) w')"

definition normalize_input :: "creation_env \<Rightarrow> create_booking_input \<Rightarrow> create_booking_input" where
  "normalize_input env i =
     (let (s, e) = normalize_booking_time_window (bc_dates env) (bc_off env) (cb_bookingType i) (cb_startDate i) (cb_endDate i)
                     (Some (cb_pickupTime i))
      in i\<lparr>cb_startDate := s, cb_endDate := e\<rparr>)"

text \<open>The work under a fresh claim, whose failure releases the claim unless a booking is bound to it.\<close>

definition create_claimed_booking ::
  "creation_env \<Rightarrow> ident \<Rightarrow> create_booking_input \<Rightarrow> ident option \<Rightarrow> world \<Rightarrow> (booking_exception + create_booking_response) \<times> world" where
  "create_claimed_booking env claimId i sessionUser w =
     (case validate_dates (bc_dates env) (bc_off env) (bc_now env) (cb_startDate i) (cb_endDate i) (cb_bookingType i) of
        Some e \<Rightarrow> (Inl e, w)
      | None \<Rightarrow>
     (case check_car_availability (cb_carId i) (cb_startDate i) (cb_endDate i) None w of
        Some e \<Rightarrow> (Inl e, w)
      | None \<Rightarrow>
     (case validate_guest_email (map_option gi_email (cb_guest i)) w of
        Some e \<Rightarrow> (Inl e, w)
      | None \<Rightarrow>
     (case (if cb_bookingType i = AIRPORT_PICKUP \<and> truthy (cb_flightNumber i) \<and> \<not> cb_sameLocation i
           then map_sum id Some (validate_and_get_flight_data env (the (cb_flightNumber i)) (cb_startDate i) (cb_dropOffAddress i))
           else Inr None) of
        Inl e \<Rightarrow> (Inl e, w)
      | Inr fd \<Rightarrow>
     (case fetch_car_with_pricing (cb_carId i) w of
        Inl e \<Rightarrow> (Inl e, w)
      | Inr c \<Rightarrow>
     (case generate_legs (bc_dates env) (build_leg_generation_input (cb_bookingType i) (cb_startDate i) (cb_endDate i) (cb_pickupTime i)
            (map_option fd_arrivalTime fd) (Option.bind fd fd_driveTimeMinutes)) of
        None \<Rightarrow> (Inl (UnexpectedError ''TypeError''), w)
      | Some ls \<Rightarrow>
     (case price_with_referral (bc_now env) (calculation_of i c ls 0 0) sessionUser (cb_useCredits i) w of
        (Inl m, w1) \<Rightarrow> (Inl (UnexpectedError m), w1)
      | (Inr (el, f), w1) \<Rightarrow>
     (case validate_expected_price (parse_decimal_literal (cb_expectedTotalAmount i)) f of
        Some e \<Rightarrow> (Inl e, w1)
      | None \<Rightarrow>
     (case get_customer_details_for i sessionUser w1 of
        Inl e \<Rightarrow> (Inl e, w1)
      | Inr ct \<Rightarrow> create_booking_with_payment env claimId i sessionUser ls ct fd el w1)))))))))"

definition create_booking ::
  "creation_env \<Rightarrow> create_booking_input \<Rightarrow> ident option \<Rightarrow> string \<Rightarrow> world \<Rightarrow> (booking_exception + create_booking_response) \<times> world" where
  "create_booking env input sessionUser key w =
     (let i = normalize_input env input in
      case validate_guest_requirements (cb_guest i \<noteq> None) sessionUser of
        Some e \<Rightarrow> (Inl e, w)
      | None \<Rightarrow>
     (case validate_credits_require_authentication (cb_useCredits i) sessionUser of
        Some e \<Rightarrow> (Inl e, w)
      | None \<Rightarrow>
     (case get_customer_scope env i sessionUser of
        Inl e \<Rightarrow> (Inl e, w)
      | Inr scope \<Rightarrow>
     (case claim_key env scope key (bc_requestHash env i (bc_contactSource env)) w of
        (Inl e, w1) \<Rightarrow> (Inl e, w1)
      | (Inr (Replay r), w1) \<Rightarrow> (Inr r, w1)
      | (Inr (Resume claimId bookingId), w1) \<Rightarrow> resume_booking_payment env claimId bookingId i sessionUser w1
      | (Inr (Claimed claimId), w1) \<Rightarrow>
          (case create_claimed_booking env claimId i sessionUser w1 of
             (Inl e, w2) \<Rightarrow> (Inl e, release_claim claimId w2)
           | (Inr r, w2) \<Rightarrow> (Inr r, w2))))))"

section \<open>The rows of the keys\<close>

definition key_bound :: "world \<Rightarrow> string \<Rightarrow> string \<Rightarrow> ident \<Rightarrow> bool" where
  "key_bound w scope key i \<longleftrightarrow> (\<exists>r \<in> set (idempotencyRows w).
     bi_customerScope r = scope \<and> bi_idempotencyKey r = key \<and> bi_bookingId r = Some i)"

definition claims_ok :: "world \<Rightarrow> bool" where
  "claims_ok w \<longleftrightarrow> unique_by (\<lambda>r. (bi_customerScope r, bi_idempotencyKey r)) (idempotencyRows w) \<and> unique_by bi_id (idempotencyRows w)"

text \<open>What every step of the idempotency service keeps: the rows stay unique and bound rows stay bound.\<close>

definition claims_keep :: "world \<Rightarrow> world \<Rightarrow> bool" where
  "claims_keep w w' \<longleftrightarrow> (claims_ok w \<longrightarrow> claims_ok w') \<and> (\<forall>s k i. key_bound w s k i \<longrightarrow> key_bound w' s k i)"

lemma claims_keep_trans: "claims_keep w w' \<Longrightarrow> claims_keep w' w'' \<Longrightarrow> claims_keep w w''"
  by (simp add: claims_keep_def)

lemma claims_keep_same: "idempotencyRows w' = idempotencyRows w \<Longrightarrow> claims_keep w w'"
  by (simp add: claims_keep_def claims_ok_def key_bound_def)

lemma claims_keep_update:
  assumes "idempotencyRows w' = snd (update_many P f (idempotencyRows w))"
    and "\<And>r. bi_id (f r) = bi_id r \<and> bi_customerScope (f r) = bi_customerScope r \<and> bi_idempotencyKey (f r) = bi_idempotencyKey r"
    and "\<And>r. P r \<Longrightarrow> bi_bookingId (f r) = bi_bookingId r \<or> bi_bookingId r = None"
  shows "claims_keep w w'"
proof -
  have "claims_ok w \<longrightarrow> claims_ok w'"
    using assms(2) by (simp add: claims_ok_def assms(1) snd_update_many o_def if_distrib cong: if_cong)
  moreover have "key_bound w' s k i" if "key_bound w s k i" for s k i
  proof -
    from that obtain r where r: "r \<in> set (idempotencyRows w)" "bi_customerScope r = s" "bi_idempotencyKey r = k" "bi_bookingId r = Some i"
      by (auto simp: key_bound_def)
    let ?r = "if P r then f r else r"
    have "?r \<in> set (idempotencyRows w')" using r(1) by (force simp: assms(1) snd_update_many)
    moreover have "bi_customerScope ?r = s" "bi_idempotencyKey ?r = k" "bi_bookingId ?r = Some i"
      using r assms(2) [of r] assms(3) [of r] by auto
    ultimately show ?thesis unfolding key_bound_def by blast
  qed
  ultimately show ?thesis by (simp add: claims_keep_def)
qed

lemma claims_keep_filter:
  assumes "idempotencyRows w' = filter Q (idempotencyRows w)" and "\<And>r. \<not> Q r \<Longrightarrow> bi_bookingId r = None"
  shows "claims_keep w w'"
  using assms(2) by (force simp: claims_keep_def claims_ok_def key_bound_def assms(1) intro: distinct_map_filter)

lemma get_rates_frame [simp]:
  "bookings (snd (get_rates now tx w)) = bookings w" "idempotencyRows (snd (get_rates now tx w)) = idempotencyRows w"
  by (auto simp: get_rates_def split: option.splits prod.splits sum.splits)

lemma get_rates_frameD: "get_rates now tx w = (r, w') \<Longrightarrow> bookings w' = bookings w \<and> idempotencyRows w' = idempotencyRows w"
  using get_rates_frame [of now tx w] by simp

lemma calculate_cost_frame [simp]:
  "bookings (snd (calculate_booking_cost now tx i w)) = bookings w" "idempotencyRows (snd (calculate_booking_cost now tx i w)) = idempotencyRows w"
  by (auto simp: calculate_booking_cost_def dest!: get_rates_frameD split: prod.split sum.split)

lemma calculate_cost_frameD:
  "calculate_booking_cost now tx i w = (r, w') \<Longrightarrow> bookings w' = bookings w \<and> idempotencyRows w' = idempotencyRows w"
  using calculate_cost_frame [of now tx i w] by simp

lemma price_referral_frame [simp]:
  "bookings (snd (price_with_referral now i u c w)) = bookings w" "idempotencyRows (snd (price_with_referral now i u c w)) = idempotencyRows w"
  by (auto simp: price_with_referral_def Let_def dest!: calculate_cost_frameD split: sum.split prod.split)

lemma stale_reservations_frame [simp]:
  "idempotencyRows (release_stale_referral_reservations_for_user now u w) = idempotencyRows w"
  "map b_id (bookings (release_stale_referral_reservations_for_user now u w)) = map b_id (bookings w)"
proof -
  have one: "idempotencyRows (snd (release_referral_reservation now i w)) = idempotencyRows w" for i w
    by (simp add: release_referral_reservation_def reverse_pending_referral_rewards_def Let_def case_prod_beta)
  have ids: "map b_id (bookings (snd (release_referral_reservation now i w))) = map b_id (bookings w)" for i w
    unfolding release_reservation_bookings by (simp add: key_update_many)
  have "idempotencyRows (fold (\<lambda>b w. snd (release_referral_reservation now (b_id b) w)) bs w) = idempotencyRows w"
    "map b_id (bookings (fold (\<lambda>b w. snd (release_referral_reservation now (b_id b) w)) bs w)) = map b_id (bookings w)" for bs w
    by (induction bs arbitrary: w) (simp_all add: one ids del: release_reservation_frame)
  then show "idempotencyRows (release_stale_referral_reservations_for_user now u w) = idempotencyRows w"
    "map b_id (bookings (release_stale_referral_reservations_for_user now u w)) = map b_id (bookings w)"
    by (simp_all add: release_stale_referral_reservations_for_user_def)
qed

lemma verify_reserve_frame [simp]:
  "idempotencyRows (snd (verify_and_reserve_referral_discount_in_transaction now u el w)) = idempotencyRows w"
  "map b_id (bookings (snd (verify_and_reserve_referral_discount_in_transaction now u el w))) = map b_id (bookings w)"
  by (simp_all add: verify_and_reserve_referral_discount_in_transaction_def Let_def split: option.split)

lemma flight_record_frame [simp]:
  "bookings (snd (create_flight_record_if_needed i fd w)) = bookings w"
  "idempotencyRows (snd (create_flight_record_if_needed i fd w)) = idempotencyRows w"
  by (simp_all add: create_flight_record_if_needed_def Let_def split: option.split)

lemma create_reward_frame [simp]:
  "bookings (create_referral_reward_if_eligible n b el u w) = bookings w"
  "idempotencyRows (create_referral_reward_if_eligible n b el u w) = idempotencyRows w"
  by (simp_all add: create_referral_reward_if_eligible_def Let_def)

section \<open>Claiming a key\<close>

lemma claim_attempt:
  assumes fresh: "bc_claimId env \<notin> bi_id ` set (idempotencyRows w)"
  shows "bookings (snd (claim_with_attempt n env scope key h w)) = bookings w
    \<and> claims_keep w (snd (claim_with_attempt n env scope key h w))
    \<and> (\<forall>c. fst (claim_with_attempt n env scope key h w) = Inr (Claimed c) \<longrightarrow> c = bc_claimId env
        \<and> (\<exists>r \<in> set (idempotencyRows (snd (claim_with_attempt n env scope key h w))).
              bi_id r = c \<and> bi_customerScope r = scope \<and> bi_idempotencyKey r = key \<and> bi_bookingId r = None))"
  using fresh
proof (induction n arbitrary: w)
  case (Suc n)
  show ?case
  proof (cases "create_unique (\<lambda>r. (bi_customerScope r, bi_idempotencyKey r)) (new_claim env scope key h) (idempotencyRows w)")
    case (Some t)
    then have t: "t = idempotencyRows w @ [new_claim env scope key h]" "(scope, key) \<notin> (\<lambda>r. (bi_customerScope r, bi_idempotencyKey r)) ` set (idempotencyRows w)"
      by (auto simp: create_unique_def new_claim_def split: if_splits)
    have "claims_keep w (w\<lparr>idempotencyRows := t\<rparr>)"
      using t(2) Suc.prems by (auto simp: claims_keep_def claims_ok_def key_bound_def t(1) new_claim_def)
    then show ?thesis using Some by (auto simp: t(1) new_claim_def)
  next
    case None
    show ?thesis
    proof (cases "find_row (\<lambda>r. bi_customerScope r = scope \<and> bi_idempotencyKey r = key) (idempotencyRows w)")
      case none: None
      then show ?thesis using None Suc by simp
    next
      case (Some e)
      let ?stale = "\<lambda>r. bi_id r = bi_id e \<and> bi_bookingId r = None \<and> bi_state r = IS_PROCESSING \<and> bi_updatedAt r = bi_updatedAt e"
      let ?w = "w\<lparr>idempotencyRows := filter (\<lambda>r. \<not> ?stale r) (idempotencyRows w)\<rparr>"
      have del: "claims_keep w ?w" by (rule claims_keep_filter) auto
      have fresh': "bc_claimId env \<notin> bi_id ` set (idempotencyRows ?w)" using Suc.prems by auto
      note IH = Suc.IH [OF fresh']
      have upd: "claims_keep w (w\<lparr>idempotencyRows := snd (update_many P (\<lambda>r. r\<lparr>bi_updatedAt := bc_now env\<rparr>) (idempotencyRows w))\<rparr>)" for P
        by (rule claims_keep_update [where P = P and f = "\<lambda>r. r\<lparr>bi_updatedAt := bc_now env\<rparr>"]) simp_all
      have fin: "claims_keep w (snd (finalize_checkpointed_response env i v w)) \<and> bookings (snd (finalize_checkpointed_response env i v w)) = bookings w
          \<and> (\<forall>c. fst (finalize_checkpointed_response env i v w) \<noteq> Inr (Claimed c))" for i v
        using claims_keep_update [where w = w and P = "\<lambda>r. bi_id r = i \<and> bi_state r = IS_PROCESSING \<and> bi_bookingId r \<noteq> None"
              and f = "\<lambda>r. r\<lparr>bi_state := IS_COMPLETED, bi_updatedAt := bc_now env\<rparr>"]
        by (auto simp: finalize_checkpointed_response_def Let_def case_prod_beta parse_response_def split: stored_response.split)
      have rep: "map_sum id Replay x \<noteq> Inr (Claimed c)" for x :: "booking_exception + create_booking_response" and c by (cases x) simp_all
      show ?thesis using None Some del upd fin rep IH claims_keep_trans [OF del]
        by (simp add: Let_def case_prod_beta claims_keep_same)
    qed
  qed
qed (simp add: claims_keep_same)

section \<open>The work under a claim\<close>

lemma claim_key_attempt: "claim_key env scope key h w = claim_with_attempt max_claim_attempts env scope key h w"
  by (simp add: claim_key_def)

lemma attach_keep:
  assumes "attach_booking now c i w = (None, w')"
  shows "bookings w' = bookings w \<and> claims_keep w w'
    \<and> (\<forall>r \<in> set (idempotencyRows w). bi_id r = c \<and> claims_ok w \<longrightarrow> key_bound w' (bi_customerScope r) (bi_idempotencyKey r) i)"
proof -
  let ?P = "\<lambda>r. bi_id r = c \<and> bi_state r = IS_PROCESSING \<and> bi_bookingId r = None"
  let ?f = "\<lambda>r. r\<lparr>bi_bookingId := Some i, bi_updatedAt := now\<rparr>"
  have n: "length (filter ?P (idempotencyRows w)) = 1" and w': "w' = w\<lparr>idempotencyRows := snd (update_many ?P ?f (idempotencyRows w))\<rparr>"
    using assms by (auto simp: attach_booking_def case_prod_beta fst_update_many Let_def split: if_splits)
  have keep: "claims_keep w w'" by (rule claims_keep_update [where P = ?P and f = ?f]) (simp_all add: w')
  have "key_bound w' (bi_customerScope r) (bi_idempotencyKey r) i" if "r \<in> set (idempotencyRows w)" "bi_id r = c" "claims_ok w" for r
  proof -
    have "filter ?P (idempotencyRows w) \<noteq> []" using n by auto
    then obtain x where x: "x \<in> set (idempotencyRows w)" "?P x" by (auto simp: filter_empty_conv)
    have "x = r" using that x by (auto simp: claims_ok_def intro: unique_by_same)
    then have "?f r \<in> set (idempotencyRows w')" using x by (force simp: w' snd_update_many)
    then show ?thesis unfolding key_bound_def by (rule bexI [rotated]) simp
  qed
  then show ?thesis using keep by (simp add: w')
qed

lemma create_record_frameD:
  "create_booking_record env c u g i f el fl ls w = (Inr b, w') \<Longrightarrow>
     bookings w' = bookings w @ [b] \<and> idempotencyRows w' = idempotencyRows w \<and> b_id b = bc_bookingId env"
  by (auto simp: create_booking_record_def build_booking_data_def Let_def split: sum.splits if_splits)

lemma reserve_frameD:
  "verify_and_reserve_referral_discount_in_transaction now u el w = (r, w') \<Longrightarrow>
     map b_id (bookings w') = map b_id (bookings w) \<and> idempotencyRows w' = idempotencyRows w"
  using verify_reserve_frame [of now u el w] by simp

lemma flight_frameD:
  "create_flight_record_if_needed i fd w = (r, w') \<Longrightarrow> bookings w' = bookings w \<and> idempotencyRows w' = idempotencyRows w"
  using flight_record_frame [of i fd w] by simp

lemma transaction_error: "fst (create_booking_transaction env c i u g ls fd el w) = Inl e \<Longrightarrow> snd (create_booking_transaction env c i u g ls fd el w) = w"
  by (auto simp: create_booking_transaction_def Let_def case_prod_beta split: option.splits sum.splits prod.splits if_splits)

text \<open>What taking a car leaves: one more booking, bound to the claim.\<close>

definition takes :: "creation_env \<Rightarrow> ident \<Rightarrow> world \<Rightarrow> world \<Rightarrow> bool" where
  "takes env c w w' \<longleftrightarrow> map b_id (bookings w') = map b_id (bookings w) @ [bc_bookingId env] \<and> claims_keep w w'
    \<and> (\<forall>r \<in> set (idempotencyRows w). bi_id r = c \<and> claims_ok w \<longrightarrow> key_bound w' (bi_customerScope r) (bi_idempotencyKey r) (bc_bookingId env))"

lemma takes_tail:
  assumes made: "create_booking_record env car u g i f el fl ls w3 = (Inr b, w4)"
    and attach: "attach_booking now c (b_id b) ((create_referral_reward_if_eligible rw (b_id b) el u w4)\<lparr>bookings :=
          snd (update_many P (\<lambda>x. x\<lparr>b_paymentIntent := pint, b_updatedAt := now\<rparr>)
            (bookings w4))\<rparr>) = (None, w')"
    and same: "map b_id (bookings w3) = map b_id (bookings w)" "idempotencyRows w3 = idempotencyRows w"
  shows "takes env c w w'"
proof -
  let ?w = "(create_referral_reward_if_eligible rw (b_id b) el u w4)\<lparr>bookings :=
          snd (update_many P (\<lambda>x. x\<lparr>b_paymentIntent := pint, b_updatedAt := now\<rparr>) (bookings w4))\<rparr>"
  have r: "bookings w4 = bookings w3 @ [b]" "idempotencyRows w4 = idempotencyRows w3" "b_id b = bc_bookingId env"
    using create_record_frameD [OF made] by simp_all
  have rows: "idempotencyRows ?w = idempotencyRows w" by (simp add: r same)
  have ids: "map b_id (bookings ?w) = map b_id (bookings w) @ [bc_bookingId env]" using r same by (simp add: key_update_many)
  show ?thesis using attach_keep [OF attach] rows ids r(3) claims_keep_trans [OF claims_keep_same [OF rows]]
    by (simp add: takes_def claims_ok_def)
qed

lemma transaction_errorD: "create_booking_transaction env c i u g ls fd el w = (Inl e, w') \<Longrightarrow> w' = w"
  using transaction_error [of env c i u g ls fd el w e] by simp

lemma transaction_ok:
  assumes "create_booking_transaction env c i u g ls fd el w = (Inr (b, f), w')"
  shows "takes env c w w'"
  using assms
  by (auto simp: create_booking_transaction_def Let_def split: option.splits sum.splits prod.splits if_splits
      dest!: reserve_frameD calculate_cost_frameD flight_frameD intro: takes_tail)

lemma payment_sync_keep:
  "claims_keep w (snd (create_payment_and_sync env c b t ct url g w))
   \<and> map b_id (bookings (snd (create_payment_and_sync env c b t ct url g w))) = map b_id (bookings w)"
proof -
  have unpaid: "map b_id (bookings (mark_booking_unpaid now i w)) = map b_id (bookings w) \<and> claims_keep w (mark_booking_unpaid now i w)" for now i w
    by (simp add: mark_booking_unpaid_def key_update_many claims_keep_same)
  have check: "map b_id (bookings w') = map b_id (bookings w) \<and> claims_keep w w'"
    if "checkpoint_payment_result now c i pi ex th r w = Some w'" for now i pi ex th r w'
    using that claims_keep_update [where w = w and w' = w' and P = "\<lambda>x. bi_id x = c \<and> bi_bookingId x = Some i \<and> bi_state x = IS_PROCESSING"
       and f = "\<lambda>x. x\<lparr>bi_response := Some (StoredResponse \<lparr>br_bookingId = cr_bookingId r, br_txRef = cr_txRef r, br_checkoutUrl = cr_checkoutUrl r,
                     br_totalAmount = cr_totalAmount r, br_bookingStatus = cr_bookingStatus r,
                     br_reservationExpiresAt = cr_reservationExpiresAt r, br_tokenRequired = truthy (cr_paymentStatusToken r)\<rparr>), bi_updatedAt := now\<rparr>"]
    by (auto simp: checkpoint_payment_result_def case_prod_beta Let_def key_update_many split: if_splits)
  have comp: "bookings (snd (complete_claim now c w)) = bookings w \<and> claims_keep w (snd (complete_claim now c w))" for now and w :: world
    using claims_keep_update [where w = w and P = "\<lambda>r. bi_id r = c \<and> bi_state r = IS_PROCESSING"
       and f = "\<lambda>r. r\<lparr>bi_state := IS_COMPLETED, bi_updatedAt := now\<rparr>"]
    by (auto simp: complete_claim_def case_prod_beta Let_def split: option.split)
  have sync: "map b_id (bookings w2) = map b_id (bookings w) \<and> claims_keep w w2"
    if "checkpoint_payment_result now c i pi ex th r w = Some w1" "complete_claim now c w1 = (ok, w2)" for now i pi ex th r w1 ok w2
    using check [OF that(1)] comp [of now w1] that(2) claims_keep_trans by fastforce
  show ?thesis unfolding create_payment_and_sync_def
    using unpaid sync by (auto simp: Let_def claims_keep_same split: sum.split prod.split option.split bool.split)
qed

lemma transaction_then_payment:
  "let w' = snd (case create_booking_transaction env c i u g ls fd el w of (Inl e, w') \<Rightarrow> (Inl e, w')
         | (Inr (b, f), w') \<Rightarrow> create_payment_and_sync env c b (bf_totalAmount f) ct url isGuest w')
   in w' = w \<or> takes env c w w'"
proof -
  obtain r w1 where t: "create_booking_transaction env c i u g ls fd el w = (r, w1)" by fastforce
  show ?thesis
  proof (cases r)
    case (Inl e)
    have "w1 = w" by (rule transaction_errorD [OF t [unfolded Inl]])
    then show ?thesis by (simp add: t Inl)
  next
    case (Inr bf)
    then obtain b f where t': "create_booking_transaction env c i u g ls fd el w = (Inr (b, f), w1)" using t by (cases bf) simp
    let ?w' = "snd (create_payment_and_sync env c b (bf_totalAmount f) ct url isGuest w1)"
    have "takes env c w w1" by (rule transaction_ok [OF t'])
    moreover have "claims_keep w1 ?w'" "map b_id (bookings ?w') = map b_id (bookings w1)" using payment_sync_keep by blast+
    ultimately have "takes env c w ?w'" by (auto simp: takes_def claims_keep_def)
    then show ?thesis by (simp add: t')
  qed
qed

lemma with_payment_keep:
  "let w' = snd (create_booking_with_payment env c i u ls ct fd el w) in w' = w \<or> takes env c w w'"
  unfolding create_booking_with_payment_def Let_def by (rule transaction_then_payment [unfolded Let_def])

lemma snd_cases:
  "(x = None \<Longrightarrow> P (snd a)) \<Longrightarrow> (\<And>e. x = Some e \<Longrightarrow> P (snd (b e))) \<Longrightarrow> P (snd (case x of None \<Rightarrow> a | Some e \<Rightarrow> b e))"
  "(\<And>e. y = Inl e \<Longrightarrow> P (snd (f e))) \<Longrightarrow> (\<And>v. y = Inr v \<Longrightarrow> P (snd (g v))) \<Longrightarrow> P (snd (case y of Inl e \<Rightarrow> f e | Inr v \<Rightarrow> g v))"
  "(\<And>u v. z = (u, v) \<Longrightarrow> P (snd (h u v))) \<Longrightarrow> P (snd (case z of (u, v) \<Rightarrow> h u v))"
  by (simp_all split: option.split sum.split prod.split)

lemma price_referral_frameD:
  "price_with_referral now i u c w = (r, w') \<Longrightarrow> bookings w' = bookings w \<and> idempotencyRows w' = idempotencyRows w"
  using price_referral_frame [of now i u c w] by simp

lemma takes_cong:
  "takes env c w1 w' \<Longrightarrow> bookings w1 = bookings w \<Longrightarrow> idempotencyRows w1 = idempotencyRows w \<Longrightarrow> takes env c w w'"
  by (simp add: takes_def claims_keep_def claims_ok_def key_bound_def)

lemma claimed_keep:
  "let w' = snd (create_claimed_booking env c i u w) in (bookings w' = bookings w \<and> idempotencyRows w' = idempotencyRows w) \<or> takes env c w w'"
proof -
  define R where "R = (\<lambda>w'. (bookings w' = bookings w \<and> idempotencyRows w' = idempotencyRows w) \<or> takes env c w w')"
  have start: "R w" by (simp add: R_def)
  have priced: "R w1" if "price_with_referral now m u k w = (r, w1)" for now m k r w1
    using price_referral_frameD [OF that] by (simp add: R_def)
  have paid: "R (snd (create_booking_with_payment env c i u ls ct fd el w1))"
    if "price_with_referral now m u k w = (r, w1)" for now m k r w1 ls ct fd el
  proof -
    have "snd (create_booking_with_payment env c i u ls ct fd el w1) = w1 \<or> takes env c w1 (snd (create_booking_with_payment env c i u ls ct fd el w1))"
      using with_payment_keep [of env c i u ls ct fd el w1] by (simp only: Let_def)
    then show ?thesis using price_referral_frameD [OF that] takes_cong unfolding R_def by metis
  qed
  have "R (snd (create_claimed_booking env c i u w))"
    unfolding create_claimed_booking_def 
    by (intro snd_cases [where P = R]; (rule paid, assumption | simp only: snd_conv, (rule start | rule priced, assumption)))
  then show ?thesis by (simp only: R_def Let_def)
qed

lemma release_keep: "claims_keep w (release_claim c w) \<and> bookings (release_claim c w) = bookings w"
proof
  show "claims_keep w (release_claim c w)"
    by (rule claims_keep_filter [where Q = "\<lambda>r. \<not> (bi_id r = c \<and> bi_bookingId r = None \<and> bi_state r = IS_PROCESSING)"])
      (simp only: release_claim_def, simp, blast)
qed (simp add: release_claim_def)

lemma resume_keep:
  "claims_keep w (snd (resume_booking_payment env c j i u w))
   \<and> map b_id (bookings (snd (resume_booking_payment env c j i u w))) = map b_id (bookings w)"
  using payment_sync_keep by (auto simp: resume_booking_payment_def claims_keep_same split: option.split sum.split)

text \<open>What a request of a scope and a key leaves.\<close>

definition adds_at_most_one :: "creation_env \<Rightarrow> string \<Rightarrow> string \<Rightarrow> world \<Rightarrow> world \<Rightarrow> bool" where
  "adds_at_most_one env scope key w w' \<longleftrightarrow> claims_keep w w'
    \<and> (map b_id (bookings w') = map b_id (bookings w)
      \<or> map b_id (bookings w') = map b_id (bookings w) @ [bc_bookingId env]
        \<and> (\<forall>j. \<not> key_bound w scope key j) \<and> key_bound w' scope key (bc_bookingId env))"

lemma takes_adds:
  assumes ok: "claims_ok w" and k: "claims_keep w w1" and bs: "bookings w1 = bookings w"
    and r: "r \<in> set (idempotencyRows w1)" "bi_id r = c" "bi_customerScope r = scope" "bi_idempotencyKey r = key" "bi_bookingId r = None"
    and t: "takes env c w1 w'"
  shows "adds_at_most_one env scope key w w'"
proof -
  have ok1: "claims_ok w1" using ok k by (simp add: claims_keep_def)
  have "\<not> key_bound w1 scope key j" for j
  proof
    assume "key_bound w1 scope key j"
    then obtain x where x: "x \<in> set (idempotencyRows w1)" "bi_customerScope x = scope" "bi_idempotencyKey x = key" "bi_bookingId x = Some j"
      by (auto simp: key_bound_def)
    have "x = r" using unique_by_same [OF _ x(1) r(1), where key = "\<lambda>r. (bi_customerScope r, bi_idempotencyKey r)"] ok1 x r
      by (simp add: claims_ok_def)
    then show False using x(4) r(5) by simp
  qed
  then have "\<forall>j. \<not> key_bound w scope key j" using k by (auto simp: claims_keep_def)
  moreover have "key_bound w' scope key (bc_bookingId env)" "map b_id (bookings w') = map b_id (bookings w) @ [bc_bookingId env]" "claims_keep w w'"
    using t ok1 r bs claims_keep_trans [OF k] by (auto simp: takes_def)
  ultimately show ?thesis by (simp add: adds_at_most_one_def)
qed

lemma adds_keep: "adds_at_most_one env s k w w1 \<Longrightarrow> claims_keep w1 w' \<Longrightarrow> bookings w' = bookings w1 \<Longrightarrow> adds_at_most_one env s k w w'"
  by (auto simp: adds_at_most_one_def claims_keep_def)

definition request_scope :: "creation_env \<Rightarrow> create_booking_input \<Rightarrow> ident option \<Rightarrow> string" where
  "request_scope env i u = (case get_customer_scope env (normalize_input env i) u of Inl e \<Rightarrow> [] | Inr s \<Rightarrow> s)"

lemma create_booking_adds:
  assumes ok: "claims_ok w" and fresh: "bc_claimId env \<notin> bi_id ` set (idempotencyRows w)"
  shows "adds_at_most_one env (request_scope env i u) key w (snd (create_booking env i u key w))"
proof -
  have same: "adds_at_most_one env s key w w" for s by (simp add: adds_at_most_one_def claims_keep_def)
  let ?i = "normalize_input env i"
  let ?h = "bc_requestHash env ?i (bc_contactSource env)"
  show ?thesis
  proof (cases "validate_guest_requirements (cb_guest ?i \<noteq> None) u = None
      \<and> validate_credits_require_authentication (cb_useCredits ?i) u = None \<and> (\<exists>s. get_customer_scope env ?i u = Inr s)")
    case False
    then show ?thesis using same by (auto simp: create_booking_def Let_def split: option.split sum.split)
  next
    case True
    then obtain s where s: "get_customer_scope env ?i u = Inr s" by blast
    obtain cl w1 where cl: "claim_key env s key ?h w = (cl, w1)" by fastforce
    have c: "bookings w1 = bookings w" "claims_keep w w1"
        "\<And>c. cl = Inr (Claimed c) \<Longrightarrow> c = bc_claimId env \<and> (\<exists>r \<in> set (idempotencyRows w1). bi_id r = c
           \<and> bi_customerScope r = s \<and> bi_idempotencyKey r = key \<and> bi_bookingId r = None)"
      using claim_attempt [OF fresh, of max_claim_attempts s key ?h] cl by (auto simp: claim_key_def)
    have w1: "adds_at_most_one env s key w w1" using c(1,2) by (simp add: adds_at_most_one_def)
    have result: "snd (create_booking env i u key w) = (case cl of Inl e \<Rightarrow> w1 | Inr (Replay r) \<Rightarrow> w1
        | Inr (Resume d j) \<Rightarrow> snd (resume_booking_payment env d j ?i u w1)
        | Inr (Claimed d) \<Rightarrow> (case create_claimed_booking env d ?i u w1 of (Inl e, w2) \<Rightarrow> release_claim d w2 | (Inr r, w2) \<Rightarrow> w2))"
      using True s cl by (simp add: create_booking_def Let_def split: sum.split prod.split idempotency_claim.split)
    have "adds_at_most_one env s key w (snd (create_booking env i u key w))"
    proof (cases "\<exists>d. cl = Inr (Claimed d)")
      case False
      have "adds_at_most_one env s key w (snd (resume_booking_payment env d j ?i u w1))" for d j
        using resume_keep [of w1 env d j ?i u] c(1) claims_keep_trans [OF c(2)] by (simp add: adds_at_most_one_def)
      then show ?thesis using False w1 by (auto simp: result split: sum.split idempotency_claim.split)
    next
      case True
      then obtain d where d: "cl = Inr (Claimed d)" by blast
      obtain r w2 where r: "create_claimed_booking env d ?i u w1 = (r, w2)" by fastforce
      obtain x where x: "x \<in> set (idempotencyRows w1)" "bi_id x = d" "bi_customerScope x = s" "bi_idempotencyKey x = key" "bi_bookingId x = None"
        using c(3) [OF d] by blast
      have "(bookings w2 = bookings w1 \<and> idempotencyRows w2 = idempotencyRows w1) \<or> takes env d w1 w2"
        using claimed_keep [of env d ?i u w1] by (simp add: Let_def r)
      then have "adds_at_most_one env s key w w2"
        using adds_keep [OF w1 claims_keep_same] takes_adds [OF ok c(2,1) x] by blast
      then show ?thesis using release_keep [of w2 d] adds_keep by (auto simp: result d r split: sum.split)
    qed
    then show ?thesis by (simp add: request_scope_def s)
  qed
qed

end
