(* ===== verification/Spec2Isabelle.thy ===== *)
theory Spec2Isabelle
  imports DomainOutbox Payouts Refunds PaymentDelivery BookingCreation
begin

text \<open>
  The verification library of the car hire worker.
\<close>

end
